(* ===== verification/Statuses.thy ===== *)
theory Statuses
  imports Main
begin

text \<open>
  The response statuses of the network (\<open>Status.h\<close>). The statuses that the code of the SDK tells
  apart are named; the others, which it only passes on, are numbered.
\<close>

datatype Status =
    OK
  | INVALID_TRANSACTION
  | TRANSACTION_EXPIRED
  | BUSY
  | INVALID_SIGNATURE
  | UNKNOWN
  | SUCCESS
  | RECEIPT_NOT_FOUND
  | RECORD_NOT_FOUND
  | PLATFORM_NOT_ACTIVE
  | PLATFORM_TRANSACTION_NOT_CREATED
  | OtherStatus nat

end
