(* ===== verification/SdkPrelude.thy ===== *)
theory SdkPrelude
  imports Statuses "HOL-Library.Word" "HOL-Library.Sublist"
begin

text \<open>
  Prelude of the development: the machine types of the C++ code, the exceptions it throws as
  values of a result type, and the generic facts on lists, results and words that the component
  theories share.

  A C++ function that may throw returns \<open>exn + 'a\<close>: \<open>Inl\<close> carries the exception class
  thrown, \<open>Inr\<close> the value returned. Behaviour that the C++ standard leaves undefined (a read
  past the end of a vector through raw iterators, for instance) is the separate value
  \<open>UndefinedBehavior\<close>, so that it can never be mistaken for a result and no \<open>catch\<close> clause
  of the model handles it.
\<close>

unbundle bit_operations_syntax

section \<open>Machine types\<close>

type_synonym byte = "8 word"
type_synonym u16 = "16 word"
type_synonym u32 = "32 word"
type_synonym u64 = "64 word"

text \<open>Byte vectors (\<open>std::vector<std::byte>\<close>).\<close>

type_synonym bytes = "byte list"

section \<open>Exceptions as values\<close>

datatype exn =
    InvalidArgument
  | OutOfRange
  | LengthError
  | IllegalState
  | Uninitialized
  | BadKey
  | BadEntityId
  | BadMnemonic
  | OpenSSLError
  | MaxAttemptsExceeded
  | PrecheckStatus Status
  | MaxQueryPaymentExceeded
  | ReceiptStatus Status
  | BadVariantAccess
  | BadOptionalAccess
  | OutOfFuel
  | UndefinedBehavior

type_synonym 'a res = "exn + 'a"

text \<open>
  Is the exception one that \<open>catch (const std::exception&)\<close> catches? \<open>OutOfFuel\<close> is no exception
  of the code: the model's bound on the rounds of a loop was reached.
\<close>

definition caught :: "exn \<Rightarrow> bool" where
  "caught e \<longleftrightarrow> e \<noteq> UndefinedBehavior \<and> e \<noteq> OutOfFuel"

text \<open>Sequencing: the first exception ends the computation.\<close>

primrec rbind :: "'a res \<Rightarrow> ('a \<Rightarrow> 'b res) \<Rightarrow> 'b res" where
  "rbind (Inl e) f = Inl e"
| "rbind (Inr x) f = f x"

text \<open>\<open>try r catch (E) h\<close>, with \<open>P\<close> the exceptions that the clause catches.\<close>

definition rcatch :: "(exn \<Rightarrow> bool) \<Rightarrow> 'a res \<Rightarrow> 'a res \<Rightarrow> 'a res" where
  "rcatch P r h = (case r of Inl e \<Rightarrow> if P e then h else Inl e | Inr x \<Rightarrow> Inr x)"

text \<open>A guard that throws.\<close>

definition require :: "bool \<Rightarrow> exn \<Rightarrow> unit res" where
  "require b e = (if b then Inr () else Inl e)"

named_theorems res_simps
named_theorems res_elims

lemma rbind_eq_Inr [res_simps]:
  "rbind r f = Inr y \<longleftrightarrow> (\<exists>x. r = Inr x \<and> f x = Inr y)"
  by (cases r) auto

lemma rbind_eq_Inl [res_simps]:
  "rbind r f = Inl e \<longleftrightarrow> r = Inl e \<or> (\<exists>x. r = Inr x \<and> f x = Inl e)"
  by (cases r) auto

lemma rbind_assoc: "rbind (rbind r f) g = rbind r (\<lambda>x. rbind (f x) g)"
  by (cases r) auto

lemma rbind_Inr_right [simp]: "rbind r Inr = r"
  by (cases r) auto

lemma rbind_cong [fundef_cong]:
  "r = r' \<Longrightarrow> (\<And>x. r' = Inr x \<Longrightarrow> f x = g x) \<Longrightarrow> rbind r f = rbind r' g"
  by (cases r') auto

lemma rcatch_Inr [simp]: "rcatch P (Inr x) h = Inr x"
  by (simp add: rcatch_def)

lemma rcatch_Inl [simp]: "rcatch P (Inl e) h = (if P e then h else Inl e)"
  by (simp add: rcatch_def)

lemma require_simps [simp]:
  "require True e = Inr ()" "require False e = Inl e"
  by (simp_all add: require_def)

lemma require_eq_Inr [res_simps]: "require b e = Inr u \<longleftrightarrow> b"
  by (simp add: require_def)

lemma require_eq_Inl [res_simps]: "require b e = Inl e' \<longleftrightarrow> \<not> b \<and> e' = e"
  by (auto simp: require_def)

lemma caught_simps [simp]:
  "caught InvalidArgument" "caught OutOfRange" "caught IllegalState" "caught BadKey"
  "caught OpenSSLError" "\<not> caught UndefinedBehavior"
  by (simp_all add: caught_def)

text \<open>\<open>std::vector::at\<close>.\<close>

definition vec_at :: "'a list \<Rightarrow> nat \<Rightarrow> 'a res" where
  "vec_at xs i = (if i < length xs then Inr (xs ! i) else Inl OutOfRange)"

lemma vec_at_append_Cons [simp]: "vec_at (pre @ x # post) (length pre) = Inr x"
  by (simp add: vec_at_def)

lemma vec_at_eq_Inr [res_simps]: "vec_at xs i = Inr x \<longleftrightarrow> i < length xs \<and> xs ! i = x"
  by (auto simp: vec_at_def)

lemma vec_at_eq_Inl [res_simps]: "vec_at xs i = Inl e \<longleftrightarrow> length xs \<le> i \<and> e = OutOfRange"
  by (auto simp: vec_at_def)

text \<open>The result of an operation on \<open>int64_t\<close>; leaving the 64 bits is undefined.\<close>

definition i64 :: "int \<Rightarrow> int res" where
  "i64 n = (if - (2 ^ 63) \<le> n \<and> n < 2 ^ 63 then Inr n else Inl UndefinedBehavior)"

lemma i64_eq_Inr [res_simps]: "i64 n = Inr m \<longleftrightarrow> m = n \<and> - (2 ^ 63) \<le> n \<and> n < 2 ^ 63"
  by (auto simp: i64_def)

text \<open>A loop that pushes the results of its calls, and one that only makes the calls.\<close>

primrec rmap :: "('a \<Rightarrow> 'b res) \<Rightarrow> 'a list \<Rightarrow> 'b list res" where
  "rmap f [] = Inr []"
| "rmap f (x # xs) = rbind (f x) (\<lambda>y. rbind (rmap f xs) (\<lambda>ys. Inr (y # ys)))"

primrec reach :: "('a \<Rightarrow> unit res) \<Rightarrow> 'a list \<Rightarrow> unit res" where
  "reach f [] = Inr ()"
| "reach f (x # xs) = rbind (f x) (\<lambda>_. reach f xs)"

lemma rmap_eq_Inr: "rmap f xs = Inr ys \<longleftrightarrow> list_all2 (\<lambda>x y. f x = Inr y) xs ys"
proof (induction xs arbitrary: ys)
  case (Cons x xs)
  then show ?case by (cases ys) (auto simp: res_simps)
qed auto

lemma rmap_append: "rmap f (xs @ ys) = rbind (rmap f xs) (\<lambda>as. rbind (rmap f ys) (\<lambda>bs. Inr (as @ bs)))"
  by (induction xs) (simp_all add: rbind_assoc)

lemma rmap_inverse: "rmap f xs = Inr ys \<Longrightarrow> (\<And>x y. x \<in> set xs \<Longrightarrow> f x = Inr y \<Longrightarrow> g y = Inr x) \<Longrightarrow> rmap g ys = Inr xs"
  by (induction xs arbitrary: ys) (auto simp: res_simps)

lemma rmap_total: "(\<And>x. x \<in> set xs \<Longrightarrow> \<exists>y. f x = Inr y) \<Longrightarrow> \<exists>ys. rmap f xs = Inr ys"
proof (induction xs)
  case (Cons x xs)
  then obtain y ys where "f x = Inr y" "rmap f xs = Inr ys" by (metis list.set_intros)
  then show ?case by simp
qed simp

lemma rmap_length: "rmap f xs = Inr ys \<Longrightarrow> length ys = length xs"
  by (simp add: rmap_eq_Inr list_all2_lengthD)

text \<open>A member that is converted if it is there: the \<open>has_value()\<close> and \<open>has_field()\<close> tests.\<close>

primrec ropt :: "('a \<Rightarrow> 'b res) \<Rightarrow> 'a option \<Rightarrow> 'b option res" where
  "ropt f None = Inr None"
| "ropt f (Some x) = rbind (f x) (\<lambda>y. Inr (Some y))"

lemma ropt_eq_Inr [res_simps]: "ropt f x = Inr y \<longleftrightarrow> rel_option (\<lambda>a b. f a = Inr b) x y"
  by (cases x; cases y) (auto simp: rbind_eq_Inr)

lemma ropt_pure: "ropt (\<lambda>a. Inr (f a)) x = Inr (map_option f x)"
  by (cases x) simp_all

lemma ropt_inverse:
  "ropt f x = Inr y \<Longrightarrow> (\<And>a b. x = Some a \<Longrightarrow> f a = Inr b \<Longrightarrow> g b = Inr a) \<Longrightarrow> ropt g y = Inr x"
  by (cases x; cases y) (auto simp: rbind_eq_Inr)

lemma ropt_total: "pred_option (\<lambda>a. \<exists>b. f a = Inr b) x \<Longrightarrow> \<exists>y. ropt f x = Inr y"
  by (cases x) auto

section \<open>Stateful computations\<close>

text \<open>
  A member function that changes its object and may throw: the result and the new state, which an
  exception keeps.
\<close>

type_synonym ('s, 'a) act = "'s \<Rightarrow> 'a res \<times> 's"

definition abind :: "('s, 'a) act \<Rightarrow> ('a \<Rightarrow> ('s, 'b) act) \<Rightarrow> ('s, 'b) act" where
  "abind m f s = (case m s of (Inl e, s) \<Rightarrow> (Inl e, s) | (Inr x, s) \<Rightarrow> f x s)"

definition areturn :: "'a \<Rightarrow> ('s, 'a) act" where
  "areturn x s = (Inr x, s)"

definition athrow :: "exn \<Rightarrow> ('s, 'a) act" where
  "athrow e s = (Inl e, s)"

definition alift :: "'a res \<Rightarrow> ('s, 'a) act" where
  "alift r s = (r, s)"

definition amodify :: "('s \<Rightarrow> 's) \<Rightarrow> ('s, unit) act" where
  "amodify f s = (Inr (), f s)"

definition areads :: "('s \<Rightarrow> 'a) \<Rightarrow> ('s, 'a) act" where
  "areads f s = (Inr (f s), s)"

named_theorems act_simps

lemmas act_defs = areturn_def athrow_def alift_def amodify_def areads_def

lemma abind_simps [act_simps]:
  "abind (areturn x) f s = f x s" "abind (athrow e) g s = (Inl e, s)" "abind (alift (Inr x)) f s = f x s"
  "abind (alift (Inl e)) g s = (Inl e, s)" "abind (amodify h) k s = k () (h s)" "abind (areads v) f s = f (v s) s"
  by (simp_all add: abind_def act_defs)

lemma abind_assoc: "abind (abind m f) g = abind m (\<lambda>x. abind (f x) g)"
  by (rule ext) (simp add: abind_def split: prod.split sum.split)

lemma abind_eq:
  "abind m f s = (r, s') \<longleftrightarrow>
     (\<exists>e. m s = (Inl e, s') \<and> r = Inl e) \<or> (\<exists>x s1. m s = (Inr x, s1) \<and> f x s1 = (r, s'))"
  by (auto simp: abind_def split: prod.splits sum.splits)

text \<open>An invariant that a computation keeps, whatever it returns.\<close>

definition keeps :: "('s \<Rightarrow> bool) \<Rightarrow> ('s, 'a) act \<Rightarrow> bool" where
  "keeps I m \<longleftrightarrow> (\<forall>s. I s \<longrightarrow> I (snd (m s)))"

named_theorems keeps_intros

lemma keepsD: "keeps I m \<Longrightarrow> I s \<Longrightarrow> I (snd (m s))"
  by (simp add: keeps_def)

lemma keeps_abind [keeps_intros]: "keeps I m \<Longrightarrow> (\<And>x. keeps I (f x)) \<Longrightarrow> keeps I (abind m f)"
  unfolding keeps_def abind_def by (simp split: prod.split sum.split) (metis snd_conv)

lemma keeps_pure [keeps_intros]:
  "keeps I (areturn x)" "keeps I (athrow e)" "keeps I (alift r)" "keeps I (areads v)"
  by (simp_all add: keeps_def act_defs)

lemma keeps_amodify [keeps_intros]: "(\<And>s. I s \<Longrightarrow> I (f s)) \<Longrightarrow> keeps I (amodify f)"
  by (simp add: keeps_def act_defs)

section \<open>Round-trip contracts\<close>

text \<open>
  The contract of an encoder and its decoder, over the values the encoder is meant for. Every
  pair of \<open>write\<close>/\<open>read\<close>, \<open>toString\<close>/\<open>fromString\<close> and \<open>toProtobuf\<close>/\<open>fromProtobuf\<close>
  operations of the SDK that keeps it is an interpretation of this locale.
\<close>

locale codec =
  fixes enc :: "'a \<Rightarrow> 'b"
    and dec :: "'b \<Rightarrow> 'a res"
    and valid :: "'a \<Rightarrow> bool"
  assumes dec_enc: "valid x \<Longrightarrow> dec (enc x) = Inr x"
begin

lemma enc_inj: "valid x \<Longrightarrow> valid y \<Longrightarrow> enc x = enc y \<Longrightarrow> x = y"
  by (metis dec_enc sum.inject(2))

lemma enc_inj_on: "inj_on enc {x. valid x}"
  by (auto intro!: inj_onI dest: enc_inj)

lemma reenc: "valid x \<Longrightarrow> dec (enc x) = Inr y \<Longrightarrow> enc y = enc x"
  by (simp add: dec_enc)

end

text \<open>
  A decoder that reads at a position of a larger input and reports where it stopped, so that
  encodings can be concatenated: the value is recovered whatever stands before and after it.
\<close>

locale framed_codec =
  fixes enc :: "'a \<Rightarrow> 'b list"
    and dec_at :: "'b list \<Rightarrow> nat \<Rightarrow> ('a \<times> nat) res"
    and valid :: "'a \<Rightarrow> bool"
  assumes dec_at_enc:
    "valid x \<Longrightarrow> length (pre @ enc x @ post) < 2 ^ 63 \<Longrightarrow>
       dec_at (pre @ enc x @ post) (length pre) = Inr (x, length pre + length (enc x))"
begin

lemma dec_at_start:
  "valid x \<Longrightarrow> length (enc x @ post) < 2 ^ 63 \<Longrightarrow>
     dec_at (enc x @ post) 0 = Inr (x, length (enc x))"
  using dec_at_enc [of x "[]" post] by simp

text \<open>No valid encoding is a proper prefix of another: the code is uniquely decodable.\<close>

lemma prefix_free:
  assumes "valid x" and "valid y" and "enc y = enc x @ zs" and "length (enc y) < 2 ^ 63"
  shows "x = y \<and> zs = []"
proof -
  from assms have "dec_at (enc y) 0 = Inr (x, length (enc x))"
    by (simp add: dec_at_start)
  moreover from assms have "dec_at (enc y) 0 = Inr (y, length (enc y))"
    using dec_at_start [of y "[]"] by simp
  ultimately show ?thesis
    using assms(3) by simp
qed

end

section \<open>Words\<close>

lemma unat_of_nat_u64 [simp]: "n < 2 ^ 64 \<Longrightarrow> unat (of_nat n :: u64) = n"
  by (simp add: unat_of_nat take_bit_nat_eq_self)

lemma unat_of_nat_byte [simp]: "n < 256 \<Longrightarrow> unat (of_nat n :: byte) = n"
  by (simp add: unat_of_nat take_bit_nat_eq_self)

lemma unat_byte_less [simp]: "unat (b :: byte) < 256"
  using unsigned_less [of b] by simp

lemma unat_u64_less [simp]: "unat (w :: u64) < 18446744073709551616"
  using unsigned_less [of w] by simp

lemma unat_u64_le [simp]: "unat (w :: u64) \<le> 18446744073709551615"
  using unat_u64_less [of w] by linarith

lemma unat_u32_less [simp]: "unat (w :: u32) < 4294967296"
  using unsigned_less [of w] by simp

lemma unat_of_nat_mod: "unat (of_nat n :: 'a::len word) = n mod 2 ^ LENGTH('a)"
  by (simp add: unat_of_nat take_bit_eq_mod)

lemma sint_of_nat_u64 [simp]: "n < 2 ^ 63 \<Longrightarrow> sint (of_nat n :: u64) = int n"
  by (simp add: signed_of_nat signed_take_bit_int_eq_self)

end
