(* ===== verification/Utilities.thy ===== *)
theory Utilities
  imports SdkPrelude
begin

text \<open>
  \<open>impl/Utilities.cc\<close> and \<open>impl/Utilities.h\<close>: byte vectors, strings as bytes, the big-endian
  bytes of an integer; and the parts of the C++ standard library on numbers and text that the
  SDK relies on (\<open>std::from_chars\<close>, \<open>std::to_string\<close>), with the facts that they are inverse.
  Objects are laid out little-endian, as on the x86-64 and arm64 hosts the project builds for.
\<close>

section \<open>Byte vectors\<close>

text \<open>\<open>isPrefixOf\<close>: the size test, then the loop over the prefix.\<close>

definition isPrefixOf :: "bytes \<Rightarrow> bytes \<Rightarrow> bool" where
  "isPrefixOf bs pre =
     (if length pre > length bs then False
      else list_all (\<lambda>i. bs ! i = pre ! i) [0..<length pre])"

lemma isPrefixOf_iff: "isPrefixOf bs pre \<longleftrightarrow> prefix pre bs"
proof
  assume "isPrefixOf bs pre"
  then have le: "length pre \<le> length bs" and eq: "\<forall>i<length pre. bs ! i = pre ! i"
    by (auto simp: isPrefixOf_def list_all_iff split: if_splits)
  then have "take (length pre) bs = pre"
    by (intro nth_equalityI) auto
  then show "prefix pre bs"
    by (metis take_is_prefix)
next
  assume "prefix pre bs"
  then show "isPrefixOf bs pre"
    by (auto simp: isPrefixOf_def prefix_def list_all_iff nth_append)
qed

text \<open>\<open>removePrefix\<close> builds a vector from \<open>cbegin() + num\<close>: an iterator outside the vector is
  undefined behaviour.\<close>

definition removePrefix :: "bytes \<Rightarrow> int \<Rightarrow> bytes res" where
  "removePrefix bs num =
     (if 0 \<le> num \<and> num \<le> int (length bs) then Inr (drop (nat num) bs) else Inl UndefinedBehavior)"

definition concatenateVectors :: "bytes list \<Rightarrow> bytes" where
  "concatenateVectors vectors = foldl (\<lambda>bs vec. bs @ vec) [] vectors"

lemma foldl_append: "foldl (\<lambda>bs vec. bs @ vec) acc vectors = acc @ concat vectors"
  by (induction vectors arbitrary: acc) auto

lemma concatenateVectors_eq [simp]: "concatenateVectors vectors = concat vectors"
  by (simp add: concatenateVectors_def foldl_append)

section \<open>Strings as bytes\<close>

definition byte_of_char :: "char \<Rightarrow> byte" where
  "byte_of_char c = of_nat (of_char c)"

definition char_of_byte :: "byte \<Rightarrow> char" where
  "char_of_byte b = char_of (unat b)"

lemma char_of_byte_of_char [simp]: "char_of_byte (byte_of_char c) = c"
  by (simp add: char_of_byte_def byte_of_char_def unat_of_nat_mod)

lemma byte_of_char_of_byte [simp]: "byte_of_char (char_of_byte b) = b"
  by (simp add: char_of_byte_def byte_of_char_def)

definition stringToByteVector :: "string \<Rightarrow> bytes" where
  "stringToByteVector str = map byte_of_char str"

definition byteVectorToString :: "bytes \<Rightarrow> string" where
  "byteVectorToString bs = map char_of_byte bs"

lemma byteVectorToString_inverse [simp]: "stringToByteVector (byteVectorToString bs) = bs"
  by (simp add: stringToByteVector_def byteVectorToString_def comp_def)

lemma stringToByteVector_inverse [simp]: "byteVectorToString (stringToByteVector str) = str"
  by (simp add: stringToByteVector_def byteVectorToString_def comp_def)

interpretation byte_string: codec byteVectorToString "\<lambda>str. Inr (stringToByteVector str)" "\<lambda>_. True"
  by unfold_locales simp

section \<open>Object representation of integers\<close>

text \<open>The \<open>k\<close> bytes of a number, least significant first, and the number they represent.\<close>

fun le_bytes :: "nat \<Rightarrow> nat \<Rightarrow> bytes" where
  "le_bytes 0 n = []"
| "le_bytes (Suc k) n = of_nat n # le_bytes k (n div 256)"

fun le_val :: "bytes \<Rightarrow> nat" where
  "le_val [] = 0"
| "le_val (b # bs) = unat b + 256 * le_val bs"

definition be_val :: "bytes \<Rightarrow> nat" where
  "be_val bs = le_val (rev bs)"

lemma length_le_bytes [simp]: "length (le_bytes k n) = k"
  by (induction k arbitrary: n) auto

lemma le_val_bound: "le_val bs < 256 ^ length bs"
proof (induction bs)
  case (Cons b bs)
  have "unat b < 256" by simp
  moreover have "256 * Suc (le_val bs) \<le> 256 * 256 ^ length bs"
    using Cons by (intro mult_le_mono2 Suc_leI)
  ultimately show ?case
    by (simp del: unat_byte_less)
qed simp

lemma le_val_le_bytes: "le_val (le_bytes k n) = n mod 256 ^ k"
proof (induction k arbitrary: n)
  case (Suc k)
  have "n mod (256 * 256 ^ k) = 256 * (n div 256 mod 256 ^ k) + n mod 256"
    by (rule mod_mult2_eq)
  with Suc show ?case
    by (simp add: unat_of_nat_mod)
qed simp

lemma le_bytes_le_val: "le_bytes (length bs) (le_val bs) = bs"
proof (induction bs)
  case (Cons b bs)
  have "(of_nat (unat b + 256 * le_val bs) :: byte) = b"
  proof (rule word_unat_eq_iff [THEN iffD2])
    show "unat (of_nat (unat b + 256 * le_val bs) :: byte) = unat b"
      by (simp add: unat_of_nat_mod del: of_nat_add)
  qed
  with Cons show ?case by simp
qed simp

lemma le_val_append: "le_val (xs @ ys) = le_val xs + 256 ^ length xs * le_val ys"
  by (induction xs) (auto simp: algebra_simps)

lemma be_val_Nil [simp]: "be_val [] = 0"
  by (simp add: be_val_def)

lemma be_val_snoc [simp]: "be_val (xs @ [b]) = 256 * be_val xs + unat b"
  by (simp add: be_val_def)

lemma be_val_append: "be_val (xs @ ys) = be_val xs * 256 ^ length ys + be_val ys"
  by (simp add: be_val_def le_val_append algebra_simps)

lemma be_val_bound: "be_val bs < 256 ^ length bs"
  using le_val_bound [of "rev bs"] by (simp add: be_val_def)

text \<open>The memory image of an integer of type \<open>T\<close>, and \<open>*toTypePtr<T>(p)\<close>: the integer read
  from memory that holds \<open>sizeof(T)\<close> bytes.\<close>

definition sizeof :: "'a::len word \<Rightarrow> nat" where
  "sizeof (w :: 'a word) = LENGTH('a) div 8"

lemma sizeof_words [simp]:
  "sizeof (w :: u64) = 8" "sizeof (v :: u32) = 4" "sizeof (b :: byte) = 1"
  by (simp_all add: sizeof_def)

definition mem_bytes :: "'a::len word \<Rightarrow> bytes" where
  "mem_bytes w = le_bytes (sizeof w) (unat w)"

definition toTypePtr :: "bytes \<Rightarrow> 'a::len word" where
  "toTypePtr bs = of_nat (le_val bs)"

lemma length_mem_bytes [simp]: "length (mem_bytes w) = sizeof w"
  by (simp add: mem_bytes_def)

text \<open>\<open>swapEndianness\<close>: byte \<open>i\<close> of the result is byte \<open>numBytes - i - 1\<close> of the source.\<close>

definition swapEndianness :: "'a::len word \<Rightarrow> 'a word" where
  "swapEndianness v =
     (let src = mem_bytes v; n = sizeof v in toTypePtr (map (\<lambda>i. src ! (n - i - 1)) [0..<n]))"

text \<open>\<open>getBytes\<close>: the loop stores the bytes of the value from the back of the vector.\<close>

definition getBytes :: "'a::len word \<Rightarrow> bytes" where
  "getBytes v =
     foldl (\<lambda>bs i. bs[sizeof v - i - 1 := mem_bytes v ! i]) (replicate (sizeof v) 0) [0..<sizeof v]"

lemma foldl_store_rev:
  assumes "length src = n" and "length bs = n" and "k \<le> n"
  shows "foldl (\<lambda>bs i. bs[n - i - 1 := src ! i]) bs [0..<k] =
           take (n - k) bs @ rev (take k src)"
  using assms(3)
proof (induction k)
  case 0
  then show ?case using assms by simp
next
  case (Suc k)
  then have k: "k < n" by simp
  have "foldl (\<lambda>bs i. bs[n - i - 1 := src ! i]) bs [0..<Suc k] =
          (take (n - k) bs @ rev (take k src))[n - k - 1 := src ! k]"
    using Suc by simp
  also have "\<dots> = (take (n - k) bs)[n - k - 1 := src ! k] @ rev (take k src)"
    using k assms by (simp add: list_update_append1)
  also have "(take (n - k) bs)[n - k - 1 := src ! k] = take (n - Suc k) bs @ [src ! k]"
  proof -
    from k have nk: "n - k = Suc (n - Suc k)" by simp
    with k assms have "take (n - k) bs = take (n - Suc k) bs @ [bs ! (n - Suc k)]"
      by (simp add: take_Suc_conv_app_nth)
    with k assms show ?thesis
      by (simp add: list_update_append)
  qed
  finally show ?case
    using k assms by (simp add: take_Suc_conv_app_nth)
qed

lemma getBytes_eq: "getBytes v = rev (mem_bytes v)"
  using foldl_store_rev [of "mem_bytes v" "sizeof v" "replicate (sizeof v) 0" "sizeof v"]
  by (simp add: getBytes_def)

lemma length_getBytes [simp]: "length (getBytes v) = sizeof v"
  by (simp add: getBytes_eq)

text \<open>The result is the big-endian representation of the value.\<close>

lemma be_val_getBytes:
  fixes v :: "'a::len word"
  assumes "8 dvd LENGTH('a)"
  shows "be_val (getBytes v) = unat v"
proof -
  from assms obtain k where k: "LENGTH('a) = 8 * k" ..
  have "(256 :: nat) ^ k = 2 ^ LENGTH('a)"
    by (simp add: k power_mult)
  moreover have "unat v < 2 ^ LENGTH('a)"
    by (rule unsigned_less)
  ultimately show ?thesis
    by (simp add: be_val_def getBytes_eq mem_bytes_def sizeof_def le_val_le_bytes k)
qed

section \<open>Numbers and text\<close>

text \<open>\<open>std::to_string\<close> of an unsigned number, and of a signed one.\<close>

definition digit_char :: "nat \<Rightarrow> char" where
  "digit_char d = char_of (48 + d)"

fun to_string :: "nat \<Rightarrow> string" where
  "to_string n = (if n < 10 then [digit_char n] else to_string (n div 10) @ [digit_char (n mod 10)])"

declare to_string.simps [simp del]

definition to_string_int :: "int \<Rightarrow> string" where
  "to_string_int i = (if i < 0 then CHR ''-'' # to_string (nat (- i)) else to_string (nat i))"

definition is_digit :: "char \<Rightarrow> bool" where
  "is_digit c \<longleftrightarrow> 48 \<le> (of_char c :: nat) \<and> (of_char c :: nat) \<le> 57"

definition digit_val :: "char \<Rightarrow> nat" where
  "digit_val c = of_char c - 48"

definition dec_val :: "string \<Rightarrow> nat" where
  "dec_val s = foldl (\<lambda>n c. 10 * n + digit_val c) 0 s"

text \<open>
  \<open>std::from_chars(first, last, value)\<close> for an unsigned type with maximum \<open>maxv\<close>, in base 10:
  the value, how far the pointer moved, and the error code. The longest run of digits is
  consumed; with no digit the pointer does not move, and a value that does not fit is an error
  with the pointer after the digits.
\<close>

datatype errc = NoError | InvalidArgumentErrc | ResultOutOfRange

definition from_chars :: "nat \<Rightarrow> string \<Rightarrow> nat \<times> nat \<times> errc" where
  "from_chars maxv s =
     (let ds = takeWhile is_digit s in
      if ds = [] then (0, 0, InvalidArgumentErrc)
      else if maxv < dec_val ds then (0, length ds, ResultOutOfRange)
      else (dec_val ds, length ds, NoError))"

text \<open>The test the SDK makes after every call: no error, and the whole string consumed.\<close>

definition from_chars_all :: "nat \<Rightarrow> string \<Rightarrow> nat option" where
  "from_chars_all maxv s =
     (case from_chars maxv s of (n, p, ec) \<Rightarrow>
        if ec \<noteq> NoError \<or> p \<noteq> length s then None else Some n)"

definition stringToByte :: "string \<Rightarrow> byte res" where
  "stringToByte str =
     (case from_chars_all 255 str of None \<Rightarrow> Inl InvalidArgument | Some n \<Rightarrow> Inr (of_nat n))"

lemma of_char_digit_char [simp]: "d < 10 \<Longrightarrow> (of_char (digit_char d) :: nat) = 48 + d"
  by (simp add: digit_char_def)

lemma is_digit_digit_char [simp]: "d < 10 \<Longrightarrow> is_digit (digit_char d)"
  by (simp add: is_digit_def)

lemma digit_val_digit_char [simp]: "d < 10 \<Longrightarrow> digit_val (digit_char d) = d"
  by (simp add: digit_val_def)

lemma dec_val_snoc [simp]: "dec_val (s @ [c]) = 10 * dec_val s + digit_val c"
  by (simp add: dec_val_def)

lemma to_string_digits: "c \<in> set (to_string n) \<Longrightarrow> is_digit c"
proof (induction n rule: to_string.induct)
  case (1 n)
  then show ?case
    by (cases "n < 10") (auto simp: to_string.simps [of n])
qed

lemma to_string_nonempty [simp]: "to_string n \<noteq> []"
  by (subst to_string.simps) simp

lemma dec_val_to_string [simp]: "dec_val (to_string n) = n"
proof (induction n rule: to_string.induct)
  case (1 n)
  show ?case
  proof (cases "n < 10")
    case True
    then show ?thesis by (simp add: to_string.simps [of n] dec_val_def)
  next
    case False
    with 1 show ?thesis by (simp add: to_string.simps [of n])
  qed
qed

lemma takeWhile_digits_to_string [simp]: "takeWhile is_digit (to_string n) = to_string n"
  by (simp add: takeWhile_eq_all_conv to_string_digits)

lemma from_chars_all_to_string [simp]:
  "from_chars_all maxv (to_string n) = (if n \<le> maxv then Some n else None)"
  by (simp add: from_chars_all_def from_chars_def Let_def)

lemma from_chars_all_eq_Some:
  "from_chars_all maxv s = Some n \<longleftrightarrow>
     s \<noteq> [] \<and> list_all is_digit s \<and> dec_val s \<le> maxv \<and> n = dec_val s"
proof (cases "list_all is_digit s")
  case True
  then have tw: "takeWhile is_digit s = s"
    by (simp add: list_all_iff)
  from True show ?thesis
    unfolding from_chars_all_def from_chars_def Let_def tw by auto
next
  case False
  then have "length (takeWhile is_digit s) \<noteq> length s"
    by (metis list_all_iff takeWhile_eq_all_conv takeWhile_eq_take take_all_iff order_refl)
  with False show ?thesis
    by (auto simp: from_chars_all_def from_chars_def Let_def)
qed

interpretation dec_u64: codec
  "\<lambda>w :: u64. to_string (unat w)"
  "\<lambda>s. case from_chars_all (2 ^ 64 - 1) s of None \<Rightarrow> Inl InvalidArgument | Some n \<Rightarrow> Inr (of_nat n)"
  "\<lambda>_. True"
proof
  fix w :: u64
  show "(case from_chars_all (2 ^ 64 - 1) (to_string (unat w)) of
      None \<Rightarrow> Inl InvalidArgument | Some n \<Rightarrow> Inr (of_nat n)) = (Inr w :: u64 res)"
    by simp
qed

text \<open>No separator the SDK puts between numbers is a digit.\<close>

lemma not_digit_separators [simp]:
  "\<not> is_digit CHR ''.''" "\<not> is_digit CHR ''-''" "\<not> is_digit CHR ''@''"
  "\<not> is_digit CHR ''/''" "\<not> is_digit CHR ''?''" "\<not> is_digit CHR '':''"
  by (simp_all add: is_digit_def)

lemma separators_notin_to_string [simp]:
  "CHR ''.'' \<notin> set (to_string n)" "CHR ''-'' \<notin> set (to_string n)" "CHR ''@'' \<notin> set (to_string n)"
  "CHR ''/'' \<notin> set (to_string n)" "CHR ''?'' \<notin> set (to_string n)" "CHR '':'' \<notin> set (to_string n)"
  using to_string_digits not_digit_separators by blast+

end
