(* ===== verification/Rlp.thy ===== *)
theory Rlp
  imports Utilities
begin

text \<open>
  \<open>impl/RLPItem.cc\<close>: the recursive-length-prefix items that Ethereum transaction data is built
  from, their encoder \<open>write\<close> and their decoder \<open>read\<close>/\<open>decodeBytes\<close>. \<open>size_t\<close> and
  \<open>long\<close> are 64 bits wide.
\<close>

section \<open>Items\<close>

datatype RLPType = VALUE_TYPE | LIST_TYPE

text \<open>A class with the three members \<open>mType\<close>, \<open>mValue\<close> and \<open>mValues\<close>; recursive, so a
  \<open>datatype\<close> with selectors.\<close>

datatype RLPItem = RLPItem (mType: RLPType) (mValue: bytes) (mValues: "RLPItem list")

text \<open>The constructors: the default one, from a type, from bytes, from a string.\<close>

definition RLPItem_default :: RLPItem where
  "RLPItem_default = RLPItem VALUE_TYPE [] []"

definition RLPItem_of_type :: "RLPType \<Rightarrow> RLPItem" where
  "RLPItem_of_type type = RLPItem type [] []"

definition RLPItem_of_bytes :: "bytes \<Rightarrow> RLPItem" where
  "RLPItem_of_bytes v = RLPItem VALUE_TYPE v []"

definition RLPItem_of_string :: "string \<Rightarrow> RLPItem" where
  "RLPItem_of_string v = RLPItem VALUE_TYPE (stringToByteVector v) []"

definition RLPItem_clear :: "RLPItem \<Rightarrow> RLPItem" where
  "RLPItem_clear item = RLPItem (mType item) [] []"

definition RLPItem_assign :: "RLPItem \<Rightarrow> bytes \<Rightarrow> RLPItem" where
  "RLPItem_assign item v =
     (let item = RLPItem_clear item in RLPItem VALUE_TYPE v (mValues item))"

definition RLPItem_assign_string :: "RLPItem \<Rightarrow> string \<Rightarrow> RLPItem" where
  "RLPItem_assign_string item v =
     (let item = RLPItem_clear item in RLPItem VALUE_TYPE (stringToByteVector v) (mValues item))"

definition RLPItem_setType :: "RLPItem \<Rightarrow> RLPType \<Rightarrow> RLPItem" where
  "RLPItem_setType item type =
     (if mType item \<noteq> type
      then let item = RLPItem_clear item in RLPItem type (mValue item) (mValues item)
      else item)"

definition RLPItem_pushBack :: "RLPItem \<Rightarrow> RLPItem \<Rightarrow> RLPItem" where
  "RLPItem_pushBack item v = RLPItem (mType item) (mValue item) (mValues item @ [v])"

definition RLPItem_pushBack_bytes :: "RLPItem \<Rightarrow> bytes \<Rightarrow> RLPItem" where
  "RLPItem_pushBack_bytes item v =
     RLPItem (mType item) (mValue item) (mValues item @ [RLPItem_of_bytes v])"

definition RLPItem_pushBack_string :: "RLPItem \<Rightarrow> string \<Rightarrow> RLPItem" where
  "RLPItem_pushBack_string item v =
     RLPItem (mType item) (mValue item) (mValues item @ [RLPItem_of_string v])"

fun RLPItem_size :: "RLPItem \<Rightarrow> nat" where
  "RLPItem_size (RLPItem type v vs) =
     (if type = VALUE_TYPE then length v
      else foldl (\<lambda>size item. size + RLPItem_size item) 0 vs)"

section \<open>The encoder\<close>

text \<open>\<open>encodeBinary\<close>: the bytes are inserted at the front while the number is not zero.\<close>

function encodeBinary_loop :: "u64 \<Rightarrow> bytes \<Rightarrow> bytes" where
  "encodeBinary_loop num bs =
     (if num \<noteq> 0 then encodeBinary_loop (drop_bit 8 num) (ucast (num AND 0xFF) # bs) else bs)"
  by pat_completeness auto
termination encodeBinary_loop
proof (relation "measure (\<lambda>(num, bs). unat num)")
  fix num :: u64 and bs :: bytes
  assume "num \<noteq> 0"
  then have "unat num > 0"
    by (simp add: unat_gt_0)
  then have "unat num div 256 < unat num"
    by (simp add: div_less_dividend)
  then show "((drop_bit 8 num, ucast (num AND 0xFF) # bs), num, bs)
      \<in> measure (\<lambda>(num, bs). unat num)"
    by (simp add: unat_drop_bit_eq drop_bit_eq_div unat_div)
qed simp

declare encodeBinary_loop.simps [simp del]

definition encodeBinary :: "u64 \<Rightarrow> bytes" where
  "encodeBinary num = encodeBinary_loop num []"

definition encodeLength :: "u64 \<Rightarrow> byte \<Rightarrow> bytes" where
  "encodeLength num offset =
     (if num < 56 then [ucast (ucast offset + num)]
      else let encodedLength = encodeBinary num in
        concatenateVectors
          [[ucast (of_nat (length encodedLength) + ucast offset + 55 :: u64)], encodedLength])"

fun RLPItem_write :: "RLPItem \<Rightarrow> bytes" where
  "RLPItem_write (RLPItem type v vs) =
     (if type = VALUE_TYPE then
        (if length v = 1 \<and> hd v < 0x80 then v
         else concatenateVectors [encodeLength (of_nat (length v)) 0x80, v])
      else
        let bs = foldl (\<lambda>bs item. concatenateVectors [bs, RLPItem_write item]) [] vs in
        concatenateVectors [encodeLength (of_nat (length bs)) 0xC0, bs])"

declare RLPItem_write.simps [simp del]

section \<open>The decoder\<close>

text \<open>
  The loop that reads a big-endian length of \<open>n\<close> bytes into a \<open>long\<close>: \<open>bytes.at(index)\<close>
  throws past the end.
\<close>

fun read_long :: "bytes \<Rightarrow> nat \<Rightarrow> nat \<Rightarrow> u64 \<Rightarrow> (u64 \<times> nat) res" where
  "read_long bs 0 index acc = Inr (acc, index)"
| "read_long bs (Suc n) index acc =
     rbind (vec_at bs index) (\<lambda>b. read_long bs n (Suc index) (push_bit 8 acc + ucast b))"

text \<open>
  \<open>{ bytes.cbegin() + index, bytes.cbegin() + index + len }\<close> for a \<open>long\<close> length: undefined
  when the range leaves the vector.
\<close>

definition sub_vector :: "bytes \<Rightarrow> nat \<Rightarrow> u64 \<Rightarrow> bytes res" where
  "sub_vector bs index len =
     (if 0 \<le> sint len \<and> index + nat (sint len) \<le> length bs
      then Inr (take (nat (sint len)) (drop index bs)) else Inl UndefinedBehavior)"

text \<open>
  \<open>decodeBytes\<close> works on a cleared item and returns it with the advanced index; \<open>decode_list\<close>
  is its \<open>while (index < startIndex + listLength)\<close> loop, which decodes a fresh item at the
  index and pushes it to \<open>mValues\<close>. A sum \<open>startIndex + listLength\<close> that does not fit in a
  \<open>long\<close> is undefined.
\<close>

function (sequential) decodeBytes :: "bytes \<Rightarrow> nat \<Rightarrow> (RLPItem \<times> nat) res"
  and decode_list :: "bytes \<Rightarrow> nat \<Rightarrow> int \<Rightarrow> RLPItem list \<Rightarrow> (RLPItem list \<times> nat) res" where
  "decodeBytes bs index0 =
     (case vec_at bs index0 of Inl e \<Rightarrow> Inl e | Inr pre \<Rightarrow>
      let index = Suc index0 in
      if pre < 0x80 then Inr (RLPItem VALUE_TYPE [pre] [], index)
      else if pre < 0xB8 then
        (let stringLength = ucast pre - 0x80 :: u64 in
         rbind (sub_vector bs index stringLength)
           (\<lambda>v. Inr (RLPItem VALUE_TYPE v [], index + nat (sint stringLength))))
      else if pre < 0xC0 then
        rbind (read_long bs (unat (pre - 0xB7)) index 0) (\<lambda>(stringLength, index).
         rbind (sub_vector bs index stringLength)
           (\<lambda>v. Inr (RLPItem VALUE_TYPE v [], index + nat (sint stringLength))))
      else if pre < 0xF7 then
        (let listLength = int (unat pre) - 0xC0 in
         rbind (decode_list bs index (int index + listLength) [])
           (\<lambda>(vs, index). Inr (RLPItem LIST_TYPE [] vs, index)))
      else
        (case read_long bs (unat (pre - 0xF7)) index 0 of Inl e \<Rightarrow> Inl e
         | Inr (listLength, index) \<Rightarrow>
           if int index + sint listLength \<ge> 2 ^ 63 then Inl UndefinedBehavior
           else rbind (decode_list bs index (int index + sint listLength) [])
             (\<lambda>(vs, index). Inr (RLPItem LIST_TYPE [] vs, index))))"
| "decode_list bs index stop vs =
     (if int index < stop then
        (case decodeBytes bs index of Inl e \<Rightarrow> Inl e
         | Inr (item, index') \<Rightarrow> decode_list bs index' stop (vs @ [item]))
      else Inr (vs, index))"
  by pat_completeness auto


lemma read_long_index: "read_long bs n index acc = Inr (l, j) \<Longrightarrow> j = index + n"
  by (induction bs n index acc rule: read_long.induct) (auto simp: res_simps)

lemma decode_progress:
  "decodeBytes_decode_list_dom (Inl (bs, i)) \<Longrightarrow> decodeBytes bs i = Inr (item, j) \<Longrightarrow>
     i < length bs \<and> i < j"
  "decodeBytes_decode_list_dom (Inr (bs, i, stop, vs)) \<Longrightarrow>
     decode_list bs i stop vs = Inr (ws, j) \<Longrightarrow> i \<le> j"
proof (induction bs i and bs i stop vs arbitrary: item j and ws j rule: decodeBytes_decode_list.pinduct)
  case (1 bs i)
  then show ?case
    by (fastforce simp: decodeBytes.psimps res_simps Let_def dest: read_long_index
        split: if_splits sum.splits prod.splits)
next
  case (2 bs i stop vs)
  then show ?case
    by (fastforce simp: decode_list.psimps split: if_splits sum.splits prod.splits)
qed

termination decodeBytes
  by (relation "measure (\<lambda>x. case x of Inl (bs, i) \<Rightarrow> 2 * (length bs - i)
      | Inr (bs, i, stop, vs) \<Rightarrow> 2 * (length bs - i) + 1)")
    (auto simp: vec_at_def dest!: read_long_index decode_progress(1) split: if_splits)

declare decodeBytes.simps [simp del] decode_list.simps [simp del]

text \<open>
  \<open>read\<close>: the item is cleared, an empty input leaves it so, and every \<open>std::exception\<close> of the
  decoder becomes \<open>std::invalid_argument\<close>. Bytes after the first item are ignored.
\<close>

definition RLPItem_read :: "RLPItem \<Rightarrow> bytes \<Rightarrow> RLPItem res" where
  "RLPItem_read item bs =
     (let item = RLPItem_clear item in
      if bs = [] then Inr item
      else rcatch caught (rbind (decodeBytes bs 0) (\<lambda>(item, index). Inr item)) (Inl InvalidArgument))"

section \<open>The encoder's results\<close>

lemma encodeBinary_loop_append:
  "encodeBinary_loop num (xs @ ys) = encodeBinary_loop num xs @ ys"
proof (induction num xs rule: encodeBinary_loop.induct)
  case (1 num bs)
  then show ?case
    by (cases "num = 0") (simp_all add: encodeBinary_loop.simps [of num] encodeBinary_loop.simps [of 0])
qed

lemma ucast_and_255: "(ucast (num AND 0xFF) :: byte) = ucast (num :: u64)"
proof -
  have "num AND 0xFF = take_bit 8 num"
    by (simp add: take_bit_eq_mask mask_eq_exp_minus_1)
  then show ?thesis
    by (auto intro!: bit_word_eqI simp: bit_simps)
qed

lemma encodeBinary_rec:
  "encodeBinary num = (if num = 0 then [] else encodeBinary (drop_bit 8 num) @ [ucast num])"
  using encodeBinary_loop_append [of "drop_bit 8 num" "[]" "[ucast num]"]
  by (simp add: encodeBinary_def encodeBinary_loop.simps [of num] ucast_and_255)

lemma encodeBinary_0 [simp]: "encodeBinary 0 = []"
  by (simp add: encodeBinary_rec)

lemma unat_ucast_byte: "unat (ucast (num :: u64) :: byte) = unat num mod 256"
  by (simp add: unsigned_ucast_eq take_bit_eq_mod)

lemma unat_drop_bit_8: "unat (drop_bit 8 (num :: u64)) = unat num div 256"
  by (simp add: unat_drop_bit_eq drop_bit_eq_div unat_div)

lemma u64_byte_induct [case_names step]:
  assumes "\<And>num. (num \<noteq> 0 \<Longrightarrow> P (drop_bit 8 num)) \<Longrightarrow> P (num :: u64)"
  shows "P num"
proof (induction num rule: measure_induct_rule [where f = unat])
  case (less num)
  show ?case
  proof (rule assms)
    assume "num \<noteq> 0"
    then have "0 < unat num" by (simp add: unat_gt_0)
    then have "unat (drop_bit 8 num) < unat num"
      by (simp add: unat_drop_bit_8)
    then show "P (drop_bit 8 num)" by (rule less)
  qed
qed

lemma be_val_encodeBinary: "be_val (encodeBinary num) = unat num"
proof (induction num rule: u64_byte_induct)
  case (step num)
  then show ?case
    by (simp add: encodeBinary_rec [of num] unat_ucast_byte unat_drop_bit_8)
qed

lemma encodeBinary_length: "unat num < 256 ^ k \<Longrightarrow> length (encodeBinary num) \<le> k"
proof (induction num arbitrary: k rule: u64_byte_induct)
  case (step num)
  show ?case
  proof (cases "num = 0")
    case True
    then show ?thesis by (simp add: encodeBinary_rec)
  next
    case False
    with step.prems obtain k' where k: "k = Suc k'"
        by (cases k) (auto simp: unat_eq_0)
    from step.prems have "unat (drop_bit 8 num) < 256 ^ k'"
      by (simp add: unat_drop_bit_8 k less_mult_imp_div_less mult.commute)
    with step.IH [OF False] False show ?thesis
      by (simp add: encodeBinary_rec [of num] k)
  qed
qed

lemma encodeBinary_length_8: "length (encodeBinary num) \<le> 8"
  by (rule encodeBinary_length) simp

lemma encodeBinary_eq_Nil [simp]: "encodeBinary num = [] \<longleftrightarrow> num = 0"
  by (simp add: encodeBinary_rec [of num])

lemma encodeBinary_no_leading_zero: "num \<noteq> 0 \<Longrightarrow> hd (encodeBinary num) \<noteq> 0"
proof (induction num rule: u64_byte_induct)
  case (step num)
  show ?case
  proof (cases "drop_bit 8 num = 0")
    case True
    have "(ucast num :: byte) \<noteq> 0"
    proof
      assume "(ucast num :: byte) = 0"
      then have "unat (ucast num :: byte) = 0" by simp
      then have "unat num mod 256 = 0" by (simp only: unat_ucast_byte)
      moreover from True have "unat (drop_bit 8 num) = 0" by simp
      then have "unat num div 256 = 0" by (simp only: unat_drop_bit_8)
      ultimately have "unat num = 0"
        using div_mult_mod_eq [of "unat num" 256] by simp
      with step.prems show False by (simp add: unat_eq_0)
    qed
    moreover from True step.prems have "encodeBinary num = [ucast num]"
      by (subst encodeBinary_rec) simp
    ultimately show ?thesis by simp
  next
    case False
    with step.IH step.prems have "hd (encodeBinary (drop_bit 8 num)) \<noteq> 0" by simp
    with False step.prems show ?thesis
      by (simp add: encodeBinary_rec [of num])
  qed
qed

lemma ucast_byte_add:
  "(ucast (ucast (x :: byte) + of_nat n :: u64) :: byte) = x + of_nat n" if "n < 2 ^ 32"
proof -
  have "unat (ucast x + of_nat n :: u64) = unat x + n"
  proof -
    have "unat x < 256" by simp
    with that show ?thesis
      by (simp add: unat_word_ariths unat_of_nat_mod unsigned_ucast_eq take_bit_nat_eq_self
          del: unat_byte_less)
  qed
  then have "(ucast (ucast x + of_nat n :: u64) :: byte) = of_nat (unat x + n)"
    by (metis of_nat_unat)
  then show ?thesis by simp
qed

lemma encodeLength_short:
  assumes "n < 56"
  shows "encodeLength (of_nat n) offset = [offset + of_nat n]"
proof -
  from assms have "(of_nat n :: u64) < 56"
    by (simp add: word_less_nat_alt)
  with assms show ?thesis
    by (simp add: encodeLength_def ucast_byte_add)
qed


lemma encodeLength_long:
  assumes "56 \<le> n" and "n < 2 ^ 64"
  shows "encodeLength (of_nat n) offset =
    (offset + 55 + of_nat (length (encodeBinary (of_nat n)))) # encodeBinary (of_nat n)"
proof -
  from assms have ge: "\<not> (of_nat n :: u64) < 56"
    by (simp add: word_less_nat_alt)
  have "length (encodeBinary (of_nat n)) + 55 < 2 ^ 32"
    using encodeBinary_length_8 [of "of_nat n"] by simp
  from ucast_byte_add [OF this, of offset] ge show ?thesis
    by (simp add: encodeLength_def Let_def algebra_simps)
qed

section \<open>The round trip\<close>

lemma foldl_concatenateVectors:
  "foldl (\<lambda>bs item. concatenateVectors [bs, f item]) acc xs = acc @ concat (map f xs)"
  by (induction xs arbitrary: acc) auto

text \<open>The bytes a list item carries after its length prefix.\<close>

definition RLPItem_payload :: "RLPItem list \<Rightarrow> bytes" where
  "RLPItem_payload vs = concat (map RLPItem_write vs)"

lemma RLPItem_payload_simps [simp]:
  "RLPItem_payload [] = []"
  "RLPItem_payload (x # xs) = RLPItem_write x @ RLPItem_payload xs"
  by (simp_all add: RLPItem_payload_def)

lemma RLPItem_write_value:
  "RLPItem_write (RLPItem VALUE_TYPE v vs) =
     (if length v = 1 \<and> hd v < 0x80 then v else encodeLength (of_nat (length v)) 0x80 @ v)"
  by (simp add: RLPItem_write.simps)

lemma RLPItem_write_list:
  "RLPItem_write (RLPItem LIST_TYPE v vs) =
     encodeLength (of_nat (length (RLPItem_payload vs))) 0xC0 @ RLPItem_payload vs"
  by (simp add: RLPItem_write.simps foldl_concatenateVectors RLPItem_payload_def Let_def
      del: concatenateVectors_eq) simp

lemma encodeLength_nonempty [simp]: "encodeLength num offset \<noteq> []"
  by (simp add: encodeLength_def Let_def)

lemma RLPItem_write_nonempty [simp]: "RLPItem_write item \<noteq> []"
proof (cases item)
  case (RLPItem type v vs)
  then show ?thesis
    by (cases type) (auto simp: RLPItem_write_value RLPItem_write_list)
qed

text \<open>
  The items the encoding represents: a value item has no sub-items, a list item no value, and no
  list anywhere in the item has a payload of exactly 55 bytes, the one length for which the
  decoder disagrees with the encoder.
\<close>

fun RLPItem_wf :: "RLPItem \<Rightarrow> bool" where
  "RLPItem_wf (RLPItem type v vs) =
     (if type = VALUE_TYPE then vs = []
      else v = [] \<and> list_all RLPItem_wf vs \<and> length (RLPItem_payload vs) \<noteq> 55)"

lemma read_long_bytes:
  "read_long (pre @ ls @ post) (length ls) (length pre) acc =
     Inr (acc * of_nat (256 ^ length ls) + of_nat (be_val ls), length pre + length ls)"
proof (induction ls arbitrary: pre acc)
  case (Cons b ls)
  have "be_val (b # ls) = unat b * 256 ^ length ls + be_val ls"
    using be_val_append [of "[b]" ls] by (simp add: be_val_def)
  moreover have "(of_nat (unat b) :: u64) = ucast b"
    by simp
  moreover have "read_long ((pre @ [b]) @ ls @ post) (length ls) (length (pre @ [b])) (push_bit 8 acc + ucast b) =
     Inr ((push_bit 8 acc + ucast b) * of_nat (256 ^ length ls) + of_nat (be_val ls),
       length (pre @ [b]) + length ls)"
    by (rule Cons.IH)
  ultimately show ?case
    by (simp add: push_bit_eq_mult algebra_simps)
qed simp

lemma sub_vector_exact:
  "length v < 2 ^ 63 \<Longrightarrow> sub_vector (pre @ v @ post) (length pre) (of_nat (length v)) = Inr v"
  by (simp add: sub_vector_def)


lemma unat_prefix: "c + n < 256 \<Longrightarrow> unat (of_nat c + of_nat n :: byte) = c + n"
  by (metis of_nat_add unat_of_nat_byte)

lemma ucast_prefix_minus:
  "c + n < 256 \<Longrightarrow> (ucast (of_nat c + of_nat n :: byte) - of_nat c :: u64) = of_nat n"
proof -
  assume "c + n < 256"
  then have "(ucast (of_nat c + of_nat n :: byte) :: u64) = of_nat (c + n)"
    by (metis of_nat_unat unat_prefix)
  then show ?thesis by simp
qed

lemma decode_single:
  "b < 0x80 \<Longrightarrow> decodeBytes (pre @ b # post) (length pre) = Inr (RLPItem VALUE_TYPE [b] [], Suc (length pre))"
  by (simp add: decodeBytes.simps)

lemma decode_short_value:
  assumes "length v < 56"
  shows "decodeBytes (pre @ (0x80 + of_nat (length v)) # v @ post) (length pre) =
    Inr (RLPItem VALUE_TYPE v [], length pre + Suc (length v))"
proof -
  let ?b = "0x80 + of_nat (length v) :: byte"
  have u: "unat ?b = 128 + length v"
    using unat_prefix [of 128 "length v"] assms by simp
  have c: "(ucast ?b - 0x80 :: u64) = of_nat (length v)"
    using ucast_prefix_minus [of 128 "length v"] assms by simp
  have sv: "sub_vector (pre @ ?b # v @ post) (Suc (length pre)) (of_nat (length v)) = Inr v"
    using sub_vector_exact [of v "pre @ [?b]" post] assms by simp
  have "\<not> ?b < 0x80" "?b < 0xB8"
    using assms u by (simp_all add: word_less_nat_alt)
  with sv assms show ?thesis
    by (simp add: decodeBytes.simps [of "pre @ ?b # v @ post"] c Let_def)
qed

text \<open>The length of a length: between one and eight bytes.\<close>

lemma encodeBinary_of_nat:
  assumes "56 \<le> n" and "n < 2 ^ 63"
  shows "be_val (encodeBinary (of_nat n)) = n"
    and "0 < length (encodeBinary (of_nat n))"
    and "length (encodeBinary (of_nat n)) \<le> 8"
  using assms encodeBinary_length_8 [of "of_nat n"]
  by (auto simp: be_val_encodeBinary word_unat_eq_iff)

lemma read_length:
  assumes "56 \<le> n" and "n < 2 ^ 63" and "ls = encodeBinary (of_nat n)"
  shows "read_long (pre @ b # ls @ post) (length ls) (Suc (length pre)) 0 =
    Inr (of_nat n, length pre + Suc (length ls))"
  using read_long_bytes [of "pre @ [b]" ls post 0] assms by (simp add: encodeBinary_of_nat)

lemma decode_long_value:
  assumes "56 \<le> length v" and "length v < 2 ^ 63"
  shows "decodeBytes (pre @ encodeLength (of_nat (length v)) 0x80 @ v @ post) (length pre) =
    Inr (RLPItem VALUE_TYPE v [],
      length pre + length (encodeLength (of_nat (length v)) 0x80) + length v)"
proof -
  define ls where "ls = encodeBinary (of_nat (length v))"
  note ls = encodeBinary_of_nat [OF assms, folded ls_def]
  let ?b = "0xB7 + of_nat (length ls) :: byte"
  have e: "encodeLength (of_nat (length v)) 0x80 = ?b # ls"
    using assms by (simp add: encodeLength_long ls_def)
  have u: "unat ?b = 183 + length ls"
    using unat_prefix [of 183 "length ls"] ls by simp
  have r: "read_long (pre @ ?b # ls @ v @ post) (length ls) (Suc (length pre)) 0 =
      Inr (of_nat (length v), length pre + Suc (length ls))"
    by (rule read_length) (use assms ls_def in auto)
  have sv: "sub_vector (pre @ ?b # ls @ v @ post) (length pre + Suc (length ls)) (of_nat (length v)) = Inr v"
    using sub_vector_exact [of v "pre @ ?b # ls" post] assms by simp
  have "\<not> ?b < 0x80" "\<not> ?b < 0xB8" "?b < 0xC0"
    using ls u by (simp_all add: word_less_nat_alt)
  with sv r ls assms show ?thesis
    by (simp add: decodeBytes.simps [of "pre @ ?b # ls @ v @ post"] e Let_def)
qed

lemma decode_short_list:
  assumes "length p < 55"
    and "decode_list (pre @ (0xC0 + of_nat (length p)) # p @ post) (Suc (length pre))
      (int (Suc (length pre)) + int (length p)) [] = Inr (vs, j)"
  shows "decodeBytes (pre @ (0xC0 + of_nat (length p)) # p @ post) (length pre) =
    Inr (RLPItem LIST_TYPE [] vs, j)"
proof -
  let ?b = "0xC0 + of_nat (length p) :: byte"
  have u: "unat ?b = 192 + length p"
    using unat_prefix [of 192 "length p"] assms by simp
  have "\<not> ?b < 0x80" "\<not> ?b < 0xB8" "\<not> ?b < 0xC0" "?b < 0xF7"
    using assms u by (simp_all add: word_less_nat_alt)
  with assms(2) u show ?thesis
    by (simp add: decodeBytes.simps [of "pre @ ?b # p @ post"] Let_def)
qed


lemma decode_long_list:
  assumes "56 \<le> length p" and "length (pre @ encodeLength (of_nat (length p)) 0xC0 @ p @ post) < 2 ^ 63"
    and "decode_list (pre @ encodeLength (of_nat (length p)) 0xC0 @ p @ post)
      (length pre + length (encodeLength (of_nat (length p)) 0xC0))
      (int (length pre + length (encodeLength (of_nat (length p)) 0xC0)) + int (length p)) [] = Inr (vs, j)"
  shows "decodeBytes (pre @ encodeLength (of_nat (length p)) 0xC0 @ p @ post) (length pre) =
    Inr (RLPItem LIST_TYPE [] vs, j)"
proof -
  define ls where "ls = encodeBinary (of_nat (length p))"
  have p: "length p < 2 ^ 63" using assms(2) by simp
  note ls = encodeBinary_of_nat [OF assms(1) p, folded ls_def]
  let ?b = "0xF7 + of_nat (length ls) :: byte"
  have e: "encodeLength (of_nat (length p)) 0xC0 = ?b # ls"
    using assms p by (simp add: encodeLength_long ls_def)
  have u: "unat ?b = 247 + length ls"
    using unat_prefix [of 247 "length ls"] ls by simp
  have r: "read_long (pre @ ?b # ls @ p @ post) (length ls) (Suc (length pre)) 0 =
      Inr (of_nat (length p), length pre + Suc (length ls))"
    by (rule read_length) (use assms p ls_def in auto)
  have "\<not> ?b < 0x80" "\<not> ?b < 0xB8" "\<not> ?b < 0xC0" "\<not> ?b < 0xF7"
    using ls u by (simp_all add: word_less_nat_alt)
  with r ls p assms(2,3) show ?thesis
    by (simp add: decodeBytes.simps [of "pre @ ?b # ls @ p @ post"] e Let_def)
qed

text \<open>The loop of the decoder recovers a run of encoded items, given that the decoder recovers
  each of them.\<close>

lemma decode_list_items:
  assumes "\<And>x pre post. x \<in> set vs \<Longrightarrow> length (pre @ RLPItem_write x @ post) < 2 ^ 63 \<Longrightarrow>
      decodeBytes (pre @ RLPItem_write x @ post) (length pre) = Inr (x, length pre + length (RLPItem_write x))"
    and "length (pre @ RLPItem_payload vs @ post) < 2 ^ 63"
  shows "decode_list (pre @ RLPItem_payload vs @ post) (length pre)
      (int (length pre) + int (length (RLPItem_payload vs))) acc =
    Inr (acc @ vs, length pre + length (RLPItem_payload vs))"
  using assms
proof (induction vs arbitrary: pre acc)
  case Nil
  then show ?case by (simp add: decode_list.simps)
next
  case (Cons x vs)
  let ?w = "RLPItem_write x" and ?p = "RLPItem_payload vs"
  have d: "decodeBytes (pre @ ?w @ ?p @ post) (length pre) = Inr (x, length pre + length ?w)"
    using Cons.prems by simp
  have "decode_list ((pre @ ?w) @ ?p @ post) (length (pre @ ?w))
      (int (length (pre @ ?w)) + int (length ?p)) (acc @ [x]) =
    Inr ((acc @ [x]) @ vs, length (pre @ ?w) + length ?p)"
    using Cons.prems by (intro Cons.IH) simp_all
  moreover have "0 < int (length ?p) + int (length ?w)"
    by (simp add: add_nonneg_pos)
  ultimately show ?case
    using d by (subst decode_list.simps) (simp add: algebra_simps)
qed

lemma decode_write:
  assumes "RLPItem_wf item" and "length (pre @ RLPItem_write item @ post) < 2 ^ 63"
  shows "decodeBytes (pre @ RLPItem_write item @ post) (length pre) =
    Inr (item, length pre + length (RLPItem_write item))"
  using assms
proof (induction item arbitrary: pre post rule: RLPItem.induct)
  case (RLPItem type v vs)
  show ?case
  proof (cases type)
    case VALUE_TYPE
    consider (single) b where "v = [b]" "b < 0x80"
      | (short) "length v < 56" "\<not> (length v = 1 \<and> hd v < 0x80)"
      | (long) "56 \<le> length v"
      by (cases "length v < 56"; cases "length v = 1 \<and> hd v < 0x80") (auto simp: length_Suc_conv)
    then show ?thesis
    proof cases
      case single
      with RLPItem VALUE_TYPE show ?thesis
        by (simp add: RLPItem_write_value decode_single)
    next
      case short
      with RLPItem VALUE_TYPE show ?thesis
        by (auto simp: RLPItem_write_value encodeLength_short decode_short_value)
    next
      case long
      with RLPItem.prems VALUE_TYPE show ?thesis
        using decode_long_value [of v pre post] by (auto simp: RLPItem_write_value)
    qed
  next
    case LIST_TYPE
    let ?p = "RLPItem_payload vs" and ?e = "encodeLength (of_nat (length (RLPItem_payload vs))) 0xC0"
    from RLPItem.prems LIST_TYPE have v: "v = []" and wf: "\<forall>x\<in>set vs. RLPItem_wf x"
      and n55: "length ?p \<noteq> 55"
      by (auto simp: list_all_iff)
    have len: "length ((pre @ ?e) @ ?p @ post) < 2 ^ 63"
      using RLPItem.prems(2) LIST_TYPE by (simp add: RLPItem_write_list)
    have dl: "decode_list ((pre @ ?e) @ ?p @ post) (length (pre @ ?e))
        (int (length (pre @ ?e)) + int (length ?p)) [] = Inr ([] @ vs, length (pre @ ?e) + length ?p)"
      using RLPItem.IH wf len by (intro decode_list_items) auto
    show ?thesis
    proof (cases "length ?p < 55")
      case True
      with dl LIST_TYPE v show ?thesis
        using decode_short_list [of ?p pre post vs]
        by (simp add: RLPItem_write_list encodeLength_short algebra_simps)
    next
      case False
      with n55 have "56 \<le> length ?p" by simp
      with dl len LIST_TYPE v show ?thesis
        using decode_long_list [of ?p pre post vs]
        by (simp add: RLPItem_write_list algebra_simps)
    qed
  qed
qed

interpretation rlp: framed_codec RLPItem_write decodeBytes RLPItem_wf
  by unfold_locales (rule decode_write)

lemma RLPItem_read_write:
  assumes "RLPItem_wf item" and "length (RLPItem_write item) < 2 ^ 63"
  shows "RLPItem_read item0 (RLPItem_write item) = Inr item"
  using rlp.dec_at_start [of item "[]"] assms by (simp add: RLPItem_read_def Let_def)

interpretation rlp_item: codec RLPItem_write "RLPItem_read RLPItem_default"
  "\<lambda>item. RLPItem_wf item \<and> length (RLPItem_write item) < 2 ^ 63"
  by unfold_locales (simp add: RLPItem_read_write)


section \<open>The payload of 55 bytes\<close>

lemma decode_55_byte_list:
  assumes "length (RLPItem_payload vs) = 55"
  shows "decodeBytes (RLPItem_write (RLPItem LIST_TYPE [] vs) @ post) 0 =
    Inr (RLPItem LIST_TYPE [] [], 1)"
proof -
  have "encodeLength 55 0xC0 = [0xF7]"
    using encodeLength_short [of 55 "0xC0"] by simp
  with assms show ?thesis
    by (simp add: RLPItem_write_list decodeBytes.simps decode_list.simps vec_at_def Let_def)
qed

section \<open>Properties\<close>

text \<open>
  C13. Whatever an item held before, reading the encoding of a well-formed item yields exactly
  that item: every value and list, at every nesting depth, whose lists do not have a payload of
  55 bytes.
\<close>

theorem rlp_read_write:
  assumes "RLPItem_wf item" and "length (RLPItem_write item) < 2 ^ 63"
  shows "RLPItem_read item0 (RLPItem_write item) = Inr item"
  using assms by (rule RLPItem_read_write)

theorem rlp_read_write_witness:
  "RLPItem_read RLPItem_default
      (RLPItem_write (RLPItem LIST_TYPE [] [RLPItem VALUE_TYPE [0x81] [], RLPItem LIST_TYPE [] []])) =
    Inr (RLPItem LIST_TYPE [] [RLPItem VALUE_TYPE [0x81] [], RLPItem LIST_TYPE [] []])"
  by (rule rlp_read_write)
    (simp_all add: RLPItem_payload_def RLPItem_write_value RLPItem_write_list encodeLength_def)

text \<open>
  A list whose encoded elements take exactly 55 bytes is written with the prefix 0xF7, which
  the decoder takes for a long list with a length of no bytes: reading it back gives an empty
  list, and the elements are lost without an error.
\<close>

theorem rlp_55_byte_list_lost:
  assumes "length (concat (map RLPItem_write vs)) = 55"
  shows "RLPItem_read item0 (RLPItem_write (RLPItem LIST_TYPE [] vs)) = Inr (RLPItem LIST_TYPE [] [])"
  using decode_55_byte_list [of vs "[]"] assms
  by (simp add: RLPItem_read_def RLPItem_payload_def Let_def)

theorem rlp_55_byte_list_lost_witness:
  "RLPItem_read RLPItem_default
     (RLPItem_write (RLPItem LIST_TYPE [] [RLPItem VALUE_TYPE (replicate 54 7) []])) =
   Inr (RLPItem LIST_TYPE [] [])"
  by (rule rlp_55_byte_list_lost) (simp add: RLPItem_write_value encodeLength_def)

text \<open>
  The encoding is uniquely decodable: if the encoding of one well-formed item starts with
  the encoding of another, the two items are the same and nothing follows.
\<close>

theorem rlp_prefix_free:
  assumes "RLPItem_wf x" and "RLPItem_wf y"
    and "RLPItem_write y = RLPItem_write x @ zs" and "length (RLPItem_write y) < 2 ^ 63"
  shows "x = y \<and> zs = []"
  using assms by (rule rlp.prefix_free)

theorem rlp_prefix_free_witness:
  "RLPItem VALUE_TYPE [5] [] = RLPItem VALUE_TYPE [5] [] \<and> ([] :: bytes) = []"
  by (rule rlp_prefix_free) (simp_all add: RLPItem_write_value)

text \<open>
  C4. \<open>encodeBinary\<close> gives the shortest big-endian representation of a number: the bytes denote
  it, there are at most eight, none for zero, and the first is never zero.
\<close>

theorem encodeBinary_minimal:
  "be_val (encodeBinary num) = unat num \<and> length (encodeBinary num) \<le> 8 \<and>
   (case encodeBinary num of [] \<Rightarrow> num = 0 | b # _ \<Rightarrow> 0 < b)"
  using encodeBinary_no_leading_zero [of num]
  by (cases "num = 0") (auto simp: be_val_encodeBinary encodeBinary_length_8 word_gt_0 split: list.split)

end
