(* ===== verification/EthereumData.thy ===== *)
theory EthereumData
  imports Rlp
begin

text \<open>
  \<open>EthereumTransactionData.cc\<close>, \<open>EthereumTransactionDataLegacy.cc\<close> and
  \<open>EthereumTransactionDataEip1559.cc\<close>: the two kinds of Ethereum transaction data and their
  byte formats, over the RLP items of \<open>Rlp\<close>. The hex text of \<open>toString\<close> is OpenSSL's, a
  parameter \<open>bytesToHex\<close>.
\<close>

section \<open>Legacy data\<close>

record EthereumTransactionDataLegacy =
  lNonce :: bytes
  lGasPrice :: bytes
  lGasLimit :: bytes
  lTo :: bytes
  lValue :: bytes
  lCallData :: bytes
  lV :: bytes
  lR :: bytes
  lS :: bytes

text \<open>\<open>item.getValues().at(i).getValue()\<close>\<close>

definition value_at :: "RLPItem \<Rightarrow> nat \<Rightarrow> bytes res" where
  "value_at item i = rbind (vec_at (mValues item) i) (\<lambda>x. Inr (mValue x))"

definition EthereumTransactionDataLegacy_fromBytes :: "bytes \<Rightarrow> EthereumTransactionDataLegacy res" where
  "EthereumTransactionDataLegacy_fromBytes bs =
     rbind (RLPItem_read RLPItem_default bs) (\<lambda>item.
       if mType item \<noteq> LIST_TYPE then Inl InvalidArgument
       else if length (mValues item) \<noteq> 9 then Inl InvalidArgument
       else
         rbind (value_at item 0) (\<lambda>nonce. rbind (value_at item 1) (\<lambda>gasPrice.
         rbind (value_at item 2) (\<lambda>gasLimit. rbind (value_at item 3) (\<lambda>to.
         rbind (value_at item 4) (\<lambda>v. rbind (value_at item 5) (\<lambda>callData.
         rbind (value_at item 6) (\<lambda>vv. rbind (value_at item 7) (\<lambda>r.
         rbind (value_at item 8) (\<lambda>s.
           Inr \<lparr>lNonce = nonce, lGasPrice = gasPrice, lGasLimit = gasLimit, lTo = to, lValue = v,
             lCallData = callData, lV = vv, lR = r, lS = s\<rparr>))))))))))"

definition EthereumTransactionDataLegacy_item :: "EthereumTransactionDataLegacy \<Rightarrow> RLPItem" where
  "EthereumTransactionDataLegacy_item d =
     foldl RLPItem_pushBack_bytes (RLPItem_of_type LIST_TYPE)
       [lNonce d, lGasPrice d, lGasLimit d, lTo d, lValue d, lCallData d, lV d, lR d, lS d]"

definition EthereumTransactionDataLegacy_toBytes :: "EthereumTransactionDataLegacy \<Rightarrow> bytes" where
  "EthereumTransactionDataLegacy_toBytes d = RLPItem_write (EthereumTransactionDataLegacy_item d)"

definition EthereumTransactionDataLegacy_toString ::
  "(bytes \<Rightarrow> string) \<Rightarrow> EthereumTransactionDataLegacy \<Rightarrow> string" where
  "EthereumTransactionDataLegacy_toString bytesToHex d =
     ''mNonce: '' @ bytesToHex (lNonce d) @ [CHR 0x0A] @ ''mGasPrice: '' @ bytesToHex (lGasPrice d) @
     [CHR 0x0A] @ ''mGasLimit: '' @ bytesToHex (lGasLimit d) @ [CHR 0x0A] @ ''mTo: '' @ bytesToHex (lTo d) @
     [CHR 0x0A] @ ''mValue: '' @ bytesToHex (lValue d) @ [CHR 0x0A] @ ''mCallData: '' @
     bytesToHex (lCallData d) @ [CHR 0x0A] @ ''mV: '' @ bytesToHex (lV d) @ [CHR 0x0A] @ ''mR: '' @
     bytesToHex (lR d) @ [CHR 0x0A] @ ''mS: '' @ bytesToHex (lS d)"

section \<open>EIP-1559 data\<close>

record EthereumTransactionDataEip1559 =
  eChainId :: bytes
  eNonce :: bytes
  eMaxPriorityGas :: bytes
  eMaxGas :: bytes
  eGasLimit :: bytes
  eTo :: bytes
  eValue :: bytes
  eCallData :: bytes
  eAccessList :: bytes
  eRecoveryId :: bytes
  eR :: bytes
  eS :: bytes

definition EthereumTransactionDataEip1559_fromBytes :: "bytes \<Rightarrow> EthereumTransactionDataEip1559 res" where
  "EthereumTransactionDataEip1559_fromBytes bs =
     (if bs = [] \<or> hd bs \<noteq> 0x02 then Inl InvalidArgument
      else
        rbind (removePrefix bs 1) (\<lambda>rest. rbind (RLPItem_read RLPItem_default rest) (\<lambda>item.
          if mType item \<noteq> LIST_TYPE \<or> length (mValues item) \<noteq> 12 then Inl InvalidArgument
          else
            rbind (value_at item 0) (\<lambda>chainId. rbind (value_at item 1) (\<lambda>nonce.
            rbind (value_at item 2) (\<lambda>maxPriorityGas. rbind (value_at item 3) (\<lambda>maxGas.
            rbind (value_at item 4) (\<lambda>gasLimit. rbind (value_at item 5) (\<lambda>to.
            rbind (value_at item 6) (\<lambda>v. rbind (value_at item 7) (\<lambda>callData.
            rbind (value_at item 8) (\<lambda>accessList. rbind (value_at item 9) (\<lambda>recoveryId.
            rbind (value_at item 10) (\<lambda>r. rbind (value_at item 11) (\<lambda>s.
              Inr \<lparr>eChainId = chainId, eNonce = nonce, eMaxPriorityGas = maxPriorityGas,
                eMaxGas = maxGas, eGasLimit = gasLimit, eTo = to, eValue = v, eCallData = callData,
                eAccessList = accessList, eRecoveryId = recoveryId, eR = r, eS = s\<rparr>)))))))))))))))"

text \<open>\<open>toBytes\<close> pushes an empty item where the access list belongs.\<close>

definition EthereumTransactionDataEip1559_item :: "EthereumTransactionDataEip1559 \<Rightarrow> RLPItem" where
  "EthereumTransactionDataEip1559_item d =
     foldl RLPItem_pushBack_bytes
       (RLPItem_pushBack
         (foldl RLPItem_pushBack_bytes (RLPItem_of_type LIST_TYPE)
           [eChainId d, eNonce d, eMaxPriorityGas d, eMaxGas d, eGasLimit d, eTo d, eValue d, eCallData d])
         RLPItem_default)
       [eRecoveryId d, eR d, eS d]"

definition EthereumTransactionDataEip1559_toBytes :: "EthereumTransactionDataEip1559 \<Rightarrow> bytes" where
  "EthereumTransactionDataEip1559_toBytes d =
     concatenateVectors [[0x02], RLPItem_write (EthereumTransactionDataEip1559_item d)]"

section \<open>Either kind\<close>

datatype EthereumTransactionData =
  Legacy EthereumTransactionDataLegacy | Eip1559 EthereumTransactionDataEip1559

definition EthereumTransactionData_fromBytes :: "bytes \<Rightarrow> EthereumTransactionData res" where
  "EthereumTransactionData_fromBytes bs =
     rbind (RLPItem_read RLPItem_default bs) (\<lambda>rlpItem.
       if mType rlpItem = LIST_TYPE
       then rbind (EthereumTransactionDataLegacy_fromBytes bs) (\<lambda>d. Inr (Legacy d))
       else rbind (EthereumTransactionDataEip1559_fromBytes bs) (\<lambda>d. Inr (Eip1559 d)))"

primrec EthereumTransactionData_toBytes :: "EthereumTransactionData \<Rightarrow> bytes" where
  "EthereumTransactionData_toBytes (Legacy d) = EthereumTransactionDataLegacy_toBytes d"
| "EthereumTransactionData_toBytes (Eip1559 d) = EthereumTransactionDataEip1559_toBytes d"

section \<open>Round trips\<close>

lemma pushBack_all:
  "foldl RLPItem_pushBack_bytes (RLPItem type v vs) xs =
     RLPItem type v (vs @ map (\<lambda>x. RLPItem VALUE_TYPE x []) xs)"
  by (induction xs arbitrary: vs) (simp_all add: RLPItem_pushBack_bytes_def RLPItem_of_bytes_def)

lemma legacy_item_eq:
  "EthereumTransactionDataLegacy_item d =
     RLPItem LIST_TYPE [] (map (\<lambda>x. RLPItem VALUE_TYPE x [])
       [lNonce d, lGasPrice d, lGasLimit d, lTo d, lValue d, lCallData d, lV d, lR d, lS d])"
  by (simp only: EthereumTransactionDataLegacy_item_def RLPItem_of_type_def pushBack_all) simp

lemma eip1559_item_eq:
  "EthereumTransactionDataEip1559_item d =
     RLPItem LIST_TYPE [] (map (\<lambda>x. RLPItem VALUE_TYPE x [])
       [eChainId d, eNonce d, eMaxPriorityGas d, eMaxGas d, eGasLimit d, eTo d, eValue d, eCallData d,
        [], eRecoveryId d, eR d, eS d])"
  by (simp only: EthereumTransactionDataEip1559_item_def RLPItem_of_type_def pushBack_all
      RLPItem_pushBack_def RLPItem_default_def) simp

text \<open>An item of the data's shape that RLP can represent: its list does not have the payload of
  55 bytes that the decoder misreads, and it fits in memory.\<close>

definition representable :: "RLPItem \<Rightarrow> bool" where
  "representable item \<longleftrightarrow>
     length (RLPItem_payload (mValues item)) \<noteq> 55 \<and> length (RLPItem_write item) < 2 ^ 62"

lemma read_values_item:
  assumes "representable (RLPItem LIST_TYPE [] (map (\<lambda>x. RLPItem VALUE_TYPE x []) xs))"
  shows "RLPItem_read item0 (RLPItem_write (RLPItem LIST_TYPE [] (map (\<lambda>x. RLPItem VALUE_TYPE x []) xs))) =
    Inr (RLPItem LIST_TYPE [] (map (\<lambda>x. RLPItem VALUE_TYPE x []) xs))"
  using assms by (intro RLPItem_read_write) (auto simp: representable_def list_all_iff)

lemma legacy_roundtrip:
  assumes "representable (EthereumTransactionDataLegacy_item d)"
  shows "EthereumTransactionDataLegacy_fromBytes (EthereumTransactionDataLegacy_toBytes d) = Inr d"
  using read_values_item [OF assms [unfolded legacy_item_eq], of RLPItem_default]
  by (simp add: EthereumTransactionDataLegacy_fromBytes_def EthereumTransactionDataLegacy_toBytes_def
      legacy_item_eq value_at_def vec_at_def)

lemma eip1559_roundtrip:
  assumes "representable (EthereumTransactionDataEip1559_item d)"
  shows "EthereumTransactionDataEip1559_fromBytes (EthereumTransactionDataEip1559_toBytes d) =
    Inr (d\<lparr>eAccessList := []\<rparr>)"
  using read_values_item [OF assms [unfolded eip1559_item_eq], of RLPItem_default]
  by (simp add: EthereumTransactionDataEip1559_fromBytes_def EthereumTransactionDataEip1559_toBytes_def
      eip1559_item_eq value_at_def vec_at_def removePrefix_def)

primrec EthereumTransactionData_valid :: "EthereumTransactionData \<Rightarrow> bool" where
  "EthereumTransactionData_valid (Legacy d) = representable (EthereumTransactionDataLegacy_item d)"
| "EthereumTransactionData_valid (Eip1559 d) =
     (representable (EthereumTransactionDataEip1559_item d) \<and> eAccessList d = [])"

lemma read_legacy:
  assumes "representable (EthereumTransactionDataLegacy_item d)"
  shows "\<exists>item. RLPItem_read RLPItem_default (EthereumTransactionDataLegacy_toBytes d) = Inr item \<and>
    mType item = LIST_TYPE"
  using read_values_item [OF assms [unfolded legacy_item_eq], of RLPItem_default]
  by (simp add: EthereumTransactionDataLegacy_toBytes_def legacy_item_eq)

lemma read_eip1559:
  "RLPItem_read RLPItem_default (EthereumTransactionDataEip1559_toBytes d) =
     Inr (RLPItem VALUE_TYPE [0x02] [])"
  using decode_single [of "0x02" "[]"]
  by (simp add: RLPItem_read_def EthereumTransactionDataEip1559_toBytes_def Let_def)

lemma EthereumTransactionData_fromBytes_toBytes:
  "EthereumTransactionData_valid d \<Longrightarrow>
     EthereumTransactionData_fromBytes (EthereumTransactionData_toBytes d) = Inr d"
proof (cases d)
  case (Legacy l)
  assume "EthereumTransactionData_valid d"
  with Legacy show ?thesis
    using read_legacy [of l] legacy_roundtrip [of l]
    by (auto simp: EthereumTransactionData_fromBytes_def)
next
  case (Eip1559 e)
  assume "EthereumTransactionData_valid d"
  with Eip1559 show ?thesis
    using eip1559_roundtrip [of e]
    by (simp add: EthereumTransactionData_fromBytes_def read_eip1559)
qed

interpretation eth_data: codec EthereumTransactionData_toBytes EthereumTransactionData_fromBytes
  EthereumTransactionData_valid
  by unfold_locales (rule EthereumTransactionData_fromBytes_toBytes)


section \<open>Properties\<close>

text \<open>
  C1. Ethereum transaction data of either kind survives \<open>toBytes\<close> and \<open>fromBytes\<close>, the kind
  included: legacy data, and EIP-1559 data without an access list, whose RLP list RLP can
  represent (no payload of 55 bytes).
\<close>

theorem ethereum_data_roundtrip:
  assumes "EthereumTransactionData_valid d"
  shows "EthereumTransactionData_fromBytes (EthereumTransactionData_toBytes d) = Inr d"
  using assms by (rule eth_data.dec_enc)

theorem ethereum_data_roundtrip_witness:
  "EthereumTransactionData_fromBytes (EthereumTransactionData_toBytes
     (Legacy \<lparr>lNonce = [1], lGasPrice = [0x2f], lGasLimit = [0x01, 0x86, 0xa0], lTo = [], lValue = [],
       lCallData = [0x12, 0x34], lV = [0x7f], lR = [0xff], lS = [0x80]\<rparr>)) =
   Inr (Legacy \<lparr>lNonce = [1], lGasPrice = [0x2f], lGasLimit = [0x01, 0x86, 0xa0], lTo = [], lValue = [],
       lCallData = [0x12, 0x34], lV = [0x7f], lR = [0xff], lS = [0x80]\<rparr>)"
  by (rule ethereum_data_roundtrip)
    (simp add: representable_def legacy_item_eq RLPItem_write_list RLPItem_write_value encodeLength_def)

text \<open>
  Writing EIP-1559 data drops its access list: whatever the list was, the data read back has
  an empty one, and agrees with the original in every other field.
\<close>

theorem eip1559_access_list_lost:
  assumes "representable (EthereumTransactionDataEip1559_item d)"
  shows "EthereumTransactionDataEip1559_fromBytes (EthereumTransactionDataEip1559_toBytes d) =
    Inr (d\<lparr>eAccessList := []\<rparr>)"
  using assms by (rule eip1559_roundtrip)

theorem eip1559_access_list_lost_witness:
  "EthereumTransactionDataEip1559_fromBytes (EthereumTransactionDataEip1559_toBytes
     \<lparr>eChainId = [1], eNonce = [2], eMaxPriorityGas = [], eMaxGas = [], eGasLimit = [9], eTo = [7, 7],
      eValue = [], eCallData = [], eAccessList = [0xAA], eRecoveryId = [1], eR = [3], eS = [4]\<rparr>) =
   Inr \<lparr>eChainId = [1], eNonce = [2], eMaxPriorityGas = [], eMaxGas = [], eGasLimit = [9], eTo = [7, 7],
      eValue = [], eCallData = [], eAccessList = [], eRecoveryId = [1], eR = [3], eS = [4]\<rparr>"
  by (subst eip1559_access_list_lost)
    (simp_all add: representable_def eip1559_item_eq RLPItem_write_list RLPItem_write_value encodeLength_def)

end
