(* ===== verification/EntityId.thy ===== *)
theory EntityId
  imports Utilities
begin

text \<open>
  \<open>EntityIdHelper.cc\<close> and the identifiers that are a bare triple of numbers (\<open>TokenId\<close>,
  \<open>FileId\<close>, \<open>TopicId\<close>, \<open>ScheduleId\<close>, and \<open>NftId\<close> over them): parsing and
  printing, the five-letter checksum, Solidity addresses, and the conversions to protobuf. The hex
  conversions of \<open>HexConverter.cc\<close> are calls into OpenSSL: \<open>hexstr2buf\<close> (which reads a
  C string and may fail) and \<open>buf2hexstr\<close> are parameters.

  A \<open>std::string_view\<close> is the list of its characters. Where the code calls
  \<open>view.data()\<close> and so reads on behind the end of the view, the definition has a second
  argument \<open>after\<close>: the characters of the underlying buffer that follow the view.
\<close>

section \<open>String views\<close>

text \<open>\<open>find_first_of(c)\<close> and \<open>find_last_of(c)\<close>, \<open>None\<close> for \<open>npos\<close>.\<close>

fun find_first_of :: "char \<Rightarrow> string \<Rightarrow> nat option" where
  "find_first_of c [] = None"
| "find_first_of c (x # xs) =
     (if x = c then Some 0 else (case find_first_of c xs of None \<Rightarrow> None | Some i \<Rightarrow> Some (Suc i)))"

fun find_last_of :: "char \<Rightarrow> string \<Rightarrow> nat option" where
  "find_last_of c [] = None"
| "find_last_of c (x # xs) =
     (case find_last_of c xs of None \<Rightarrow> if x = c then Some 0 else None | Some i \<Rightarrow> Some (Suc i))"

definition substr :: "string \<Rightarrow> nat \<Rightarrow> nat \<Rightarrow> string res" where
  "substr s pos n = (if length s < pos then Inl OutOfRange else Inr (take n (drop pos s)))"

text \<open>The C string that starts at \<open>view.data()\<close>.\<close>

definition c_str :: "string \<Rightarrow> string \<Rightarrow> string" where
  "c_str v after = takeWhile (\<lambda>c. c \<noteq> CHR 0x00) (v @ after)"

lemma find_first_of_eq_None [simp]: "find_first_of c s = None \<longleftrightarrow> c \<notin> set s"
  by (induction s) (auto split: option.splits)

lemma find_last_of_eq_None [simp]: "find_last_of c s = None \<longleftrightarrow> c \<notin> set s"
  by (induction s) (auto split: option.splits)

lemma find_last_of_notin [simp]: "c \<notin> set s \<Longrightarrow> find_last_of c s = None"
  by simp

lemma find_first_of_append_Cons [simp]:
  "c \<notin> set xs \<Longrightarrow> find_first_of c (xs @ c # ys) = Some (length xs)"
  by (induction xs) auto

lemma find_last_of_append_Cons [simp]:
  "c \<notin> set ys \<Longrightarrow> find_last_of c (xs @ c # ys) = Some (length xs)"
  by (induction xs) (auto split: option.splits)

lemma find_last_of_append_notin [simp]:
  "c \<notin> set ys \<Longrightarrow> find_last_of c (xs @ ys) = find_last_of c xs"
  by (induction xs) (auto split: option.splits)

lemma find_last_of_eq_Some:
  "find_last_of c s = Some i \<Longrightarrow> i < length s \<and> s ! i = c \<and> c \<notin> set (drop (Suc i) s)"
  by (induction s arbitrary: i) (auto split: option.splits if_splits)

lemma find_first_of_eq_Some:
  "find_first_of c s = Some i \<Longrightarrow> i < length s \<and> s ! i = c \<and> c \<notin> set (take i s)"
  by (induction s arbitrary: i) (auto split: option.splits if_splits)

lemma substr_0 [simp]: "substr s 0 n = Inr (take n s)"
  by (simp add: substr_def)

lemma substr_eq [res_simps]: "substr s pos n = Inr t \<longleftrightarrow> pos \<le> length s \<and> t = take n (drop pos s)"
  by (auto simp: substr_def)

section \<open>The parts of an entity identifier\<close>

definition getNum :: "string \<Rightarrow> u64 res" where
  "getNum str =
     (case from_chars_all (2 ^ 64 - 1) str of None \<Rightarrow> Inl InvalidArgument | Some n \<Rightarrow> Inr (of_nat n))"

definition getShardNum :: "string \<Rightarrow> u64 res" where
  "getShardNum sid =
     (case find_first_of CHR ''.'' sid of None \<Rightarrow> Inl InvalidArgument
      | Some firstDot \<Rightarrow> rbind (substr sid 0 firstDot) getNum)"

text \<open>Equal positions include the case that there is no dot at all.\<close>

definition getRealmNum :: "string \<Rightarrow> u64 res" where
  "getRealmNum sid =
     (case (find_first_of CHR ''.'' sid, find_last_of CHR ''.'' sid) of
        (Some firstDot, Some lastDot) \<Rightarrow>
          if firstDot = lastDot then Inl InvalidArgument
          else rbind (substr sid (firstDot + 1) (lastDot - firstDot - 1)) getNum
      | _ \<Rightarrow> Inl InvalidArgument)"

text \<open>
  A dash before the last dot makes \<open>dash - lastDot - 1\<close> wrap around \<open>size_t\<close>, so that
  \<open>substr\<close> takes the rest of the string.
\<close>

definition getEntityNumStr :: "string \<Rightarrow> string res" where
  "getEntityNumStr sid =
     (case find_last_of CHR ''.'' sid of None \<Rightarrow> Inl InvalidArgument
      | Some lastDot \<Rightarrow>
          (case find_last_of CHR ''-'' sid of
             None \<Rightarrow> substr sid (lastDot + 1) (length sid - lastDot - 1)
           | Some dash \<Rightarrow> substr sid (lastDot + 1) ((dash + 2 ^ 64 - lastDot - 1) mod 2 ^ 64)))"

definition getEntityNum :: "string \<Rightarrow> u64 res" where
  "getEntityNum sid = rbind (getEntityNumStr sid) getNum"

definition getChecksum :: "string \<Rightarrow> string res" where
  "getChecksum sid =
     (case find_last_of CHR ''-'' sid of None \<Rightarrow> Inr []
      | Some dash \<Rightarrow> substr sid (dash + 1) (length sid - dash - 1))"

definition entity_toString :: "u64 \<Rightarrow> u64 \<Rightarrow> u64 \<Rightarrow> string \<Rightarrow> string" where
  "entity_toString shard realm num checksum =
     to_string (unat shard) @ ''.'' @ to_string (unat realm) @ ''.'' @ to_string (unat num) @
     (if checksum \<noteq> [] then ''-'' @ checksum else [])"

lemma getNum_to_string [simp]: "getNum (to_string (unat w)) = Inr w"
  by (simp add: getNum_def)

lemma getNum_to_string_nat: "n < 2 ^ 64 \<Longrightarrow> getNum (to_string n) = Inr (of_nat n)"
  by (simp add: getNum_def)

lemma getNum_eq:
  "getNum s =
     (if s \<noteq> [] \<and> list_all is_digit s \<and> dec_val s < 2 ^ 64 then Inr (of_nat (dec_val s))
      else Inl InvalidArgument)"
proof (cases "from_chars_all (2 ^ 64 - 1) s")
  case None
  then have "\<not> (s \<noteq> [] \<and> list_all is_digit s \<and> dec_val s \<le> 2 ^ 64 - 1)"
    by (metis from_chars_all_eq_Some option.distinct(1))
  with None show ?thesis
    by (auto simp: getNum_def)
next
  case (Some n)
  then have "s \<noteq> [] \<and> list_all is_digit s \<and> dec_val s < 2 ^ 64 \<and> n = dec_val s"
    by (auto simp: from_chars_all_eq_Some)
  with Some show ?thesis
    by (simp add: getNum_def)
qed

lemma getNum_eq_Inr [res_simps]:
  "getNum s = Inr w \<longleftrightarrow>
     s \<noteq> [] \<and> list_all is_digit s \<and> dec_val s < 2 ^ 64 \<and> w = of_nat (dec_val s)"
  by (auto simp: getNum_eq)

lemma getNum_eq_Inl [res_simps]:
  "getNum s = Inl e \<longleftrightarrow>
     e = InvalidArgument \<and> (s = [] \<or> \<not> list_all is_digit s \<or> 2 ^ 64 \<le> dec_val s)"
  by (auto simp: getNum_eq)

text \<open>What the parts of a printed identifier are, whatever follows the number.\<close>

lemma getShardNum_entity:
  "getShardNum (to_string (unat s) @ CHR ''.'' # rest) = Inr s"
  by (simp add: getShardNum_def)

lemma getRealmNum_entity:
  assumes "CHR ''.'' \<notin> set rest"
  shows "getRealmNum (to_string (unat s) @ CHR ''.'' # to_string (unat r) @ CHR ''.'' # rest) = Inr r"
proof -
  have "find_last_of CHR ''.'' (to_string (unat s) @ CHR ''.'' # to_string (unat r) @ CHR ''.'' # rest)
      = Some (length (to_string (unat s)) + 1 + length (to_string (unat r)))"
    using find_last_of_append_Cons [OF assms, of "to_string (unat s) @ CHR ''.'' # to_string (unat r)"]
    by simp
  then show ?thesis
    by (simp add: getRealmNum_def substr_def)
qed

lemma getEntityNumStr_plain:
  assumes "CHR ''.'' \<notin> set rest" and "CHR ''-'' \<notin> set pre" and "CHR ''-'' \<notin> set rest"
  shows "getEntityNumStr (pre @ CHR ''.'' # rest) = Inr rest"
proof -
  have "find_last_of CHR ''.'' (pre @ CHR ''.'' # rest) = Some (length pre)"
    using assms(1) by simp
  moreover have "find_last_of CHR ''-'' (pre @ CHR ''.'' # rest) = None"
    using assms by simp
  ultimately show ?thesis
    by (simp only: getEntityNumStr_def option.case) (simp add: substr_def)
qed

lemma getEntityNumStr_checksum:
  assumes "CHR ''.'' \<notin> set rest" and "CHR ''-'' \<notin> set rest"
    and "CHR ''.'' \<notin> set c" and "CHR ''-'' \<notin> set c" and "length rest < 2 ^ 64"
  shows "getEntityNumStr (pre @ CHR ''.'' # rest @ CHR ''-'' # c) = Inr rest"
proof -
  have "find_last_of CHR ''.'' (pre @ CHR ''.'' # (rest @ CHR ''-'' # c)) = Some (length pre)"
    using assms by (intro find_last_of_append_Cons) auto
  moreover have "find_last_of CHR ''-'' ((pre @ CHR ''.'' # rest) @ CHR ''-'' # c)
      = Some (length (pre @ CHR ''.'' # rest))"
    using assms by (intro find_last_of_append_Cons)
  ultimately show ?thesis
    using assms(5) by (simp add: getEntityNumStr_def substr_def)
qed

lemma getChecksum_plain:
  assumes "CHR ''-'' \<notin> set sid"
  shows "getChecksum sid = Inr []"
proof -
  from assms have "find_last_of CHR ''-'' sid = None" by simp
  then show ?thesis by (simp only: getChecksum_def option.case)
qed

lemma getChecksum_checksum: "CHR ''-'' \<notin> set c \<Longrightarrow> getChecksum (pre @ CHR ''-'' # c) = Inr c"
  by (simp add: getChecksum_def substr_def)

end
