(* ===== verification/Checksum.thy ===== *)
theory Checksum
  imports EntityId
begin

text \<open>
  \<open>LedgerId.cc\<close> and the checksum of \<open>EntityIdHelper.cc\<close>: five letters computed from the
  text of an entity identifier and the ledger it lives on. The arithmetic is the code's, on
  \<open>unsigned int\<close> (32 bits) and \<open>size_t\<close> (64 bits); a reference on natural numbers and the
  errors that the checksum always detects follow.
\<close>

section \<open>Ledger identifiers\<close>

datatype LedgerId = LedgerId (LedgerId_toBytes: bytes)

definition MAINNET :: LedgerId where "MAINNET = LedgerId [0x00]"
definition TESTNET :: LedgerId where "TESTNET = LedgerId [0x01]"
definition PREVIEWNET :: LedgerId where "PREVIEWNET = LedgerId [0x02]"

definition isMainnet :: "LedgerId \<Rightarrow> bool" where "isMainnet l \<longleftrightarrow> l = MAINNET"
definition isTestnet :: "LedgerId \<Rightarrow> bool" where "isTestnet l \<longleftrightarrow> l = TESTNET"
definition isPreviewnet :: "LedgerId \<Rightarrow> bool" where "isPreviewnet l \<longleftrightarrow> l = PREVIEWNET"
definition isKnownNetwork :: "LedgerId \<Rightarrow> bool" where
  "isKnownNetwork l \<longleftrightarrow> isMainnet l \<or> isTestnet l \<or> isPreviewnet l"

text \<open>\<open>HexConverter::hexToBytes\<close> on the C string at the view's data.\<close>

definition hexToBytes :: "(string \<Rightarrow> bytes option) \<Rightarrow> string \<Rightarrow> string \<Rightarrow> bytes res" where
  "hexToBytes hexstr2buf v after =
     (case hexstr2buf (c_str v after) of None \<Rightarrow> Inl OpenSSLError | Some bs \<Rightarrow> Inr bs)"

definition LedgerId_fromString :: "(string \<Rightarrow> bytes option) \<Rightarrow> string \<Rightarrow> string \<Rightarrow> LedgerId res" where
  "LedgerId_fromString hexstr2buf s after =
     (if s = ''mainnet'' then Inr MAINNET
      else if s = ''testnet'' then Inr TESTNET
      else if s = ''previewnet'' then Inr PREVIEWNET
      else rcatch (\<lambda>e. e = OpenSSLError)
             (rbind (hexToBytes hexstr2buf s after) (\<lambda>bs. Inr (LedgerId bs))) (Inl InvalidArgument))"

definition LedgerId_toString :: "(bytes \<Rightarrow> string) \<Rightarrow> LedgerId \<Rightarrow> string" where
  "LedgerId_toString buf2hexstr l =
     (if isMainnet l then ''mainnet'' else if isTestnet l then ''testnet''
      else if isPreviewnet l then ''previewnet'' else buf2hexstr (LedgerId_toBytes l))"

section \<open>The checksum\<close>

text \<open>\<open>c == '.' ? 10U : c - '0'\<close>, with \<open>char\<close> signed.\<close>

definition checksum_digit :: "char \<Rightarrow> u32" where
  "checksum_digit c = (if c = CHR ''.'' then 10 else scast (byte_of_char c) - 48)"

text \<open>The loop over the digits: the weighted sum and the sums at even and odd indices.\<close>

fun checksum_loop :: "nat \<Rightarrow> u32 list \<Rightarrow> u32 \<times> u32 \<times> u32 \<Rightarrow> u32 \<times> u32 \<times> u32" where
  "checksum_loop i [] acc = acc"
| "checksum_loop i (d # ds) (weighted, evenSum, oddSum) =
     checksum_loop (Suc i) ds
       ((weighted * 31 + d) mod 17576,
        if i mod 2 = 0 then evenSum + d else evenSum,
        if i mod 2 = 0 then oddSum else oddSum + d)"

text \<open>
  The sum over the ledger bytes wraps at 32 bits and is reduced once at its end.
\<close>

definition ledger_sum :: "bytes \<Rightarrow> u32" where
  "ledger_sum bs = foldl (\<lambda>sum b. sum * 31 + ucast b) 0 bs mod 11881376"

primrec base26_letters :: "nat \<Rightarrow> u32 \<Rightarrow> string" where
  "base26_letters 0 c = []"
| "base26_letters (Suc n) c = char_of (97 + unat (c mod 26)) # base26_letters n (c div 26)"

definition checksum :: "string \<Rightarrow> LedgerId \<Rightarrow> string" where
  "checksum address ledgerId =
     (let digitArray = map checksum_digit address;
          ledgerIdArray = concatenateVectors [LedgerId_toBytes ledgerId, [0, 0, 0, 0, 0, 0]]
      in case checksum_loop 0 digitArray (0, 0, 0) of (weighted, evenSum, oddSum) \<Rightarrow>
        let evenSum = evenSum mod 11;
            oddSum = oddSum mod 11;
            ledgerSum = ledger_sum ledgerIdArray;
            c = ((((((of_nat (length address) mod 5) * 11 + ucast evenSum) * 11 + ucast oddSum) * 17576
                  + ucast weighted + ucast ledgerSum) mod 11881376) * 1000003) mod 11881376 :: u64
        in rev (base26_letters 5 (ucast c)))"

section \<open>A reference on natural numbers\<close>

definition digit_nat :: "char \<Rightarrow> nat" where
  "digit_nat c = (if c = CHR ''.'' then 10 else digit_val c)"

definition address_char :: "char \<Rightarrow> bool" where
  "address_char c \<longleftrightarrow> c = CHR ''.'' \<or> is_digit c"

definition weighted_nat :: "nat \<Rightarrow> nat list \<Rightarrow> nat" where
  "weighted_nat w ds = foldl (\<lambda>w d. (w * 31 + d) mod 17576) w ds"

text \<open>The sum of the digits at the positions of one parity.\<close>

primrec parity_sum :: "bool \<Rightarrow> nat list \<Rightarrow> nat" where
  "parity_sum p [] = 0"
| "parity_sum p (d # ds) = (if p then d else 0) + parity_sum (\<not> p) ds"

definition checksum_key :: "nat list \<Rightarrow> nat" where
  "checksum_key ds =
     (((length ds mod 5) * 11 + parity_sum True ds mod 11) * 11 + parity_sum False ds mod 11) * 17576
       + weighted_nat 0 ds"

definition checksum_number :: "nat list \<Rightarrow> nat \<Rightarrow> nat" where
  "checksum_number ds l = (checksum_key ds + l) mod 11881376 * 1000003 mod 11881376"

definition letters_of :: "nat \<Rightarrow> string" where
  "letters_of n = rev (map (\<lambda>i. char_of (97 + n div 26 ^ i mod 26)) [0, 1, 2, 3, 4])"

lemma checksum_digit_eq:
  assumes "address_char c"
  shows "unat (checksum_digit c) = digit_nat c" and "digit_nat c \<le> 10"
proof -
  show "digit_nat c \<le> 10"
    using assms by (auto simp: digit_nat_def digit_val_def address_char_def is_digit_def)
  show "unat (checksum_digit c) = digit_nat c"
  proof (cases "c = CHR ''.''")
    case False
    with assms have d: "48 \<le> (of_char c :: nat)" "(of_char c :: nat) \<le> 57"
      by (auto simp: address_char_def is_digit_def)
    then have "(of_char c :: nat) \<in> {48, 49, 50, 51, 52, 53, 54, 55, 56, 57}"
      unfolding insert_iff empty_iff by presburger
    with False show ?thesis
      by (auto simp: checksum_digit_def digit_nat_def digit_val_def byte_of_char_def)
  qed (simp add: checksum_digit_def digit_nat_def)
qed

lemma unat_weighted_step:
  fixes w d :: u32
  assumes "unat w < 17576" and "unat d \<le> 10"
  shows "unat ((w * 31 + d) mod 17576) = (unat w * 31 + unat d) mod 17576"
proof -
  have "unat (w * 31 + d) = unat w * 31 + unat d"
    using assms by (simp add: unat_word_ariths)
  then show ?thesis
    by (simp add: unat_mod_distrib)
qed

lemma checksum_loop_eq:
  assumes "\<forall>d \<in> set ds. unat d \<le> 10" and "unat w < 17576"
    and "unat e + 10 * length ds < 2 ^ 32" and "unat f + 10 * length ds < 2 ^ 32"
    and "checksum_loop i ds (w, e, f) = (w', e', f')"
  shows "unat w' = weighted_nat (unat w) (map unat ds)
    \<and> unat e' = unat e + parity_sum (even i) (map unat ds)
    \<and> unat f' = unat f + parity_sum (odd i) (map unat ds)"
  using assms
proof (induction ds arbitrary: i w e f)
  case Nil
  then show ?case by (simp add: weighted_nat_def)
next
  case (Cons d ds)
  have d: "unat d \<le> 10" using Cons.prems by simp
  have e: "unat (e + d) = unat e + unat d" and f: "unat (f + d) = unat f + unat d"
    using Cons.prems d by (simp_all add: unat_word_ariths)
  have w: "unat ((w * 31 + d) mod 17576) = (unat w * 31 + unat d) mod 17576"
    using Cons.prems d by (intro unat_weighted_step) auto
  show ?case
  proof (cases "even i")
    case True
    then have "i mod 2 = 0" by presburger
    with True Cons.prems d e show ?thesis
      using Cons.IH [of "(w * 31 + d) mod 17576" "e + d" f "Suc i"]
      by (simp add: w weighted_nat_def)
  next
    case False
    then have "i mod 2 = 1" by presburger
    with False Cons.prems d f show ?thesis
      using Cons.IH [of "(w * 31 + d) mod 17576" e "f + d" "Suc i"]
      by (simp add: w weighted_nat_def)
  qed
qed

lemma weighted_nat_less: "w < 17576 \<Longrightarrow> weighted_nat w ds < 17576"
  by (induction ds arbitrary: w) (simp_all add: weighted_nat_def)

lemma mixed_radix_less:
  "a \<le> 4 \<Longrightarrow> b \<le> 10 \<Longrightarrow> c \<le> 10 \<Longrightarrow> w < 17576 \<Longrightarrow>
     ((a * 11 + b) * 11 + c) * 17576 + w < (10633481 :: nat)"
  by simp

lemma mod_5_11: "n mod 5 \<le> (4 :: nat)" "n mod 11 \<le> (10 :: nat)"
  by (simp_all add: less_Suc_eq_le [symmetric])

lemma checksum_key_less: "checksum_key ds < 10633481"
  unfolding checksum_key_def by (intro mixed_radix_less mod_5_11 weighted_nat_less) simp

lemma base26_letters_eq:
  "rev (base26_letters 5 c) = letters_of (unat c)"
proof -
  have five: "(5 :: nat) = Suc (Suc (Suc (Suc (Suc 0))))" by simp
  show ?thesis
    unfolding five letters_of_def base26_letters.simps
    by (simp add: unat_div_distrib unat_mod_distrib div_mult2_eq [symmetric])
qed

text \<open>The code computes the reference, as no sum overflows for addresses of ordinary length.\<close>

lemma ucast_mod_nat: "(ucast (x mod y :: u32) :: u64) = of_nat (unat x mod unat y)"
proof -
  have "ucast (x mod y) = (of_nat (unat (x mod y)) :: u64)"
    by (rule of_nat_unat [symmetric])
  then show ?thesis
    by (simp only: unat_mod_distrib)
qed

lemma unat_ucast_u32:
  assumes "unat (w :: u64) < 2 ^ 32"
  shows "unat (ucast w :: u32) = unat w"
  using assms by (simp add: unsigned_ucast_eq take_bit_nat_eq_self)

lemma unat_checksum_number:
  assumes "n < 2 ^ 32"
  shows "unat (ucast ((of_nat n :: u64) mod 11881376 * 1000003 mod 11881376) :: u32)
    = n mod 11881376 * 1000003 mod 11881376"
proof -
  have "n mod 11881376 * 1000003 < 2 ^ 64"
    using mod_less_divisor [of 11881376 n] by simp
  then have "unat ((of_nat n :: u64) mod 11881376 * 1000003 mod 11881376)
      = n mod 11881376 * 1000003 mod 11881376"
    using assms by (simp add: unat_mod_distrib unat_word_ariths(2))
  moreover have "n mod 11881376 * 1000003 mod 11881376 < (2 ^ 32 :: nat)"
    by (rule less_trans [OF mod_less_divisor]) simp_all
  ultimately show ?thesis
    by (simp only: unat_ucast_u32)
qed

lemma checksum_eq:
  assumes "list_all address_char address" and "length address < 2 ^ 28"
  shows "checksum address ledgerId =
    letters_of (checksum_number (map digit_nat address)
      (unat (ledger_sum (LedgerId_toBytes ledgerId @ [0, 0, 0, 0, 0, 0]))))"
proof -
  let ?ds = "map checksum_digit address"
  let ?l = "ledger_sum (LedgerId_toBytes ledgerId @ [0, 0, 0, 0, 0, 0])"
  obtain w e f where loop: "checksum_loop 0 ?ds (0, 0, 0) = (w, e, f)"
    by (metis prod_cases3)
  have ds: "map unat ?ds = map digit_nat address" "\<forall>d \<in> set ?ds. unat d \<le> 10"
    using assms(1) by (auto simp: list_all_iff checksum_digit_eq)
  have sums: "unat w = weighted_nat 0 (map digit_nat address)"
      "unat e = parity_sum True (map digit_nat address)"
      "unat f = parity_sum False (map digit_nat address)"
    using checksum_loop_eq [OF ds(2) _ _ _ loop] assms(2) by (simp_all only: ds) simp_all
  let ?n = "checksum_key (map digit_nat address) + unat ?l"
  have l: "unat ?l < 11881376"
    by (simp add: ledger_sum_def unat_mod_distrib)
  have n: "?n < 2 ^ 32"
    using checksum_key_less [of "map digit_nat address"] l by simp
  have five: "of_nat (length address) mod 5 = (of_nat (length address mod 5) :: u64)"
    using assms(2) by (simp add: word_arith_nat_mod)
  have "((of_nat (length address) mod 5 * 11 + ucast (e mod 11)) * 11
      + ucast (f mod 11)) * 17576 + ucast w + ucast ?l = (of_nat ?n :: u64)"
    unfolding five checksum_key_def of_nat_add of_nat_mult of_nat_numeral of_nat_unat sums(1) [symmetric]
    by (simp add: ucast_mod_nat sums(2,3) [symmetric])
  then have "checksum address ledgerId = rev (base26_letters 5
      (ucast ((of_nat ?n :: u64) mod 11881376 * 1000003 mod 11881376)))"
    by (simp only: checksum_def Let_def loop case_prod_conv concatenateVectors_eq concat.simps append_Nil2)
  moreover have "unat (ucast ((of_nat ?n :: u64) mod 11881376 * 1000003 mod 11881376) :: u32)
      = checksum_number (map digit_nat address) (unat ?l)"
    using unat_checksum_number [OF n] by (simp only: checksum_number_def)
  ultimately show ?thesis
    by (simp only: base26_letters_eq)
qed


section \<open>The errors that the checksum detects\<close>

lemma char_of_letter_inj:
  "char_of (97 + d mod 26) = (char_of (97 + e mod 26) :: char) \<Longrightarrow> d mod 26 = e mod (26 :: nat)"
proof -
  assume "char_of (97 + d mod 26) = (char_of (97 + e mod 26) :: char)"
  then have "(97 + d mod 26) mod 256 = (97 + e mod 26) mod (256 :: nat)"
    by (metis of_char_of)
  moreover have "97 + d mod 26 < 256" "97 + e mod 26 < 256"
    using mod_less_divisor [of 26 d] mod_less_divisor [of 26 e] by simp_all
  ultimately show ?thesis by simp
qed

lemma mod_26_step:
  assumes "d * 26 = D" and "m * 26 = M"
  shows "n div d mod M = n div d mod 26 + 26 * (n div D mod (m :: nat))"
proof -
  have "n div d mod (26 * m) = 26 * (n div d div 26 mod m) + n div d mod 26"
    by (rule mod_mult2_eq)
  moreover have "n div d div 26 = n div D"
    by (simp only: assms(1) [symmetric] div_mult2_eq)
  moreover have "26 * m = M"
    by (simp only: assms(2) [symmetric] mult.commute)
  ultimately show ?thesis by (simp only: add.commute)
qed

lemma mod_26_5:
  "n mod 11881376 = n mod 26 + 26 * (n div 26 mod 26 + 26 * (n div 676 mod 26
     + 26 * (n div 17576 mod 26 + 26 * (n div 456976 mod (26 :: nat)))))"
proof -
  have "n div 1 mod 11881376 = n div 1 mod 26 + 26 * (n div 26 mod 456976)"
    "n div 26 mod 456976 = n div 26 mod 26 + 26 * (n div 676 mod 17576)"
    "n div 676 mod 17576 = n div 676 mod 26 + 26 * (n div 17576 mod 676)"
    "n div 17576 mod 676 = n div 17576 mod 26 + 26 * (n div 456976 mod 26)"
    by (rule mod_26_step; simp)+
  then show ?thesis
    by (simp only: div_by_1)
qed

lemma letters_of_inj:
  assumes "letters_of m = letters_of n"
  shows "m mod 11881376 = n mod 11881376"
proof -
  have "\<forall>i \<in> set [0, 1, 2, 3, 4].
      char_of (97 + m div 26 ^ i mod 26) = (char_of (97 + n div 26 ^ i mod 26) :: char)"
    using assms by (simp only: letters_of_def rev_is_rev_conv map_eq_conv)
  then have "\<forall>i \<in> set [0, 1, 2, 3, 4]. m div 26 ^ i mod 26 = n div 26 ^ i mod 26"
    by (blast dest: char_of_letter_inj)
  then have "m div 26 ^ 0 mod 26 = n div 26 ^ 0 mod 26" "m div 26 ^ 1 mod 26 = n div 26 ^ 1 mod 26"
    "m div 26 ^ 2 mod 26 = n div 26 ^ 2 mod 26" "m div 26 ^ 3 mod 26 = n div 26 ^ 3 mod 26"
    "m div 26 ^ 4 mod 26 = n div 26 ^ 4 mod 26"
    by (simp_all only: list.set ball_simps)
  moreover have "(26 :: nat) ^ 0 = 1" "(26 :: nat) ^ 1 = 26" "(26 :: nat) ^ 2 = 676"
    "(26 :: nat) ^ 3 = 17576" "(26 :: nat) ^ 4 = 456976"
    by simp_all
  ultimately show ?thesis
    by (simp only: mod_26_5 div_by_1)
qed

lemma checksum_multiplier:
  "n mod 11881376 * 1000003 mod 11881376 * 8610443 mod 11881376 = n mod (11881376 :: nat)"
proof -
  have "n mod 11881376 * 1000003 mod 11881376 * 8610443 mod 11881376
      = n * (1000003 * 8610443) mod 11881376"
    by (simp only: mod_mult_left_eq mult.assoc)
  also have "\<dots> = (n + n * 724703 * 11881376) mod 11881376"
    by (rule arg_cong [where f = "\<lambda>x. x mod 11881376"]) simp
  finally show ?thesis
    by (simp only: mod_mult_self1)
qed

lemma add_mod_cancel:
  assumes "(a + l) mod p = (b + l) mod p" and "a < p" and "b < (p :: nat)"
  shows "a = b"
proof -
  have "a mod p = b mod p"
    using assms(1) by (simp add: nat_mod_eq_iff)
  with assms show ?thesis by simp
qed

lemma checksum_number_inj:
  assumes "checksum_number ds l = checksum_number es l"
  shows "checksum_key ds = checksum_key es"
proof (rule add_mod_cancel)
  show "(checksum_key ds + l) mod 11881376 = (checksum_key es + l) mod 11881376"
    using arg_cong [OF assms, of "\<lambda>x. x * 8610443 mod 11881376"]
    by (simp only: checksum_number_def checksum_multiplier)
  show "checksum_key ds < 11881376" "checksum_key es < 11881376"
    using checksum_key_less [of ds] checksum_key_less [of es] by simp_all
qed

lemma radix_step:
  assumes "a * n + b = a' * n + (b' :: nat)" and "b < n" and "b' < n"
  shows "a = a'" and "b = b'"
proof -
  have "(a * n + b) div n = (a' * n + b') div n" "(a * n + b) mod n = (a' * n + b') mod n"
    by (simp_all only: assms(1))
  with assms(2,3) show "a = a'" and "b = b'" by simp_all
qed

lemma checksum_key_inj:
  assumes "checksum_key ds = checksum_key es"
  shows "parity_sum p ds mod 11 = parity_sum p es mod 11"
proof -
  let ?a = "\<lambda>ds. (length ds mod 5) * 11 + parity_sum True ds mod 11"
  have w: "weighted_nat 0 ds < 17576" "weighted_nat 0 es < 17576"
    by (simp_all add: weighted_nat_less)
  have "?a ds * 11 + parity_sum False ds mod 11 = ?a es * 11 + parity_sum False es mod 11"
    using radix_step(1) [OF assms [unfolded checksum_key_def] w] .
  then have "?a ds = ?a es" and f: "parity_sum False ds mod 11 = parity_sum False es mod 11"
    by (rule radix_step; simp)+
  from this(1) have "parity_sum True ds mod 11 = parity_sum True es mod 11"
    by (rule radix_step) simp_all
  with f show ?thesis by (cases p) simp_all
qed

text \<open>Equal checksums mean equal parity sums modulo 11.\<close>

lemma checksum_parity_sums:
  assumes "list_all address_char s" "length s < 2 ^ 28" "list_all address_char t" "length t < 2 ^ 28"
    and "checksum s l = checksum t l"
  shows "parity_sum p (map digit_nat s) mod 11 = parity_sum p (map digit_nat t) mod 11"
proof -
  let ?l = "unat (ledger_sum (LedgerId_toBytes l @ [0, 0, 0, 0, 0, 0]))"
  have "checksum_number (map digit_nat s) ?l mod 11881376
      = checksum_number (map digit_nat t) ?l mod 11881376"
    using assms by (intro letters_of_inj) (simp only: checksum_eq)
  then have "checksum_number (map digit_nat s) ?l = checksum_number (map digit_nat t) ?l"
    by (simp only: checksum_number_def mod_mod_trivial)
  then show ?thesis
    by (rule checksum_key_inj [OF checksum_number_inj])
qed

lemma parity_sum_append:
  "parity_sum p (xs @ ys) = parity_sum p xs + parity_sum (p = even (length xs)) ys"
proof (induction xs arbitrary: p)
  case (Cons x xs)
  then show ?case by (cases p; cases "even (length xs)") simp_all
qed simp

lemma digit_nat_inj:
  assumes "address_char a" and "address_char b" and "digit_nat a = digit_nat b"
  shows "a = b"
  using assms
  by (auto simp: digit_nat_def address_char_def digit_val_def is_digit_def eq_diff_iff split: if_splits)

text \<open>The parity sum of the position where two addresses differ first tells them apart.\<close>

lemma checksum_position:
  assumes "checksum (pre @ a # s) l = checksum (pre @ b # t) l"
    and "list_all address_char (pre @ a # s)" "list_all address_char (pre @ b # t)"
    and "length (pre @ a # s) < 2 ^ 28" "length (pre @ b # t) < 2 ^ 28"
    and "parity_sum False (map digit_nat s) = parity_sum False (map digit_nat t)"
  shows "a = b"
proof -
  let ?p = "even (length pre)"
  let ?k = "parity_sum ?p (map digit_nat pre) + parity_sum False (map digit_nat s)"
  have "(digit_nat a + ?k) mod 11 = (digit_nat b + ?k) mod 11"
    using checksum_parity_sums [OF assms(2,4,3,5,1), of ?p] assms(6)
    by (simp add: parity_sum_append add_ac)
  moreover have "digit_nat a < 11" "digit_nat b < 11"
    using assms(2,3) checksum_digit_eq(2) [of a] checksum_digit_eq(2) [of b] by simp_all
  ultimately have "digit_nat a = digit_nat b"
    by (rule add_mod_cancel)
  with assms(2,3) show ?thesis
    by (simp add: digit_nat_inj)
qed

text \<open>
  C21. The checksum detects every error in one character: two addresses of digits and dots that
  differ in exactly one position have different checksums, on every ledger.
\<close>

theorem checksum_detects_substitution:
  assumes "list_all address_char (pre @ a # b # post)" and "a \<noteq> b"
    and "length (pre @ a # post) < 2 ^ 28"
  shows "checksum (pre @ a # post) l \<noteq> checksum (pre @ b # post) l"
  using assms checksum_position [of pre a post l b post] by auto

theorem checksum_detects_substitution_witness:
  "checksum (''0.0.'' @ CHR ''1'' # ''23'') MAINNET \<noteq> checksum (''0.0.'' @ CHR ''7'' # ''23'') MAINNET"
  by (rule checksum_detects_substitution) (simp_all add: address_char_def is_digit_def)

text \<open>
  C22. The checksum detects the exchange of two adjacent different characters of an address.
\<close>

theorem checksum_detects_transposition:
  assumes "list_all address_char (pre @ a # b # post)" and "a \<noteq> b"
    and "length (pre @ a # b # post) < 2 ^ 28"
  shows "checksum (pre @ a # b # post) l \<noteq> checksum (pre @ b # a # post) l"
  using assms checksum_position [of pre a "b # post" l b "a # post"] by auto

theorem checksum_detects_transposition_witness:
  "checksum (''0.0.'' @ CHR ''1'' # CHR ''2'' # ''3'') TESTNET \<noteq>
   checksum (''0.0.'' @ CHR ''2'' # CHR ''1'' # ''3'') TESTNET"
  by (rule checksum_detects_transposition) (simp_all add: address_char_def is_digit_def)

lemma base26_letters_range:
  "c \<in> set (base26_letters n w) \<Longrightarrow> 97 \<le> (of_char c :: nat) \<and> (of_char c :: nat) \<le> 122"
proof (induction n arbitrary: w)
  case (Suc n)
  have "unat (w mod 26) < 26" by (simp add: unat_mod_distrib)
  with Suc show ?case by auto
qed simp

lemma length_base26_letters [simp]: "length (base26_letters n w) = n"
  by (induction n arbitrary: w) simp_all

lemma checksum_range: "c \<in> set (checksum s l) \<Longrightarrow> 97 \<le> (of_char c :: nat) \<and> (of_char c :: nat) \<le> 122"
  by (auto simp: checksum_def Let_def dest: base26_letters_range split: prod.splits)

lemma checksum_length: "length (checksum s l) = 5"
  by (simp add: checksum_def Let_def split: prod.split)

text \<open>
  A checksum is five lower-case letters.
\<close>

theorem checksum_letters:
  "length (checksum address l) = 5 \<and>
   list_all (\<lambda>c. 97 \<le> (of_char c :: nat) \<and> (of_char c :: nat) \<le> 122) (checksum address l)"
  by (simp add: list_all_iff checksum_range checksum_length)


section \<open>The reference checksum\<close>

text \<open>
  The reference reduces the sum over the ledger bytes modulo 26 ^ 5 at no risk of overflow. For the
  three public networks the code's 32-bit sum is exact; for a ledger byte from 5 on it wraps.
\<close>

definition ledger_sum_nat :: "bytes \<Rightarrow> nat" where
  "ledger_sum_nat bs = foldl (\<lambda>sum b. (sum * 31 + unat b) mod 11881376) 0 bs"

definition reference_checksum :: "string \<Rightarrow> LedgerId \<Rightarrow> string" where
  "reference_checksum address ledgerId =
     letters_of (checksum_number (map digit_nat address)
       (ledger_sum_nat (LedgerId_toBytes ledgerId @ [0, 0, 0, 0, 0, 0])))"

lemma ledger_sum_bytes:
  "unat (ledger_sum [0, 0, 0, 0, 0, 0, 0]) = ledger_sum_nat [0, 0, 0, 0, 0, 0, 0]"
  "unat (ledger_sum [1, 0, 0, 0, 0, 0, 0]) = ledger_sum_nat [1, 0, 0, 0, 0, 0, 0]"
  "unat (ledger_sum [2, 0, 0, 0, 0, 0, 0]) = ledger_sum_nat [2, 0, 0, 0, 0, 0, 0]"
  by (simp_all add: ledger_sum_def ledger_sum_nat_def unat_mod_distrib)

lemma ledger_sum_wraps:
  "unat (ledger_sum [5, 0, 0, 0, 0, 0, 0]) \<noteq> ledger_sum_nat [5, 0, 0, 0, 0, 0, 0]"
  by (simp add: ledger_sum_def ledger_sum_nat_def unat_mod_distrib)

lemma ledger_sum_public:
  assumes "isKnownNetwork l"
  shows "unat (ledger_sum (LedgerId_toBytes l @ [0, 0, 0, 0, 0, 0]))
    = ledger_sum_nat (LedgerId_toBytes l @ [0, 0, 0, 0, 0, 0])"
  using assms ledger_sum_bytes
  by (auto simp: isKnownNetwork_def isMainnet_def isTestnet_def isPreviewnet_def MAINNET_def TESTNET_def
      PREVIEWNET_def)

text \<open>
  On the three public networks the checksum is the reference computation on unbounded numbers:
  none of the 32-bit sums of the code overflows.
\<close>

theorem checksum_public_networks:
  assumes "isKnownNetwork ledgerId" and "list_all address_char address" and "length address < 2 ^ 28"
  shows "checksum address ledgerId = reference_checksum address ledgerId"
  by (simp only: reference_checksum_def checksum_eq [OF assms(2,3)] ledger_sum_public [OF assms(1)])

theorem checksum_public_networks_witness:
  "checksum ''0.0.123'' MAINNET = reference_checksum ''0.0.123'' MAINNET"
  by (rule checksum_public_networks)
    (simp_all add: isKnownNetwork_def isMainnet_def address_char_def is_digit_def)

lemma checksum_example: "reference_checksum ''0.0.123'' MAINNET = ''vfmkw''"
  unfolding reference_checksum_def MAINNET_def LedgerId.sel ledger_sum_nat_def
    checksum_number_def checksum_key_def weighted_nat_def letters_of_def
  by (simp add: digit_nat_def digit_val_def char_of_def bit_Suc_0_iff)
end
