(* ===== verification/EntityIds.thy ===== *)
theory EntityIds
  imports Checksum
begin

text \<open>
  Solidity addresses and checksum validation of \<open>EntityIdHelper.cc\<close>, and the identifiers that
  are a triple of numbers: \<open>TokenId.cc\<close>, \<open>FileId.cc\<close>, \<open>TopicId.cc\<close>,
  \<open>ScheduleId.cc\<close>, and \<open>NftId.cc\<close>. What their shared way of parsing and printing
  gives is proved once, in the locale \<open>entity_id\<close>, and interpreted for each class.

  Of the \<open>Client\<close> these operations only use the ledger of its network: \<open>None\<close> stands for a
  client with no network. The mutable member \<open>mChecksum\<close> that \<open>toStringWithChecksum\<close>
  fills in is returned with the text. Protobuf messages are generated code: an identifier message
  is its three \<open>int64\<close> fields, and \<open>ParseFromArray\<close>, whose result the code ignores, is
  the parameter \<open>parse\<close>.
\<close>

type_synonym client_ledger = "LedgerId option"

definition getLedgerId :: "client_ledger \<Rightarrow> LedgerId res" where
  "getLedgerId client = (case client of None \<Rightarrow> Inl Uninitialized | Some l \<Rightarrow> Inr l)"

section \<open>Checksum validation\<close>

definition validate :: "u64 \<Rightarrow> u64 \<Rightarrow> u64 \<Rightarrow> client_ledger \<Rightarrow> string \<Rightarrow> unit res" where
  "validate shard realm num client expectedChecksum =
     (if client = None then Inl Uninitialized
      else rbind (getLedgerId client) (\<lambda>ledgerId.
        let calculatedChecksum =
          checksum (to_string (unat shard) @ ''.'' @ to_string (unat realm) @ ''.'' @
            to_string (unat num)) ledgerId
        in require (calculatedChecksum = expectedChecksum) BadEntityId))"

section \<open>Solidity addresses\<close>

definition isLongZeroAddress :: "bytes \<Rightarrow> bool res" where
  "isLongZeroAddress address =
     foldr (\<lambda>i r. rbind (vec_at address i) (\<lambda>b. if b \<noteq> 0 then Inr False else r)) [0..<12] (Inr True)"

definition decodeSolidityAddress :: "(string \<Rightarrow> bytes option) \<Rightarrow> string \<Rightarrow> string \<Rightarrow> bytes res" where
  "decodeSolidityAddress hexstr2buf address after =
     (let hasPrefix = take 2 address = ''0x'' in
      if (hasPrefix \<and> length address \<noteq> 42) \<or> (\<not> hasPrefix \<and> length address \<noteq> 40) then Inl InvalidArgument
      else rcatch (\<lambda>e. e = OpenSSLError)
        (hexToBytes hexstr2buf (if hasPrefix then drop 2 address else address) after)
        (Inl InvalidArgument))"

definition toSolidityBytes :: "u64 \<Rightarrow> u64 \<Rightarrow> u64 \<Rightarrow> bytes res" where
  "toSolidityBytes shard realm num =
     rbind (removePrefix (getBytes shard) (8 - 4)) (\<lambda>s.
       Inr (concatenateVectors [s, getBytes realm, getBytes num]))"

definition toSolidityAddress :: "(bytes \<Rightarrow> string) \<Rightarrow> u64 \<Rightarrow> u64 \<Rightarrow> u64 \<Rightarrow> string res" where
  "toSolidityAddress buf2hexstr shard realm num =
     (if 0xFFFFFFFF < shard then Inl InvalidArgument
      else rbind (toSolidityBytes shard realm num) (\<lambda>bs. Inr (buf2hexstr bs)))"

text \<open>
  The numbers are read at their place in memory, in the byte order of the (little-endian) host.
\<close>

definition fromSolidityAddress :: "bytes \<Rightarrow> (u64 \<times> u64 \<times> u64) res" where
  "fromSolidityAddress address =
     (if length address \<noteq> 20 then Inl InvalidArgument
      else Inr (ucast (toTypePtr (take 4 address) :: u32), toTypePtr (take 8 (drop 4 address)),
        toTypePtr (drop 12 address)))"

section \<open>The shared interface of the identifiers\<close>

record proto_entity_id =
  p_shardnum :: u64
  p_realmnum :: u64
  p_num :: u64

text \<open>
  \<open>validateChecksum\<close> and \<open>toStringWithChecksum\<close>, the same in the four classes, on the
  three numbers and the checksum member.
\<close>

definition id_validateChecksum :: "client_ledger \<Rightarrow> u64 \<Rightarrow> u64 \<Rightarrow> u64 \<Rightarrow> string \<Rightarrow> unit res" where
  "id_validateChecksum client shard realm num c =
     (if c \<noteq> [] then validate shard realm num client c else Inr ())"

definition id_fillChecksum :: "client_ledger \<Rightarrow> u64 \<Rightarrow> u64 \<Rightarrow> u64 \<Rightarrow> string \<Rightarrow> string res" where
  "id_fillChecksum client shard realm num c =
     (if c = [] then rbind (getLedgerId client) (\<lambda>l. Inr (checksum (entity_toString shard realm num []) l))
      else Inr c)"

section \<open>\<open>TokenId\<close>\<close>

record TokenId =
  tokenShardNum :: u64
  tokenRealmNum :: u64
  mTokenNum :: u64
  tokenChecksum :: string

definition TokenId_of :: "u64 \<Rightarrow> u64 \<Rightarrow> u64 \<Rightarrow> string \<Rightarrow> TokenId" where
  "TokenId_of shard realm num c =
     \<lparr>tokenShardNum = shard, tokenRealmNum = realm, mTokenNum = num, tokenChecksum = c\<rparr>"

definition TokenId_eq :: "TokenId \<Rightarrow> TokenId \<Rightarrow> bool" where
  "TokenId_eq x y \<longleftrightarrow>
     tokenShardNum x = tokenShardNum y \<and> tokenRealmNum x = tokenRealmNum y \<and> mTokenNum x = mTokenNum y"

definition TokenId_fromString :: "string \<Rightarrow> TokenId res" where
  "TokenId_fromString s =
     rbind (getShardNum s) (\<lambda>shard. rbind (getRealmNum s) (\<lambda>realm.
     rbind (getEntityNum s) (\<lambda>num. rbind (getChecksum s) (\<lambda>c.
       Inr (TokenId_of shard realm num c)))))"

definition TokenId_fromProtobuf :: "proto_entity_id \<Rightarrow> TokenId" where
  "TokenId_fromProtobuf p = TokenId_of (p_shardnum p) (p_realmnum p) (p_num p) []"

definition TokenId_fromBytes :: "(bytes \<Rightarrow> proto_entity_id) \<Rightarrow> bytes \<Rightarrow> TokenId" where
  "TokenId_fromBytes parse bs = TokenId_fromProtobuf (parse bs)"

definition TokenId_validateChecksum :: "client_ledger \<Rightarrow> TokenId \<Rightarrow> unit res" where
  "TokenId_validateChecksum client x =
     id_validateChecksum client (tokenShardNum x) (tokenRealmNum x) (mTokenNum x) (tokenChecksum x)"

definition TokenId_toProtobuf :: "TokenId \<Rightarrow> proto_entity_id" where
  "TokenId_toProtobuf x =
     \<lparr>p_shardnum = tokenShardNum x, p_realmnum = tokenRealmNum x, p_num = mTokenNum x\<rparr>"

definition TokenId_toString :: "TokenId \<Rightarrow> string" where
  "TokenId_toString x = entity_toString (tokenShardNum x) (tokenRealmNum x) (mTokenNum x) []"

definition TokenId_toStringWithChecksum :: "client_ledger \<Rightarrow> TokenId \<Rightarrow> (string \<times> TokenId) res" where
  "TokenId_toStringWithChecksum client x =
     rbind (id_fillChecksum client (tokenShardNum x) (tokenRealmNum x) (mTokenNum x) (tokenChecksum x))
       (\<lambda>c. Inr (entity_toString (tokenShardNum x) (tokenRealmNum x) (mTokenNum x) c, x\<lparr>tokenChecksum := c\<rparr>))"

definition TokenId_fromSolidityAddress ::
  "(string \<Rightarrow> bytes option) \<Rightarrow> string \<Rightarrow> string \<Rightarrow> TokenId res" where
  "TokenId_fromSolidityAddress hexstr2buf address after =
     rbind (decodeSolidityAddress hexstr2buf address after) (\<lambda>bs. rbind (fromSolidityAddress bs)
       (\<lambda>(shard, realm, num). Inr (TokenId_of shard realm num [])))"

section \<open>\<open>FileId\<close>\<close>

record FileId =
  fileShardNum :: u64
  fileRealmNum :: u64
  mFileNum :: u64
  fileChecksum :: string

definition FileId_of :: "u64 \<Rightarrow> u64 \<Rightarrow> u64 \<Rightarrow> string \<Rightarrow> FileId" where
  "FileId_of shard realm num c =
     \<lparr>fileShardNum = shard, fileRealmNum = realm, mFileNum = num, fileChecksum = c\<rparr>"

definition FileId_eq :: "FileId \<Rightarrow> FileId \<Rightarrow> bool" where
  "FileId_eq x y \<longleftrightarrow>
     fileShardNum x = fileShardNum y \<and> fileRealmNum x = fileRealmNum y \<and> mFileNum x = mFileNum y"

definition FileId_fromString :: "string \<Rightarrow> FileId res" where
  "FileId_fromString s =
     rbind (getShardNum s) (\<lambda>shard. rbind (getRealmNum s) (\<lambda>realm.
     rbind (getEntityNum s) (\<lambda>num. rbind (getChecksum s) (\<lambda>c.
       Inr (FileId_of shard realm num c)))))"

definition FileId_fromProtobuf :: "proto_entity_id \<Rightarrow> FileId" where
  "FileId_fromProtobuf p = FileId_of (p_shardnum p) (p_realmnum p) (p_num p) []"

definition FileId_fromBytes :: "(bytes \<Rightarrow> proto_entity_id) \<Rightarrow> bytes \<Rightarrow> FileId" where
  "FileId_fromBytes parse bs = FileId_fromProtobuf (parse bs)"

definition FileId_validateChecksum :: "client_ledger \<Rightarrow> FileId \<Rightarrow> unit res" where
  "FileId_validateChecksum client x =
     id_validateChecksum client (fileShardNum x) (fileRealmNum x) (mFileNum x) (fileChecksum x)"

definition FileId_toProtobuf :: "FileId \<Rightarrow> proto_entity_id" where
  "FileId_toProtobuf x =
     \<lparr>p_shardnum = fileShardNum x, p_realmnum = fileRealmNum x, p_num = mFileNum x\<rparr>"

definition FileId_toString :: "FileId \<Rightarrow> string" where
  "FileId_toString x = entity_toString (fileShardNum x) (fileRealmNum x) (mFileNum x) []"

definition FileId_toStringWithChecksum :: "client_ledger \<Rightarrow> FileId \<Rightarrow> (string \<times> FileId) res" where
  "FileId_toStringWithChecksum client x =
     rbind (id_fillChecksum client (fileShardNum x) (fileRealmNum x) (mFileNum x) (fileChecksum x))
       (\<lambda>c. Inr (entity_toString (fileShardNum x) (fileRealmNum x) (mFileNum x) c, x\<lparr>fileChecksum := c\<rparr>))"

definition FileId_fromSolidityAddress ::
  "(string \<Rightarrow> bytes option) \<Rightarrow> string \<Rightarrow> string \<Rightarrow> FileId res" where
  "FileId_fromSolidityAddress hexstr2buf address after =
     rbind (decodeSolidityAddress hexstr2buf address after) (\<lambda>bs. rbind (fromSolidityAddress bs)
       (\<lambda>(shard, realm, num). Inr (FileId_of shard realm num [])))"

definition FileId_toSolidityAddress :: "(bytes \<Rightarrow> string) \<Rightarrow> FileId \<Rightarrow> string res" where
  "FileId_toSolidityAddress buf2hexstr x =
     toSolidityAddress buf2hexstr (fileShardNum x) (fileRealmNum x) (mFileNum x)"

section \<open>\<open>TopicId\<close>\<close>

record TopicId =
  topicShardNum :: u64
  topicRealmNum :: u64
  mTopicNum :: u64
  topicChecksum :: string

definition TopicId_of :: "u64 \<Rightarrow> u64 \<Rightarrow> u64 \<Rightarrow> string \<Rightarrow> TopicId" where
  "TopicId_of shard realm num c =
     \<lparr>topicShardNum = shard, topicRealmNum = realm, mTopicNum = num, topicChecksum = c\<rparr>"

definition TopicId_eq :: "TopicId \<Rightarrow> TopicId \<Rightarrow> bool" where
  "TopicId_eq x y \<longleftrightarrow>
     topicShardNum x = topicShardNum y \<and> topicRealmNum x = topicRealmNum y \<and> mTopicNum x = mTopicNum y"

definition TopicId_fromString :: "string \<Rightarrow> TopicId res" where
  "TopicId_fromString s =
     rbind (getShardNum s) (\<lambda>shard. rbind (getRealmNum s) (\<lambda>realm.
     rbind (getEntityNum s) (\<lambda>num. rbind (getChecksum s) (\<lambda>c.
       Inr (TopicId_of shard realm num c)))))"

definition TopicId_fromProtobuf :: "proto_entity_id \<Rightarrow> TopicId" where
  "TopicId_fromProtobuf p = TopicId_of (p_shardnum p) (p_realmnum p) (p_num p) []"

definition TopicId_fromBytes :: "(bytes \<Rightarrow> proto_entity_id) \<Rightarrow> bytes \<Rightarrow> TopicId" where
  "TopicId_fromBytes parse bs = TopicId_fromProtobuf (parse bs)"

definition TopicId_validateChecksum :: "client_ledger \<Rightarrow> TopicId \<Rightarrow> unit res" where
  "TopicId_validateChecksum client x =
     id_validateChecksum client (topicShardNum x) (topicRealmNum x) (mTopicNum x) (topicChecksum x)"

definition TopicId_toProtobuf :: "TopicId \<Rightarrow> proto_entity_id" where
  "TopicId_toProtobuf x =
     \<lparr>p_shardnum = topicShardNum x, p_realmnum = topicRealmNum x, p_num = mTopicNum x\<rparr>"

definition TopicId_toString :: "TopicId \<Rightarrow> string" where
  "TopicId_toString x = entity_toString (topicShardNum x) (topicRealmNum x) (mTopicNum x) []"

definition TopicId_toStringWithChecksum :: "client_ledger \<Rightarrow> TopicId \<Rightarrow> (string \<times> TopicId) res" where
  "TopicId_toStringWithChecksum client x =
     rbind (id_fillChecksum client (topicShardNum x) (topicRealmNum x) (mTopicNum x) (topicChecksum x))
       (\<lambda>c. Inr (entity_toString (topicShardNum x) (topicRealmNum x) (mTopicNum x) c, x\<lparr>topicChecksum := c\<rparr>))"

definition TopicId_fromSolidityAddress ::
  "(string \<Rightarrow> bytes option) \<Rightarrow> string \<Rightarrow> string \<Rightarrow> TopicId res" where
  "TopicId_fromSolidityAddress hexstr2buf address after =
     rbind (decodeSolidityAddress hexstr2buf address after) (\<lambda>bs. rbind (fromSolidityAddress bs)
       (\<lambda>(shard, realm, num). Inr (TopicId_of shard realm num [])))"

definition TopicId_toSolidityAddress :: "(bytes \<Rightarrow> string) \<Rightarrow> TopicId \<Rightarrow> string res" where
  "TopicId_toSolidityAddress buf2hexstr x =
     toSolidityAddress buf2hexstr (topicShardNum x) (topicRealmNum x) (mTopicNum x)"

section \<open>\<open>ScheduleId\<close>\<close>

record ScheduleId =
  scheduleShardNum :: u64
  scheduleRealmNum :: u64
  mScheduleNum :: u64
  scheduleChecksum :: string

definition ScheduleId_of :: "u64 \<Rightarrow> u64 \<Rightarrow> u64 \<Rightarrow> string \<Rightarrow> ScheduleId" where
  "ScheduleId_of shard realm num c =
     \<lparr>scheduleShardNum = shard, scheduleRealmNum = realm, mScheduleNum = num, scheduleChecksum = c\<rparr>"

definition ScheduleId_eq :: "ScheduleId \<Rightarrow> ScheduleId \<Rightarrow> bool" where
  "ScheduleId_eq x y \<longleftrightarrow>
     scheduleShardNum x = scheduleShardNum y \<and> scheduleRealmNum x = scheduleRealmNum y \<and> mScheduleNum x = mScheduleNum y"

definition ScheduleId_fromString :: "string \<Rightarrow> ScheduleId res" where
  "ScheduleId_fromString s =
     rbind (getShardNum s) (\<lambda>shard. rbind (getRealmNum s) (\<lambda>realm.
     rbind (getEntityNum s) (\<lambda>num. rbind (getChecksum s) (\<lambda>c.
       Inr (ScheduleId_of shard realm num c)))))"

definition ScheduleId_fromProtobuf :: "proto_entity_id \<Rightarrow> ScheduleId" where
  "ScheduleId_fromProtobuf p = ScheduleId_of (p_shardnum p) (p_realmnum p) (p_num p) []"

definition ScheduleId_fromBytes :: "(bytes \<Rightarrow> proto_entity_id) \<Rightarrow> bytes \<Rightarrow> ScheduleId" where
  "ScheduleId_fromBytes parse bs = ScheduleId_fromProtobuf (parse bs)"

definition ScheduleId_validateChecksum :: "client_ledger \<Rightarrow> ScheduleId \<Rightarrow> unit res" where
  "ScheduleId_validateChecksum client x =
     id_validateChecksum client (scheduleShardNum x) (scheduleRealmNum x) (mScheduleNum x) (scheduleChecksum x)"

definition ScheduleId_toProtobuf :: "ScheduleId \<Rightarrow> proto_entity_id" where
  "ScheduleId_toProtobuf x =
     \<lparr>p_shardnum = scheduleShardNum x, p_realmnum = scheduleRealmNum x, p_num = mScheduleNum x\<rparr>"

definition ScheduleId_toString :: "ScheduleId \<Rightarrow> string" where
  "ScheduleId_toString x = entity_toString (scheduleShardNum x) (scheduleRealmNum x) (mScheduleNum x) []"

definition ScheduleId_toStringWithChecksum :: "client_ledger \<Rightarrow> ScheduleId \<Rightarrow> (string \<times> ScheduleId) res" where
  "ScheduleId_toStringWithChecksum client x =
     rbind (id_fillChecksum client (scheduleShardNum x) (scheduleRealmNum x) (mScheduleNum x) (scheduleChecksum x))
       (\<lambda>c. Inr (entity_toString (scheduleShardNum x) (scheduleRealmNum x) (mScheduleNum x) c, x\<lparr>scheduleChecksum := c\<rparr>))"

section \<open>What the interface gives\<close>

text \<open>
  A text that \<open>toString\<close> or \<open>toStringWithChecksum\<close> prints, and its parts.
\<close>

lemma length_to_string: "n < 10 ^ Suc k \<Longrightarrow> length (to_string n) \<le> Suc k"
proof (induction k arbitrary: n)
  case (Suc k)
  then have "n div 10 < 10 ^ Suc k" by (simp add: div_less_iff_less_mult)
  with Suc.IH [of "n div 10"] show ?case by (simp add: to_string.simps [of n])
qed (simp add: to_string.simps)

lemma length_to_string_u64: "length (to_string (unat (w :: u64))) \<le> 20"
  using length_to_string [of "unat w" 19] unat_u64_less [of w] by simp

definition plain_checksum :: "string \<Rightarrow> bool" where
  "plain_checksum c \<longleftrightarrow> CHR ''.'' \<notin> set c \<and> CHR ''-'' \<notin> set c"

lemma plain_checksum_Nil [simp]: "plain_checksum []"
  by (simp add: plain_checksum_def)

lemma plain_checksum_checksum [simp]: "plain_checksum (checksum s l)"
  using checksum_range [of _ s l] by (fastforce simp: plain_checksum_def)

lemma checksum_nonempty [simp]: "checksum s l \<noteq> []"
  using checksum_length [of s l] by auto

lemma entity_toString_cons:
  "entity_toString s r n c =
     (to_string (unat s) @ CHR ''.'' # to_string (unat r)) @ CHR ''.'' # to_string (unat n) @
       (if c = [] then [] else CHR ''-'' # c)"
  by (simp add: entity_toString_def)

lemma entity_toString_parts:
  assumes "plain_checksum c"
  shows "getShardNum (entity_toString s r n c) = Inr s" "getRealmNum (entity_toString s r n c) = Inr r"
    "getEntityNum (entity_toString s r n c) = Inr n" "getChecksum (entity_toString s r n c) = Inr c"
proof -
  let ?t = "to_string (unat n) @ (if c = [] then [] else CHR ''-'' # c)"
  have t: "CHR ''.'' \<notin> set ?t"
    using assms by (simp add: plain_checksum_def)
  show "getShardNum (entity_toString s r n c) = Inr s"
    unfolding entity_toString_cons by (simp add: getShardNum_entity)
  show "getRealmNum (entity_toString s r n c) = Inr r"
    unfolding entity_toString_cons using getRealmNum_entity [OF t, of s r] by simp
  have "length (to_string (unat n)) < 2 ^ 64"
    using length_to_string_u64 [of n] by simp
  then have "getEntityNumStr (entity_toString s r n c) = Inr (to_string (unat n))"
    unfolding entity_toString_cons using assms
    by (cases "c = []") (simp_all add: plain_checksum_def
        getEntityNumStr_plain getEntityNumStr_checksum del: append_assoc append_Cons)
  then show "getEntityNum (entity_toString s r n c) = Inr n"
    by (simp add: getEntityNum_def)
  show "getChecksum (entity_toString s r n c) = Inr c"
  proof (cases "c = []")
    case True
    then show ?thesis unfolding entity_toString_cons by (simp add: getChecksum_plain)
  next
    case False
    have "entity_toString s r n c = entity_toString s r n [] @ CHR ''-'' # c"
      using False by (simp add: entity_toString_def)
    then show ?thesis using assms by (simp add: getChecksum_checksum plain_checksum_def)
  qed
qed

lemma entity_toString_address:
  "list_all address_char (entity_toString s r n [])" "length (entity_toString s r n []) < 2 ^ 28"
proof -
  show "list_all address_char (entity_toString s r n [])"
    using to_string_digits by (auto simp: entity_toString_def address_char_def list_all_iff)
  show "length (entity_toString s r n []) < 2 ^ 28"
    using length_to_string_u64 [of s] length_to_string_u64 [of r] length_to_string_u64 [of n]
    by (simp add: entity_toString_def)
qed

lemma validate_Some:
  "validate s r n (Some l) c = require (checksum (entity_toString s r n []) l = c) BadEntityId"
  by (simp add: validate_def getLedgerId_def entity_toString_def)

locale entity_id =
  fixes mk :: "u64 \<Rightarrow> u64 \<Rightarrow> u64 \<Rightarrow> string \<Rightarrow> 'i"
    and shardOf realmOf numOf :: "'i \<Rightarrow> u64"
    and checksumOf :: "'i \<Rightarrow> string"
    and fromString :: "string \<Rightarrow> 'i res"
    and toString :: "'i \<Rightarrow> string"
    and toStringWithChecksum :: "client_ledger \<Rightarrow> 'i \<Rightarrow> (string \<times> 'i) res"
    and validateChecksum :: "client_ledger \<Rightarrow> 'i \<Rightarrow> unit res"
  assumes sel: "shardOf (mk s r n c) = s" "realmOf (mk s r n c) = r" "numOf (mk s r n c) = n"
      "checksumOf (mk s r n c) = c"
    and mk_sel: "mk (shardOf x) (realmOf x) (numOf x) (checksumOf x) = x"
    and fromString: "fromString t =
      rbind (getShardNum t) (\<lambda>s. rbind (getRealmNum t) (\<lambda>r. rbind (getEntityNum t) (\<lambda>n.
        rbind (getChecksum t) (\<lambda>c. Inr (mk s r n c)))))"
    and toString: "toString x = entity_toString (shardOf x) (realmOf x) (numOf x) []"
    and toStringWithChecksum: "toStringWithChecksum client x =
      rbind (id_fillChecksum client (shardOf x) (realmOf x) (numOf x) (checksumOf x))
        (\<lambda>c. Inr (entity_toString (shardOf x) (realmOf x) (numOf x) c,
          mk (shardOf x) (realmOf x) (numOf x) c))"
    and validateChecksum: "validateChecksum client x =
      id_validateChecksum client (shardOf x) (realmOf x) (numOf x) (checksumOf x)"
begin

lemma fromString_text: "plain_checksum c \<Longrightarrow> fromString (entity_toString s r n c) = Inr (mk s r n c)"
  by (simp add: fromString entity_toString_parts)

text \<open>A printed identifier is read back, its checksum dropped.\<close>

lemma fromString_toString: "fromString (toString x) = Inr (mk (shardOf x) (realmOf x) (numOf x) [])"
  by (simp add: toString fromString_text)

text \<open>What is printed with a checksum is read back whole, and validates on the same ledger.\<close>

lemma withChecksum_roundtrip:
  assumes "checksumOf x = []" and "toStringWithChecksum (Some l) x = Inr (t, y)"
  shows "fromString t = Inr y" and "validateChecksum (Some l) y = Inr ()"
    and "checksumOf y = checksum (toString x) l"
    and "shardOf y = shardOf x" "realmOf y = realmOf x" "numOf y = numOf x"
  using assms
  by (auto simp: toStringWithChecksum id_fillChecksum_def getLedgerId_def fromString_text sel toString
      validateChecksum id_validateChecksum_def validate_Some)

text \<open>A validated identifier has no checksum or the right one.\<close>

lemma validateChecksum_iff:
  "validateChecksum (Some l) x = Inr () \<longleftrightarrow>
     checksumOf x = [] \<or> checksumOf x = checksum (toString x) l"
  by (auto simp: validateChecksum id_validateChecksum_def validate_Some toString require_def)

text \<open>One mistyped character of the identifier makes the validation fail.\<close>

lemma mistyped_rejected:
  assumes "toString x = pre @ a # post" and "toString y = pre @ b # post" and "a \<noteq> b"
    and "checksumOf y = checksum (toString x) l"
  shows "validateChecksum (Some l) y = Inl BadEntityId"
proof -
  have "checksum (toString x) l \<noteq> checksum (toString y) l"
    using checksum_position [of pre a post l b post] assms(1-3)
      entity_toString_address [of "shardOf x" "realmOf x" "numOf x"]
      entity_toString_address [of "shardOf y" "realmOf y" "numOf y"]
    by (auto simp: toString)
  with assms(4) show ?thesis
    by (simp add: validateChecksum id_validateChecksum_def validate_Some require_def toString)
qed

end

lemma TokenId_setChecksum:
  "x\<lparr>tokenChecksum := c\<rparr> = TokenId_of (tokenShardNum x) (tokenRealmNum x) (mTokenNum x) c"
  by (cases x) (simp add: TokenId_of_def)

interpretation token_id: entity_id TokenId_of tokenShardNum tokenRealmNum mTokenNum tokenChecksum
  TokenId_fromString TokenId_toString TokenId_toStringWithChecksum TokenId_validateChecksum
  by unfold_locales (simp_all add: TokenId_setChecksum TokenId_fromString_def TokenId_toString_def
      TokenId_toStringWithChecksum_def TokenId_validateChecksum_def, simp_all add: TokenId_of_def)

interpretation token_proto: codec TokenId_toProtobuf "\<lambda>p. Inr (TokenId_fromProtobuf p)" "\<lambda>x. tokenChecksum x = []"
  by unfold_locales (simp add: TokenId_toProtobuf_def TokenId_fromProtobuf_def TokenId_of_def)

lemma FileId_setChecksum:
  "x\<lparr>fileChecksum := c\<rparr> = FileId_of (fileShardNum x) (fileRealmNum x) (mFileNum x) c"
  by (cases x) (simp add: FileId_of_def)

interpretation file_id: entity_id FileId_of fileShardNum fileRealmNum mFileNum fileChecksum
  FileId_fromString FileId_toString FileId_toStringWithChecksum FileId_validateChecksum
  by unfold_locales (simp_all add: FileId_setChecksum FileId_fromString_def FileId_toString_def
      FileId_toStringWithChecksum_def FileId_validateChecksum_def, simp_all add: FileId_of_def)

interpretation file_proto: codec FileId_toProtobuf "\<lambda>p. Inr (FileId_fromProtobuf p)" "\<lambda>x. fileChecksum x = []"
  by unfold_locales (simp add: FileId_toProtobuf_def FileId_fromProtobuf_def FileId_of_def)

lemma TopicId_setChecksum:
  "x\<lparr>topicChecksum := c\<rparr> = TopicId_of (topicShardNum x) (topicRealmNum x) (mTopicNum x) c"
  by (cases x) (simp add: TopicId_of_def)

interpretation topic_id: entity_id TopicId_of topicShardNum topicRealmNum mTopicNum topicChecksum
  TopicId_fromString TopicId_toString TopicId_toStringWithChecksum TopicId_validateChecksum
  by unfold_locales (simp_all add: TopicId_setChecksum TopicId_fromString_def TopicId_toString_def
      TopicId_toStringWithChecksum_def TopicId_validateChecksum_def, simp_all add: TopicId_of_def)

interpretation topic_proto: codec TopicId_toProtobuf "\<lambda>p. Inr (TopicId_fromProtobuf p)" "\<lambda>x. topicChecksum x = []"
  by unfold_locales (simp add: TopicId_toProtobuf_def TopicId_fromProtobuf_def TopicId_of_def)

lemma ScheduleId_setChecksum:
  "x\<lparr>scheduleChecksum := c\<rparr> = ScheduleId_of (scheduleShardNum x) (scheduleRealmNum x) (mScheduleNum x) c"
  by (cases x) (simp add: ScheduleId_of_def)

interpretation schedule_id: entity_id ScheduleId_of scheduleShardNum scheduleRealmNum mScheduleNum scheduleChecksum
  ScheduleId_fromString ScheduleId_toString ScheduleId_toStringWithChecksum ScheduleId_validateChecksum
  by unfold_locales (simp_all add: ScheduleId_setChecksum ScheduleId_fromString_def ScheduleId_toString_def
      ScheduleId_toStringWithChecksum_def ScheduleId_validateChecksum_def, simp_all add: ScheduleId_of_def)

interpretation schedule_proto: codec ScheduleId_toProtobuf "\<lambda>p. Inr (ScheduleId_fromProtobuf p)" "\<lambda>x. scheduleChecksum x = []"
  by unfold_locales (simp add: ScheduleId_toProtobuf_def ScheduleId_fromProtobuf_def ScheduleId_of_def)

section \<open>\<open>NftId\<close>\<close>

record NftId =
  mTokenId :: TokenId
  mSerialNum :: u64

definition NftId_eq :: "NftId \<Rightarrow> NftId \<Rightarrow> bool" where
  "NftId_eq x y \<longleftrightarrow> TokenId_eq (mTokenId x) (mTokenId y) \<and> mSerialNum x = mSerialNum y"

definition NftId_fromString :: "string \<Rightarrow> NftId res" where
  "NftId_fromString s =
     (case find_first_of CHR ''/'' s of None \<Rightarrow> Inl InvalidArgument
      | Some slashIndex \<Rightarrow>
          rbind (substr s 0 slashIndex) (\<lambda>t. rbind (TokenId_fromString t) (\<lambda>tokenId.
          rbind (substr s (slashIndex + 1) (length s - slashIndex - 1)) (\<lambda>serialNumberStr.
            case from_chars_all (2 ^ 64 - 1) serialNumberStr of None \<Rightarrow> Inl InvalidArgument
            | Some n \<Rightarrow> Inr \<lparr>mTokenId = tokenId, mSerialNum = of_nat n\<rparr>))))"

record proto_NftID =
  p_token_id :: proto_entity_id
  p_serial_number :: u64

definition NftId_fromProtobuf :: "proto_NftID \<Rightarrow> NftId" where
  "NftId_fromProtobuf p =
     \<lparr>mTokenId = TokenId_fromProtobuf (p_token_id p), mSerialNum = p_serial_number p\<rparr>"

definition NftId_toProtobuf :: "NftId \<Rightarrow> proto_NftID" where
  "NftId_toProtobuf x =
     \<lparr>p_token_id = TokenId_toProtobuf (mTokenId x), p_serial_number = mSerialNum x\<rparr>"

definition NftId_toString :: "NftId \<Rightarrow> string" where
  "NftId_toString x = TokenId_toString (mTokenId x) @ ''/'' @ to_string (unat (mSerialNum x))"

definition TokenId_nft :: "TokenId \<Rightarrow> u64 \<Rightarrow> NftId" where
  "TokenId_nft x serial = \<lparr>mTokenId = x, mSerialNum = serial\<rparr>"

lemma NftId_fromString_toString:
  assumes "tokenChecksum (mTokenId x) = []"
  shows "NftId_fromString (NftId_toString x) = Inr x"
proof -
  have "CHR ''/'' \<notin> set (TokenId_toString (mTokenId x))"
    by (simp add: TokenId_toString_def entity_toString_def)
  then have "NftId_fromString (NftId_toString x) =
      rbind (TokenId_fromString (TokenId_toString (mTokenId x))) (\<lambda>t. Inr \<lparr>mTokenId = t, mSerialNum = mSerialNum x\<rparr>)"
    by (simp add: NftId_fromString_def NftId_toString_def substr_def)
  then show ?thesis
    using assms by (simp add: token_id.fromString_toString token_id.mk_sel [of "mTokenId x", unfolded assms])
qed

interpretation nft_id: codec NftId_toString NftId_fromString "\<lambda>x. tokenChecksum (mTokenId x) = []"
  by unfold_locales (rule NftId_fromString_toString)

interpretation nft_proto: codec NftId_toProtobuf "\<lambda>p. Inr (NftId_fromProtobuf p)"
  "\<lambda>x. tokenChecksum (mTokenId x) = []"
proof
  fix x :: NftId
  assume "tokenChecksum (mTokenId x) = []"
  then show "Inr (NftId_fromProtobuf (NftId_toProtobuf x)) = Inr x"
    using token_proto.dec_enc [of "mTokenId x"] by (simp add: NftId_fromProtobuf_def NftId_toProtobuf_def)
qed

section \<open>Properties\<close>

text \<open>
  C29. A token identifier printed with its checksum is read back whole, checksum included, and
  validates against the ledger it was printed for.
\<close>

theorem token_checksum_roundtrip:
  assumes "tokenChecksum x = []" and "TokenId_toStringWithChecksum (Some l) x = Inr (t, y)"
  shows "TokenId_fromString t = Inr y \<and> TokenId_validateChecksum (Some l) y = Inr () \<and>
    TokenId_eq y x \<and> tokenChecksum y = checksum (TokenId_toString x) l"
  using token_id.withChecksum_roundtrip [OF assms] by (simp add: TokenId_eq_def)

theorem token_checksum_roundtrip_witness:
  "\<exists>t y. TokenId_toStringWithChecksum (Some MAINNET) (TokenId_of 0 0 123 []) = Inr (t, y) \<and>
     TokenId_fromString t = Inr y"
proof -
  obtain t y where *: "TokenId_toStringWithChecksum (Some MAINNET) (TokenId_of 0 0 123 []) = Inr (t, y)"
    by (simp add: TokenId_toStringWithChecksum_def id_fillChecksum_def TokenId_of_def getLedgerId_def)
  then show ?thesis
    using token_checksum_roundtrip [OF _ *] by (auto simp: TokenId_of_def)
qed

text \<open>
  C12. An identifier with one mistyped character is rejected: if \<open>y\<close> carries the checksum of
  \<open>x\<close> but is printed differently from \<open>x\<close> in exactly one position, validation throws
  \<open>BadEntityIdException\<close>.
\<close>

theorem mistyped_token_rejected:
  assumes "TokenId_toString x = pre @ a # post" and "TokenId_toString y = pre @ b # post" and "a \<noteq> b"
    and "tokenChecksum y = checksum (TokenId_toString x) l"
  shows "TokenId_validateChecksum (Some l) y = Inl BadEntityId"
  using assms by (rule token_id.mistyped_rejected)

theorem mistyped_token_rejected_witness:
  "TokenId_validateChecksum (Some MAINNET)
     (TokenId_of 0 0 5 (checksum (TokenId_toString (TokenId_of 0 0 3 [])) MAINNET)) = Inl BadEntityId"
  by (rule mistyped_token_rejected [of "TokenId_of 0 0 3 []" "''0.0.''" "CHR ''3''" "[]" _ "CHR ''5''"])
    (simp_all add: TokenId_toString_def TokenId_of_def entity_toString_def
      to_string.simps [of 0] to_string.simps [of 3] to_string.simps [of 5] digit_char_def char_of_def bit_iff_odd)

lemma toTypePtr_getBytes: "toTypePtr (getBytes w) = swapEndianness w"
proof -
  have "map (\<lambda>i. mem_bytes w ! (sizeof w - i - 1)) [0..<sizeof w] = rev (mem_bytes w)"
    by (rule nth_equalityI) (simp_all add: rev_nth)
  then show ?thesis
    by (simp add: swapEndianness_def getBytes_eq Let_def)
qed

lemma le_bytes_add: "le_bytes (j + k) n = le_bytes j n @ le_bytes k (n div 256 ^ j)"
  by (induction j arbitrary: n) (simp_all add: div_mult2_eq)

lemma solidity_shard_bytes:
  fixes shard :: u64
  assumes "shard \<le> 0xFFFFFFFF"
  shows "drop 4 (getBytes shard) = getBytes (ucast shard :: u32)"
proof -
  have "unat shard < 2 ^ 32"
    using assms by (simp add: word_le_nat_alt)
  then have "unat (ucast shard :: u32) = unat shard"
    by (rule unat_ucast_u32)
  moreover have "take 4 (le_bytes 8 n) = le_bytes 4 n" for n
    using le_bytes_add [of 4 4 n] by simp
  ultimately have "take 4 (mem_bytes shard) = mem_bytes (ucast shard :: u32)"
    by (simp add: mem_bytes_def sizeof_def)
  then show ?thesis
    by (simp add: getBytes_eq drop_rev sizeof_def)
qed

lemma toSolidityBytes_eq:
  "shard \<le> 0xFFFFFFFF \<Longrightarrow> toSolidityBytes shard realm num =
     Inr (getBytes (ucast shard :: u32) @ getBytes realm @ getBytes num)"
  by (simp add: toSolidityBytes_def removePrefix_def solidity_shard_bytes concatenateVectors_eq)

text \<open>
  C13. \<open>fromSolidityAddress\<close> does not undo \<open>toSolidityAddress\<close>: the address holds the three
  numbers big-endian, but they are read in the byte order of the host, so that each comes back
  with its bytes reversed.
\<close>

theorem solidity_numbers_swapped:
  assumes "shard \<le> 0xFFFFFFFF"
  shows "rbind (toSolidityBytes shard realm num) fromSolidityAddress
    = Inr (ucast (swapEndianness (ucast shard :: u32)), swapEndianness realm, swapEndianness num)"
  using assms by (simp add: toSolidityBytes_eq fromSolidityAddress_def toTypePtr_getBytes)

lemma le_bytes_numeral: "le_bytes (numeral k) n = of_nat n # le_bytes (pred_numeral k) (n div 256)"
  by (simp only: numeral_eq_Suc [of k] le_bytes.simps)

theorem solidity_numbers_swapped_witness:
  "rbind (toSolidityBytes 0 0 1) fromSolidityAddress
    = Inr (ucast (swapEndianness (ucast (0 :: u64) :: u32)), swapEndianness 0, swapEndianness 1) \<and>
   swapEndianness (1 :: u64) = 0x0100000000000000"
proof
  show "rbind (toSolidityBytes 0 0 1) fromSolidityAddress
      = Inr (ucast (swapEndianness (ucast (0 :: u64) :: u32)), swapEndianness 0, swapEndianness 1)"
    using solidity_numbers_swapped [of 0 0 1] by simp
  show "swapEndianness (1 :: u64) = 0x0100000000000000"
    unfolding toTypePtr_getBytes [symmetric] getBytes_eq mem_bytes_def toTypePtr_def
    by (simp add: le_bytes_numeral)
qed

end
