(* ===== verification/PublicKeys.thy ===== *)
theory PublicKeys
  imports EntityIds
begin

text \<open>
  Public keys: the ASN.1 reader of \<open>ASN1ECKey.cc\<close>, \<open>ASN1ED25519PublicKey.cc\<close> and
  \<open>ASN1ECPublicKey.cc\<close>, and \<open>PublicKey.cc\<close>, \<open>ED25519PublicKey.cc\<close>,
  \<open>ECDSAsecp256k1PublicKey.cc\<close> and \<open>EvmAddress.cc\<close>.

  OpenSSL is a record of functions that every definition takes as a parameter. An OpenSSL key object
  is represented by the bytes that \<open>i2d_PUBKEY\<close> (or \<open>i2d_PrivateKey\<close>) writes for it, the
  only way in which the SDK looks at it. A function that can fail gives \<open>None\<close>.
\<close>

section \<open>OpenSSL\<close>

record openssl =
  hexstr2buf :: "string \<Rightarrow> bytes option"
  buf2hexstr :: "bytes \<Rightarrow> string"
  base64_decode :: "string \<Rightarrow> bytes"
  d2i_PUBKEY :: "bytes \<Rightarrow> bytes option"
  decode_EC_PUBKEY :: "bytes \<Rightarrow> bytes option"
  d2i_PrivateKey_ED25519 :: "bytes \<Rightarrow> bytes option"
  d2i_PrivateKey_EC :: "bytes \<Rightarrow> bytes option"
  i2d_PUBKEY_of_private :: "bytes \<Rightarrow> bytes"
  digest_verify :: "bytes \<Rightarrow> bytes \<Rightarrow> bytes \<Rightarrow> bool option"
  digest_sign :: "bytes \<Rightarrow> bytes \<Rightarrow> bytes option"
  i2d_ECDSA_SIG :: "nat \<Rightarrow> nat \<Rightarrow> bytes"
  d2i_ECDSA_SIG :: "bytes \<Rightarrow> (nat \<times> nat) option"
  point_compress :: "bytes \<Rightarrow> bytes option"
  point_uncompress :: "bytes \<Rightarrow> bytes option"
  keccak256 :: "bytes \<Rightarrow> bytes"
  hmac_sha512 :: "bytes \<Rightarrow> bytes \<Rightarrow> bytes"

definition ossl :: "'a option \<Rightarrow> 'a res" where
  "ossl r = (case r of None \<Rightarrow> Inl OpenSSLError | Some x \<Rightarrow> Inr x)"

lemma ossl_simps [simp]: "ossl None = Inl OpenSSLError" "ossl (Some x) = Inr x"
  by (simp_all add: ossl_def)

lemma ossl_eq [res_simps]:
  "ossl r = Inr x \<longleftrightarrow> r = Some x" "ossl r = Inl e \<longleftrightarrow> r = None \<and> e = OpenSSLError"
  by (auto simp: ossl_def split: option.splits)

text \<open>\<open>base64ToHex\<close>: the decoded bytes, printed with \<open>%02X\<close>.\<close>

definition hex_digit :: "nat \<Rightarrow> char" where
  "hex_digit d = (if d < 10 then char_of (48 + d) else char_of (55 + d))"

definition hex_of :: "bytes \<Rightarrow> string" where
  "hex_of bs = concat (map (\<lambda>b. [hex_digit (unat b div 16), hex_digit (unat b mod 16)]) bs)"

definition base64ToHex :: "openssl \<Rightarrow> string \<Rightarrow> string" where
  "base64ToHex ssl base64 = hex_of (base64_decode ssl base64)"

text \<open>\<open>catch (const OpenSSLException&) { throw BadKeyException }\<close>\<close>

definition ossl_to_badkey :: "'a res \<Rightarrow> 'a res" where
  "ossl_to_badkey r = rcatch (\<lambda>e. e = OpenSSLError) r (Inl BadKey)"

section \<open>The ASN.1 reader\<close>

definition INTEGER :: byte where "INTEGER = 0x02"
definition BIT_STRING :: byte where "BIT_STRING = 0x03"
definition OCTET_STRING :: byte where "OCTET_STRING = 0x04"
definition SEQUENCE :: byte where "SEQUENCE = 0x30"

definition EC_KEY_LENGTH :: nat where "EC_KEY_LENGTH = 32"
definition MAX_ENCRYPTED_KEY_LENGHT :: nat where "MAX_ENCRYPTED_KEY_LENGHT = 160"

type_synonym asn1_data = "byte \<rightharpoonup> bytes"

text \<open>
  \<open>decode\<close>: tag, length, data, flat over sequences; the first value of a tag is kept. The bound
  \<open>bytes.size() - 1\<close> wraps for an empty vector, and the read that follows is undefined.
\<close>

function asn1_decode :: "bytes \<Rightarrow> nat \<Rightarrow> asn1_data \<Rightarrow> asn1_data res" where
  "asn1_decode bs i m =
     (if bs = [] then Inl UndefinedBehavior
      else if i < length bs - 1 then
        (let tag = bs ! i; size = unat (bs ! Suc i) in
         if i + 2 + size > length bs then Inl BadKey
         else if tag \<noteq> SEQUENCE then
           asn1_decode bs (i + 2 + size)
             (if m tag = None then m(tag \<mapsto> take size (drop (i + 2) bs)) else m)
         else asn1_decode bs (i + 2) m)
      else Inr m)"
  by pat_completeness auto
termination asn1_decode
  by (relation "measure (\<lambda>(bs, i, m). length bs - i)") auto

declare asn1_decode.simps [simp del]

definition asn1_get :: "asn1_data \<Rightarrow> byte \<Rightarrow> bytes res" where
  "asn1_get m tag = (case m tag of None \<Rightarrow> Inl BadKey | Some bs \<Rightarrow> Inr bs)"

text \<open>The constructors of the key classes: a length guard, then \<open>decode\<close>.\<close>

definition asn1_key :: "bytes \<Rightarrow> asn1_data res" where
  "asn1_key bs = (if MAX_ENCRYPTED_KEY_LENGHT \<le> length bs then Inl BadKey else asn1_decode bs 0 Map.empty)"

definition last_bytes :: "nat \<Rightarrow> bytes \<Rightarrow> bytes" where
  "last_bytes n bs = drop (length bs - n) bs"

definition ASN1ED25519PublicKey_getKey :: "asn1_data \<Rightarrow> bytes res" where
  "ASN1ED25519PublicKey_getKey m =
     rbind (asn1_get m BIT_STRING) (\<lambda>publicKey.
       if length publicKey < EC_KEY_LENGTH then Inl BadKey
       else if EC_KEY_LENGTH < length publicKey then Inr (last_bytes EC_KEY_LENGTH publicKey)
       else Inr publicKey)"

text \<open>
  \<open>populateXYcoords\<close> gives \<open>ecXcoord\<close>, empty when neither form is recognised. Subscripts and
  iterator ranges outside the vector are undefined.
\<close>

definition populateXYcoords :: "asn1_data \<Rightarrow> bytes res" where
  "populateXYcoords m =
     rbind (asn1_get m BIT_STRING) (\<lambda>publicKey.
       if publicKey = [] \<or> (publicKey ! 0 = 0 \<and> length publicKey < 2) then Inl UndefinedBehavior
       else if publicKey ! 0 = 0 \<and> publicKey ! 1 = 4 then
         (if length publicKey < EC_KEY_LENGTH + 2 then Inl UndefinedBehavior
          else
            let ecYcoord = last_bytes EC_KEY_LENGTH publicKey in
            Inr (concatenateVectors
              [[0], [if even (be_val ecYcoord) then 2 else 3],
               take (length publicKey - EC_KEY_LENGTH - 2) (drop 2 publicKey)]))
       else if publicKey ! 0 = 0 \<and> (publicKey ! 1 = 2 \<or> publicKey ! 1 = 3) then
         (if length publicKey < EC_KEY_LENGTH + 2 then Inl UndefinedBehavior
          else Inr (take (EC_KEY_LENGTH + 2) publicKey))
       else Inr [])"

definition ASN1ECPublicKey :: "bytes \<Rightarrow> bytes res" where
  "ASN1ECPublicKey bs = rbind (asn1_key bs) populateXYcoords"

definition ASN1ECPublicKey_getKey :: "bytes \<Rightarrow> bytes res" where
  "ASN1ECPublicKey_getKey ecXcoord = (if ecXcoord = [] then Inl BadKey else Inr ecXcoord)"

definition ASN1_EDPBK_PREFIX_BYTES :: bytes where
  "ASN1_EDPBK_PREFIX_BYTES = [0x30, 0x2A, 0x30, 0x05, 0x06, 0x03, 0x2B, 0x65, 0x70, 0x03, 0x21, 0x00]"

definition ASN1_CPUBK_PREFIX_BYTES :: bytes where
  "ASN1_CPUBK_PREFIX_BYTES = [0x30, 0x36, 0x30, 0x10, 0x06, 0x07, 0x2A, 0x86, 0x48, 0xCE, 0x3D, 0x02, 0x01,
     0x06, 0x05, 0x2B, 0x81, 0x04, 0x00, 0x0A, 0x03, 0x22]"

definition ASN1_UPUBK_PREFIX_BYTES :: bytes where
  "ASN1_UPUBK_PREFIX_BYTES = [0x30, 0x56, 0x30, 0x10, 0x06, 0x07, 0x2A, 0x86, 0x48, 0xCE, 0x3D, 0x02, 0x01,
     0x06, 0x05, 0x2B, 0x81, 0x04, 0x00, 0x0A, 0x03, 0x42]"

section \<open>Public keys\<close>

datatype PublicKey =
    ED25519PublicKey (internalKey: bytes)
  | ECDSAsecp256k1PublicKey (internalKey: bytes)

definition ED25519_PUB_PREFIX_HEX :: string where
  "ED25519_PUB_PREFIX_HEX = ''302A300506032B6570032100''"

definition ED25519_PUB_PREFIX_BYTES :: bytes where
  "ED25519_PUB_PREFIX_BYTES = [0x30, 0x2A, 0x30, 0x05, 0x06, 0x03, 0x2B, 0x65, 0x70, 0x03, 0x21, 0x00]"

definition ECDSA_PUB_COMPRESSED_PREFIX_HEX :: string where
  "ECDSA_PUB_COMPRESSED_PREFIX_HEX = ''302D300706052B8104000A032200''"

definition ECDSA_PUB_COMPRESSED_PREFIX_BYTES :: bytes where
  "ECDSA_PUB_COMPRESSED_PREFIX_BYTES =
     [0x30, 0x2D, 0x30, 0x07, 0x06, 0x05, 0x2B, 0x81, 0x04, 0x00, 0x0A, 0x03, 0x22, 0x00]"

definition ECDSA_PUB_UNCOMPRESSED_PREFIX_BYTES :: bytes where
  "ECDSA_PUB_UNCOMPRESSED_PREFIX_BYTES =
     [0x30, 0x56, 0x30, 0x10, 0x06, 0x07, 0x2A, 0x86, 0x48, 0xCE, 0x3D, 0x02, 0x01, 0x06, 0x05, 0x2B,
      0x81, 0x04, 0x00, 0x0A, 0x03, 0x42, 0x00]"

definition ED25519_pub_bytesToPKEY :: "openssl \<Rightarrow> bytes \<Rightarrow> bytes res" where
  "ED25519_pub_bytesToPKEY ssl bs =
     rbind
       (if length bs = 32 then Inr (concatenateVectors [ASN1_EDPBK_PREFIX_BYTES, bs])
        else rbind (asn1_key bs) (\<lambda>m. rbind (ASN1ED25519PublicKey_getKey m)
               (\<lambda>key. Inr (concatenateVectors [ASN1_EDPBK_PREFIX_BYTES, key]))))
       (\<lambda>bs. ossl (d2i_PUBKEY ssl bs))"

definition ECDSA_pub_bytesToPKEY :: "openssl \<Rightarrow> bytes \<Rightarrow> bytes res" where
  "ECDSA_pub_bytesToPKEY ssl bs =
     rbind
       (if length bs = EC_KEY_LENGTH + 1 then Inr (concatenateVectors [ASN1_CPUBK_PREFIX_BYTES, [0], bs])
        else
          let bs = (if length bs = EC_KEY_LENGTH * 2 + 1
                    then concatenateVectors [ASN1_UPUBK_PREFIX_BYTES, [0], bs] else bs)
          in rbind (ASN1ECPublicKey bs) (\<lambda>x. rbind (ASN1ECPublicKey_getKey x)
               (\<lambda>key. Inr (concatenateVectors [ASN1_CPUBK_PREFIX_BYTES, key]))))
       (\<lambda>bs. ossl (decode_EC_PUBKEY ssl bs))"

text \<open>
  The preparation of a PEM string in the \<open>fromString\<close> functions. \<open>compare\<close> at a position
  that underflows throws \<open>std::out_of_range\<close>.
\<close>

definition strip_PEM :: "openssl \<Rightarrow> string \<Rightarrow> string \<Rightarrow> string \<Rightarrow> string res" where
  "strip_PEM ssl pemPrefix pemSuffix s =
     (if take (length pemPrefix) s = pemPrefix then
        (let s = drop (length pemPrefix) s in
         if length s < length pemSuffix then Inl OutOfRange
         else
           let s = (if drop (length s - length pemSuffix) s = pemSuffix
                    then take (length s - length pemSuffix) s else s)
           in Inr (base64ToHex ssl s))
      else Inr s)"

definition ED25519PublicKey_fromString :: "openssl \<Rightarrow> string \<Rightarrow> string \<Rightarrow> PublicKey res" where
  "ED25519PublicKey_fromString ssl key after =
     rbind (strip_PEM ssl ''-----BEGIN PUBLIC KEY-----'' ''-----END PUBLIC KEY-----'' (c_str key after))
       (\<lambda>formattedKey.
         ossl_to_badkey (rbind (hexToBytes (hexstr2buf ssl) formattedKey [])
           (\<lambda>bs. rbind (ED25519_pub_bytesToPKEY ssl bs) (\<lambda>k. Inr (ED25519PublicKey k)))))"

definition ED25519PublicKey_fromBytes :: "openssl \<Rightarrow> bytes \<Rightarrow> PublicKey res" where
  "ED25519PublicKey_fromBytes ssl bs =
     ossl_to_badkey (rbind (ED25519_pub_bytesToPKEY ssl bs) (\<lambda>k. Inr (ED25519PublicKey k)))"

text \<open>The formatted key is computed, but the key that is decoded is the input itself.\<close>

definition ECDSAsecp256k1PublicKey_fromString :: "openssl \<Rightarrow> string \<Rightarrow> string \<Rightarrow> PublicKey res" where
  "ECDSAsecp256k1PublicKey_fromString ssl key after =
     rbind (strip_PEM ssl ''-----BEGIN EC PUBLIC KEY-----'' ''-----END EC PUBLIC KEY-----'' (c_str key after))
       (\<lambda>formattedKey.
         ossl_to_badkey (rbind (hexToBytes (hexstr2buf ssl) key after)
           (\<lambda>bs. rbind (ECDSA_pub_bytesToPKEY ssl bs) (\<lambda>k. Inr (ECDSAsecp256k1PublicKey k)))))"

definition ECDSAsecp256k1PublicKey_fromBytes :: "openssl \<Rightarrow> bytes \<Rightarrow> PublicKey res" where
  "ECDSAsecp256k1PublicKey_fromBytes ssl bs =
     ossl_to_badkey (rbind (ECDSA_pub_bytesToPKEY ssl bs) (\<lambda>k. Inr (ECDSAsecp256k1PublicKey k)))"

text \<open>The type of key is told from its DER prefix, or from its length.\<close>

definition PublicKey_fromStringDer :: "openssl \<Rightarrow> string \<Rightarrow> string \<Rightarrow> PublicKey res" where
  "PublicKey_fromStringDer ssl key after =
     (if prefix ED25519_PUB_PREFIX_HEX key then ED25519PublicKey_fromString ssl key after
      else if prefix ECDSA_PUB_COMPRESSED_PREFIX_HEX key then ECDSAsecp256k1PublicKey_fromString ssl key after
      else Inl BadKey)"

definition PublicKey_fromBytesDer :: "openssl \<Rightarrow> bytes \<Rightarrow> PublicKey res" where
  "PublicKey_fromBytesDer ssl bs =
     (if isPrefixOf bs ED25519_PUB_PREFIX_BYTES then ED25519PublicKey_fromBytes ssl bs
      else if isPrefixOf bs ECDSA_PUB_COMPRESSED_PREFIX_BYTES \<or>
              isPrefixOf bs ECDSA_PUB_UNCOMPRESSED_PREFIX_BYTES then ECDSAsecp256k1PublicKey_fromBytes ssl bs
      else Inl BadKey)"

definition PublicKey_fromBytes :: "openssl \<Rightarrow> bytes \<Rightarrow> PublicKey res" where
  "PublicKey_fromBytes ssl bs =
     (if length bs = 32 then ED25519PublicKey_fromBytes ssl bs
      else if length bs = 33 \<or> length bs = 65 then ECDSAsecp256k1PublicKey_fromBytes ssl bs
      else PublicKey_fromBytesDer ssl bs)"

text \<open>The ECDSA raw bytes are what \<open>i2d_PUBKEY\<close> writes behind the algorithm identifier.\<close>

definition ECDSA_toBytesRaw :: "bytes \<Rightarrow> bytes res" where
  "ECDSA_toBytesRaw key =
     (let n = length ASN1_CPUBK_PREFIX_BYTES + 1 in
      if length key < n then Inl UndefinedBehavior else Inr (drop n key))"

fun PublicKey_toBytesRaw :: "PublicKey \<Rightarrow> bytes res" where
  "PublicKey_toBytesRaw (ED25519PublicKey key) = removePrefix key (int (length ED25519_PUB_PREFIX_BYTES))"
| "PublicKey_toBytesRaw (ECDSAsecp256k1PublicKey key) = ECDSA_toBytesRaw key"

fun PublicKey_toBytesDer :: "PublicKey \<Rightarrow> bytes res" where
  "PublicKey_toBytesDer (ED25519PublicKey key) = Inr key"
| "PublicKey_toBytesDer (ECDSAsecp256k1PublicKey key) =
     rbind (ECDSA_toBytesRaw key)
       (\<lambda>raw. Inr (concatenateVectors [ECDSA_PUB_COMPRESSED_PREFIX_BYTES, raw]))"

fun PublicKey_toBytes :: "PublicKey \<Rightarrow> bytes res" where
  "PublicKey_toBytes (ED25519PublicKey key) = PublicKey_toBytesRaw (ED25519PublicKey key)"
| "PublicKey_toBytes (ECDSAsecp256k1PublicKey key) = PublicKey_toBytesDer (ECDSAsecp256k1PublicKey key)"

definition PublicKey_toStringDer :: "openssl \<Rightarrow> PublicKey \<Rightarrow> string res" where
  "PublicKey_toStringDer ssl k = rbind (PublicKey_toBytesDer k) (\<lambda>bs. Inr (buf2hexstr ssl bs))"

definition PublicKey_toStringRaw :: "openssl \<Rightarrow> PublicKey \<Rightarrow> string res" where
  "PublicKey_toStringRaw ssl k = rbind (PublicKey_toBytesRaw k) (\<lambda>bs. Inr (buf2hexstr ssl bs))"

text \<open>
  \<open>verifySignature\<close>: an ECDSA signature is the pair of 32-byte numbers, which is converted to
  DER for OpenSSL; any other length is rejected without an error.
\<close>

fun PublicKey_verifySignature :: "openssl \<Rightarrow> PublicKey \<Rightarrow> bytes \<Rightarrow> bytes \<Rightarrow> bool res" where
  "PublicKey_verifySignature ssl (ED25519PublicKey key) sig msg = ossl (digest_verify ssl key sig msg)"
| "PublicKey_verifySignature ssl (ECDSAsecp256k1PublicKey key) sig msg =
     (if length sig \<noteq> 64 then Inr False
      else ossl (digest_verify ssl key
        (i2d_ECDSA_SIG ssl (be_val (take 32 sig)) (be_val (take 32 (drop 32 sig)))) msg))"

text \<open>The signature pair of a transaction: the raw key and the signature under its kind.\<close>

datatype proto_signature = sig_unset | sig_ed25519 bytes | sig_ECDSA_secp256k1 bytes

record proto_SignaturePair =
  pubkeyprefix :: bytes
  signature :: proto_signature

fun PublicKey_toSignaturePairProtobuf :: "PublicKey \<Rightarrow> bytes \<Rightarrow> proto_SignaturePair res" where
  "PublicKey_toSignaturePairProtobuf (ED25519PublicKey key) sig =
     rbind (PublicKey_toBytesRaw (ED25519PublicKey key))
       (\<lambda>raw. Inr \<lparr>pubkeyprefix = raw, signature = sig_ed25519 sig\<rparr>)"
| "PublicKey_toSignaturePairProtobuf (ECDSAsecp256k1PublicKey key) sig =
     rbind (PublicKey_toBytesRaw (ECDSAsecp256k1PublicKey key))
       (\<lambda>raw. Inr \<lparr>pubkeyprefix = raw, signature = sig_ECDSA_secp256k1 sig\<rparr>)"

section \<open>EVM addresses\<close>

datatype EvmAddress = EvmAddress (EvmAddress_toBytes: bytes)

definition checkEvmAddress :: "EvmAddress \<Rightarrow> unit res" where
  "checkEvmAddress a = require (length (EvmAddress_toBytes a) = 20) InvalidArgument"

definition EvmAddress_fromBytes :: "bytes \<Rightarrow> EvmAddress res" where
  "EvmAddress_fromBytes bs = rbind (checkEvmAddress (EvmAddress bs)) (\<lambda>_. Inr (EvmAddress bs))"

definition EvmAddress_fromString :: "openssl \<Rightarrow> string \<Rightarrow> string \<Rightarrow> EvmAddress res" where
  "EvmAddress_fromString ssl address after =
     (let hasPrefix = take 2 address = ''0x'' in
      if (hasPrefix \<and> length address \<noteq> 42) \<or> (\<not> hasPrefix \<and> length address \<noteq> 40) then Inl InvalidArgument
      else rcatch (\<lambda>e. e = OpenSSLError)
        (rbind (hexToBytes (hexstr2buf ssl) (if hasPrefix then drop 2 address else address) after)
          EvmAddress_fromBytes)
        (Inl InvalidArgument))"

definition EvmAddress_toString :: "openssl \<Rightarrow> EvmAddress \<Rightarrow> string" where
  "EvmAddress_toString ssl a = buf2hexstr ssl (EvmAddress_toBytes a)"

definition uncompressBytes :: "openssl \<Rightarrow> bytes \<Rightarrow> bytes res" where
  "uncompressBytes ssl compressedBytes =
     (if length compressedBytes \<noteq> 33 then Inl InvalidArgument
      else rbind (vec_at compressedBytes 0) (\<lambda>b.
        if b \<noteq> 0x02 \<and> b \<noteq> 0x03 then Inl InvalidArgument
        else ossl (point_uncompress ssl compressedBytes)))"

definition compressBytes :: "openssl \<Rightarrow> bytes \<Rightarrow> bytes res" where
  "compressBytes ssl uncompressedBytes =
     (if length uncompressedBytes \<noteq> 65 then Inl InvalidArgument
      else rbind (vec_at uncompressedBytes 0) (\<lambda>b.
        if b \<noteq> 0x04 then Inl InvalidArgument
        else ossl (point_compress ssl uncompressedBytes)))"

definition toEvmAddress :: "openssl \<Rightarrow> bytes \<Rightarrow> EvmAddress res" where
  "toEvmAddress ssl key =
     rbind (ECDSA_toBytesRaw key) (\<lambda>raw. rbind (uncompressBytes ssl raw) (\<lambda>point.
     rbind (removePrefix point 1) (\<lambda>xy. rbind (removePrefix (keccak256 ssl xy) (32 - 20))
       EvmAddress_fromBytes)))"

section \<open>The decoder on the encodings of the SDK\<close>

lemma asn1_decode_step:
  "i < length bs - 1 \<Longrightarrow> bs ! i \<noteq> SEQUENCE \<Longrightarrow> i + 2 + unat (bs ! Suc i) \<le> length bs \<Longrightarrow>
     asn1_decode bs i m = asn1_decode bs (i + 2 + unat (bs ! Suc i))
       (if m (bs ! i) = None then m(bs ! i \<mapsto> take (unat (bs ! Suc i)) (drop (i + 2) bs)) else m)"
  by (subst asn1_decode.simps) (auto simp: Let_def)

lemma asn1_decode_sequence:
  "i < length bs - 1 \<Longrightarrow> bs ! i = SEQUENCE \<Longrightarrow> i + 2 + unat (bs ! Suc i) \<le> length bs \<Longrightarrow>
     asn1_decode bs i m = asn1_decode bs (i + 2) m"
  by (subst asn1_decode.simps) (auto simp: Let_def)

lemma asn1_decode_end: "bs \<noteq> [] \<Longrightarrow> length bs - 1 \<le> i \<Longrightarrow> asn1_decode bs i m = Inr m"
  by (subst asn1_decode.simps) auto

lemma asn1_ED25519_der:
  assumes "length raw = 32"
  shows "\<exists>m. asn1_key (ED25519_PUB_PREFIX_BYTES @ raw) = Inr m \<and> m BIT_STRING = Some (0 # raw)"
  using assms
  unfolding asn1_key_def ED25519_PUB_PREFIX_BYTES_def MAX_ENCRYPTED_KEY_LENGHT_def
  by (simp add: asn1_decode_step asn1_decode_sequence asn1_decode_end SEQUENCE_def BIT_STRING_def)

text \<open>
  What the SDK relies on in OpenSSL: the two hex conversions (upper-case digits, and their
  inverse), that an ED25519 key is any 32 bytes, and that a compressed secp256k1 point is kept as it is.
\<close>

definition openssl_hex :: "openssl \<Rightarrow> bool" where
  "openssl_hex ssl \<longleftrightarrow>
     (\<forall>bs. buf2hexstr ssl bs = hex_of bs) \<and> (\<forall>bs. hexstr2buf ssl (hex_of bs) = Some bs)"

definition ED25519_der :: "bytes \<Rightarrow> bytes" where
  "ED25519_der raw = ASN1_EDPBK_PREFIX_BYTES @ raw"

definition EC_der :: "bytes \<Rightarrow> bytes" where
  "EC_der raw = ASN1_CPUBK_PREFIX_BYTES @ 0 # raw"

definition secp256k1_point :: "openssl \<Rightarrow> bytes \<Rightarrow> bool" where
  "secp256k1_point ssl raw \<longleftrightarrow>
     length raw = 33 \<and> (hd raw = 2 \<or> hd raw = 3) \<and> decode_EC_PUBKEY ssl (EC_der raw) = Some (EC_der raw)"

fun PublicKey_valid :: "openssl \<Rightarrow> PublicKey \<Rightarrow> bool" where
  "PublicKey_valid ssl (ED25519PublicKey key) \<longleftrightarrow>
     length key = 44 \<and> take 12 key = ASN1_EDPBK_PREFIX_BYTES \<and> d2i_PUBKEY ssl key = Some key"
| "PublicKey_valid ssl (ECDSAsecp256k1PublicKey key) \<longleftrightarrow>
     take 23 key = ASN1_CPUBK_PREFIX_BYTES @ [0] \<and> secp256k1_point ssl (drop 23 key)"

lemma asn1_EC_compressed_der:
  assumes "length raw = 33"
  shows "\<exists>m. asn1_key (ECDSA_PUB_COMPRESSED_PREFIX_BYTES @ raw) = Inr m \<and> m BIT_STRING = Some (0 # raw)"
  using assms
  unfolding asn1_key_def ECDSA_PUB_COMPRESSED_PREFIX_BYTES_def MAX_ENCRYPTED_KEY_LENGHT_def
  by (simp add: asn1_decode_step asn1_decode_sequence asn1_decode_end SEQUENCE_def BIT_STRING_def)

lemma asn1_EC_uncompressed:
  assumes "length raw = 65"
  shows "\<exists>m. asn1_key (ASN1_UPUBK_PREFIX_BYTES @ 0 # raw) = Inr m \<and> m BIT_STRING = Some (0 # raw)"
  using assms
  unfolding asn1_key_def ASN1_UPUBK_PREFIX_BYTES_def MAX_ENCRYPTED_KEY_LENGHT_def
  by (simp add: asn1_decode_step asn1_decode_sequence asn1_decode_end SEQUENCE_def BIT_STRING_def)

lemma ED25519_valid_cases:
  assumes "PublicKey_valid ssl (ED25519PublicKey key)"
  obtains raw where "key = ED25519_der raw" "length raw = 32" "d2i_PUBKEY ssl (ED25519_der raw) = Some key"
proof
  show "key = ED25519_der (drop 12 key)"
    using assms append_take_drop_id [of 12 key] by (simp add: ED25519_der_def)
  with assms show "length (drop 12 key) = 32" "d2i_PUBKEY ssl (ED25519_der (drop 12 key)) = Some key"
    by simp_all
qed

lemma ECDSA_valid_cases:
  assumes "PublicKey_valid ssl (ECDSAsecp256k1PublicKey key)"
  obtains raw where "key = EC_der raw" "secp256k1_point ssl raw"
proof
  show "key = EC_der (drop 23 key)"
    using assms append_take_drop_id [of 23 key] by (simp add: EC_der_def)
  show "secp256k1_point ssl (drop 23 key)"
    using assms by simp
qed

lemma ED25519_fromBytes_raw:
  assumes "length raw = 32" and "d2i_PUBKEY ssl (ED25519_der raw) = Some key"
  shows "ED25519PublicKey_fromBytes ssl raw = Inr (ED25519PublicKey key)"
  using assms
  by (simp add: ED25519PublicKey_fromBytes_def ED25519_pub_bytesToPKEY_def concatenateVectors_eq
      ED25519_der_def ossl_to_badkey_def)

lemma ED25519_fromBytes_der:
  assumes "length raw = 32" and "d2i_PUBKEY ssl (ED25519_der raw) = Some key"
  shows "ED25519PublicKey_fromBytes ssl (ED25519_der raw) = Inr (ED25519PublicKey key)"
proof -
  have "ED25519_der raw = ED25519_PUB_PREFIX_BYTES @ raw"
    by (simp add: ED25519_der_def ED25519_PUB_PREFIX_BYTES_def ASN1_EDPBK_PREFIX_BYTES_def)
  moreover obtain m where "asn1_key (ED25519_PUB_PREFIX_BYTES @ raw) = Inr m" "m BIT_STRING = Some (0 # raw)"
    using asn1_ED25519_der [OF assms(1)] by blast
  moreover have "length (ED25519_der raw) = 44"
    using assms(1) by (simp add: ED25519_der_def ASN1_EDPBK_PREFIX_BYTES_def)
  ultimately show ?thesis
    using assms
    by (simp add: ED25519PublicKey_fromBytes_def ED25519_pub_bytesToPKEY_def concatenateVectors_eq
        ASN1ED25519PublicKey_getKey_def asn1_get_def EC_KEY_LENGTH_def last_bytes_def ossl_to_badkey_def
        ED25519_der_def [symmetric])
qed

lemma populate_compressed:
  assumes "m BIT_STRING = Some (0 # raw)" and "length raw = 33" and "hd raw = 2 \<or> hd raw = 3"
  shows "populateXYcoords m = Inr (0 # raw)"
  using assms by (cases raw) (auto simp: populateXYcoords_def asn1_get_def EC_KEY_LENGTH_def)

lemma ECDSA_fromBytes_raw:
  assumes "secp256k1_point ssl raw"
  shows "ECDSAsecp256k1PublicKey_fromBytes ssl raw = Inr (ECDSAsecp256k1PublicKey (EC_der raw))"
  using assms
  by (simp add: ECDSAsecp256k1PublicKey_fromBytes_def ECDSA_pub_bytesToPKEY_def concatenateVectors_eq
      EC_der_def ossl_to_badkey_def secp256k1_point_def EC_KEY_LENGTH_def)

lemma ECDSA_fromBytes_der:
  assumes "secp256k1_point ssl raw"
  shows "ECDSAsecp256k1PublicKey_fromBytes ssl (ECDSA_PUB_COMPRESSED_PREFIX_BYTES @ raw)
    = Inr (ECDSAsecp256k1PublicKey (EC_der raw))"
proof -
  obtain m where "asn1_key (ECDSA_PUB_COMPRESSED_PREFIX_BYTES @ raw) = Inr m" "m BIT_STRING = Some (0 # raw)"
    using asn1_EC_compressed_der assms unfolding secp256k1_point_def by blast
  moreover have "length (ECDSA_PUB_COMPRESSED_PREFIX_BYTES @ raw) = 47"
    using assms by (simp add: ECDSA_PUB_COMPRESSED_PREFIX_BYTES_def secp256k1_point_def)
  ultimately show ?thesis
    using assms
    by (simp add: ECDSAsecp256k1PublicKey_fromBytes_def ECDSA_pub_bytesToPKEY_def concatenateVectors_eq Let_def
        ASN1ECPublicKey_def ASN1ECPublicKey_getKey_def EC_KEY_LENGTH_def populate_compressed
        secp256k1_point_def ossl_to_badkey_def EC_der_def del: length_append)
qed

section \<open>Round trips\<close>

lemma isPrefixOf_append [simp]: "isPrefixOf (p @ s) p"
  by (simp add: isPrefixOf_iff)

lemma DER_prefixes_differ:
  "\<not> isPrefixOf (ECDSA_PUB_COMPRESSED_PREFIX_BYTES @ s) ED25519_PUB_PREFIX_BYTES"
  by (simp add: isPrefixOf_iff ECDSA_PUB_COMPRESSED_PREFIX_BYTES_def ED25519_PUB_PREFIX_BYTES_def)

lemma ECDSA_toBytesRaw_EC_der [simp]: "ECDSA_toBytesRaw (EC_der raw) = Inr raw"
  by (simp add: ECDSA_toBytesRaw_def EC_der_def ASN1_CPUBK_PREFIX_BYTES_def)

lemma ED25519_toBytesRaw_der [simp]: "PublicKey_toBytesRaw (ED25519PublicKey (ED25519_der raw)) = Inr raw"
  by (simp add: removePrefix_def ED25519_der_def ED25519_PUB_PREFIX_BYTES_def ASN1_EDPBK_PREFIX_BYTES_def)

lemma public_key_encodings:
  assumes "PublicKey_valid ssl k"
  shows "\<exists>der raw. PublicKey_toBytesDer k = Inr der \<and> PublicKey_toBytesRaw k = Inr raw \<and>
    PublicKey_fromBytesDer ssl der = Inr k \<and> PublicKey_fromBytes ssl der = Inr k \<and>
    PublicKey_fromBytes ssl raw = Inr k"
proof (cases k)
  case (ED25519PublicKey key)
  then obtain raw where raw: "key = ED25519_der raw" "length raw = 32" "d2i_PUBKEY ssl (ED25519_der raw) = Some key"
    using assms ED25519_valid_cases by blast
  moreover have "isPrefixOf key ED25519_PUB_PREFIX_BYTES" "length key = 44"
    using raw(1,2) by (simp_all add: ED25519_der_def ED25519_PUB_PREFIX_BYTES_def ASN1_EDPBK_PREFIX_BYTES_def
        isPrefixOf_iff)
  ultimately show ?thesis
    using ED25519_fromBytes_raw [OF raw(2,3)] ED25519_fromBytes_der [OF raw(2,3)] ED25519PublicKey
    by (auto simp: PublicKey_fromBytesDer_def PublicKey_fromBytes_def simp del: PublicKey_toBytesRaw.simps)
next
  case (ECDSAsecp256k1PublicKey key)
  then obtain raw where raw: "key = EC_der raw" "secp256k1_point ssl raw"
    using assms ECDSA_valid_cases by blast
  moreover have "length (ECDSA_PUB_COMPRESSED_PREFIX_BYTES @ raw) = 47" "length raw = 33"
    using raw(2) by (simp_all add: ECDSA_PUB_COMPRESSED_PREFIX_BYTES_def secp256k1_point_def)
  ultimately show ?thesis
    using ECDSA_fromBytes_raw [OF raw(2)] ECDSA_fromBytes_der [OF raw(2)] ECDSAsecp256k1PublicKey
    by (simp add: PublicKey_fromBytesDer_def PublicKey_fromBytes_def DER_prefixes_differ
        concatenateVectors_eq del: length_append)
qed

lemma hex_of_append [simp]: "hex_of (xs @ ys) = hex_of xs @ hex_of ys"
  by (simp add: hex_of_def)

lemma hex_digit_not_NUL: "d < 16 \<Longrightarrow> hex_digit d \<noteq> CHR 0x00"
proof
  assume "d < 16" "hex_digit d = CHR 0x00"
  then have "(of_char (hex_digit d) :: nat) = 0" by simp
  with \<open>d < 16\<close> show False by (simp add: hex_digit_def split: if_splits)
qed

lemma c_str_hex_of [simp]: "c_str (hex_of bs) [] = hex_of bs"
  unfolding c_str_def append_Nil2
  by (rule takeWhile_eq_all_conv [THEN iffD2])
    (auto simp: hex_of_def hex_digit_not_NUL div_less_iff_less_mult)

lemma hexToBytes_hex_of: "openssl_hex ssl \<Longrightarrow> hexToBytes (hexstr2buf ssl) (hex_of bs) [] = Inr bs"
  by (simp add: hexToBytes_def openssl_hex_def)

lemma prefix_hexes:
  "hex_of ED25519_PUB_PREFIX_BYTES = ED25519_PUB_PREFIX_HEX"
  "hex_of ECDSA_PUB_COMPRESSED_PREFIX_BYTES = ECDSA_PUB_COMPRESSED_PREFIX_HEX"
  by (simp_all add: hex_of_def hex_digit_def ED25519_PUB_PREFIX_BYTES_def ED25519_PUB_PREFIX_HEX_def
      ECDSA_PUB_COMPRESSED_PREFIX_BYTES_def ECDSA_PUB_COMPRESSED_PREFIX_HEX_def char_of_def bit_iff_odd)

lemma strip_PEM_hex:
  "take 1 (hex_of bs) \<noteq> [CHR ''-''] \<Longrightarrow> strip_PEM ssl (CHR ''-'' # p) q (hex_of bs) = Inr (hex_of bs)"
  by (cases "hex_of bs") (auto simp: strip_PEM_def)

lemma public_key_string_roundtrip:
  assumes "openssl_hex ssl" and "PublicKey_valid ssl k"
  shows "rbind (PublicKey_toStringDer ssl k) (\<lambda>s. PublicKey_fromStringDer ssl s []) = Inr k"
proof (cases k)
  case (ED25519PublicKey key)
  then obtain raw where raw: "key = ED25519_der raw" "length raw = 32" "d2i_PUBKEY ssl (ED25519_der raw) = Some key"
    using assms(2) ED25519_valid_cases by blast
  have hex: "hex_of key = ED25519_PUB_PREFIX_HEX @ hex_of raw"
    by (simp add: raw(1) ED25519_der_def ASN1_EDPBK_PREFIX_BYTES_def ED25519_PUB_PREFIX_BYTES_def [symmetric]
        prefix_hexes)
  then have "take 1 (hex_of key) \<noteq> [CHR ''-'']"
    by (simp add: ED25519_PUB_PREFIX_HEX_def)
  moreover have "prefix ED25519_PUB_PREFIX_HEX (hex_of key)"
    by (simp add: hex)
  ultimately show ?thesis
    using ED25519_fromBytes_der [OF raw(2,3)] raw(1) ED25519PublicKey assms(1)
    by (simp add: PublicKey_toStringDer_def PublicKey_fromStringDer_def ED25519PublicKey_fromString_def
        strip_PEM_hex hexToBytes_hex_of ED25519PublicKey_fromBytes_def openssl_hex_def)
next
  case (ECDSAsecp256k1PublicKey key)
  then obtain raw where raw: "key = EC_der raw" "secp256k1_point ssl raw"
    using assms(2) ECDSA_valid_cases by blast
  let ?der = "ECDSA_PUB_COMPRESSED_PREFIX_BYTES @ raw"
  have hex: "hex_of ?der = ECDSA_PUB_COMPRESSED_PREFIX_HEX @ hex_of raw"
    by (simp add: prefix_hexes)
  then have "take 1 (hex_of ?der) \<noteq> [CHR ''-'']"
    unfolding hex by (simp add: ECDSA_PUB_COMPRESSED_PREFIX_HEX_def)
  moreover have "\<not> prefix ED25519_PUB_PREFIX_HEX (hex_of ?der)" "prefix ECDSA_PUB_COMPRESSED_PREFIX_HEX (hex_of ?der)"
    unfolding hex by (simp_all add: ED25519_PUB_PREFIX_HEX_def ECDSA_PUB_COMPRESSED_PREFIX_HEX_def)
  ultimately show ?thesis
    using ECDSA_fromBytes_der [OF raw(2)] raw(1) ECDSAsecp256k1PublicKey assms(1)
    by (simp add: PublicKey_toStringDer_def PublicKey_fromStringDer_def ECDSAsecp256k1PublicKey_fromString_def
        strip_PEM_hex hexToBytes_hex_of ECDSAsecp256k1PublicKey_fromBytes_def openssl_hex_def
        concatenateVectors_eq del: hex_of_append)
qed

text \<open>An uncompressed point is compressed by the parity of its second coordinate.\<close>

lemma ECDSA_fromBytes_uncompressed:
  assumes "length x = 32" and "length y = 32"
    and "secp256k1_point ssl ((if even (be_val y) then 2 else 3) # x)"
  shows "PublicKey_fromBytes ssl (4 # x @ y) =
    Inr (ECDSAsecp256k1PublicKey (EC_der ((if even (be_val y) then 2 else 3) # x)))"
proof -
  obtain m where m: "asn1_key (ASN1_UPUBK_PREFIX_BYTES @ 0 # 4 # x @ y) = Inr m"
      "m BIT_STRING = Some (0 # 4 # x @ y)"
    using asn1_EC_uncompressed [of "4 # x @ y"] assms by auto
  then have "populateXYcoords m = Inr (0 # (if even (be_val y) then 2 else 3) # x)"
    using assms by (simp add: populateXYcoords_def asn1_get_def EC_KEY_LENGTH_def last_bytes_def
        concatenateVectors_eq)
  with m assms show ?thesis
    by (simp add: PublicKey_fromBytes_def ECDSAsecp256k1PublicKey_fromBytes_def ECDSA_pub_bytesToPKEY_def
        concatenateVectors_eq ASN1ECPublicKey_def ASN1ECPublicKey_getKey_def EC_KEY_LENGTH_def
        secp256k1_point_def ossl_to_badkey_def EC_der_def)
qed

lemma ecdsa_pem_fails:
  assumes "\<And>s. hexstr2buf ssl (CHR ''-'' # s) = None" and "CHR 0x00 \<notin> set s"
  shows "ECDSAsecp256k1PublicKey_fromString ssl (''-----BEGIN EC PUBLIC KEY-----'' @ s @ ''-----END EC PUBLIC KEY-----'') []
    = Inl BadKey"
proof -
  let ?k = "''-----BEGIN EC PUBLIC KEY-----'' @ s @ ''-----END EC PUBLIC KEY-----''"
  have k: "c_str ?k [] = ?k"
    unfolding c_str_def append_Nil2
    by (rule takeWhile_eq_all_conv [THEN iffD2]) (use assms(2) in auto)
  have "hexToBytes (hexstr2buf ssl) ?k [] = Inl OpenSSLError"
    unfolding hexToBytes_def k using assms(1) by simp
  then show ?thesis
    unfolding ECDSAsecp256k1PublicKey_fromString_def k strip_PEM_def
    by (simp add: ossl_to_badkey_def)
qed

section \<open>Properties\<close>

text \<open>A stand-in for OpenSSL at which the hypotheses hold: hexadecimal digits are read back.\<close>

definition hex_val :: "char \<Rightarrow> nat option" where
  "hex_val c =
     (let n = of_char c :: nat in
      if 48 \<le> n \<and> n \<le> 57 then Some (n - 48) else if 65 \<le> n \<and> n \<le> 70 then Some (n - 55) else None)"

fun unhex :: "string \<Rightarrow> bytes option" where
  "unhex [] = Some []"
| "unhex [c] = None"
| "unhex (c # d # s) =
     (case (hex_val c, hex_val d, unhex s) of
        (Some h, Some l, Some bs) \<Rightarrow> Some (of_nat (16 * h + l) # bs) | _ \<Rightarrow> None)"

definition reference_openssl :: openssl where
  "reference_openssl =
     \<lparr>hexstr2buf = unhex, buf2hexstr = hex_of, base64_decode = (\<lambda>s. []),
      d2i_PUBKEY = (\<lambda>bs. if length bs = 44 then Some bs else None),
      decode_EC_PUBKEY = (\<lambda>bs. if length bs = 56 then Some bs else None),
      d2i_PrivateKey_ED25519 = (\<lambda>bs. if length bs = 48 then Some bs else None),
      d2i_PrivateKey_EC = (\<lambda>bs. if length bs = 48 then Some bs else None),
      i2d_PUBKEY_of_private = (\<lambda>bs. ED25519_der (take 32 (drop 16 bs))),
      digest_verify = (\<lambda>key sig msg. Some (sig = msg)), digest_sign = (\<lambda>key msg. Some msg),
      i2d_ECDSA_SIG = (\<lambda>r s. []), d2i_ECDSA_SIG = (\<lambda>bs. None),
      point_compress = (\<lambda>bs. None), point_uncompress = (\<lambda>bs. None),
      keccak256 = (\<lambda>bs. bs), hmac_sha512 = (\<lambda>k bs. replicate 64 1)\<rparr>"

lemma hex_val_hex_digit: "d < 16 \<Longrightarrow> hex_val (hex_digit d) = Some d"
  by (auto simp: hex_val_def hex_digit_def)

lemma unhex_hex_of: "unhex (hex_of bs) = Some bs"
proof (induction bs)
  case (Cons b bs)
  have "unat b div 16 < 16" "unat b mod 16 < 16"
    by (simp_all add: div_less_iff_less_mult)
  with Cons show ?case
    by (simp add: hex_of_def hex_val_hex_digit)
qed (simp add: hex_of_def)

lemma reference_openssl_hex: "openssl_hex reference_openssl"
  by (simp add: openssl_hex_def reference_openssl_def unhex_hex_of)

text \<open>
  C14. Every encoding of a public key is read back as that key: DER bytes by both byte readers
  and raw bytes by \<open>PublicKey::fromBytes\<close>, for both kinds of key.
\<close>

theorem public_key_bytes_roundtrip:
  assumes "PublicKey_valid ssl k"
  shows "\<exists>der raw. PublicKey_toBytesDer k = Inr der \<and> PublicKey_toBytesRaw k = Inr raw \<and>
    PublicKey_fromBytesDer ssl der = Inr k \<and> PublicKey_fromBytes ssl der = Inr k \<and>
    PublicKey_fromBytes ssl raw = Inr k"
  using assms by (rule public_key_encodings)

theorem public_key_bytes_roundtrip_witness:
  "\<exists>der raw. PublicKey_toBytesDer (ED25519PublicKey (ED25519_der (replicate 32 7))) = Inr der \<and>
    PublicKey_toBytesRaw (ED25519PublicKey (ED25519_der (replicate 32 7))) = Inr raw \<and>
    PublicKey_fromBytesDer reference_openssl der = Inr (ED25519PublicKey (ED25519_der (replicate 32 7))) \<and>
    PublicKey_fromBytes reference_openssl der = Inr (ED25519PublicKey (ED25519_der (replicate 32 7))) \<and>
    PublicKey_fromBytes reference_openssl raw = Inr (ED25519PublicKey (ED25519_der (replicate 32 7)))"
  by (rule public_key_bytes_roundtrip)
    (simp add: reference_openssl_def ED25519_der_def ASN1_EDPBK_PREFIX_BYTES_def)

text \<open>
  The hex-encoded DER string of a public key is read back as that key, and tells its kind.
\<close>

theorem public_key_hex_roundtrip:
  assumes "openssl_hex ssl" and "PublicKey_valid ssl k"
  shows "rbind (PublicKey_toStringDer ssl k) (\<lambda>s. PublicKey_fromStringDer ssl s []) = Inr k"
  using assms by (rule public_key_string_roundtrip)

theorem public_key_hex_roundtrip_witness:
  "rbind (PublicKey_toStringDer reference_openssl (ECDSAsecp256k1PublicKey (EC_der (2 # replicate 32 9))))
     (\<lambda>s. PublicKey_fromStringDer reference_openssl s [])
   = Inr (ECDSAsecp256k1PublicKey (EC_der (2 # replicate 32 9)))"
  by (rule public_key_hex_roundtrip [OF reference_openssl_hex])
    (simp add: reference_openssl_def EC_der_def secp256k1_point_def ASN1_CPUBK_PREFIX_BYTES_def)

text \<open>
  An uncompressed secp256k1 point is accepted and stored compressed, with the prefix 2 or 3 that
  the parity of its second coordinate asks for.
\<close>

theorem uncompressed_point_compressed:
  assumes "length x = 32" and "length y = 32"
    and "secp256k1_point ssl ((if even (be_val y) then 2 else 3) # x)"
  shows "rbind (PublicKey_fromBytes ssl (4 # x @ y)) PublicKey_toBytesRaw =
    Inr ((if even (be_val y) then 2 else 3) # x)"
  using ECDSA_fromBytes_uncompressed [OF assms] by simp

theorem uncompressed_point_compressed_witness:
  "rbind (PublicKey_fromBytes reference_openssl (4 # replicate 32 1 @ replicate 32 2)) PublicKey_toBytesRaw =
    Inr ((if even (be_val (replicate 32 2)) then 2 else 3) # replicate 32 1)"
  by (rule uncompressed_point_compressed)
    (simp_all add: reference_openssl_def EC_der_def secp256k1_point_def ASN1_CPUBK_PREFIX_BYTES_def)

text \<open>
  C17. A PEM-encoded secp256k1 public key is always refused: the text between the markers is
  decoded into \<open>formattedKey\<close>, but what is parsed as hex is the PEM text itself, which
  OpenSSL refuses at its first dash.
\<close>

theorem ecdsa_pem_refused:
  assumes "\<And>s. hexstr2buf ssl (CHR ''-'' # s) = None" and "CHR 0x00 \<notin> set s"
  shows "ECDSAsecp256k1PublicKey_fromString ssl (''-----BEGIN EC PUBLIC KEY-----'' @ s @ ''-----END EC PUBLIC KEY-----'') []
    = Inl BadKey"
  using assms by (rule ecdsa_pem_fails)

theorem ecdsa_pem_refused_witness:
  "ECDSAsecp256k1PublicKey_fromString reference_openssl
     (''-----BEGIN EC PUBLIC KEY-----'' @ ''MDYw'' @ ''-----END EC PUBLIC KEY-----'') [] = Inl BadKey"
proof (rule ecdsa_pem_refused)
  show "hexstr2buf reference_openssl (CHR ''-'' # s) = None" for s
    by (cases s) (simp_all add: reference_openssl_def hex_val_def)
qed simp

end
