(* ===== verification/AccountIds.thy ===== *)
theory AccountIds
  imports PrivateKeys
begin

text \<open>
  The identifiers that can also be an address or a key: \<open>ContractId.cc\<close>,
  \<open>DelegateContractId.cc\<close> and \<open>AccountId.cc\<close>, and between them the composite keys of
  \<open>Key.cc\<close> and \<open>KeyList.cc\<close>, since an account alias may be a serialised key. Protobuf messages
  are records and datatypes with the fields the code uses; the wire format (\<open>SerializeAsString\<close>,
  \<open>ParseFromArray\<close>) is generated code and a parameter.
\<close>

section \<open>Contract identifiers\<close>

record ContractId =
  contractShardNum :: u64
  contractRealmNum :: u64
  mContractNum :: "u64 option"
  mEvmAddress :: "EvmAddress option"
  contractChecksum :: string

definition ContractId_default :: ContractId where
  "ContractId_default = \<lparr>contractShardNum = 0, contractRealmNum = 0, mContractNum = None, mEvmAddress = None,
     contractChecksum = []\<rparr>"

definition ContractId_of :: "u64 \<Rightarrow> u64 \<Rightarrow> u64 \<Rightarrow> string \<Rightarrow> ContractId" where
  "ContractId_of shard realm num c =
     \<lparr>contractShardNum = shard, contractRealmNum = realm, mContractNum = Some num, mEvmAddress = None,
      contractChecksum = c\<rparr>"

definition ContractId_of_evm :: "u64 \<Rightarrow> u64 \<Rightarrow> EvmAddress \<Rightarrow> ContractId" where
  "ContractId_of_evm shard realm address =
     \<lparr>contractShardNum = shard, contractRealmNum = realm, mContractNum = None, mEvmAddress = Some address,
      contractChecksum = []\<rparr>"

definition ContractId_eq :: "ContractId \<Rightarrow> ContractId \<Rightarrow> bool" where
  "ContractId_eq x y \<longleftrightarrow>
     contractShardNum x = contractShardNum y \<and> contractRealmNum x = contractRealmNum y \<and>
     ((mContractNum x \<noteq> None \<and> mContractNum y \<noteq> None \<and> mContractNum x = mContractNum y) \<or>
      (mEvmAddress x \<noteq> None \<and> mEvmAddress y \<noteq> None \<and> mEvmAddress x = mEvmAddress y) \<or>
      (mContractNum x = None \<and> mContractNum y = None \<and> mEvmAddress x = None \<and> mEvmAddress y = None))"

text \<open>
  A view made by \<open>substr\<close> is followed in memory by the rest of the string it was cut from.
\<close>

definition after_view :: "string \<Rightarrow> string \<Rightarrow> string \<Rightarrow> string" where
  "after_view sid v after =
     (case find_last_of CHR ''.'' sid of None \<Rightarrow> after
      | Some lastDot \<Rightarrow> drop (lastDot + 1 + length v) sid @ after)"

definition ContractId_fromString :: "openssl \<Rightarrow> string \<Rightarrow> string \<Rightarrow> ContractId res" where
  "ContractId_fromString ssl sid after =
     rbind (getShardNum sid) (\<lambda>shard. rbind (getRealmNum sid) (\<lambda>realm.
     rbind (getEntityNumStr sid) (\<lambda>entityNum. rbind (getChecksum sid) (\<lambda>c.
       rcatch (\<lambda>e. e = InvalidArgument)
         (rbind (getNum entityNum) (\<lambda>num. Inr (ContractId_of shard realm num c)))
         (if c \<noteq> [] then Inl InvalidArgument
          else rcatch (\<lambda>e. e = InvalidArgument)
            (rbind (EvmAddress_fromString ssl entityNum (after_view sid entityNum after))
              (\<lambda>a. Inr (ContractId_of_evm shard realm a)))
            (Inl InvalidArgument))))))"

definition ContractId_fromEvmAddress :: "openssl \<Rightarrow> string \<Rightarrow> string \<Rightarrow> u64 \<Rightarrow> u64 \<Rightarrow> ContractId res" where
  "ContractId_fromEvmAddress ssl address after shard realm =
     rbind (EvmAddress_fromString ssl address after) (\<lambda>a. Inr (ContractId_of_evm shard realm a))"

definition ContractId_fromSolidityAddress :: "openssl \<Rightarrow> string \<Rightarrow> string \<Rightarrow> ContractId res" where
  "ContractId_fromSolidityAddress ssl address after =
     rbind (decodeSolidityAddress (hexstr2buf ssl) address after) (\<lambda>bs. rbind (isLongZeroAddress bs) (\<lambda>z.
       if z then rbind (fromSolidityAddress bs) (\<lambda>(s, r, n). Inr (ContractId_of s r n []))
       else ContractId_fromEvmAddress ssl address after 0 0))"

datatype proto_contract_case = contract_unset | contract_num u64 | contract_evm bytes

record proto_ContractID =
  contract_shardnum :: u64
  contract_realmnum :: u64
  contract_case :: proto_contract_case

definition ContractId_fromProtobuf :: "proto_ContractID \<Rightarrow> ContractId res" where
  "ContractId_fromProtobuf p =
     (let x = ContractId_default\<lparr>contractShardNum := contract_shardnum p, contractRealmNum := contract_realmnum p\<rparr>
      in case contract_case p of
           contract_num n \<Rightarrow> Inr (x\<lparr>mContractNum := Some n\<rparr>)
         | contract_evm bs \<Rightarrow> rbind (EvmAddress_fromBytes bs) (\<lambda>a. Inr (x\<lparr>mEvmAddress := Some a\<rparr>))
         | contract_unset \<Rightarrow> Inr x)"

definition ContractId_toProtobuf :: "ContractId \<Rightarrow> proto_ContractID" where
  "ContractId_toProtobuf x =
     \<lparr>contract_shardnum = contractShardNum x, contract_realmnum = contractRealmNum x,
      contract_case =
        (case mContractNum x of Some n \<Rightarrow> contract_num n
         | None \<Rightarrow> (case mEvmAddress x of Some a \<Rightarrow> contract_evm (EvmAddress_toBytes a) | None \<Rightarrow> contract_unset))\<rparr>"

definition ContractId_validateChecksum :: "client_ledger \<Rightarrow> ContractId \<Rightarrow> unit res" where
  "ContractId_validateChecksum client x =
     (case mContractNum x of None \<Rightarrow> Inr ()
      | Some num \<Rightarrow>
          id_validateChecksum client (contractShardNum x) (contractRealmNum x) num (contractChecksum x))"

definition ContractId_toSolidityAddress :: "openssl \<Rightarrow> ContractId \<Rightarrow> string res" where
  "ContractId_toSolidityAddress ssl x =
     (case mEvmAddress x of Some a \<Rightarrow> Inr (buf2hexstr ssl (EvmAddress_toBytes a))
      | None \<Rightarrow> (case mContractNum x of
          Some num \<Rightarrow> toSolidityAddress (buf2hexstr ssl) (contractShardNum x) (contractRealmNum x) num
        | None \<Rightarrow> Inl IllegalState))"

definition ContractId_toString :: "openssl \<Rightarrow> ContractId \<Rightarrow> string" where
  "ContractId_toString ssl x =
     to_string (unat (contractShardNum x)) @ ''.'' @ to_string (unat (contractRealmNum x)) @ ''.'' @
     (case mContractNum x of Some n \<Rightarrow> to_string (unat n)
      | None \<Rightarrow> (case mEvmAddress x of Some a \<Rightarrow> EvmAddress_toString ssl a | None \<Rightarrow> ''0''))"

definition ContractId_toStringWithChecksum :: "client_ledger \<Rightarrow> ContractId \<Rightarrow> (string \<times> ContractId) res" where
  "ContractId_toStringWithChecksum client x =
     (case mContractNum x of None \<Rightarrow> Inl IllegalState
      | Some num \<Rightarrow>
          rbind (id_fillChecksum client (contractShardNum x) (contractRealmNum x) num (contractChecksum x))
            (\<lambda>c. Inr (entity_toString (contractShardNum x) (contractRealmNum x) num c, x\<lparr>contractChecksum := c\<rparr>)))"

definition DelegateContractId_fromString :: "string \<Rightarrow> ContractId res" where
  "DelegateContractId_fromString s =
     rbind (getShardNum s) (\<lambda>shard. rbind (getRealmNum s) (\<lambda>realm.
     rbind (getEntityNum s) (\<lambda>num. rbind (getChecksum s) (\<lambda>c. Inr (ContractId_of shard realm num c)))))"

text \<open>The number is read even when the message holds an EVM address, for which it is the default 0.\<close>

definition DelegateContractId_fromProtobuf :: "proto_ContractID \<Rightarrow> ContractId" where
  "DelegateContractId_fromProtobuf p =
     ContractId_of (contract_shardnum p) (contract_realmnum p)
       (case contract_case p of contract_num n \<Rightarrow> n | _ \<Rightarrow> 0) []"

section \<open>Keys\<close>

datatype Key =
    Key_public PublicKey
  | Key_private PrivateKey
  | Key_contract ContractId
  | Key_delegate ContractId
  | Key_list (mThreshold: u32) (mKeys: "Key list")

datatype proto_Key =
    pk_unset
  | pk_contractID proto_ContractID
  | pk_ed25519 bytes
  | pk_ecdsa bytes
  | pk_keyList "proto_Key list"
  | pk_thresholdKey u32 "proto_Key list"
  | pk_delegatable proto_ContractID

text \<open>\<open>Key::fromProtobuf\<close>. A delegatable contract is not among its cases.\<close>

fun Key_fromProtobuf :: "openssl \<Rightarrow> proto_Key \<Rightarrow> Key res"
  and KeyList_fromProtobuf :: "openssl \<Rightarrow> proto_Key list \<Rightarrow> Key list res" where
  "Key_fromProtobuf ssl (pk_contractID c) = rbind (ContractId_fromProtobuf c) (\<lambda>x. Inr (Key_contract x))"
| "Key_fromProtobuf ssl (pk_ed25519 bs) = rbind (ED25519PublicKey_fromBytes ssl bs) (\<lambda>k. Inr (Key_public k))"
| "Key_fromProtobuf ssl (pk_ecdsa bs) = rbind (ECDSAsecp256k1PublicKey_fromBytes ssl bs) (\<lambda>k. Inr (Key_public k))"
| "Key_fromProtobuf ssl (pk_keyList ks) = rbind (KeyList_fromProtobuf ssl ks) (\<lambda>ks. Inr (Key_list 0 ks))"
| "Key_fromProtobuf ssl (pk_thresholdKey t ks) = rbind (KeyList_fromProtobuf ssl ks) (\<lambda>ks. Inr (Key_list t ks))"
| "Key_fromProtobuf ssl _ = Inl InvalidArgument"
| "KeyList_fromProtobuf ssl [] = Inr []"
| "KeyList_fromProtobuf ssl (k # ks) =
     rbind (Key_fromProtobuf ssl k) (\<lambda>k. rbind (KeyList_fromProtobuf ssl ks) (\<lambda>ks. Inr (k # ks)))"

fun PublicKey_toProtobufKey :: "PublicKey \<Rightarrow> proto_Key res" where
  "PublicKey_toProtobufKey (ED25519PublicKey key) =
     rbind (PublicKey_toBytesRaw (ED25519PublicKey key)) (\<lambda>raw. Inr (pk_ed25519 raw))"
| "PublicKey_toProtobufKey (ECDSAsecp256k1PublicKey key) =
     rbind (PublicKey_toBytesRaw (ECDSAsecp256k1PublicKey key)) (\<lambda>raw. Inr (pk_ecdsa raw))"

text \<open>A private key is written as its public key; the all-zero ED25519 key, which has none, as itself.\<close>

definition PrivateKey_toProtobufKey :: "openssl \<Rightarrow> PrivateKey \<Rightarrow> proto_Key res" where
  "PrivateKey_toProtobufKey ssl k =
     (case keyType k of
        ED25519 \<Rightarrow>
          rbind (PrivateKey_toStringRaw ssl k) (\<lambda>s.
            if s = replicate 64 CHR ''0'' then rbind (PrivateKey_toBytesRaw k) (\<lambda>raw. Inr (pk_ed25519 raw))
            else PublicKey_toProtobufKey (mPublicKey k))
      | ECDSA_SECP256K1 \<Rightarrow> PublicKey_toProtobufKey (mPublicKey k))"

fun Key_toProtobufKey :: "openssl \<Rightarrow> Key \<Rightarrow> proto_Key res"
  and KeyList_toProtobuf :: "openssl \<Rightarrow> Key list \<Rightarrow> proto_Key list res" where
  "Key_toProtobufKey ssl (Key_public k) = PublicKey_toProtobufKey k"
| "Key_toProtobufKey ssl (Key_private k) = PrivateKey_toProtobufKey ssl k"
| "Key_toProtobufKey ssl (Key_contract c) = Inr (pk_contractID (ContractId_toProtobuf c))"
| "Key_toProtobufKey ssl (Key_delegate c) = Inr (pk_delegatable (ContractId_toProtobuf c))"
| "Key_toProtobufKey ssl (Key_list t ks) =
     rbind (KeyList_toProtobuf ssl ks) (\<lambda>ps. Inr (if 0 < t then pk_thresholdKey t ps else pk_keyList ps))"
| "KeyList_toProtobuf ssl [] = Inr []"
| "KeyList_toProtobuf ssl (k # ks) =
     rbind (Key_toProtobufKey ssl k) (\<lambda>p. rbind (KeyList_toProtobuf ssl ks) (\<lambda>ps. Inr (p # ps)))"

text \<open>The list operations compare keys by their bytes.\<close>

definition KeyList_contains :: "('k \<Rightarrow> bytes) \<Rightarrow> 'k list \<Rightarrow> 'k \<Rightarrow> bool" where
  "KeyList_contains toBytes keys key \<longleftrightarrow> list_ex (\<lambda>listKey. toBytes listKey = toBytes key) keys"

definition KeyList_push_back :: "'k list \<Rightarrow> 'k \<Rightarrow> 'k list" where
  "KeyList_push_back keys key = keys @ [key]"

definition KeyList_remove :: "('k \<Rightarrow> bytes) \<Rightarrow> 'k list \<Rightarrow> 'k \<Rightarrow> 'k list" where
  "KeyList_remove toBytes keys key = filter (\<lambda>listKey. toBytes listKey \<noteq> toBytes key) keys"

section \<open>Account identifiers\<close>

record AccountId =
  accountShardNum :: u64
  accountRealmNum :: u64
  mAccountNum :: "u64 option"
  mPublicKeyAlias :: "PublicKey option"
  mEvmAddressAlias :: "EvmAddress option"
  accountChecksum :: string

definition AccountId_default :: AccountId where
  "AccountId_default = \<lparr>accountShardNum = 0, accountRealmNum = 0, mAccountNum = None, mPublicKeyAlias = None,
     mEvmAddressAlias = None, accountChecksum = []\<rparr>"

definition AccountId_num :: "u64 \<Rightarrow> AccountId" where
  "AccountId_num num = AccountId_default\<lparr>mAccountNum := Some num\<rparr>"

definition AccountId_of :: "u64 \<Rightarrow> u64 \<Rightarrow> u64 \<Rightarrow> string \<Rightarrow> AccountId" where
  "AccountId_of shard realm num c =
     AccountId_default\<lparr>accountShardNum := shard, accountRealmNum := realm, mAccountNum := Some num,
       accountChecksum := c\<rparr>"

definition AccountId_of_key :: "u64 \<Rightarrow> u64 \<Rightarrow> PublicKey \<Rightarrow> AccountId" where
  "AccountId_of_key shard realm alias =
     AccountId_default\<lparr>accountShardNum := shard, accountRealmNum := realm, mPublicKeyAlias := Some alias\<rparr>"

definition AccountId_of_evm :: "u64 \<Rightarrow> u64 \<Rightarrow> EvmAddress \<Rightarrow> AccountId" where
  "AccountId_of_evm shard realm address =
     AccountId_default\<lparr>accountShardNum := shard, accountRealmNum := realm, mEvmAddressAlias := Some address\<rparr>"

text \<open>Two identifiers are equal when they agree on any member that both have.\<close>

definition AccountId_eq :: "openssl \<Rightarrow> AccountId \<Rightarrow> AccountId \<Rightarrow> bool" where
  "AccountId_eq ssl x y \<longleftrightarrow>
     accountShardNum x = accountShardNum y \<and> accountRealmNum x = accountRealmNum y \<and>
     ((case (mAccountNum x, mAccountNum y) of (Some m, Some n) \<Rightarrow> m = n | _ \<Rightarrow> False) \<or>
      (case (mPublicKeyAlias x, mPublicKeyAlias y) of
         (Some k, Some l) \<Rightarrow> PublicKey_toStringDer ssl k = PublicKey_toStringDer ssl l | _ \<Rightarrow> False) \<or>
      (case (mEvmAddressAlias x, mEvmAddressAlias y) of
         (Some a, Some b) \<Rightarrow> EvmAddress_toString ssl a = EvmAddress_toString ssl b | _ \<Rightarrow> False) \<or>
      (mAccountNum x = None \<and> mAccountNum y = None \<and> mPublicKeyAlias x = None \<and> mPublicKeyAlias y = None \<and>
       mEvmAddressAlias x = None \<and> mEvmAddressAlias y = None))"

definition AccountId_fromEvmAddress :: "openssl \<Rightarrow> string \<Rightarrow> string \<Rightarrow> u64 \<Rightarrow> u64 \<Rightarrow> AccountId res" where
  "AccountId_fromEvmAddress ssl address after shard realm =
     rbind (EvmAddress_fromString ssl address after) (\<lambda>a. Inr (AccountId_of_evm shard realm a))"

definition AccountId_fromString :: "openssl \<Rightarrow> string \<Rightarrow> string \<Rightarrow> AccountId res" where
  "AccountId_fromString ssl sid after =
     rcatch (\<lambda>e. e = InvalidArgument) (AccountId_fromEvmAddress ssl sid after 0 0)
       (rbind (getShardNum sid) (\<lambda>shard. rbind (getRealmNum sid) (\<lambda>realm.
        rbind (getEntityNumStr sid) (\<lambda>entityNum. rbind (getChecksum sid) (\<lambda>c.
          rcatch (\<lambda>e. e = InvalidArgument)
            (rbind (getNum entityNum) (\<lambda>num. Inr (AccountId_of shard realm num c)))
            (if c \<noteq> [] then Inl InvalidArgument
             else
               let rest = after_view sid entityNum after in
               rcatch (\<lambda>e. e = BadKey)
                 (rbind (PublicKey_fromStringDer ssl entityNum rest)
                   (\<lambda>k. Inr (AccountId_of_key shard realm k)))
                 (rcatch (\<lambda>e. e = InvalidArgument)
                   (rbind (EvmAddress_fromString ssl entityNum rest)
                     (\<lambda>a. Inr (AccountId_of_evm shard realm a)))
                   (Inl InvalidArgument))))))))"

definition AccountId_fromSolidityAddress :: "openssl \<Rightarrow> string \<Rightarrow> string \<Rightarrow> AccountId res" where
  "AccountId_fromSolidityAddress ssl address after =
     rbind (decodeSolidityAddress (hexstr2buf ssl) address after) (\<lambda>bs. rbind (isLongZeroAddress bs) (\<lambda>z.
       if z then rbind (fromSolidityAddress bs) (\<lambda>(s, r, n). Inr (AccountId_of s r n []))
       else AccountId_fromEvmAddress ssl address after 0 0))"

datatype proto_account_case = account_unset | account_num u64 | account_alias bytes

record proto_AccountID =
  account_shardnum :: u64
  account_realmnum :: u64
  account_case :: proto_account_case

text \<open>
  \<open>PublicKey::fromAliasBytes\<close> parses a serialised key and gives a null pointer (\<open>None\<close>) for a key
  that is not a public key.
\<close>

definition PublicKey_fromAliasBytes :: "openssl \<Rightarrow> (bytes \<Rightarrow> proto_Key) \<Rightarrow> bytes \<Rightarrow> PublicKey option res" where
  "PublicKey_fromAliasBytes ssl parseKey bs =
     rbind (Key_fromProtobuf ssl (parseKey bs))
       (\<lambda>key. Inr (case key of Key_public k \<Rightarrow> Some k | _ \<Rightarrow> None))"

definition AccountId_fromProtobuf :: "openssl \<Rightarrow> (bytes \<Rightarrow> proto_Key) \<Rightarrow> proto_AccountID \<Rightarrow> AccountId res" where
  "AccountId_fromProtobuf ssl parseKey p =
     (let x = AccountId_default\<lparr>accountShardNum := account_shardnum p, accountRealmNum := account_realmnum p\<rparr>
      in case account_case p of
           account_num n \<Rightarrow> Inr (x\<lparr>mAccountNum := Some n\<rparr>)
         | account_alias bs \<Rightarrow>
             (if length bs = 20 then
                rbind (EvmAddress_fromBytes bs) (\<lambda>a. Inr (x\<lparr>mEvmAddressAlias := Some a\<rparr>))
              else
                rbind (PublicKey_fromAliasBytes ssl parseKey bs) (\<lambda>k. Inr (x\<lparr>mPublicKeyAlias := k\<rparr>)))
         | account_unset \<Rightarrow> Inr x)"

definition AccountId_toProtobuf :: "(proto_Key \<Rightarrow> bytes) \<Rightarrow> AccountId \<Rightarrow> proto_AccountID res" where
  "AccountId_toProtobuf serializeKey x =
     rbind (case mAccountNum x of Some n \<Rightarrow> Inr (account_num n)
            | None \<Rightarrow> (case mPublicKeyAlias x of
                Some k \<Rightarrow> rbind (PublicKey_toProtobufKey k) (\<lambda>p. Inr (account_alias (serializeKey p)))
              | None \<Rightarrow> (case mEvmAddressAlias x of
                  Some a \<Rightarrow> Inr (account_alias (EvmAddress_toBytes a)) | None \<Rightarrow> Inr account_unset)))
       (\<lambda>c. Inr \<lparr>account_shardnum = accountShardNum x, account_realmnum = accountRealmNum x, account_case = c\<rparr>)"

definition AccountId_validateChecksum :: "client_ledger \<Rightarrow> AccountId \<Rightarrow> unit res" where
  "AccountId_validateChecksum client x =
     (case mAccountNum x of None \<Rightarrow> Inr ()
      | Some num \<Rightarrow> id_validateChecksum client (accountShardNum x) (accountRealmNum x) num (accountChecksum x))"

definition AccountId_toSolidityAddress :: "openssl \<Rightarrow> AccountId \<Rightarrow> string res" where
  "AccountId_toSolidityAddress ssl x =
     (case mEvmAddressAlias x of Some a \<Rightarrow> Inr (EvmAddress_toString ssl a)
      | None \<Rightarrow> (case mAccountNum x of
          Some num \<Rightarrow> toSolidityAddress (buf2hexstr ssl) (accountShardNum x) (accountRealmNum x) num
        | None \<Rightarrow> Inl IllegalState))"

definition AccountId_toString :: "openssl \<Rightarrow> AccountId \<Rightarrow> string res" where
  "AccountId_toString ssl x =
     rbind (case mPublicKeyAlias x of Some k \<Rightarrow> PublicKey_toStringDer ssl k
            | None \<Rightarrow> Inr (case mEvmAddressAlias x of Some a \<Rightarrow> EvmAddress_toString ssl a
                | None \<Rightarrow> (case mAccountNum x of Some n \<Rightarrow> to_string (unat n) | None \<Rightarrow> ''0'')))
       (\<lambda>s. Inr (to_string (unat (accountShardNum x)) @ ''.'' @ to_string (unat (accountRealmNum x)) @ ''.'' @ s))"

definition AccountId_toStringWithChecksum :: "client_ledger \<Rightarrow> AccountId \<Rightarrow> (string \<times> AccountId) res" where
  "AccountId_toStringWithChecksum client x =
     (case mAccountNum x of None \<Rightarrow> Inl IllegalState
      | Some num \<Rightarrow>
          rbind (id_fillChecksum client (accountShardNum x) (accountRealmNum x) num (accountChecksum x))
            (\<lambda>c. Inr (entity_toString (accountShardNum x) (accountRealmNum x) num c, x\<lparr>accountChecksum := c\<rparr>)))"

section \<open>Reading back printed account identifiers\<close>

text \<open>OpenSSL's hex reader refuses a dot.\<close>

definition openssl_no_dot :: "openssl \<Rightarrow> bool" where
  "openssl_no_dot ssl \<longleftrightarrow> (\<forall>s. CHR ''.'' \<in> set s \<longrightarrow> hexstr2buf ssl s = None)"

lemma hex_digit_chars: "c \<in> set (hex_of bs) \<Longrightarrow> c \<noteq> CHR ''.'' \<and> c \<noteq> CHR ''-'' \<and> c \<noteq> CHR ''x'' \<and> c \<noteq> CHR 0x00"
proof -
  assume "c \<in> set (hex_of bs)"
  then have "c \<in> hex_digit ` {..<16}"
    by (auto simp: hex_of_def div_less_iff_less_mult)
  then obtain d where d: "d < 16" "c = hex_digit d" by auto
  then have "(of_char c :: nat) \<in> {48..57} \<union> {65..70}"
    by (auto simp: hex_digit_def)
  then show ?thesis by auto
qed

lemma length_hex_of [simp]: "length (hex_of bs) = 2 * length bs"
  by (induction bs) (simp_all add: hex_of_def)

text \<open>The parts of \<open>shard.realm.rest\<close>.\<close>

definition dotted :: "u64 \<Rightarrow> u64 \<Rightarrow> string \<Rightarrow> string" where
  "dotted shard realm rest =
     (to_string (unat shard) @ CHR ''.'' # to_string (unat realm)) @ CHR ''.'' # rest"

lemma dotted_parts:
  assumes "CHR ''.'' \<notin> set rest" and "CHR ''-'' \<notin> set rest"
  shows "getShardNum (dotted s r rest) = Inr s" "getRealmNum (dotted s r rest) = Inr r"
    "getEntityNumStr (dotted s r rest) = Inr rest" "getChecksum (dotted s r rest) = Inr []"
    "after_view (dotted s r rest) rest after = after"
proof -
  show "getShardNum (dotted s r rest) = Inr s" "getRealmNum (dotted s r rest) = Inr r"
    using assms by (simp_all add: dotted_def getShardNum_entity getRealmNum_entity)
  show "getEntityNumStr (dotted s r rest) = Inr rest"
    unfolding dotted_def by (rule getEntityNumStr_plain) (use assms in simp_all)
  show "getChecksum (dotted s r rest) = Inr []"
    by (rule getChecksum_plain) (use assms in \<open>simp add: dotted_def\<close>)
  have "find_last_of CHR ''.'' (dotted s r rest)
      = Some (length (to_string (unat s) @ CHR ''.'' # to_string (unat r)))"
    unfolding dotted_def by (rule find_last_of_append_Cons) (rule assms)
  then show "after_view (dotted s r rest) rest after = after"
    by (simp add: after_view_def dotted_def)
qed

lemma EvmAddress_fromString_dotted:
  assumes "openssl_no_dot ssl" and "CHR 0x00 \<notin> set rest"
  shows "EvmAddress_fromString ssl (dotted s r rest) after = Inl InvalidArgument"
proof -
  let ?d = "dotted s r rest"
  let ?v = "if take 2 ?d = ''0x'' then drop 2 ?d else ?d"
  have nul: "CHR 0x00 \<notin> set ?d"
    using assms(2) to_string_digits by (fastforce simp: dotted_def is_digit_def)
  have "CHR ''.'' \<in> set ?v"
  proof (cases "take 2 ?d = ''0x''")
    case True
    then have "?d = ''0x'' @ drop 2 ?d" by (metis append_take_drop_id)
    moreover have "CHR ''.'' \<in> set ?d" by (simp add: dotted_def)
    ultimately have "CHR ''.'' \<in> set (''0x'' @ drop 2 ?d)" by metis
    with True show ?thesis by simp
  qed (simp add: dotted_def)
  moreover have "CHR 0x00 \<notin> set ?v"
    using nul by (auto dest: in_set_dropD)
  then have "takeWhile (\<lambda>c. c \<noteq> CHR 0x00) (?v @ after) = ?v @ takeWhile (\<lambda>c. c \<noteq> CHR 0x00) after"
    by (intro takeWhile_append2) blast
  ultimately have "hexToBytes (hexstr2buf ssl) ?v after = Inl OpenSSLError"
    using assms(1) by (simp add: hexToBytes_def c_str_def openssl_no_dot_def)
  then show ?thesis
    by (simp add: EvmAddress_fromString_def Let_def)
qed

lemma AccountId_fromString_dotted:
  assumes "openssl_no_dot ssl"
    and rest: "\<And>c. c \<in> set rest \<Longrightarrow> c \<noteq> CHR ''.'' \<and> c \<noteq> CHR ''-'' \<and> c \<noteq> CHR 0x00"
  shows "AccountId_fromString ssl (dotted s r rest) after =
    rcatch (\<lambda>e. e = InvalidArgument) (rbind (getNum rest) (\<lambda>num. Inr (AccountId_of s r num [])))
      (rcatch (\<lambda>e. e = BadKey)
        (rbind (PublicKey_fromStringDer ssl rest after) (\<lambda>k. Inr (AccountId_of_key s r k)))
        (rcatch (\<lambda>e. e = InvalidArgument)
          (rbind (EvmAddress_fromString ssl rest after) (\<lambda>a. Inr (AccountId_of_evm s r a)))
          (Inl InvalidArgument)))"
proof -
  have "CHR ''.'' \<notin> set rest" "CHR ''-'' \<notin> set rest" "CHR 0x00 \<notin> set rest"
    using rest by auto
  then show ?thesis
    using assms(1)
    by (simp add: AccountId_fromString_def AccountId_fromEvmAddress_def EvmAddress_fromString_dotted dotted_parts
        Let_def)
qed










section \<open>Properties\<close>


lemma unhex_no_dot: "CHR ''.'' \<in> set s \<Longrightarrow> unhex s = None"
  by (induction s rule: unhex.induct) (auto simp: hex_val_def split: option.splits)

lemma reference_openssl_no_dot: "openssl_no_dot reference_openssl"
  by (simp add: openssl_no_dot_def reference_openssl_def unhex_no_dot)


text \<open>
  An EVM address whose text is all decimal digits and below 2 ^ 64 is read back as an account
  number, and as a different account when the hexadecimal and the decimal reading differ.
\<close>

theorem decimal_address_misread:
  assumes "openssl_hex ssl" and "openssl_no_dot ssl"
    and "length bs = 20" and "list_all is_digit (hex_of bs)" and "dec_val (hex_of bs) < 2 ^ 64"
  shows "rbind (AccountId_toString ssl (AccountId_of_evm s r (EvmAddress bs))) (\<lambda>t. AccountId_fromString ssl t [])
    = Inr (AccountId_of s r (of_nat (dec_val (hex_of bs))) [])"
proof -
  have "hex_of bs \<noteq> []" using assms(3) length_hex_of [of bs] by (metis list.size(3) mult_is_0 zero_neq_numeral)
  then have "getNum (hex_of bs) = Inr (of_nat (dec_val (hex_of bs)))"
    using assms(4,5) by (simp add: getNum_eq)
  moreover have "AccountId_toString ssl (AccountId_of_evm s r (EvmAddress bs)) = Inr (dotted s r (hex_of bs))"
    using assms(1) by (simp add: AccountId_toString_def dotted_def AccountId_of_evm_def AccountId_default_def
        EvmAddress_toString_def openssl_hex_def)
  ultimately show ?thesis
    using hex_digit_chars [of _ bs] by (simp add: AccountId_fromString_dotted [OF assms(2)])
qed

theorem decimal_address_misread_witness:
  "rbind (AccountId_toString reference_openssl (AccountId_of_evm 0 0 (EvmAddress (replicate 19 0 @ [0x16]))))
     (\<lambda>t. AccountId_fromString reference_openssl t []) =
   Inr (AccountId_of 0 0 (of_nat (dec_val (hex_of (replicate 19 0 @ [0x16])))) [])"
proof (rule decimal_address_misread [OF reference_openssl_hex reference_openssl_no_dot])
  have zeros: "list_all is_digit (hex_of (replicate n 0)) \<and> dec_val (hex_of (replicate n 0)) = 0" for n
    by (induction n) (simp_all add: hex_of_def dec_val_def hex_digit_def is_digit_def digit_val_def)
  show "list_all is_digit (hex_of (replicate 19 0 @ [0x16]))"
    using zeros [of 19] by (simp add: hex_of_def [of "[_]"] hex_digit_def is_digit_def)
  show "dec_val (hex_of (replicate 19 0 @ [0x16])) < 2 ^ 64"
    using zeros [of 19] by (simp add: hex_of_def [of "[_]"] dec_val_def hex_digit_def digit_val_def)
qed simp

end
