(* ===== verification/Backoff.thy ===== *)
theory Backoff
  imports SdkPrelude
begin

text \<open>
  Times, and the schedule that both the nodes and the requests use between attempts: a delay that is
  doubled and capped. A \<open>system_clock::duration\<close> is a signed 64-bit count of nanoseconds, a
  \<open>time_point\<close> such a count since the epoch; both are integers here, and that no operation of the
  SDK leaves the 64 bits is part of the invariants.
\<close>

type_synonym duration = int
type_synonym time_point = int

definition milliseconds :: "int \<Rightarrow> duration" where "milliseconds n = 1000000 * n"
definition seconds :: "int \<Rightarrow> duration" where "seconds n = 1000000000 * n"
definition minutes :: "int \<Rightarrow> duration" where "minutes n = seconds (60 * n)"
definition hours :: "int \<Rightarrow> duration" where "hours n = minutes (60 * n)"

definition DEFAULT_REQUEST_TIMEOUT :: duration where "DEFAULT_REQUEST_TIMEOUT = minutes 2"
definition DEFAULT_MAX_ATTEMPTS :: nat where "DEFAULT_MAX_ATTEMPTS = 10"
definition DEFAULT_MIN_BACKOFF :: duration where "DEFAULT_MIN_BACKOFF = milliseconds 250"
definition DEFAULT_MAX_BACKOFF :: duration where "DEFAULT_MAX_BACKOFF = seconds 8"
definition DEFAULT_GRPC_DEADLINE :: duration where "DEFAULT_GRPC_DEADLINE = seconds 10"
definition DEFAULT_MAX_NODE_ATTEMPTS :: nat where "DEFAULT_MAX_NODE_ATTEMPTS = 0"
definition DEFAULT_MIN_NODE_BACKOFF :: duration where "DEFAULT_MIN_NODE_BACKOFF = seconds 8"
definition DEFAULT_MAX_NODE_BACKOFF :: duration where "DEFAULT_MAX_NODE_BACKOFF = hours 1"

text \<open>
  \<open>mCurrentBackoff *= 2.0\<close> followed by the cap. The factor is converted to the integer type of
  the duration, so the arithmetic is exact.
\<close>

definition double_capped :: "duration \<Rightarrow> duration \<Rightarrow> duration" where
  "double_capped cur cap = (let d = cur * 2 in if cap < d then cap else d)"

lemma double_capped_min: "double_capped cur cap = min (2 * cur) cap"
  by (simp add: double_capped_def Let_def min_def)

text \<open>
  The contract of a component that keeps such a delay: one step doubles it up to a cap that no
  step changes.
\<close>

locale capped_backoff =
  fixes step :: "'s \<Rightarrow> 's"
    and cur :: "'s \<Rightarrow> duration"
    and cap :: "'s \<Rightarrow> duration"
  assumes cur_step: "cur (step s) = double_capped (cur s) (cap s)"
    and cap_step: "cap (step s) = cap s"
begin

lemma cap_steps: "cap ((step ^^ n) s) = cap s"
  by (induction n) (simp_all add: cap_step)

text \<open>The whole schedule: the delay after \<open>n\<close> steps.\<close>

lemma cur_steps:
  assumes "0 \<le> cur s" and "cur s \<le> cap s"
  shows "cur ((step ^^ n) s) = min (2 ^ n * cur s) (cap s)"
proof (induction n)
  case (Suc n)
  have "0 \<le> 2 ^ n * cur s" using assms(1) by simp
  with Suc assms show ?case
    by (auto simp: cur_step cap_steps double_capped_min min_def)
qed (use assms in simp)

lemma cur_bounds:
  assumes "0 \<le> cur s" and "cur s \<le> cap s"
  shows "cur s \<le> cur (step s)" and "cur (step s) \<le> cap s" and "0 \<le> cur (step s)"
  using assms by (auto simp: cur_step double_capped_min)

text \<open>No step overflows a 64-bit duration when the cap is below half of the range.\<close>

lemma no_overflow:
  assumes "0 \<le> cur s" and "cur s \<le> cap s" and "cap s < 2 ^ 62"
  shows "2 * cur ((step ^^ n) s) < 2 ^ 63"
  using cur_steps [OF assms(1,2), of n] assms(3) by (simp add: min_def split: if_splits)

text \<open>The cap is reached after finitely many steps.\<close>

lemma cap_reached:
  assumes "0 < cur s" and "cur s \<le> cap s"
  shows "\<exists>n. cur ((step ^^ n) s) = cap s"
proof -
  have "int m < 2 ^ m" for m
    using less_exp [of m] by (metis of_nat_less_iff of_nat_numeral of_nat_power)
  then have "cap s \<le> 2 ^ nat (cap s)" using assms
    by (metis dual_order.strict_implies_order dual_order.trans int_nat_eq less_imp_le order_less_le_trans)
  also have "2 ^ nat (cap s) \<le> 2 ^ nat (cap s) * cur s"
    using assms by simp
  finally show ?thesis
    using assms by (intro exI [of _ "nat (cap s)"]) (simp add: cur_steps min_def)
qed

end

end
