(* ===== verification/NodeAddresses.thy ===== *)
theory NodeAddresses
  imports EntityId
begin

text \<open>
  \<open>BaseNodeAddress.cc\<close>: the address of a node, an in-process name or an IP address with a port.
\<close>

definition PORT_MIRROR_PLAIN :: u32 where "PORT_MIRROR_PLAIN = 5600"
definition PORT_MIRROR_TLS :: u32 where "PORT_MIRROR_TLS = 443"
definition PORT_NODE_PLAIN :: u32 where "PORT_NODE_PLAIN = 50211"
definition PORT_NODE_TLS :: u32 where "PORT_NODE_TLS = 50212"

record BaseNodeAddress =
  mName :: string
  mAddress :: string
  mPort :: u32

definition BaseNodeAddress_of :: "string \<Rightarrow> string \<Rightarrow> u32 \<Rightarrow> BaseNodeAddress" where
  "BaseNodeAddress_of name address port = \<lparr>mName = name, mAddress = address, mPort = port\<rparr>"

definition BaseNodeAddress_fromString :: "string \<Rightarrow> BaseNodeAddress res" where
  "BaseNodeAddress_fromString address =
     (if prefix ''in-process:'' address then
        Inr (BaseNodeAddress_of (drop (length ''in-process:'') address) [] 0)
      else
        (case find_first_of CHR '':'' address of None \<Rightarrow> Inl InvalidArgument
         | Some colonIndex \<Rightarrow>
             rbind (substr address 0 colonIndex) (\<lambda>ipAddressV4.
             rbind (substr address (colonIndex + 1) (length address - colonIndex - 1)) (\<lambda>portStr.
               case from_chars_all (2 ^ 32 - 1) portStr of None \<Rightarrow> Inl InvalidArgument
               | Some port \<Rightarrow> Inr (BaseNodeAddress_of [] ipAddressV4 (of_nat port))))))"

definition BaseNodeAddress_eq :: "BaseNodeAddress \<Rightarrow> BaseNodeAddress \<Rightarrow> bool" where
  "BaseNodeAddress_eq x y \<longleftrightarrow>
     (if mName x \<noteq> [] then mName x = mName y else mAddress x = mAddress y \<and> mPort x = mPort y)"

definition toSecure :: "BaseNodeAddress \<Rightarrow> BaseNodeAddress" where
  "toSecure x =
     BaseNodeAddress_of (mName x) (mAddress x)
       (if mPort x = PORT_MIRROR_PLAIN \<or> mPort x = PORT_MIRROR_TLS then PORT_MIRROR_TLS else PORT_NODE_TLS)"

definition toInsecure :: "BaseNodeAddress \<Rightarrow> BaseNodeAddress" where
  "toInsecure x =
     BaseNodeAddress_of (mName x) (mAddress x)
       (if mPort x = PORT_MIRROR_PLAIN \<or> mPort x = PORT_MIRROR_TLS then PORT_MIRROR_PLAIN else PORT_NODE_PLAIN)"

definition isInProcess :: "BaseNodeAddress \<Rightarrow> bool" where
  "isInProcess x \<longleftrightarrow> mName x \<noteq> []"

definition isTransportSecurity :: "BaseNodeAddress \<Rightarrow> bool" where
  "isTransportSecurity x \<longleftrightarrow> mPort x = PORT_NODE_TLS \<or> mPort x = PORT_MIRROR_TLS"

definition BaseNodeAddress_toString :: "BaseNodeAddress \<Rightarrow> string" where
  "BaseNodeAddress_toString x =
     (if mName x \<noteq> [] then ''in-process:'' @ mName x
      else mAddress x @ CHR '':'' # to_string (unat (mPort x)))"

text \<open>The addresses that text can hold: a name, or an IP address without a colon.\<close>

definition BaseNodeAddress_valid :: "BaseNodeAddress \<Rightarrow> bool" where
  "BaseNodeAddress_valid x \<longleftrightarrow>
     (if mName x \<noteq> [] then mAddress x = [] \<and> mPort x = 0
      else CHR '':'' \<notin> set (mAddress x) \<and> mAddress x \<noteq> ''in-process'')"

lemma not_in_process:
  assumes "CHR '':'' \<notin> set a" and "a \<noteq> ''in-process''"
  shows "\<not> prefix ''in-process:'' (a @ CHR '':'' # s)"
proof
  assume "prefix ''in-process:'' (a @ CHR '':'' # s)"
  moreover have "''in-process:'' = ''in-process'' @ [CHR '':'']" by simp
  ultimately obtain t where t: "a @ CHR '':'' # s = ''in-process'' @ CHR '':'' # t"
    unfolding prefix_def by (metis append.assoc append_Cons append_Nil)
  have "takeWhile (\<lambda>c. c \<noteq> CHR '':'') (a @ CHR '':'' # s) = a"
    using assms(1) by (subst takeWhile_append2) auto
  then have "takeWhile (\<lambda>c. c \<noteq> CHR '':'') (''in-process'' @ CHR '':'' # t) = a"
    by (simp only: t)
  with assms(2) show False by simp
qed

lemma BaseNodeAddress_roundtrip:
  assumes "BaseNodeAddress_valid x"
  shows "BaseNodeAddress_fromString (BaseNodeAddress_toString x) = Inr x"
proof (cases "mName x = []")
  case True
  with assms have a: "CHR '':'' \<notin> set (mAddress x)" "mAddress x \<noteq> ''in-process''"
    by (simp_all add: BaseNodeAddress_valid_def)
  have "unat (mPort x) \<le> 2 ^ 32 - 1"
    using unat_u32_less [of "mPort x"] by (simp del: unat_u32_less)
  then show ?thesis
    using True a not_in_process [OF a, of "to_string (unat (mPort x))"]
    by (cases x) (simp add: BaseNodeAddress_fromString_def BaseNodeAddress_toString_def substr_def
        BaseNodeAddress_of_def)
next
  case False
  with assms show ?thesis
    by (cases x) (simp add: BaseNodeAddress_fromString_def BaseNodeAddress_toString_def BaseNodeAddress_of_def
        BaseNodeAddress_valid_def)
qed

interpretation node_address: codec BaseNodeAddress_toString BaseNodeAddress_fromString BaseNodeAddress_valid
  by unfold_locales (rule BaseNodeAddress_roundtrip)

text \<open>The address of a local node, parsed.\<close>

lemma local_address:
  "BaseNodeAddress_fromString ''127.0.0.1:50211'' = Inr (BaseNodeAddress_of [] ''127.0.0.1'' 50211)"
proof -
  have "BaseNodeAddress_fromString (BaseNodeAddress_toString (BaseNodeAddress_of [] ''127.0.0.1'' 50211)) =
      Inr (BaseNodeAddress_of [] ''127.0.0.1'' 50211)"
    by (rule BaseNodeAddress_roundtrip) (simp add: BaseNodeAddress_valid_def BaseNodeAddress_of_def)
  moreover have "BaseNodeAddress_toString (BaseNodeAddress_of [] ''127.0.0.1'' 50211) = ''127.0.0.1:50211''"
    by (simp add: BaseNodeAddress_toString_def BaseNodeAddress_of_def to_string.simps digit_char_def char_of_def
        bit_iff_odd)
  ultimately show ?thesis by simp
qed

lemma transport_security:
  "isTransportSecurity (toSecure x)" "\<not> isTransportSecurity (toInsecure x)"
  "toSecure (toInsecure x) = toSecure x" "toInsecure (toSecure x) = toInsecure x"
  by (auto simp: isTransportSecurity_def toSecure_def toInsecure_def BaseNodeAddress_of_def
      PORT_MIRROR_PLAIN_def PORT_MIRROR_TLS_def PORT_NODE_PLAIN_def PORT_NODE_TLS_def)

end
