(* ===== verification/NodeMethods.thy ===== *)
theory NodeMethods
  imports SdkPrelude
begin

text \<open>
  The two tables of \<open>Node.cc\<close> that send a request to a gRPC method: a query by the kind of its
  \<open>proto::Query\<close>, a transaction by the kind of its \<open>proto::TransactionBody\<close>. The kinds are those
  that the SDK's requests use; a method is the stub it belongs to and its name.
\<close>

datatype Stub =
    ConsensusStub
  | CryptoStub
  | FileStub
  | FreezeStub
  | NetworkStub
  | ScheduleStub
  | SmartContractStub
  | TokenStub
  | UtilStub

datatype QueryCase =
    kConsensusGetTopicInfo
  | kContractCallLocal
  | kContractGetBytecode
  | kContractGetInfo
  | kCryptogetAccountBalance
  | kCryptoGetAccountRecords
  | kCryptoGetInfo
  | kCryptoGetLiveHash
  | kCryptoGetProxyStakers
  | kFileGetContents
  | kFileGetInfo
  | kNetworkGetVersionInfo
  | kScheduleGetInfo
  | kTokenGetInfo
  | kTokenGetNftInfo
  | kTransactionGetReceipt
  | kTransactionGetRecord
  | QUERY_NOT_SET

datatype DataCase =
    kConsensusCreateTopic
  | kConsensusDeleteTopic
  | kConsensusSubmitMessage
  | kConsensusUpdateTopic
  | kContractCall
  | kContractCreateInstance
  | kContractDeleteInstance
  | kContractUpdateInstance
  | kCryptoAddLiveHash
  | kCryptoApproveAllowance
  | kCryptoDeleteAllowance
  | kCryptoCreateAccount
  | kCryptoDelete
  | kCryptoDeleteLiveHash
  | kCryptoTransfer
  | kCryptoUpdateAccount
  | kEthereumTransaction
  | kFileAppend
  | kFileCreate
  | kFileDelete
  | kFileUpdate
  | kFreeze
  | kScheduleCreate
  | kScheduleDelete
  | kScheduleSign
  | kSystemDelete
  | kSystemUndelete
  | kTokenAirdrop
  | kTokenAssociate
  | kTokenBurn
  | kTokenCancelAirdrop
  | kTokenClaimAirdrop
  | kTokenCreation
  | kTokenDeletion
  | kTokenDissociate
  | kTokenFeeScheduleUpdate
  | kTokenFreeze
  | kTokenGrantKyc
  | kTokenMint
  | kTokenPause
  | kTokenReject
  | kTokenRevokeKyc
  | kTokenUnfreeze
  | kTokenUnpause
  | kTokenUpdate
  | kTokenUpdateNfts
  | kTokenWipe
  | kUtilPrng
  | kNodeCreate
  | kNodeDelete
  | kNodeUpdate
  | DATA_NOT_SET

primrec query_method :: "QueryCase \<Rightarrow> (Stub \<times> string) res" where
  "query_method kConsensusGetTopicInfo = Inr (ConsensusStub, ''getTopicInfo'')"
| "query_method kContractCallLocal = Inr (SmartContractStub, ''contractCallLocalMethod'')"
| "query_method kContractGetBytecode = Inr (SmartContractStub, ''ContractGetBytecode'')"
| "query_method kContractGetInfo = Inr (SmartContractStub, ''getContractInfo'')"
| "query_method kCryptogetAccountBalance = Inr (CryptoStub, ''cryptoGetBalance'')"
| "query_method kCryptoGetAccountRecords = Inr (CryptoStub, ''getAccountRecords'')"
| "query_method kCryptoGetInfo = Inr (CryptoStub, ''getAccountInfo'')"
| "query_method kCryptoGetLiveHash = Inr (CryptoStub, ''getLiveHash'')"
| "query_method kCryptoGetProxyStakers = Inr (CryptoStub, ''getStakersByAccountID'')"
| "query_method kFileGetContents = Inr (FileStub, ''getFileContent'')"
| "query_method kFileGetInfo = Inr (FileStub, ''getFileInfo'')"
| "query_method kNetworkGetVersionInfo = Inr (NetworkStub, ''getVersionInfo'')"
| "query_method kScheduleGetInfo = Inr (ScheduleStub, ''getScheduleInfo'')"
| "query_method kTokenGetInfo = Inr (TokenStub, ''getTokenInfo'')"
| "query_method kTokenGetNftInfo = Inr (TokenStub, ''getTokenNftInfo'')"
| "query_method kTransactionGetReceipt = Inr (CryptoStub, ''getTransactionReceipts'')"
| "query_method kTransactionGetRecord = Inr (CryptoStub, ''getTxRecordByTxID'')"
| "query_method QUERY_NOT_SET = Inl InvalidArgument"

primrec transaction_method :: "DataCase \<Rightarrow> (Stub \<times> string) res" where
  "transaction_method kConsensusCreateTopic = Inr (ConsensusStub, ''createTopic'')"
| "transaction_method kConsensusDeleteTopic = Inr (ConsensusStub, ''deleteTopic'')"
| "transaction_method kConsensusSubmitMessage = Inr (ConsensusStub, ''submitMessage'')"
| "transaction_method kConsensusUpdateTopic = Inr (ConsensusStub, ''updateTopic'')"
| "transaction_method kContractCall = Inr (SmartContractStub, ''contractCallMethod'')"
| "transaction_method kContractCreateInstance = Inr (SmartContractStub, ''createContract'')"
| "transaction_method kContractDeleteInstance = Inr (SmartContractStub, ''deleteContract'')"
| "transaction_method kContractUpdateInstance = Inr (SmartContractStub, ''updateContract'')"
| "transaction_method kCryptoAddLiveHash = Inr (CryptoStub, ''addLiveHash'')"
| "transaction_method kCryptoApproveAllowance = Inr (CryptoStub, ''approveAllowances'')"
| "transaction_method kCryptoDeleteAllowance = Inr (CryptoStub, ''deleteAllowances'')"
| "transaction_method kCryptoCreateAccount = Inr (CryptoStub, ''createAccount'')"
| "transaction_method kCryptoDelete = Inr (CryptoStub, ''cryptoDelete'')"
| "transaction_method kCryptoDeleteLiveHash = Inr (CryptoStub, ''deleteLiveHash'')"
| "transaction_method kCryptoTransfer = Inr (CryptoStub, ''cryptoTransfer'')"
| "transaction_method kCryptoUpdateAccount = Inr (CryptoStub, ''updateAccount'')"
| "transaction_method kEthereumTransaction = Inr (SmartContractStub, ''callEthereum'')"
| "transaction_method kFileAppend = Inr (FileStub, ''appendContent'')"
| "transaction_method kFileCreate = Inr (FileStub, ''createFile'')"
| "transaction_method kFileDelete = Inr (FileStub, ''deleteFile'')"
| "transaction_method kFileUpdate = Inr (FileStub, ''updateFile'')"
| "transaction_method kFreeze = Inr (FreezeStub, ''freeze'')"
| "transaction_method kScheduleCreate = Inr (ScheduleStub, ''createSchedule'')"
| "transaction_method kScheduleDelete = Inr (ScheduleStub, ''deleteSchedule'')"
| "transaction_method kScheduleSign = Inr (ScheduleStub, ''signSchedule'')"
| "transaction_method kSystemDelete = Inr (FileStub, ''systemDelete'')"
| "transaction_method kSystemUndelete = Inr (FileStub, ''systemUndelete'')"
| "transaction_method kTokenAirdrop = Inr (TokenStub, ''airdropTokens'')"
| "transaction_method kTokenAssociate = Inr (TokenStub, ''associateTokens'')"
| "transaction_method kTokenBurn = Inr (TokenStub, ''burnToken'')"
| "transaction_method kTokenCancelAirdrop = Inr (TokenStub, ''burnToken'')"
| "transaction_method kTokenClaimAirdrop = Inr (TokenStub, ''burnToken'')"
| "transaction_method kTokenCreation = Inr (TokenStub, ''createToken'')"
| "transaction_method kTokenDeletion = Inr (TokenStub, ''deleteToken'')"
| "transaction_method kTokenDissociate = Inr (TokenStub, ''dissociateTokens'')"
| "transaction_method kTokenFeeScheduleUpdate = Inr (TokenStub, ''updateTokenFeeSchedule'')"
| "transaction_method kTokenFreeze = Inr (TokenStub, ''freezeTokenAccount'')"
| "transaction_method kTokenGrantKyc = Inr (TokenStub, ''grantKycToTokenAccount'')"
| "transaction_method kTokenMint = Inr (TokenStub, ''mintToken'')"
| "transaction_method kTokenPause = Inr (TokenStub, ''pauseToken'')"
| "transaction_method kTokenReject = Inr (TokenStub, ''revokeKycFromTokenAccount'')"
| "transaction_method kTokenRevokeKyc = Inr (TokenStub, ''revokeKycFromTokenAccount'')"
| "transaction_method kTokenUnfreeze = Inr (TokenStub, ''unfreezeTokenAccount'')"
| "transaction_method kTokenUnpause = Inr (TokenStub, ''unpauseToken'')"
| "transaction_method kTokenUpdate = Inr (TokenStub, ''updateToken'')"
| "transaction_method kTokenUpdateNfts = Inr (TokenStub, ''updateToken'')"
| "transaction_method kTokenWipe = Inr (TokenStub, ''wipeTokenAccount'')"
| "transaction_method kUtilPrng = Inr (UtilStub, ''prng'')"
| "transaction_method kNodeCreate = Inl InvalidArgument"
| "transaction_method kNodeDelete = Inl InvalidArgument"
| "transaction_method kNodeUpdate = Inl InvalidArgument"
| "transaction_method DATA_NOT_SET = Inl InvalidArgument"

text \<open>Every kind, in the order of the declaration.\<close>

definition query_cases :: "QueryCase list" where
  "query_cases =
    [kConsensusGetTopicInfo, kContractCallLocal, kContractGetBytecode, kContractGetInfo,
     kCryptogetAccountBalance, kCryptoGetAccountRecords, kCryptoGetInfo, kCryptoGetLiveHash,
     kCryptoGetProxyStakers, kFileGetContents, kFileGetInfo, kNetworkGetVersionInfo, kScheduleGetInfo,
     kTokenGetInfo, kTokenGetNftInfo, kTransactionGetReceipt, kTransactionGetRecord, QUERY_NOT_SET]"

definition data_cases :: "DataCase list" where
  "data_cases =
    [kConsensusCreateTopic, kConsensusDeleteTopic, kConsensusSubmitMessage, kConsensusUpdateTopic,
     kContractCall, kContractCreateInstance, kContractDeleteInstance, kContractUpdateInstance,
     kCryptoAddLiveHash, kCryptoApproveAllowance, kCryptoDeleteAllowance, kCryptoCreateAccount,
     kCryptoDelete, kCryptoDeleteLiveHash, kCryptoTransfer, kCryptoUpdateAccount, kEthereumTransaction,
     kFileAppend, kFileCreate, kFileDelete, kFileUpdate, kFreeze, kScheduleCreate, kScheduleDelete,
     kScheduleSign, kSystemDelete, kSystemUndelete, kTokenAirdrop, kTokenAssociate, kTokenBurn,
     kTokenCancelAirdrop, kTokenClaimAirdrop, kTokenCreation, kTokenDeletion, kTokenDissociate,
     kTokenFeeScheduleUpdate, kTokenFreeze, kTokenGrantKyc, kTokenMint, kTokenPause, kTokenReject,
     kTokenRevokeKyc, kTokenUnfreeze, kTokenUnpause, kTokenUpdate, kTokenUpdateNfts, kTokenWipe,
     kUtilPrng, kNodeCreate, kNodeDelete, kNodeUpdate, DATA_NOT_SET]"

text \<open>
  The first kind that goes to a method. The kinds that share their method are mapped to one of them,
  all others to themselves.
\<close>

definition class_of :: "DataCase \<Rightarrow> DataCase" where
  "class_of c =
     (if c = kTokenCancelAirdrop \<or> c = kTokenClaimAirdrop then kTokenBurn
      else if c = kTokenReject then kTokenRevokeKyc
      else if c = kTokenUpdateNfts then kTokenUpdate
      else if c \<in> {kNodeCreate, kNodeDelete, kNodeUpdate} then DATA_NOT_SET
      else c)"

lemma transaction_method_class: "transaction_method (class_of c) = transaction_method c"
  by (cases c) (simp_all add: class_of_def)

definition decode_method :: "(Stub \<times> string) res \<Rightarrow> DataCase option" where
  "decode_method m = map_option class_of (List.find (\<lambda>c. transaction_method c = m) data_cases)"

lemma decode_transaction_method: "decode_method (transaction_method c) = Some (class_of c)"
  by (cases c; simp only: transaction_method.simps decode_method_def data_cases_def)
    (simp_all add: class_of_def)

lemma transaction_method_eq: "transaction_method c = transaction_method d \<longleftrightarrow> class_of c = class_of d"
  by (metis decode_transaction_method option.inject transaction_method_class)

lemma query_method_inj: "query_method c = query_method d \<longleftrightarrow> c = d"
proof -
  have "List.find (\<lambda>c'. query_method c' = query_method c) query_cases = Some c" for c
    by (cases c; simp only: query_method.simps query_cases_def) simp_all
  then show ?thesis by (metis option.inject)
qed

text \<open>
  Every query has a gRPC method of its own, but transactions do not: cancelling and claiming an
  airdrop are sent to the method that burns tokens, rejecting tokens to the one that revokes KYC,
  and updating NFTs to the one that updates a token; the transactions that create, update and
  delete nodes have none, and submitting them throws.
\<close>

theorem request_methods:
  "(query_method q = query_method q' \<longleftrightarrow> q = q') \<and>
   (transaction_method c = transaction_method d \<longleftrightarrow>
      c = d \<or> {c, d} \<subseteq> {kTokenBurn, kTokenCancelAirdrop, kTokenClaimAirdrop} \<or>
      {c, d} \<subseteq> {kTokenRevokeKyc, kTokenReject} \<or> {c, d} \<subseteq> {kTokenUpdate, kTokenUpdateNfts} \<or>
      {c, d} \<subseteq> {kNodeCreate, kNodeUpdate, kNodeDelete, DATA_NOT_SET}) \<and>
   transaction_method kNodeCreate = Inl InvalidArgument"
proof -
  have "class_of c = class_of d \<longleftrightarrow>
      c = d \<or> {c, d} \<subseteq> {kTokenBurn, kTokenCancelAirdrop, kTokenClaimAirdrop} \<or>
      {c, d} \<subseteq> {kTokenRevokeKyc, kTokenReject} \<or> {c, d} \<subseteq> {kTokenUpdate, kTokenUpdateNfts} \<or>
      {c, d} \<subseteq> {kNodeCreate, kNodeUpdate, kNodeDelete, DATA_NOT_SET}"
    unfolding class_of_def by auto
  then show ?thesis by (simp only: query_method_inj transaction_method_eq transaction_method.simps simp_thms)
qed

end
