(* ===== verification/Nodes.thy ===== *)
theory Nodes
  imports AccountIds Backoff NodeAddresses NodeMethods
begin

text \<open>
  \<open>BaseNode.cc\<close> and \<open>Node.cc\<close>: the state that the SDK keeps for a node of the network. The gRPC
  channel with its stubs is only open or closed; connecting and submitting are answers of the
  environment. Every reading of the clock is an argument \<open>now\<close>.
\<close>

section \<open>The state of a node\<close>

record 'k BaseNode =
  nAddress :: BaseNodeAddress
  nKey :: 'k
  mChannel :: bool
  mMinNodeBackoff :: duration
  mMaxNodeBackoff :: duration
  mCurrentBackoff :: duration
  mReadmitTime :: time_point
  mBadGrpcStatusCount :: u32
  mIsConnected :: bool

definition BaseNode_of :: "time_point \<Rightarrow> 'k \<Rightarrow> BaseNodeAddress \<Rightarrow> 'k BaseNode" where
  "BaseNode_of now key address =
     \<lparr>nAddress = address, nKey = key, mChannel = False,
      mMinNodeBackoff = DEFAULT_MIN_NODE_BACKOFF, mMaxNodeBackoff = DEFAULT_MAX_NODE_BACKOFF,
      mCurrentBackoff = DEFAULT_MIN_NODE_BACKOFF, mReadmitTime = now,
      mBadGrpcStatusCount = 0, mIsConnected = False\<rparr>"

definition increaseBackoff :: "time_point \<Rightarrow> ('k, 'z) BaseNode_scheme \<Rightarrow> ('k, 'z) BaseNode_scheme" where
  "increaseBackoff now n =
     (let n = n\<lparr>mBadGrpcStatusCount := mBadGrpcStatusCount n + 1\<rparr>;
          n = n\<lparr>mReadmitTime := now + mCurrentBackoff n\<rparr>;
          n = n\<lparr>mCurrentBackoff := mCurrentBackoff n * 2\<rparr>
      in if mMaxNodeBackoff n < mCurrentBackoff n then n\<lparr>mCurrentBackoff := mMaxNodeBackoff n\<rparr> else n)"

text \<open>Halving truncates towards zero, as the division of the duration's integer type does.\<close>

definition decreaseBackoff :: "('k, 'z) BaseNode_scheme \<Rightarrow> ('k, 'z) BaseNode_scheme" where
  "decreaseBackoff n =
     (let n = n\<lparr>mCurrentBackoff := (if 0 \<le> mCurrentBackoff n then mCurrentBackoff n div 2
                                    else - (- mCurrentBackoff n div 2))\<rparr>
      in if mCurrentBackoff n < mMinNodeBackoff n then n\<lparr>mCurrentBackoff := mMinNodeBackoff n\<rparr> else n)"

definition isHealthy :: "time_point \<Rightarrow> ('k, 'z) BaseNode_scheme \<Rightarrow> bool" where
  "isHealthy now n \<longleftrightarrow> mReadmitTime n < now"

definition getRemainingTimeForBackoff :: "time_point \<Rightarrow> ('k, 'z) BaseNode_scheme \<Rightarrow> duration" where
  "getRemainingTimeForBackoff now n = mReadmitTime n - now"

text \<open>
  \<open>channelFailedToConnect\<close>, with \<open>connects\<close> the answer of \<open>WaitForConnected\<close>. A node that has
  connected once never looks at its channel again.
\<close>

definition channelFailedToConnect :: "bool \<Rightarrow> ('k, 'z) BaseNode_scheme \<Rightarrow> bool \<times> ('k, 'z) BaseNode_scheme" where
  "channelFailedToConnect connects n =
     (if mIsConnected n then (False, n) else (\<not> connects, n\<lparr>mChannel := True, mIsConnected := connects\<rparr>))"

definition setMinNodeBackoff :: "duration \<Rightarrow> ('k, 'z) BaseNode_scheme \<Rightarrow> ('k, 'z) BaseNode_scheme" where
  "setMinNodeBackoff backoff n =
     (if mCurrentBackoff n = mMinNodeBackoff n then n\<lparr>mCurrentBackoff := backoff\<rparr> else n)
       \<lparr>mMinNodeBackoff := backoff\<rparr>"

definition setMaxNodeBackoff :: "duration \<Rightarrow> ('k, 'z) BaseNode_scheme \<Rightarrow> ('k, 'z) BaseNode_scheme" where
  "setMaxNodeBackoff backoff n = n\<lparr>mMaxNodeBackoff := backoff\<rparr>"

definition closeChannel :: "('k, 'z) BaseNode_scheme \<Rightarrow> ('k, 'z) BaseNode_scheme" where
  "closeChannel n = n\<lparr>mChannel := False\<rparr>"

definition setAddress :: "BaseNodeAddress \<Rightarrow> ('k, 'z) BaseNode_scheme \<Rightarrow> ('k, 'z) BaseNode_scheme" where
  "setAddress address n = (closeChannel n)\<lparr>nAddress := address\<rparr>"

text \<open>A consensus node.\<close>

record Node = "AccountId BaseNode" +
  mNodeCertificateHash :: bytes
  mVerifyCertificates :: bool

definition Node_of :: "time_point \<Rightarrow> AccountId \<Rightarrow> string \<Rightarrow> Node res" where
  "Node_of now key address =
     rbind (BaseNodeAddress_fromString address) (\<lambda>a.
       Inr (BaseNode.extend (BaseNode_of now key a) \<lparr>mNodeCertificateHash = [], mVerifyCertificates = False\<rparr>))"

definition Node_toSecure :: "Node \<Rightarrow> Node" where
  "Node_toSecure n = setAddress (toSecure (nAddress n)) n"

definition Node_toInsecure :: "Node \<Rightarrow> Node" where
  "Node_toInsecure n = setAddress (toInsecure (nAddress n)) n"

definition setNodeCertificateHash :: "bytes \<Rightarrow> Node \<Rightarrow> Node" where
  "setNodeCertificateHash h n = n\<lparr>mNodeCertificateHash := h\<rparr>"

definition setVerifyCertificates :: "bool \<Rightarrow> Node \<Rightarrow> Node" where
  "setVerifyCertificates verify n = n\<lparr>mVerifyCertificates := verify\<rparr>"

text \<open>
  Submitting a request calls a method of a stub; the stubs are null pointers when the channel is
  closed. \<open>rpc\<close> is what the environment answers to a request sent to a method.
\<close>

definition stub_call ::
  "(Stub \<times> string \<Rightarrow> 'q \<Rightarrow> 'r) \<Rightarrow> (Stub \<times> string) res \<Rightarrow> 'q \<Rightarrow> ('k, 'z) BaseNode_scheme \<Rightarrow> 'r res" where
  "stub_call rpc m request n = rbind m (\<lambda>m. if mChannel n then Inr (rpc m request) else Inl UndefinedBehavior)"

definition submitQuery ::
  "(Stub \<times> string \<Rightarrow> 'q \<Rightarrow> 'r) \<Rightarrow> QueryCase \<Rightarrow> 'q \<Rightarrow> ('k, 'z) BaseNode_scheme \<Rightarrow> 'r res" where
  "submitQuery rpc funcEnum query n = stub_call rpc (query_method funcEnum) query n"

definition submitTransaction ::
  "(Stub \<times> string \<Rightarrow> 'q \<Rightarrow> 'r) \<Rightarrow> DataCase \<Rightarrow> 'q \<Rightarrow> ('k, 'z) BaseNode_scheme \<Rightarrow> 'r res" where
  "submitTransaction rpc funcEnum transaction n = stub_call rpc (transaction_method funcEnum) transaction n"

section \<open>The backoff of a node\<close>

interpretation node_backoff: capped_backoff "increaseBackoff now" mCurrentBackoff mMaxNodeBackoff for now
  by unfold_locales (simp_all add: increaseBackoff_def double_capped_def Let_def)

lemma increaseBackoff_simps [simp]:
  "mMinNodeBackoff (increaseBackoff now n) = mMinNodeBackoff n"
  "mReadmitTime (increaseBackoff now n) = now + mCurrentBackoff n"
  "mBadGrpcStatusCount (increaseBackoff now n) = mBadGrpcStatusCount n + 1"
  "mChannel (increaseBackoff now n) = mChannel n" "mIsConnected (increaseBackoff now n) = mIsConnected n"
  "nKey (increaseBackoff now n) = nKey n" "nAddress (increaseBackoff now n) = nAddress n"
  by (simp_all add: increaseBackoff_def Let_def)

lemma decreaseBackoff_simps [simp]:
  "mMinNodeBackoff (decreaseBackoff n) = mMinNodeBackoff n" "mMaxNodeBackoff (decreaseBackoff n) = mMaxNodeBackoff n"
  "mReadmitTime (decreaseBackoff n) = mReadmitTime n" "mBadGrpcStatusCount (decreaseBackoff n) = mBadGrpcStatusCount n"
  "mChannel (decreaseBackoff n) = mChannel n" "mIsConnected (decreaseBackoff n) = mIsConnected n"
  "nKey (decreaseBackoff n) = nKey n" "nAddress (decreaseBackoff n) = nAddress n"
  by (simp_all add: decreaseBackoff_def Let_def)

text \<open>The invariant of the delays, with room for one doubling in the 64 bits of a duration.\<close>

definition backoff_inv :: "('k, 'z) BaseNode_scheme \<Rightarrow> bool" where
  "backoff_inv n \<longleftrightarrow>
     0 < mMinNodeBackoff n \<and> mMinNodeBackoff n \<le> mCurrentBackoff n \<and> mCurrentBackoff n \<le> mMaxNodeBackoff n \<and>
     mMaxNodeBackoff n < 2 ^ 62"

lemma BaseNode_of_inv: "backoff_inv (BaseNode_of now key address)"
  by (simp add: backoff_inv_def BaseNode_of_def DEFAULT_MIN_NODE_BACKOFF_def DEFAULT_MAX_NODE_BACKOFF_def
      seconds_def hours_def minutes_def)




lemma setMinNodeBackoff_inv:
  assumes "backoff_inv n" and "0 < b" and "b \<le> mMaxNodeBackoff n"
    and "b \<le> mCurrentBackoff n \<or> mCurrentBackoff n = mMinNodeBackoff n"
  shows "backoff_inv (setMinNodeBackoff b n)"
  using assms by (auto simp: backoff_inv_def setMinNodeBackoff_def)

lemma setMaxNodeBackoff_inv:
  "backoff_inv n \<Longrightarrow> mCurrentBackoff n \<le> b \<Longrightarrow> b < 2 ^ 62 \<Longrightarrow> backoff_inv (setMaxNodeBackoff b n)"
  by (simp add: backoff_inv_def setMaxNodeBackoff_def)

section \<open>The life of a node\<close>








section \<open>Properties\<close>



text \<open>
  C24. After \<open>k\<close> failures in a row a node's delay is its first delay doubled \<open>k\<close> times, at most
  the maximum, and one more failure keeps it unhealthy for exactly that long.
\<close>

theorem node_failures_schedule:
  assumes "backoff_inv n"
  shows "mCurrentBackoff ((increaseBackoff now ^^ k) n) = min (2 ^ k * mCurrentBackoff n) (mMaxNodeBackoff n) \<and>
    (isHealthy t (increaseBackoff now ((increaseBackoff now ^^ k) n)) \<longleftrightarrow>
       now + min (2 ^ k * mCurrentBackoff n) (mMaxNodeBackoff n) < t)"
  using assms node_backoff.cur_steps [of n k now] by (simp add: backoff_inv_def isHealthy_def)

theorem node_failures_schedule_witness:
  "mCurrentBackoff ((increaseBackoff 0 ^^ 3) (BaseNode_of 0 () (BaseNodeAddress_of [] [] 0))) =
     min (2 ^ 3 * seconds 8) (hours 1) \<and>
   (isHealthy 1 (increaseBackoff 0 ((increaseBackoff 0 ^^ 3) (BaseNode_of 0 () (BaseNodeAddress_of [] [] 0)))) \<longleftrightarrow>
      0 + min (2 ^ 3 * seconds 8) (hours 1) < 1)"
  using node_failures_schedule [OF BaseNode_of_inv [of 0 "()" "BaseNodeAddress_of [] [] 0"], of 3 0 1]
  by (simp only: BaseNode_of_def BaseNode.select_convs DEFAULT_MIN_NODE_BACKOFF_def DEFAULT_MAX_NODE_BACKOFF_def)

text \<open>
  Changing the address of a node that has connected before (as a change of the transport
  security does) makes its next use undefined: the channel and the stubs are dropped, but the node
  still counts as connected, so that no new channel is made before a stub is called.
\<close>

theorem address_change_breaks_connection:
  assumes "mIsConnected n"
  shows "fst (channelFailedToConnect connects (Node_toSecure n)) = False \<and>
    submitQuery rpc kCryptoGetInfo query (snd (channelFailedToConnect connects (Node_toSecure n))) =
      Inl UndefinedBehavior"
  using assms
  by (simp add: Node_toSecure_def setAddress_def closeChannel_def channelFailedToConnect_def submitQuery_def
      stub_call_def)

theorem address_change_breaks_connection_witness:
  "\<exists>n. Node_of 0 (AccountId_num 3) ''127.0.0.1:50211'' = Inr n \<and>
     submitQuery (\<lambda>m q. ()) kCryptoGetInfo () (snd (channelFailedToConnect True n)) = Inr () \<and>
     submitQuery (\<lambda>m q. ()) kCryptoGetInfo ()
       (snd (channelFailedToConnect True (Node_toSecure (snd (channelFailedToConnect True n))))) =
       Inl UndefinedBehavior"
proof -
  obtain n where n: "Node_of 0 (AccountId_num 3) ''127.0.0.1:50211'' = Inr n" "\<not> mIsConnected n"
    by (simp add: Node_of_def local_address BaseNode_of_def BaseNode.defs)
  then have "mIsConnected (snd (channelFailedToConnect True n))" "mChannel (snd (channelFailedToConnect True n))"
    by (simp_all add: channelFailedToConnect_def)
  moreover from this(2) have "submitQuery (\<lambda>m q. ()) kCryptoGetInfo () (snd (channelFailedToConnect True n)) = Inr ()"
    by (simp add: submitQuery_def stub_call_def)
  ultimately show ?thesis
    using n(1) address_change_breaks_connection [of "snd (channelFailedToConnect True n)" True "\<lambda>m q. ()" "()"]
    by blast
qed

end
