(* ===== verification/Networks.thy ===== *)
theory Networks
  imports Complex_Main Nodes
begin

text \<open>
  \<open>BaseNetwork.cc\<close> and the selection of nodes of \<open>Network.cc\<close>. Nodes are shared objects: the
  network holds references into a store, and an update of a node is seen by everyone who holds
  its reference. An \<open>unordered_set\<close> of references is a list without repetitions, in the order in
  which it is iterated; the key type and its equality are those of the template.
\<close>

type_synonym node_ref = nat

datatype TLSBehavior = REQUIRE | DISABLE

record 'k BaseNetwork =
  nodeStore :: "node_ref \<Rightarrow> 'k BaseNode"
  nextRef :: node_ref
  mNetwork :: "'k \<Rightarrow> node_ref list"
  mNodes :: "node_ref list"
  mHealthyNodes :: "node_ref list"
  mTransportSecurity :: TLSBehavior
  mMaxNodeAttempts :: u32
  netMinNodeBackoff :: duration
  netMaxNodeBackoff :: duration
  mMinNodeReadmitTime :: duration
  mMaxNodeReadmitTime :: duration
  mEarliestReadmitTime :: time_point
  mLedgerId :: LedgerId

definition set_insert :: "'a \<Rightarrow> 'a list \<Rightarrow> 'a list" where
  "set_insert x xs = (if x \<in> set xs then xs else xs @ [x])"

lemma set_set_insert [simp]: "set (set_insert x xs) = insert x (set xs)"
  by (auto simp: set_insert_def)

lemma distinct_set_insert [simp]: "distinct xs \<Longrightarrow> distinct (set_insert x xs)"
  by (auto simp: set_insert_def)

definition node :: "'k BaseNetwork \<Rightarrow> node_ref \<Rightarrow> 'k BaseNode" where
  "node net r = nodeStore net r"

definition upd_node :: "node_ref \<Rightarrow> ('k BaseNode \<Rightarrow> 'k BaseNode) \<Rightarrow> 'k BaseNetwork \<Rightarrow> 'k BaseNetwork" where
  "upd_node r f net = net\<lparr>nodeStore := (nodeStore net)(r := f (nodeStore net r))\<rparr>"

section \<open>Readmission\<close>

definition readmitNodes :: "time_point \<Rightarrow> 'k BaseNetwork \<Rightarrow> 'k BaseNetwork" where
  "readmitNodes now net =
     (if now \<le> mEarliestReadmitTime net then net
      else
        let next = foldl (\<lambda>t r. if now < mReadmitTime (node net r) \<and> mReadmitTime (node net r) < t
                                then mReadmitTime (node net r) else t)
              (now + mMaxNodeReadmitTime net) (mNodes net)
        in net\<lparr>mEarliestReadmitTime := next,
               mHealthyNodes := foldl (\<lambda>hs r. if r \<notin> set hs \<and> mReadmitTime (node net r) \<le> now
                                             then set_insert r hs else hs) (mHealthyNodes net) (mNodes net)\<rparr>)"

text \<open>\<open>BaseNetwork::increaseBackoff\<close> and \<open>decreaseBackoff\<close>.\<close>

definition net_increaseBackoff :: "time_point \<Rightarrow> node_ref \<Rightarrow> 'k BaseNetwork \<Rightarrow> 'k BaseNetwork" where
  "net_increaseBackoff now r net =
     (let net = upd_node r (increaseBackoff now) net in net\<lparr>mHealthyNodes := removeAll r (mHealthyNodes net)\<rparr>)"

definition net_decreaseBackoff :: "node_ref \<Rightarrow> 'k BaseNetwork \<Rightarrow> 'k BaseNetwork" where
  "net_decreaseBackoff r net = upd_node r decreaseBackoff net"

text \<open>\<open>mNetwork[key]\<close> is the empty set for a key that has no entry.\<close>

definition getNodeProxies :: "time_point \<Rightarrow> 'k \<Rightarrow> 'k BaseNetwork \<Rightarrow> node_ref list \<times> 'k BaseNetwork" where
  "getNodeProxies now key net = (let net = readmitNodes now net in (mNetwork net key, net))"

definition net_close :: "'k BaseNetwork \<Rightarrow> 'k BaseNetwork" where
  "net_close net = foldl (\<lambda>net r. upd_node r closeChannel net) net (mNodes net)"

section \<open>Replacing the network\<close>

definition same_entry :: "'k BaseNetwork \<Rightarrow> string \<Rightarrow> 'k \<Rightarrow> node_ref \<Rightarrow> bool" where
  "same_entry net ipAddress key r \<longleftrightarrow> mAddress (nAddress (node net r)) = ipAddress \<and> nKey (node net r) = key"

text \<open>
  One entry of the new network: an existing node is moved over, a node that an earlier entry
  brought is kept, and otherwise a node is created at the time \<open>clock\<close> gives for its reference.
  The state is the network and the two containers of the new one.
\<close>

definition setNetwork_entry ::
  "(node_ref \<Rightarrow> time_point) \<Rightarrow> string \<times> 'k \<Rightarrow> 'k BaseNetwork \<times> node_ref list \<times> ('k \<Rightarrow> node_ref list) \<Rightarrow>
     ('k BaseNetwork \<times> node_ref list \<times> ('k \<Rightarrow> node_ref list)) res" where
  "setNetwork_entry clock entry st =
     (case (entry, st) of ((address, key), (net, newNodes, newNetwork)) \<Rightarrow>
        rbind (BaseNodeAddress_fromString address) (\<lambda>a.
          case List.find (same_entry net (mAddress a) key) (mNodes net) of
            Some r \<Rightarrow>
              Inr (net\<lparr>mNodes := removeAll r (mNodes net)\<rparr>, set_insert r newNodes,
                   newNetwork(key := set_insert r (newNetwork key)))
          | None \<Rightarrow>
              (case List.find (same_entry net (mAddress a) key) newNodes of
                 Some _ \<Rightarrow> Inr (net, newNodes, newNetwork)
               | None \<Rightarrow>
                   let r = nextRef net in
                   Inr (net\<lparr>nodeStore := (nodeStore net)(r := BaseNode_of (clock r) key a), nextRef := Suc r\<rparr>,
                        set_insert r newNodes, newNetwork(key := set_insert r (newNetwork key))))))"

primrec setNetwork_entries ::
  "(node_ref \<Rightarrow> time_point) \<Rightarrow> (string \<times> 'k) list \<Rightarrow> 'k BaseNetwork \<times> node_ref list \<times> ('k \<Rightarrow> node_ref list) \<Rightarrow>
     ('k BaseNetwork \<times> node_ref list \<times> ('k \<Rightarrow> node_ref list)) res" where
  "setNetwork_entries clock [] st = Inr st"
| "setNetwork_entries clock (e # es) st = rbind (setNetwork_entry clock e st) (setNetwork_entries clock es)"

text \<open>
  \<open>removeNodeFromNetwork\<close> erases the node from \<open>mNodes\<close>.
\<close>

definition removeNodeFromNetwork :: "node_ref \<Rightarrow> 'k BaseNetwork \<Rightarrow> 'k BaseNetwork" where
  "removeNodeFromNetwork r net =
     net\<lparr>mNetwork := (mNetwork net)(nKey (node net r) := removeAll r (mNetwork net (nKey (node net r)))),
         mNodes := removeAll r (mNodes net), mHealthyNodes := removeAll r (mHealthyNodes net)\<rparr>"

text \<open>
  The loop that closes and removes the remaining nodes is a range-based \<open>for\<close> over \<open>mNodes\<close>
  whose body erases the current element from \<open>mNodes\<close>, which invalidates the iterator that is
  incremented next: the first removal is already undefined.
\<close>

definition remove_remaining :: "'k BaseNetwork \<Rightarrow> 'k BaseNetwork res" where
  "remove_remaining net = (if mNodes net = [] then Inr net else Inl UndefinedBehavior)"

text \<open>\<open>setNetwork\<close>, with \<open>t1\<close> and \<open>t2\<close> its last two readings of the clock.\<close>

definition setNetwork ::
  "(node_ref \<Rightarrow> time_point) \<Rightarrow> time_point \<Rightarrow> time_point \<Rightarrow> (string \<times> 'k) list \<Rightarrow> 'k BaseNetwork \<Rightarrow>
     'k BaseNetwork res" where
  "setNetwork clock t1 t2 network net =
     rbind (setNetwork_entries clock network (net, [], (\<lambda>k. []))) (\<lambda>(net, newNodes, newNetwork).
     rbind (remove_remaining net) (\<lambda>net.
       Inr (readmitNodes t2 (net\<lparr>mNodes := newNodes, mNetwork := newNetwork, mHealthyNodes := [],
              mEarliestReadmitTime := t1\<rparr>))))"

section \<open>The most healthy nodes\<close>

text \<open>
  The loop that removes the nodes with too many failures goes on with the iterator of the node
  that it has just erased.
\<close>

definition remove_failing :: "'k BaseNetwork \<Rightarrow> 'k BaseNetwork res" where
  "remove_failing net =
     (if 0 < mMaxNodeAttempts net \<and>
         list_ex (\<lambda>r. mMaxNodeAttempts net \<le> mBadGrpcStatusCount (node net r)) (mNodes net)
      then Inl UndefinedBehavior else Inr net)"

text \<open>
  The loop that picks random healthy nodes until there are \<open>count\<close> different ones. Round \<open>i\<close>
  reads the clock (\<open>clock i\<close>) and, when a node is healthy, a random number below the number of
  healthy nodes (\<open>rand i\<close>); with none it sleeps and tries again. The fuel bounds the rounds; that
  it runs out is \<open>None\<close>.
\<close>

fun pick_loop ::
  "nat \<Rightarrow> (nat \<Rightarrow> time_point) \<Rightarrow> (nat \<Rightarrow> nat) \<Rightarrow> nat \<Rightarrow> nat \<Rightarrow> node_ref list \<Rightarrow> 'k BaseNetwork \<Rightarrow>
     (node_ref list \<times> 'k BaseNetwork) option" where
  "pick_loop fuel clock rand count i nodes net =
     (if count \<le> length nodes then Some (nodes, net)
      else case fuel of 0 \<Rightarrow> None | Suc fuel \<Rightarrow>
        let net = readmitNodes (clock i) net in
        if mHealthyNodes net = [] then pick_loop fuel clock rand count (Suc i) nodes net
        else
          let r = mHealthyNodes net ! (rand i mod length (mHealthyNodes net))
          in pick_loop fuel clock rand count (Suc i) (set_insert r nodes) net)"

declare pick_loop.simps [simp del]

definition getNumberOfMostHealthyNodes ::
  "nat \<Rightarrow> (nat \<Rightarrow> time_point) \<Rightarrow> (nat \<Rightarrow> nat) \<Rightarrow> nat \<Rightarrow> 'k BaseNetwork \<Rightarrow>
     (node_ref list \<times> 'k BaseNetwork) option res" where
  "getNumberOfMostHealthyNodes fuel clock rand count net =
     rbind (remove_failing net) (\<lambda>net. Inr (pick_loop fuel clock rand count 0 [] net))"

text \<open>\<open>Network::getNumberOfNodesForRequest\<close> and \<open>Network::getNodeAccountIdsForExecute\<close>.\<close>

definition getNumberOfNodesForRequest :: "nat \<Rightarrow> nat \<Rightarrow> nat" where
  "getNumberOfNodesForRequest maxNodesPerRequest keys =
     (if 0 < maxNodesPerRequest then maxNodesPerRequest else (keys + 3 - 1) div 3)"

definition nodes_for_execute :: "nat \<Rightarrow> 'k BaseNetwork \<Rightarrow> nat" where
  "nodes_for_execute maxNodesPerRequest net =
     (if 0 < maxNodesPerRequest then min maxNodesPerRequest (length (mNodes net))
      else nat \<lceil>real (length (mNodes net)) / 3\<rceil>)"

definition getNodeAccountIdsForExecute ::
  "nat \<Rightarrow> (nat \<Rightarrow> time_point) \<Rightarrow> (nat \<Rightarrow> nat) \<Rightarrow> nat \<Rightarrow> 'k BaseNetwork \<Rightarrow> ('k list \<times> 'k BaseNetwork) option res" where
  "getNodeAccountIdsForExecute fuel clock rand maxNodesPerRequest net =
     rbind (getNumberOfMostHealthyNodes fuel clock rand (nodes_for_execute maxNodesPerRequest net) net)
       (\<lambda>r. Inr (map_option (\<lambda>(refs, net). (map (\<lambda>r. nKey (node net r)) refs, net)) r))"

section \<open>The settings\<close>

definition setTransportSecurity :: "TLSBehavior \<Rightarrow> 'k BaseNetwork \<Rightarrow> 'k BaseNetwork" where
  "setTransportSecurity tls net =
     (if mTransportSecurity net \<noteq> tls then
        (foldl (\<lambda>net r. upd_node r (\<lambda>n. setAddress
             (case tls of REQUIRE \<Rightarrow> toSecure (nAddress n) | DISABLE \<Rightarrow> toInsecure (nAddress n)) n) net)
           net (mNodes net))\<lparr>mTransportSecurity := tls\<rparr>
      else net)"

definition net_setMinNodeBackoff :: "duration \<Rightarrow> 'k BaseNetwork \<Rightarrow> 'k BaseNetwork" where
  "net_setMinNodeBackoff b net = net\<lparr>netMinNodeBackoff := b\<rparr>"

definition net_setMaxNodeBackoff :: "duration \<Rightarrow> 'k BaseNetwork \<Rightarrow> 'k BaseNetwork" where
  "net_setMaxNodeBackoff b net = net\<lparr>netMaxNodeBackoff := b\<rparr>"

definition net_setMaxNodeAttempts :: "u32 \<Rightarrow> 'k BaseNetwork \<Rightarrow> 'k BaseNetwork" where
  "net_setMaxNodeAttempts n net = net\<lparr>mMaxNodeAttempts := n\<rparr>"

definition BaseNetwork_default :: "time_point \<Rightarrow> 'k BaseNetwork" where
  "BaseNetwork_default now =
     \<lparr>nodeStore = (\<lambda>r. undefined), nextRef = 0, mNetwork = (\<lambda>k. []), mNodes = [], mHealthyNodes = [],
      mTransportSecurity = REQUIRE, mMaxNodeAttempts = of_nat DEFAULT_MAX_NODE_ATTEMPTS,
      netMinNodeBackoff = DEFAULT_MIN_NODE_BACKOFF, netMaxNodeBackoff = DEFAULT_MAX_NODE_BACKOFF,
      mMinNodeReadmitTime = DEFAULT_MIN_NODE_BACKOFF, mMaxNodeReadmitTime = DEFAULT_MAX_NODE_BACKOFF,
      mEarliestReadmitTime = now, mLedgerId = LedgerId []\<rparr>"

section \<open>The invariant\<close>

text \<open>
  Healthy nodes are nodes; the map has the nodes, each under its key, and nothing else; no two
  nodes stand for the same entry; references are allocated.
\<close>

definition net_inv :: "'k BaseNetwork \<Rightarrow> bool" where
  "net_inv net \<longleftrightarrow>
     distinct (mNodes net) \<and> distinct (mHealthyNodes net) \<and> set (mHealthyNodes net) \<subseteq> set (mNodes net) \<and>
     (\<forall>r \<in> set (mNodes net). r < nextRef net) \<and>
     (\<forall>k. set (mNetwork net k) = {r \<in> set (mNodes net). nKey (node net r) = k}) \<and>
     inj_on (\<lambda>r. (mAddress (nAddress (node net r)), nKey (node net r))) (set (mNodes net))"

lemma BaseNetwork_default_inv: "net_inv (BaseNetwork_default now)"
  by (simp add: net_inv_def BaseNetwork_default_def)

lemma foldl_readmit:
  "distinct hs \<Longrightarrow> distinct (foldl (\<lambda>hs r. if r \<notin> set hs \<and> P r then set_insert r hs else hs) hs rs) \<and>
     set (foldl (\<lambda>hs r. if r \<notin> set hs \<and> P r then set_insert r hs else hs) hs rs) =
     set hs \<union> {r \<in> set rs. P r}"
  by (induction rs arbitrary: hs) auto

lemma readmitNodes_same [simp]:
  "mNodes (readmitNodes now net) = mNodes net" "mNetwork (readmitNodes now net) = mNetwork net"
  "nodeStore (readmitNodes now net) = nodeStore net" "nextRef (readmitNodes now net) = nextRef net"
  "mMaxNodeAttempts (readmitNodes now net) = mMaxNodeAttempts net"
  by (simp_all add: readmitNodes_def Let_def)

lemma set_healthy_readmitNodes:
  "distinct (mHealthyNodes net) \<Longrightarrow> set (mHealthyNodes (readmitNodes now net)) =
     (if now \<le> mEarliestReadmitTime net then set (mHealthyNodes net)
      else set (mHealthyNodes net) \<union> {r \<in> set (mNodes net). mReadmitTime (node net r) \<le> now})"
  by (simp add: readmitNodes_def Let_def foldl_readmit)

lemma readmitNodes_inv:
  assumes "net_inv net"
  shows "net_inv (readmitNodes now net)"
proof -
  have "distinct (mHealthyNodes (readmitNodes now net))"
    using assms by (simp add: readmitNodes_def Let_def foldl_readmit net_inv_def)
  with assms show ?thesis
    by (auto simp: net_inv_def node_def set_healthy_readmitNodes split: if_splits)
qed

lemma net_inv_cong:
  assumes "net_inv net" and "mNodes net' = mNodes net" and "mNetwork net' = mNetwork net"
    and "nextRef net' = nextRef net" and "distinct (mHealthyNodes net')"
    and "set (mHealthyNodes net') \<subseteq> set (mHealthyNodes net)"
    and "\<And>r. nKey (node net' r) = nKey (node net r)"
    and "\<And>r. nAddress (node net' r) = nAddress (node net r)"
  shows "net_inv net'"
  using assms by (auto simp: net_inv_def)

lemma node_upd_node: "node (upd_node r f net) s = (if s = r then f (node net r) else node net s)"
  by (simp add: node_def upd_node_def)

lemma upd_node_same [simp]:
  "mNodes (upd_node r f net) = mNodes net" "mNetwork (upd_node r f net) = mNetwork net"
  "nextRef (upd_node r f net) = nextRef net" "mHealthyNodes (upd_node r f net) = mHealthyNodes net"
  by (simp_all add: upd_node_def)

lemma net_decreaseBackoff_inv: "net_inv net \<Longrightarrow> net_inv (net_decreaseBackoff r net)"
  by (rule net_inv_cong) (auto simp: net_decreaseBackoff_def node_upd_node net_inv_def)

lemma net_increaseBackoff_inv: "net_inv net \<Longrightarrow> net_inv (net_increaseBackoff now r net)"
  by (rule net_inv_cong) (auto simp: net_increaseBackoff_def node_upd_node net_inv_def Let_def distinct_removeAll node_def upd_node_def)

section \<open>What replacing the network does\<close>

text \<open>What a node stands for, and what an entry of the new network stands for.\<close>

abbreviation ident :: "'k BaseNetwork \<Rightarrow> node_ref \<Rightarrow> string \<times> 'k" where
  "ident net r \<equiv> (mAddress (nAddress (node net r)), nKey (node net r))"

definition entry_ident :: "string \<times> 'k \<Rightarrow> (string \<times> 'k) res" where
  "entry_ident e = rbind (BaseNodeAddress_fromString (fst e)) (\<lambda>a. Inr (mAddress a, snd e))"

text \<open>
  The state between two entries, with \<open>net0\<close> the network at the start and \<open>D\<close> the nodes that the
  entries so far ask for.
\<close>

definition moving ::
  "'k BaseNetwork \<Rightarrow> (string \<times> 'k) set \<Rightarrow> 'k BaseNetwork \<times> node_ref list \<times> ('k \<Rightarrow> node_ref list) \<Rightarrow> bool" where
  "moving net0 D st \<longleftrightarrow> (case st of (net, newNodes, newNetwork) \<Rightarrow>
     distinct newNodes \<and>
     set (mNodes net) = {r \<in> set (mNodes net0). ident net0 r \<notin> D} \<and>
     {r \<in> set newNodes. r < nextRef net0} = {r \<in> set (mNodes net0). ident net0 r \<in> D} \<and>
     nextRef net0 \<le> nextRef net \<and> (\<forall>r \<in> set newNodes. r < nextRef net) \<and>
     (\<forall>r < nextRef net0. node net r = node net0 r) \<and>
     ident net ` set newNodes = D \<and> inj_on (ident net) (set newNodes) \<and>
     (\<forall>k. set (newNetwork k) = {r \<in> set newNodes. nKey (node net r) = k}))"

lemma moving_start: "net_inv net \<Longrightarrow> moving net {} (net, [], (\<lambda>k. []))"
  by (simp add: moving_def)

lemma find_same_entry_None: "List.find (same_entry net a k) rs = None \<Longrightarrow> (a, k) \<notin> ident net ` set rs"
  by (auto simp: find_None_iff same_entry_def)

lemma find_same_entry_Some:
  "List.find (same_entry net a k) rs = Some r \<Longrightarrow> r \<in> set rs \<and> ident net r = (a, k)"
  by (auto simp: find_Some_iff same_entry_def)

lemma movingD:
  assumes "moving net0 D (net, ns, nw)"
  shows "distinct ns" and "set (mNodes net) = {r \<in> set (mNodes net0). ident net0 r \<notin> D}"
    and "{r \<in> set ns. r < nextRef net0} = {r \<in> set (mNodes net0). ident net0 r \<in> D}"
    and "nextRef net0 \<le> nextRef net" and "\<And>r. r \<in> set ns \<Longrightarrow> r < nextRef net"
    and "\<And>r. r < nextRef net0 \<Longrightarrow> node net r = node net0 r"
    and "ident net ` set ns = D" and "inj_on (ident net) (set ns)"
    and "\<And>k. set (nw k) = {r \<in> set ns. nKey (node net r) = k}"
  using assms by (simp_all add: moving_def)

text \<open>Taking the node \<open>r\<close> for the entry \<open>(a, k)\<close> into the new containers.\<close>

lemma insert_new:
  assumes "moving net0 D (net, ns, nw)" and "net_inv net0" and "ident net' r = (a, k)" and "(a, k) \<notin> D"
    and "\<And>s. s \<in> set ns \<Longrightarrow> node net' s = node net s"
  shows "ident net' ` insert r (set ns) = insert (a, k) D" and "inj_on (ident net') (insert r (set ns))"
    and "set ((nw(k := set_insert r (nw k))) k') = {s \<in> insert r (set ns). nKey (node net' s) = k'}"
proof -
  note m = movingD [OF assms(1)]
  have img: "ident net' ` set ns = D"
    unfolding m(7) [symmetric] by (rule image_cong) (simp_all add: assms(5))
  then show "ident net' ` insert r (set ns) = insert (a, k) D"
    using assms(3) by simp
  have "inj_on (ident net') (set ns)"
    using m(8) by (rule inj_on_cong [THEN iffD1, rotated]) (simp add: assms(5))
  moreover have "ident net' r \<notin> ident net' ` set ns"
    using img assms(3,4) by simp
  ultimately show "inj_on (ident net') (insert r (set ns))"
    unfolding inj_on_insert by (blast intro: imageI)
  have "{s \<in> set ns. nKey (node net' s) = k'} = {s \<in> set ns. nKey (node net s) = k'}" for k'
    using assms(5) by (intro Collect_cong conj_cong refl) simp
  then have "set (nw k') = {s \<in> set ns. nKey (node net' s) = k'}" for k'
    using m(9) by simp
  moreover have "nKey (node net' r) = k" using assms(3) by simp
  ultimately show "set ((nw(k := set_insert r (nw k))) k') = {s \<in> insert r (set ns). nKey (node net' s) = k'}"
    by (cases "k' = k") auto
qed

lemma moving_extract:
  assumes "moving net0 D (net, ns, nw)" and "net_inv net0" and "r \<in> set (mNodes net)" and "ident net r = (a, k)"
  shows "moving net0 (insert (a, k) D)
    (net\<lparr>mNodes := removeAll r (mNodes net)\<rparr>, set_insert r ns, nw(k := set_insert r (nw k)))"
proof -
  note m = movingD [OF assms(1)]
  let ?net = "net\<lparr>mNodes := removeAll r (mNodes net)\<rparr>"
  have same [simp]: "node ?net s = node net s" for s by (simp add: node_def)
  have r0: "r \<in> set (mNodes net0)" "ident net0 r \<notin> D" "r < nextRef net0"
    using assms(2,3) m(2) by (auto simp: net_inv_def)
  then have r: "ident net0 r = (a, k)" "(a, k) \<notin> D"
    using assms(4) m(6) by auto
  have uniq: "ident net0 s = (a, k) \<longleftrightarrow> s = r" if "s \<in> set (mNodes net0)" for s
    using that r0(1) r(1) assms(2) unfolding net_inv_def inj_on_def by metis
  note new = insert_new [OF assms(1,2), of ?net r a k, unfolded same, OF assms(4) r(2) refl]
  show ?thesis
    unfolding moving_def prod.case set_set_insert same
  proof (intro conjI allI ballI impI)
    show "set (mNodes ?net) = {s \<in> set (mNodes net0). ident net0 s \<notin> insert (a, k) D}"
      using m(2) uniq by auto
    show "{s \<in> insert r (set ns). s < nextRef net0} =
        {s \<in> set (mNodes net0). ident net0 s \<in> insert (a, k) D}"
      using m(3) uniq r0 r by auto
  qed (use m new r0 in auto)
qed

lemma moving_create:
  assumes "moving net0 D (net, ns, nw)" and "net_inv net0" and "(a, k) \<notin> D"
    and "(a, k) \<notin> ident net ` set (mNodes net)" and "nAddress n = addr" and "mAddress addr = a" and "nKey n = k"
  shows "moving net0 (insert (a, k) D)
    (net\<lparr>nodeStore := (nodeStore net)(nextRef net := n), nextRef := Suc (nextRef net)\<rparr>,
     set_insert (nextRef net) ns, nw(k := set_insert (nextRef net) (nw k)))"
proof -
  note m = movingD [OF assms(1)]
  let ?r = "nextRef net"
  let ?net = "net\<lparr>nodeStore := (nodeStore net)(?r := n), nextRef := Suc ?r\<rparr>"
  have same: "node ?net s = node net s" if "s < ?r" for s using that by (simp add: node_def)
  have new_ident: "ident ?net ?r = (a, k)" using assms(5-7) by (simp add: node_def)
  have none: "ident net0 s \<noteq> (a, k)" if "s \<in> set (mNodes net0)" for s
  proof
    assume s: "ident net0 s = (a, k)"
    then have "s \<in> set (mNodes net)" using that m(2) assms(3) by simp
    moreover have "ident net s = (a, k)" using s that m(6) [of s] assms(2) by (simp add: net_inv_def)
    ultimately show False using assms(4) by force
  qed
  have old: "node ?net s = node net s" if "s \<in> set ns" for s using same m(5) [OF that] .
  note new = insert_new [OF assms(1,2) new_ident assms(3) old]
  have fresh: "?r \<notin> set ns" using m(5) by blast
  show ?thesis
    unfolding moving_def prod.case set_set_insert
  proof (intro conjI allI ballI impI)
    show "set (mNodes ?net) = {s \<in> set (mNodes net0). ident net0 s \<notin> insert (a, k) D}"
      using m(2) none by auto
    show "{s \<in> insert ?r (set ns). s < nextRef net0} = {s \<in> set (mNodes net0). ident net0 s \<in> insert (a, k) D}"
      using m(3,4) none by auto
    show "ident ?net ` insert ?r (set ns) = insert (a, k) D" by (rule new(1))
    show "inj_on (ident ?net) (insert ?r (set ns))" by (rule new(2))
    show "set ((nw(k := set_insert ?r (nw k))) k') = {s \<in> insert ?r (set ns). nKey (node ?net s) = k'}" for k'
      by (rule new(3))
    show "node ?net s = node net0 s" if "s < nextRef net0" for s
      using same [of s] m(4,6) that by simp
    show "distinct (set_insert ?r ns)" using m(1) by simp
    show "nextRef net0 \<le> nextRef ?net" using m(4) by simp
    show "s < nextRef ?net" if "s \<in> insert ?r (set ns)" for s using m(5) [of s] that by auto
  qed
qed

lemma moving_entry:
  assumes "moving net0 D st" and "net_inv net0" and "setNetwork_entry clock e st = Inr st'"
  obtains i where "entry_ident e = Inr i" and "moving net0 (insert i D) st'"
proof -
  obtain address k net ns nw where e: "e = (address, k)" and st: "st = (net, ns, nw)"
    by (cases e, cases st) auto
  from assms(3) obtain a where a: "BaseNodeAddress_fromString address = Inr a"
    by (auto simp: setNetwork_entry_def e st res_simps)
  have i: "entry_ident e = Inr (mAddress a, k)" using a by (simp add: entry_ident_def e)
  have "moving net0 (insert (mAddress a, k) D) st'"
  proof (cases "List.find (same_entry net (mAddress a) k) (mNodes net)")
    case (Some r)
    then have st': "st' = (net\<lparr>mNodes := removeAll r (mNodes net)\<rparr>, set_insert r ns, nw(k := set_insert r (nw k)))"
      using assms(3) a by (simp add: setNetwork_entry_def e st)
    show ?thesis
      unfolding st' using assms(1) find_same_entry_Some [OF Some]
      by (intro moving_extract assms(2)) (simp_all only: st prod.inject)
  next
    case n: None
    show ?thesis
    proof (cases "List.find (same_entry net (mAddress a) k) ns")
      case (Some r)
      then have "(mAddress a, k) \<in> D"
        using movingD(7) [OF assms(1) [unfolded st]] find_same_entry_Some [OF Some] by force
      then show ?thesis
        using assms a n Some by (simp add: setNetwork_entry_def e st insert_absorb)
    next
      case None
      then have "(mAddress a, k) \<notin> D"
        using movingD(7) [OF assms(1) [unfolded st]] find_same_entry_None [OF None] by simp
      moreover have "st' = (net\<lparr>nodeStore := (nodeStore net)
            (nextRef net := BaseNode_of (clock (nextRef net)) k a), nextRef := Suc (nextRef net)\<rparr>,
          set_insert (nextRef net) ns, nw(k := set_insert (nextRef net) (nw k)))"
        using assms(3) a n None by (simp add: setNetwork_entry_def e st Let_def)
      ultimately show ?thesis
        using moving_create [OF assms(1) [unfolded st] assms(2) _ find_same_entry_None [OF n]]
        by (simp add: BaseNode_of_def)
    qed
  qed
  with i show thesis by (rule that)
qed

lemma moving_entries:
  assumes "net_inv net0" and "moving net0 D st" and "setNetwork_entries clock es st = Inr st'"
  shows "moving net0 (D \<union> {i. \<exists>e \<in> set es. entry_ident e = Inr i}) st'"
  using assms(2,3)
proof (induction es arbitrary: D st)
  case (Cons e es)
  from Cons.prems(2) obtain st1 where 1: "setNetwork_entry clock e st = Inr st1"
    and 2: "setNetwork_entries clock es st1 = Inr st'" by (auto simp: res_simps)
  from moving_entry [OF Cons.prems(1) assms(1) 1] obtain i
    where i: "entry_ident e = Inr i" and "moving net0 (insert i D) st1" .
  from Cons.IH [OF this(2) 2] show ?case
    by (rule back_subst [where P = "\<lambda>D. moving net0 D st'"]) (use i in auto)
qed simp

text \<open>The loop over the entries fails only on an address that does not parse.\<close>

lemma setNetwork_entry_total:
  "BaseNodeAddress_fromString address = Inr a \<Longrightarrow>
     \<exists>st'. setNetwork_entry clock (address, key) (net, ns, nw) = Inr st'"
  by (simp add: setNetwork_entry_def Let_def split: option.split)

lemma setNetwork_entries_total:
  "(\<And>e. e \<in> set es \<Longrightarrow> \<exists>a. BaseNodeAddress_fromString (fst e) = Inr a) \<Longrightarrow>
     \<exists>st'. setNetwork_entries clock es st = Inr st'"
proof (induction es arbitrary: st)
  case (Cons e es)
  obtain a where "BaseNodeAddress_fromString (fst e) = Inr a" using Cons.prems [of e] by auto
  then obtain st1 where st1: "setNetwork_entry clock e st = Inr st1"
    using setNetwork_entry_total [of "fst e" a clock "snd e" "fst st" "fst (snd st)" "snd (snd st)"] by auto
  have "\<exists>st'. setNetwork_entries clock es st1 = Inr st'" by (rule Cons.IH) (simp add: Cons.prems)
  then show ?case by (simp add: st1)
qed (simp del: split_paired_Ex)

lemma setNetwork_moving:
  assumes "net_inv net" and "setNetwork_entries clock network (net, [], (\<lambda>k. [])) = Inr (net1, ns, nw)"
  shows "moving net {i. \<exists>e \<in> set network. entry_ident e = Inr i} (net1, ns, nw)"
  using moving_entries [OF assms(1) moving_start [OF assms(1)] assms(2)] by simp

lemma mNodes_empty: "mNodes net = [] \<longleftrightarrow> set (mNodes net) = {}"
  by simp

lemma setNetwork_result:
  assumes "net_inv net" and "setNetwork clock t1 t2 network net = Inr net'"
  shows "net_inv net' \<and> ident net' ` set (mNodes net') = {i. \<exists>e \<in> set network. entry_ident e = Inr i} \<and>
    set (mNodes net) \<subseteq> set (mNodes net') \<and> (\<forall>r \<in> set (mNodes net). node net' r = node net r)"
proof -
  from assms(2) obtain net1 ns nw where
    entries: "setNetwork_entries clock network (net, [], (\<lambda>k. [])) = Inr (net1, ns, nw)"
    and none: "mNodes net1 = []"
    and net': "net' = readmitNodes t2 (net1\<lparr>mNodes := ns, mNetwork := nw, mHealthyNodes := [],
              mEarliestReadmitTime := t1\<rparr>)" (is "_ = readmitNodes t2 ?net2")
    by (auto simp: setNetwork_def remove_remaining_def res_simps split: if_splits)
  note m = movingD [OF setNetwork_moving [OF assms(1) entries]]
  have nodes: "node net' r = node net1 r" "node ?net2 r = node net1 r" for r
    by (simp_all add: net' node_def)
  have "net_inv ?net2"
    using m(1,5,8,9) by (simp add: net_inv_def nodes(2))
  then have "net_inv net'" unfolding net' by (rule readmitNodes_inv)
  moreover have "set (mNodes net) \<subseteq> set ns"
    using m(2,3) none by auto
  moreover have "r < nextRef net" if "r \<in> set (mNodes net)" for r
    using assms(1) that by (simp add: net_inv_def)
  moreover have "mNodes net' = ns" by (simp add: net')
  ultimately show ?thesis
    using m(6,7) by (simp add: nodes(1))
qed

section \<open>Picking nodes\<close>

lemma pick_loop_inv:
  "net_inv net \<Longrightarrow> distinct nodes \<Longrightarrow> set nodes \<subseteq> set (mNodes net) \<Longrightarrow> length nodes \<le> count \<Longrightarrow>
     pick_loop fuel clock rand count i nodes net = Some (rs, net') \<Longrightarrow>
     net_inv net' \<and> distinct rs \<and> set rs \<subseteq> set (mNodes net) \<and> length rs = count \<and> mNodes net' = mNodes net \<and>
     nodeStore net' = nodeStore net"
proof (induction fuel clock rand count i nodes net rule: pick_loop.induct)
  case (1 fuel clock rand count i nodes net)
  show ?case
  proof (cases "count \<le> length nodes")
    case True
    then show ?thesis using "1.prems" by (simp add: pick_loop.simps)
  next
    case False
    with "1.prems" obtain f where f: "fuel = Suc f"
      by (cases fuel) (simp_all add: pick_loop.simps [of 0])
    let ?net = "readmitNodes (clock i) net"
    have net: "net_inv ?net" using "1.prems"(1) by (rule readmitNodes_inv)
    show ?thesis
    proof (cases "mHealthyNodes ?net = []")
      case True
      then show ?thesis
        using "1.IH"(1) [OF False f refl True] "1.prems" net False by (simp add: f pick_loop.simps [of "Suc f"])
    next
      case h: False
      let ?r = "mHealthyNodes ?net ! (rand i mod length (mHealthyNodes ?net))"
      have "?r \<in> set (mHealthyNodes ?net)" using h by simp
      with net have "?r \<in> set (mNodes net)" by (auto simp: net_inv_def)
      moreover have "length (set_insert ?r nodes) \<le> count" using False by (simp add: set_insert_def)
      ultimately show ?thesis
        using "1.IH"(2) [OF False f refl h refl] "1.prems" net False h
        by (simp add: f pick_loop.simps [of "Suc f"] Let_def)
    qed
  qed
qed

text \<open>
  When every node is healthy the loop ends as soon as the random numbers have chosen enough
  different nodes.
\<close>

lemma readmitNodes_all_healthy:
  assumes "set (mHealthyNodes net) = set (mNodes net)"
  shows "mHealthyNodes (readmitNodes now net) = mHealthyNodes net"
proof -
  have "foldl (\<lambda>hs r. if r \<notin> set hs \<and> P r then set_insert r hs else hs) hs rs = hs" if "set rs \<subseteq> set hs" for P hs rs
    using that by (induction rs) auto
  from this [of "mNodes net" "mHealthyNodes net"] show ?thesis
    using assms by (simp add: readmitNodes_def Let_def)
qed

lemma pick_loop_ends:
  assumes "set (mHealthyNodes net) = set (mNodes net)" and "distinct nodes"
    and "count \<le> card (set nodes \<union> (\<lambda>j. mHealthyNodes net ! (rand j mod length (mHealthyNodes net))) ` {i..<i + fuel})"
    and "mNodes net \<noteq> []"
  shows "\<exists>r. pick_loop fuel clock rand count i nodes net = Some r"
  using assms
proof (induction fuel arbitrary: i nodes net)
  case 0
  then have "count \<le> length nodes" by (simp add: distinct_card)
  then show ?case by (simp add: pick_loop.simps)
next
  case (Suc fuel)
  let ?net = "readmitNodes (clock i) net"
  let ?h = "mHealthyNodes net"
  let ?r = "?h ! (rand i mod length ?h)"
  have h: "mHealthyNodes ?net = ?h" by (rule readmitNodes_all_healthy [OF Suc.prems(1)])
  have ne: "?h \<noteq> []" using Suc.prems(1,4) by (metis set_empty)
  have split: "{i..<i + Suc fuel} = insert i {Suc i..<Suc i + fuel}" by auto
  have "\<exists>r. pick_loop fuel clock rand count (Suc i) (set_insert ?r nodes) ?net = Some r"
  proof (rule Suc.IH)
    show "count \<le> card (set (set_insert ?r nodes) \<union>
        (\<lambda>j. mHealthyNodes ?net ! (rand j mod length (mHealthyNodes ?net))) ` {Suc i..<Suc i + fuel})"
      using Suc.prems(3) unfolding split h by (simp only: image_insert set_set_insert Un_insert_left Un_insert_right)
  qed (use Suc.prems h in simp_all)
  then show ?case
    using ne by (simp add: pick_loop.simps [of "Suc fuel"] h Let_def)
qed

lemma pick_loop_stuck:
  "net_inv net \<Longrightarrow> distinct nodes \<Longrightarrow> set nodes \<subseteq> set (mNodes net) \<Longrightarrow> length nodes \<le> count \<Longrightarrow>
     length (mNodes net) < count \<Longrightarrow> pick_loop fuel clock rand count i nodes net = None"
proof (rule ccontr)
  assume inv: "net_inv net" "distinct nodes" "set nodes \<subseteq> set (mNodes net)" "length nodes \<le> count"
    and count: "length (mNodes net) < count" and "pick_loop fuel clock rand count i nodes net \<noteq> None"
  then obtain rs net' where "pick_loop fuel clock rand count i nodes net = Some (rs, net')" by auto
  from pick_loop_inv [OF inv this] have "card (set rs) = count" "set rs \<subseteq> set (mNodes net)"
    by (simp_all add: distinct_card)
  with card_mono [of "set (mNodes net)" "set rs"] card_length [of "mNodes net"] count show False by simp
qed

lemma nodes_for_execute_third:
  "nodes_for_execute m net = (if 0 < m then min m (length (mNodes net)) else (length (mNodes net) + 2) div 3)"
proof -
  have "nat \<lceil>real n / 3\<rceil> = (n + 2) div 3" for n :: nat
  proof -
    have "\<lceil>real n / 3\<rceil> = int ((n + 2) div 3)"
      by (rule ceiling_unique) linarith+
    then show ?thesis by simp
  qed
  then show ?thesis by (simp add: nodes_for_execute_def)
qed

lemma getNodeAccountIdsForExecute_ends:
  assumes "net_inv net" and "mMaxNodeAttempts net = 0" and "set (mHealthyNodes net) = set (mNodes net)"
    and "mNodes net \<noteq> []"
    and "nodes_for_execute m net \<le> card ((\<lambda>j. rand j mod length (mNodes net)) ` {..<fuel})"
  shows "\<exists>r. getNodeAccountIdsForExecute fuel clock rand m net = Inr (Some r)"
proof -
  let ?h = "mHealthyNodes net"
  have d: "distinct ?h" "distinct (mNodes net)"
    using assms(1) by (simp_all add: net_inv_def)
  have dist: "length ?h = length (mNodes net)"
    using d [THEN distinct_card] assms(3) by simp
  have "inj_on ((!) ?h) ((\<lambda>j. rand j mod length ?h) ` {..<fuel})"
    using d(1) dist assms(4) by (auto intro!: inj_on_nth)
  from card_image [OF this]
  have "card ((\<lambda>j. ?h ! (rand j mod length ?h)) ` {..<fuel}) = card ((\<lambda>j. rand j mod length ?h) ` {..<fuel})"
    by (simp only: image_image)
  then have "\<exists>r. pick_loop fuel clock rand (nodes_for_execute m net) 0 [] net = Some r"
    using assms(5) dist by (intro pick_loop_ends assms(3,4)) (simp_all add: lessThan_atLeast0)
  then show ?thesis
    using assms(2) by (auto simp: getNodeAccountIdsForExecute_def getNumberOfMostHealthyNodes_def remove_failing_def)
qed

section \<open>Properties\<close>

text \<open>
  C25. Replacing the network, when it returns, leaves exactly the nodes that the new entries name,
  each under its key; a node that was there before is the same object, with its backoff and its
  channel, and no node is twice in the network under two ports.
\<close>

theorem set_network_installs:
  assumes "net_inv net" and "setNetwork clock t1 t2 network net = Inr net'"
  shows "net_inv net' \<and> ident net' ` set (mNodes net') = {i. \<exists>e \<in> set network. entry_ident e = Inr i} \<and>
    set (mNodes net) \<subseteq> set (mNodes net') \<and> (\<forall>r \<in> set (mNodes net). node net' r = node net r)"
  by (rule setNetwork_result [OF assms])

theorem set_network_installs_witness:
  "\<exists>net'. setNetwork (\<lambda>r. 0) 0 1 [(''127.0.0.1:50211'', 3 :: nat)] (BaseNetwork_default 0) = Inr net' \<and>
     net_inv net' \<and> ident net' ` set (mNodes net') = {(''127.0.0.1'', 3)}"
proof -
  obtain net' where n: "setNetwork (\<lambda>r. 0) 0 1 [(''127.0.0.1:50211'', 3 :: nat)] (BaseNetwork_default 0) = Inr net'"
    by (simp add: setNetwork_def setNetwork_entry_def local_address remove_remaining_def BaseNetwork_default_def Let_def)
  have "{i. \<exists>e \<in> set [(''127.0.0.1:50211'', 3 :: nat)]. entry_ident e = Inr i} = {(''127.0.0.1'', 3)}"
    by (auto simp: entry_ident_def local_address BaseNodeAddress_of_def)
  with set_network_installs [OF BaseNetwork_default_inv n] n show ?thesis by simp
qed

text \<open>
  Replacing the network by one whose addresses parse is undefined behaviour exactly when some
  present node is not in the new network.
\<close>

theorem set_network_removal_undefined:
  assumes "net_inv net" and "\<And>e. e \<in> set network \<Longrightarrow> \<exists>a. BaseNodeAddress_fromString (fst e) = Inr a"
  shows "setNetwork clock t1 t2 network net = Inl UndefinedBehavior \<longleftrightarrow>
    (\<exists>r \<in> set (mNodes net). \<forall>e \<in> set network. entry_ident e \<noteq> Inr (ident net r))"
proof -
  from setNetwork_entries_total [OF assms(2)] obtain net1 ns nw
    where entries: "setNetwork_entries clock network (net, [], (\<lambda>k. [])) = Inr (net1, ns, nw)"
    by (metis prod_cases3)
  have "set (mNodes net1) = {r \<in> set (mNodes net). \<forall>e \<in> set network. entry_ident e \<noteq> Inr (ident net r)}"
    using movingD(2) [OF setNetwork_moving [OF assms(1) entries]] by auto
  then have "mNodes net1 = [] \<longleftrightarrow> \<not> (\<exists>r \<in> set (mNodes net). \<forall>e \<in> set network. entry_ident e \<noteq> Inr (ident net r))"
    unfolding mNodes_empty by auto
  then show ?thesis
    by (simp add: setNetwork_def entries remove_remaining_def)
qed

theorem set_network_removal_undefined_witness:
  "\<exists>net'. setNetwork (\<lambda>r. 0) 0 1 [(''127.0.0.1:50211'', 3 :: nat)] (BaseNetwork_default 0) = Inr net' \<and>
     setNetwork (\<lambda>r. 0) 1 2 [] net' = Inl UndefinedBehavior"
proof -
  obtain net' where n: "setNetwork (\<lambda>r. 0) 0 1 [(''127.0.0.1:50211'', 3 :: nat)] (BaseNetwork_default 0) = Inr net'"
    by (simp add: setNetwork_def setNetwork_entry_def local_address remove_remaining_def BaseNetwork_default_def Let_def)
  have "set (mNodes net') \<noteq> {}"
    using setNetwork_result [OF BaseNetwork_default_inv n] by (auto simp: entry_ident_def local_address)
  then show ?thesis
    using n setNetwork_result [OF BaseNetwork_default_inv n] set_network_removal_undefined [of net' "[]" "\<lambda>r. 0" 1 2]
    by fastforce
qed

text \<open>
  C32. With no limit on the failures of a node, the node accounts chosen for a request are those of
  different nodes of the network: a third of the nodes, rounded up, or the configured number, at
  most all.
\<close>

theorem nodes_for_execute_spec:
  assumes "net_inv net" and "mMaxNodeAttempts net = 0"
    and "getNodeAccountIdsForExecute fuel clock rand m net = Inr (Some (ids, net'))"
  shows "net_inv net' \<and> length ids = (if 0 < m then min m (length (mNodes net)) else (length (mNodes net) + 2) div 3) \<and>
    (\<exists>rs. distinct rs \<and> set rs \<subseteq> set (mNodes net) \<and> ids = map (\<lambda>r. nKey (node net r)) rs)"
proof -
  from assms(2,3) obtain rs where
    pick: "pick_loop fuel clock rand (nodes_for_execute m net) 0 [] net = Some (rs, net')"
    and ids: "ids = map (\<lambda>r. nKey (node net' r)) rs"
    by (auto simp: getNodeAccountIdsForExecute_def getNumberOfMostHealthyNodes_def remove_failing_def)
  from pick_loop_inv [OF assms(1) _ _ _ pick] show ?thesis
    by (auto simp: ids nodes_for_execute_third node_def)
qed

theorem nodes_for_execute_spec_witness:
  "\<exists>net net'. setNetwork (\<lambda>r. 0) 0 1 [(''127.0.0.1:50211'', 3 :: nat)] (BaseNetwork_default 0) = Inr net \<and>
     getNodeAccountIdsForExecute 1 (\<lambda>i. 2) (\<lambda>i. 0) 0 net = Inr (Some ([3], net'))"
proof -
  obtain net where n: "setNetwork (\<lambda>r. 0) 0 1 [(''127.0.0.1:50211'', 3 :: nat)] (BaseNetwork_default 0) = Inr net"
    and len: "length (mNodes net) = 1" and att: "mMaxNodeAttempts net = 0" and h: "mHealthyNodes net = [0]"
    and key: "nKey (node net 0) = 3"
    by (simp add: setNetwork_def setNetwork_entry_def local_address remove_remaining_def BaseNetwork_default_def Let_def
        readmitNodes_def node_def BaseNode_of_def set_insert_def DEFAULT_MAX_NODE_ATTEMPTS_def)
  note inv = setNetwork_result [OF BaseNetwork_default_inv n]
  have "\<exists>r. getNodeAccountIdsForExecute 1 (\<lambda>i. 2) (\<lambda>i. 0) 0 net = Inr (Some r)"
    by (rule getNodeAccountIdsForExecute_ends)
      (use inv len att h in \<open>auto simp: net_inv_def nodes_for_execute_third length_Suc_conv\<close>)
  then obtain ids net' where r: "getNodeAccountIdsForExecute 1 (\<lambda>i. 2) (\<lambda>i. 0) 0 net = Inr (Some (ids, net'))"
    by auto
  obtain x where "mNodes net = [x]" using len by (auto simp: length_Suc_conv)
  then have "ids = [3]"
    using nodes_for_execute_spec [OF _ att r] inv h key len by (auto simp: net_inv_def length_Suc_conv)
  with n r show ?thesis by blast
qed

text \<open>
  C33. The choice of the nodes for a request ends, when all nodes are healthy and no node may fail
  too often, as soon as the random numbers have taken as many different values as nodes are wanted.
\<close>

theorem nodes_for_execute_ends:
  assumes "net_inv net" and "mMaxNodeAttempts net = 0" and "set (mHealthyNodes net) = set (mNodes net)"
    and "mNodes net \<noteq> []"
    and "nodes_for_execute m net \<le> card ((\<lambda>j. rand j mod length (mNodes net)) ` {..<fuel})"
  shows "\<exists>ids net'. getNodeAccountIdsForExecute fuel clock rand m net = Inr (Some (ids, net'))"
  using getNodeAccountIdsForExecute_ends [OF assms] by auto

theorem nodes_for_execute_ends_witness:
  "\<exists>ids net'. getNodeAccountIdsForExecute 1 (\<lambda>i. 2) (\<lambda>i. 0) 0
     (BaseNetwork_default 0 \<lparr>mNodes := [0], mHealthyNodes := [0], mNetwork := (\<lambda>k. if k = 3 then [0] else []),
        nextRef := 1, nodeStore := (\<lambda>r. BaseNode_of 0 (3 :: nat) (BaseNodeAddress_of [] [] 0))\<rparr>) =
     Inr (Some (ids, net'))"
  by (rule nodes_for_execute_ends)
    (auto simp: net_inv_def BaseNetwork_default_def node_def BaseNode_of_def nodes_for_execute_third
      DEFAULT_MAX_NODE_ATTEMPTS_def)

end
