(* ===== verification/TransactionIds.thy ===== *)
theory TransactionIds
  imports AccountIds Backoff "HOL-Library.Signed_Division"
begin

text \<open>
  \<open>TransactionId.cc\<close> with \<open>TimestampConverter.cc\<close> and \<open>DurationConverter.cc\<close>. Divisions of signed
  integers truncate towards zero. A point in time is a count of nanoseconds.
\<close>

section \<open>Timestamps and durations\<close>

record proto_Timestamp =
  ts_seconds :: int
  ts_nanos :: int

definition Timestamp_fromProtobuf :: "proto_Timestamp \<Rightarrow> time_point res" where
  "Timestamp_fromProtobuf p = rbind (i64 (ts_seconds p * 1000000000)) (\<lambda>n. i64 (n + ts_nanos p))"

text \<open>A \<open>TimestampSeconds\<close> is its seconds.\<close>

definition TimestampSeconds_fromProtobuf :: "int \<Rightarrow> time_point res" where
  "TimestampSeconds_fromProtobuf secs = i64 (secs * 1000000000)"

definition Timestamp_toProtobuf :: "time_point \<Rightarrow> proto_Timestamp" where
  "Timestamp_toProtobuf t = \<lparr>ts_seconds = t sdiv 1000000000, ts_nanos = t smod 1000000000\<rparr>"

definition toSecondsProtobuf :: "time_point \<Rightarrow> int" where
  "toSecondsProtobuf t = t sdiv 1000000000"

definition Timestamp_toString :: "time_point \<Rightarrow> string" where
  "Timestamp_toString t =
     (let secs = t sdiv 1000000000
      in to_string_int secs @ CHR ''.'' # to_string_int (t - secs * 1000000000))"

text \<open>
  A protobuf duration is its seconds. Read back, the seconds are a \<open>std::chrono::seconds\<close>, which
  the setters convert to the nanoseconds of a \<open>system_clock::duration\<close>.
\<close>

definition Duration_fromProtobuf :: "int \<Rightarrow> duration res" where
  "Duration_fromProtobuf secs = i64 (secs * 1000000000)"

definition Duration_toProtobuf :: "duration \<Rightarrow> int" where
  "Duration_toProtobuf d = d sdiv 1000000000"

section \<open>Transaction IDs\<close>

record TransactionId =
  mAccountId :: AccountId
  mValidTransactionTime :: time_point
  mScheduled :: bool
  mNonce :: int

definition TransactionId_default :: TransactionId where
  "TransactionId_default =
     \<lparr>mAccountId = AccountId_default, mValidTransactionTime = 0, mScheduled = False, mNonce = 0\<rparr>"

definition withValidStart :: "AccountId \<Rightarrow> time_point \<Rightarrow> TransactionId" where
  "withValidStart accountId start =
     TransactionId_default\<lparr>mAccountId := accountId, mValidTransactionTime := start\<rparr>"

definition generate :: "time_point \<Rightarrow> AccountId \<Rightarrow> TransactionId" where
  "generate now accountId = withValidStart accountId now"

definition setScheduled :: "bool \<Rightarrow> TransactionId \<Rightarrow> TransactionId" where
  "setScheduled scheduled x = x\<lparr>mScheduled := scheduled\<rparr>"

definition setNonce :: "int \<Rightarrow> TransactionId \<Rightarrow> TransactionId" where
  "setNonce nonce x = x\<lparr>mNonce := nonce\<rparr>"

definition TransactionId_eq :: "openssl \<Rightarrow> TransactionId \<Rightarrow> TransactionId \<Rightarrow> bool" where
  "TransactionId_eq ssl x y \<longleftrightarrow>
     mValidTransactionTime x = mValidTransactionTime y \<and> AccountId_eq ssl (mAccountId x) (mAccountId y) \<and>
     mScheduled x = mScheduled y \<and> mNonce x = mNonce y"

record proto_TransactionID =
  tid_transactionValidStart :: "proto_Timestamp option"
  tid_accountID :: "proto_AccountID option"
  tid_scheduled :: bool
  tid_nonce :: int

definition TransactionId_fromProtobuf ::
  "openssl \<Rightarrow> (bytes \<Rightarrow> proto_Key) \<Rightarrow> proto_TransactionID \<Rightarrow> TransactionId res" where
  "TransactionId_fromProtobuf ssl parseKey p =
     rbind (case tid_transactionValidStart p of None \<Rightarrow> Inr 0 | Some ts \<Rightarrow> Timestamp_fromProtobuf ts) (\<lambda>t.
     rbind (case tid_accountID p of None \<Rightarrow> Inr AccountId_default
            | Some a \<Rightarrow> AccountId_fromProtobuf ssl parseKey a) (\<lambda>a.
       Inr \<lparr>mAccountId = a, mValidTransactionTime = t, mScheduled = tid_scheduled p, mNonce = tid_nonce p\<rparr>))"

definition TransactionId_toProtobuf :: "(proto_Key \<Rightarrow> bytes) \<Rightarrow> TransactionId \<Rightarrow> proto_TransactionID res" where
  "TransactionId_toProtobuf serializeKey x =
     rbind (AccountId_toProtobuf serializeKey (mAccountId x)) (\<lambda>a.
       Inr \<lparr>tid_transactionValidStart = Some (Timestamp_toProtobuf (mValidTransactionTime x)),
            tid_accountID = Some a, tid_scheduled = mScheduled x, tid_nonce = mNonce x\<rparr>)"

section \<open>Text\<close>

definition getTimestampScheduleNonceString :: "TransactionId \<Rightarrow> string" where
  "getTimestampScheduleNonceString x =
     CHR ''@'' # Timestamp_toString (mValidTransactionTime x) @
     (if mScheduled x then ''?scheduled'' else []) @
     (if mNonce x \<noteq> 0 then CHR ''/'' # to_string_int (mNonce x) else [])"

definition TransactionId_toString :: "openssl \<Rightarrow> TransactionId \<Rightarrow> string res" where
  "TransactionId_toString ssl x =
     rbind (AccountId_toString ssl (mAccountId x)) (\<lambda>a. Inr (a @ getTimestampScheduleNonceString x))"

definition TransactionId_toStringWithChecksum ::
  "client_ledger \<Rightarrow> TransactionId \<Rightarrow> (string \<times> TransactionId) res" where
  "TransactionId_toStringWithChecksum client x =
     rbind (AccountId_toStringWithChecksum client (mAccountId x)) (\<lambda>(a, acc).
       Inr (a @ getTimestampScheduleNonceString x, x\<lparr>mAccountId := acc\<rparr>))"

text \<open>
  The parts of the text from its end. \<open>remove_suffix\<close> with more characters than the view has, which
  is what a missing separator leads to, is undefined.
\<close>

definition read_nonce :: "string \<Rightarrow> (string \<times> int) res" where
  "read_nonce t =
     (case find_last_of CHR ''/'' t of None \<Rightarrow> Inr (t, 0)
      | Some slash \<Rightarrow> rbind (getNum (drop (slash + 1) t)) (\<lambda>n. Inr (take slash t, sint (ucast n :: u32))))"

definition read_scheduled :: "string \<Rightarrow> string \<times> bool" where
  "read_scheduled t =
     (case find_last_of CHR ''?'' t of None \<Rightarrow> (t, False)
      | Some questionMark \<Rightarrow> (take questionMark t, drop (questionMark + 1) t = ''scheduled''))"

definition split_last :: "char \<Rightarrow> string \<Rightarrow> (string \<times> string) res" where
  "split_last c t =
     (case find_last_of c t of None \<Rightarrow> Inl UndefinedBehavior | Some i \<Rightarrow> Inr (take i t, drop (i + 1) t))"

text \<open>The unsigned numbers become the signed counts of \<open>seconds\<close> and \<open>nanoseconds\<close>.\<close>

definition read_time :: "string \<Rightarrow> string \<Rightarrow> time_point res" where
  "read_time secondsStr nanosecondsStr =
     rbind (getNum secondsStr) (\<lambda>s. rbind (getNum nanosecondsStr) (\<lambda>n.
     rbind (i64 (sint s * 1000000000)) (\<lambda>k. i64 (k + sint n))))"

definition TransactionId_fromString :: "openssl \<Rightarrow> string \<Rightarrow> string \<Rightarrow> TransactionId res" where
  "TransactionId_fromString ssl text after =
     rbind (read_nonce text) (\<lambda>(t, nonce).
     case read_scheduled t of (t, scheduled) \<Rightarrow>
     rcatch caught
       (rbind (split_last CHR ''.'' t) (\<lambda>(t, nanosecondsStr).
        rbind (split_last CHR ''@'' t) (\<lambda>(t, secondsStr).
        rbind (read_time secondsStr nanosecondsStr) (\<lambda>time.
        rbind (AccountId_fromString ssl t (drop (length t) text @ after)) (\<lambda>account.
          Inr \<lparr>mAccountId = account, mValidTransactionTime = time, mScheduled = scheduled, mNonce = nonce\<rparr>)))))
       (Inl InvalidArgument))"

section \<open>Numbered accounts\<close>

text \<open>The accounts that are given by their numbers alone.\<close>

definition numbered :: "AccountId \<Rightarrow> bool" where
  "numbered a \<longleftrightarrow> (\<exists>s r n. a = AccountId_of s r n [])"

lemma AccountId_of_eq [simp]:
  "AccountId_eq ssl (AccountId_of s r n c) (AccountId_of s' r' n' c') \<longleftrightarrow> s = s' \<and> r = r' \<and> n = n'"
  by (simp add: AccountId_eq_def AccountId_of_def AccountId_default_def)

lemma numbered_eq: "numbered a \<Longrightarrow> numbered b \<Longrightarrow> AccountId_eq ssl a b \<longleftrightarrow> a = b"
  by (auto simp: numbered_def AccountId_of_def AccountId_default_def AccountId_eq_def)

text \<open>A numbered account is read back whatever the key formats are.\<close>

lemma numbered_roundtrip:
  "numbered a \<Longrightarrow> \<exists>p. AccountId_toProtobuf ser a = Inr p \<and> AccountId_fromProtobuf ssl prs p = Inr a"
  by (auto simp: numbered_def AccountId_toProtobuf_def AccountId_fromProtobuf_def AccountId_of_def AccountId_default_def Let_def)

abbreviation account :: "u64 \<Rightarrow> AccountId" where
  "account n \<equiv> AccountId_of 0 0 n []"

lemma numbered_account [simp]: "numbered (account n)"
  by (auto simp: numbered_def)

section \<open>Round trips\<close>

lemma sdiv_mult:
  fixes t k :: int
  assumes "0 < k"
  shows "\<bar>t sdiv k * k\<bar> \<le> \<bar>t\<bar>"
proof -
  have "\<bar>t\<bar> div k * k \<le> \<bar>t\<bar>"
    using assms by (metis div_mult_mod_eq le_add_same_cancel1 pos_mod_sign)
  moreover have "\<bar>t sdiv k * k\<bar> = \<bar>t\<bar> div k * k"
    using assms by (simp add: signed_divide_int_def abs_mult sgn_if pos_imp_zdiv_nonneg_iff)
  ultimately show ?thesis by simp
qed

lemma sdiv_bounds:
  fixes t :: int
  assumes "- (2 ^ 63) \<le> t" and "t < 2 ^ 63"
  shows "- (2 ^ 63) \<le> t sdiv 1000000000 * 1000000000" and "t sdiv 1000000000 * 1000000000 < 2 ^ 63"
  using sdiv_mult [of 1000000000 t] assms by (cases "0 \<le> t"; simp add: signed_divide_int_def; linarith)+

lemma i64_fits: "- (2 ^ 63) \<le> n \<Longrightarrow> n < 2 ^ 63 \<Longrightarrow> i64 n = Inr n"
  by (simp add: i64_def)

lemma Timestamp_roundtrip:
  assumes "- (2 ^ 63) \<le> t" and "t < 2 ^ 63"
  shows "Timestamp_fromProtobuf (Timestamp_toProtobuf t) = Inr t"
proof -
  let ?q = "t sdiv 1000000000 * 1000000000"
  have "?q + t smod 1000000000 = t"
    by (rule sdiv_mult_smod_eq)
  moreover have "i64 ?q = Inr ?q"
    by (rule i64_fits [OF sdiv_bounds [OF assms]])
  moreover have "i64 t = Inr t"
    by (rule i64_fits [OF assms])
  ultimately show ?thesis
    by (simp only: Timestamp_fromProtobuf_def Timestamp_toProtobuf_def proto_Timestamp.simps rbind.simps)
qed

text \<open>Durations lose what is below a second.\<close>

lemma Duration_roundtrip:
  assumes "- (2 ^ 63) \<le> d" and "d < 2 ^ 63"
  shows "Duration_fromProtobuf (Duration_toProtobuf d) = Inr (d sdiv 1000000000 * 1000000000)"
  unfolding Duration_fromProtobuf_def Duration_toProtobuf_def by (rule i64_fits [OF sdiv_bounds [OF assms]])

text \<open>The identifiers whose text is read back: a numbered payer, a time after the epoch.\<close>

definition TransactionId_plain :: "TransactionId \<Rightarrow> bool" where
  "TransactionId_plain x \<longleftrightarrow>
     (\<exists>s r n. mAccountId x = AccountId_of s r n []) \<and> 0 \<le> mValidTransactionTime x \<and>
     mValidTransactionTime x < 2 ^ 63 \<and> 0 \<le> mNonce x \<and> mNonce x < 2 ^ 31"

lemma AccountId_of_text [simp]:
  "AccountId_toString ssl (AccountId_of s r n []) = Inr (dotted s r (to_string (unat n)))"
  by (simp add: AccountId_toString_def AccountId_of_def AccountId_default_def dotted_def)

lemma AccountId_fromString_num:
  assumes "openssl_no_dot ssl"
  shows "AccountId_fromString ssl (dotted s r (to_string (unat n))) after = Inr (AccountId_of s r n [])"
proof -
  have "\<And>c. c \<in> set (to_string (unat n)) \<Longrightarrow> c \<noteq> CHR ''.'' \<and> c \<noteq> CHR ''-'' \<and> c \<noteq> CHR 0x00"
    using to_string_digits by (fastforce simp: is_digit_def)
  then show ?thesis
    using AccountId_fromString_dotted [OF assms] by simp
qed

lemma sdiv_nonneg: "0 \<le> (t :: int) \<Longrightarrow> 0 < k \<Longrightarrow> t sdiv k = t div k"
  by (cases "t = 0") (simp_all add: signed_divide_int_def sgn_if)

lemma Timestamp_toString_nonneg:
  assumes "0 \<le> t"
  shows "Timestamp_toString t =
    to_string (nat (t div 1000000000)) @ CHR ''.'' # to_string (nat (t mod 1000000000))"
proof -
  have "t - t div 1000000000 * 1000000000 = t mod 1000000000"
    by (simp add: minus_div_mult_eq_mod)
  moreover have "0 \<le> t div 1000000000" "0 \<le> t mod 1000000000"
    using assms by simp_all
  ultimately show ?thesis
    using assms by (simp add: Timestamp_toString_def sdiv_nonneg to_string_int_def Let_def)
qed

lemma getNum_signed: "0 \<le> n \<Longrightarrow> n < 2 ^ 63 \<Longrightarrow> \<exists>w. getNum (to_string (nat n)) = Inr w \<and> sint w = n"
  using sint_of_nat_u64 [of "nat n"] by (intro exI [of _ "of_nat (nat n)"] conjI) (simp_all add: getNum_to_string_nat del: sint_of_nat_u64)

lemma read_time_string:
  assumes "0 \<le> t" and "t < 2 ^ 63"
  shows "read_time (to_string (nat (t div 1000000000))) (to_string (nat (t mod 1000000000))) = Inr t"
proof -
  define q where "q = t div 1000000000"
  define m where "m = t mod 1000000000"
  have t: "q * 1000000000 + m = t" unfolding q_def m_def by (rule div_mult_mod_eq)
  have b: "0 \<le> q" "0 \<le> m" "m < 1000000000"
    using assms(1) by (simp_all add: q_def m_def)
  then obtain v w where "getNum (to_string (nat q)) = Inr v" "sint v = q"
    "getNum (to_string (nat m)) = Inr w" "sint w = m"
    using getNum_signed [of q] getNum_signed [of m] t assms(2) by auto
  moreover have "i64 (q * 1000000000) = Inr (q * 1000000000)" "i64 (q * 1000000000 + m) = Inr t"
    using b t assms by (simp_all add: i64_fits)
  ultimately show ?thesis
    by (simp add: read_time_def q_def [symmetric] m_def [symmetric])
qed

lemma getNum_nonce:
  assumes "0 \<le> n" and "n < 2 ^ 31"
  shows "\<exists>w. getNum (to_string (nat n)) = Inr w \<and> sint (ucast w :: u32) = n"
proof -
  have "nat n < 2 ^ 64" "nat n < 2 ^ 32" using assms by simp_all
  moreover have "uint (ucast (of_nat (nat n) :: u64) :: u32) = n"
    using assms calculation by (simp add: unsigned_ucast_eq take_bit_eq_mod uint_word_of_int)
  then have "sint (ucast (of_nat (nat n) :: u64) :: u32) = n"
    using assms by (simp add: sint_uint signed_take_bit_int_eq_self)
  ultimately show ?thesis by (auto simp: getNum_to_string_nat)
qed

lemma split_last_append: "c \<notin> set ys \<Longrightarrow> split_last c (xs @ c # ys) = Inr (xs, ys)"
  by (simp add: split_last_def)

lemma read_nonce_append:
  "CHR ''/'' \<notin> set ys \<Longrightarrow>
     read_nonce (xs @ CHR ''/'' # ys) = rbind (getNum ys) (\<lambda>n. Inr (xs, sint (ucast n :: u32)))"
  by (simp add: read_nonce_def)

lemma read_none:
  "CHR ''/'' \<notin> set t \<Longrightarrow> read_nonce t = Inr (t, 0)" "CHR ''?'' \<notin> set t \<Longrightarrow> read_scheduled t = (t, False)"
  by (simp_all add: read_nonce_def read_scheduled_def)

lemma read_scheduled_append:
  "CHR ''?'' \<notin> set ys \<Longrightarrow> read_scheduled (xs @ CHR ''?'' # ys) = (xs, ys = ''scheduled'')"
  by (simp add: read_scheduled_def)

lemma separators_notin_dotted [simp]:
  "c \<in> {CHR ''@'', CHR ''/'', CHR ''?''} \<Longrightarrow> c \<notin> set (dotted s r (to_string n))"
  by (auto simp: dotted_def)

lemma transaction_id_text:
  assumes ssl: "openssl_no_dot ssl" and "TransactionId_plain x"
  shows "rbind (TransactionId_toString ssl x) (\<lambda>t. TransactionId_fromString ssl t after) = Inr x"
proof -
  obtain s r n where a: "mAccountId x = AccountId_of s r n []"
    and t: "0 \<le> mValidTransactionTime x" "mValidTransactionTime x < 2 ^ 63"
    and m: "0 \<le> mNonce x" "mNonce x < 2 ^ 31"
    using assms(2) by (auto simp: TransactionId_plain_def)
  let ?A = "dotted s r (to_string (unat n))"
  let ?S = "to_string (nat (mValidTransactionTime x div 1000000000))"
  let ?N = "to_string (nat (mValidTransactionTime x mod 1000000000))"
  let ?T = "(?A @ CHR ''@'' # ?S) @ CHR ''.'' # ?N"
  let ?U = "?T @ (if mScheduled x then CHR ''?'' # ''scheduled'' else [])"
  let ?text = "?U @ (if mNonce x \<noteq> 0 then CHR ''/'' # to_string (nat (mNonce x)) else [])"
  have printed: "TransactionId_toString ssl x = Inr ?text"
    using m by (simp add: TransactionId_toString_def a getTimestampScheduleNonceString_def
        Timestamp_toString_nonneg [OF t(1)] to_string_int_def)
  have nonce: "read_nonce ?text = Inr (?U, mNonce x)"
  proof (cases "mNonce x = 0")
    case False
    obtain w where "getNum (to_string (nat (mNonce x))) = Inr w" "sint (ucast w :: u32) = mNonce x"
      using getNum_nonce [OF m] by blast
    then have "read_nonce (?U @ CHR ''/'' # to_string (nat (mNonce x))) = Inr (?U, mNonce x)"
      by (subst read_nonce_append) simp_all
    with False show ?thesis by simp
  qed (simp add: read_none)
  have sched: "read_scheduled ?U = (?T, mScheduled x)"
  proof (cases "mScheduled x")
    case True
    have "read_scheduled (?T @ CHR ''?'' # ''scheduled'') = (?T, True)"
      by (subst read_scheduled_append) simp_all
    with True show ?thesis by simp
  qed (simp add: read_none)
  show ?thesis
    unfolding printed rbind.simps TransactionId_fromString_def nonce sched prod.case
    using AccountId_fromString_num [OF ssl] a
    by (simp only: split_last_append separators_notin_to_string rbind.simps prod.case read_time_string [OF t]
        rcatch_Inr not_False_eq_True) simp
qed

lemma transaction_id_protobuf:
  assumes "TransactionId_plain x"
  shows "rbind (TransactionId_toProtobuf serializeKey x) (TransactionId_fromProtobuf ssl parseKey) = Inr x"
proof -
  obtain s r n where a: "mAccountId x = AccountId_of s r n []"
    using assms by (auto simp: TransactionId_plain_def)
  have "Timestamp_fromProtobuf (Timestamp_toProtobuf (mValidTransactionTime x)) = Inr (mValidTransactionTime x)"
    using assms by (intro Timestamp_roundtrip) (auto simp: TransactionId_plain_def)
  with a show ?thesis
    by (simp add: TransactionId_toProtobuf_def TransactionId_fromProtobuf_def AccountId_toProtobuf_def
        AccountId_fromProtobuf_def AccountId_of_def AccountId_default_def Let_def)
qed

text \<open>
  A text that lacks one of its separators is not refused: the view is shortened by more characters
  than it has.
\<close>

lemma transaction_id_text_undefined:
  assumes "CHR ''/'' \<notin> set t" and "CHR ''?'' \<notin> set t" and "CHR ''@'' \<notin> set t \<or> CHR ''.'' \<notin> set t"
  shows "TransactionId_fromString ssl t after = Inl UndefinedBehavior"
proof (cases "find_last_of CHR ''.'' t")
  case None
  then show ?thesis
    using assms(1,2) by (simp add: TransactionId_fromString_def read_none split_last_def)
next
  case (Some i)
  with assms(3) have "CHR ''@'' \<notin> set (take i t)"
    by (metis find_last_of_eq_None in_set_takeD option.distinct(1))
  with Some show ?thesis
    using assms(1,2) by (simp add: TransactionId_fromString_def read_none split_last_def)
qed

text \<open>A negative nonce is printed in a text that is not read back.\<close>

lemma negative_nonce_text:
  assumes "mNonce x < 0" and "TransactionId_toString ssl x = Inr t"
  shows "TransactionId_fromString ssl t after = Inl InvalidArgument"
proof -
  obtain pre where "t = pre @ CHR ''/'' # CHR ''-'' # to_string (nat (- mNonce x))"
    using assms by (auto simp: TransactionId_toString_def getTimestampScheduleNonceString_def to_string_int_def res_simps)
  moreover have "getNum (CHR ''-'' # to_string (nat (- mNonce x))) = Inl InvalidArgument"
    by (simp add: getNum_def from_chars_all_def from_chars_def is_digit_def)
  ultimately show ?thesis
    by (simp add: TransactionId_fromString_def read_nonce_append)
qed

section \<open>Properties\<close>

text \<open>
  C20. A transaction ID of a numbered payer, with a time after the epoch and a nonce that is not
  negative, is read back from its text, with the scheduled mark and the nonce, and from its message.
\<close>

theorem transaction_id_roundtrip:
  assumes "openssl_no_dot ssl" and "TransactionId_plain x"
  shows "rbind (TransactionId_toString ssl x) (\<lambda>t. TransactionId_fromString ssl t after) = Inr x \<and>
    rbind (TransactionId_toProtobuf serializeKey x) (TransactionId_fromProtobuf ssl parseKey) = Inr x"
  using transaction_id_text [OF assms] transaction_id_protobuf [OF assms(2)] by blast

theorem transaction_id_roundtrip_witness:
  "rbind (TransactionId_toString reference_openssl (setNonce 4 (setScheduled True (withValidStart (AccountId_of 0 0 5 []) 1234567890123))))
     (\<lambda>t. TransactionId_fromString reference_openssl t []) =
     Inr (setNonce 4 (setScheduled True (withValidStart (AccountId_of 0 0 5 []) 1234567890123)))"
proof -
  have "TransactionId_plain (setNonce 4 (setScheduled True (withValidStart (AccountId_of 0 0 5 []) 1234567890123)))"
    by (auto simp: TransactionId_plain_def setNonce_def setScheduled_def withValidStart_def TransactionId_default_def)
  from transaction_id_roundtrip [OF reference_openssl_no_dot this] show ?thesis by blast
qed

text \<open>
  C2. A text without one of the separators is not refused: \<open>fromString\<close> removes more characters from
  the end of the view than it has, which is undefined.
\<close>

theorem transaction_id_text_unchecked:
  assumes "CHR ''/'' \<notin> set t" and "CHR ''?'' \<notin> set t" and "CHR ''@'' \<notin> set t \<or> CHR ''.'' \<notin> set t"
  shows "TransactionId_fromString ssl t after = Inl UndefinedBehavior"
  using assms by (rule transaction_id_text_undefined)

theorem transaction_id_text_unchecked_witness:
  "TransactionId_fromString reference_openssl ''0.0.5'' [] = Inl UndefinedBehavior"
  by (rule transaction_id_text_unchecked) simp_all

end
