(* ===== verification/Hbars.thy ===== *)
theory Hbars
  imports Utilities
begin

text \<open>
  \<open>Hbar.cc\<close>: amounts of hbars, as a signed 64-bit count of tinybars. A product or sum that
  leaves the 64 bits is signed overflow, which is undefined. Text is UTF-8, as a list of bytes.
\<close>

datatype HbarUnit = TINYBAR | MICROBAR | MILLIBAR | HBAR | KILOBAR | MEGABAR | GIGABAR

primrec getTinybars :: "HbarUnit \<Rightarrow> u64" where
  "getTinybars TINYBAR = 1"
| "getTinybars MICROBAR = 100"
| "getTinybars MILLIBAR = 100000"
| "getTinybars HBAR = 100000000"
| "getTinybars KILOBAR = 100000000000"
| "getTinybars MEGABAR = 100000000000000"
| "getTinybars GIGABAR = 100000000000000000"

text \<open>The symbols, of which the last three bytes are the sign of the hbar.\<close>

primrec getSymbol :: "HbarUnit \<Rightarrow> string" where
  "getSymbol TINYBAR = [CHR ''t'', CHR 0xE2, CHR 0x84, CHR 0x8F]"
| "getSymbol MICROBAR = [CHR 0xCE, CHR 0xBC, CHR 0xE2, CHR 0x84, CHR 0x8F]"
| "getSymbol MILLIBAR = [CHR ''m'', CHR 0xE2, CHR 0x84, CHR 0x8F]"
| "getSymbol HBAR = [CHR 0xE2, CHR 0x84, CHR 0x8F]"
| "getSymbol KILOBAR = [CHR ''k'', CHR 0xE2, CHR 0x84, CHR 0x8F]"
| "getSymbol MEGABAR = [CHR ''M'', CHR 0xE2, CHR 0x84, CHR 0x8F]"
| "getSymbol GIGABAR = [CHR ''G'', CHR 0xE2, CHR 0x84, CHR 0x8F]"

record Hbar =
  mValueInTinybar :: int

definition Hbar_of :: "int \<Rightarrow> HbarUnit \<Rightarrow> Hbar res" where
  "Hbar_of amount unit = rbind (i64 (amount * uint (getTinybars unit))) (\<lambda>v. Inr \<lparr>mValueInTinybar = v\<rparr>)"

definition fromTinybars :: "int \<Rightarrow> Hbar res" where
  "fromTinybars tinybars = Hbar_of tinybars TINYBAR"

definition toTinybars :: "Hbar \<Rightarrow> int" where
  "toTinybars h = mValueInTinybar h"

text \<open>
  \<open>to\<close> divides a signed by an unsigned number, which converts the signed one; the quotient is
  converted back.
\<close>

definition Hbar_to :: "HbarUnit \<Rightarrow> Hbar \<Rightarrow> int" where
  "Hbar_to unit h = sint ((of_int (mValueInTinybar h) :: u64) div getTinybars unit)"

definition negated :: "Hbar \<Rightarrow> Hbar res" where
  "negated h = rbind (i64 (- mValueInTinybar h)) (\<lambda>v. Hbar_of v TINYBAR)"

definition Hbar_add :: "Hbar \<Rightarrow> Hbar \<Rightarrow> Hbar res" where
  "Hbar_add h k = rbind (i64 (mValueInTinybar h + mValueInTinybar k)) (\<lambda>v. Hbar_of v TINYBAR)"

section \<open>Text\<close>

text \<open>
  The bounds that \<open>toString\<close> compares with are unsigned (\<open>10000ULL\<close> and \<open>-10000ULL\<close>), so that the
  value is compared as an unsigned number.
\<close>

definition Hbar_toString :: "Hbar \<Rightarrow> string" where
  "Hbar_toString h =
     (let v = of_int (mValueInTinybar h) :: u64
      in if v < 10000 \<and> - 10000 < v
         then to_string_int (mValueInTinybar h) @ CHR '' '' # getSymbol TINYBAR
         else to_string_int (Hbar_to HBAR h) @ CHR '' '' # getSymbol HBAR)"

definition getUnit :: "string \<Rightarrow> HbarUnit res" where
  "getUnit symbolString =
     (if symbolString = getSymbol TINYBAR then Inr TINYBAR
      else if symbolString = getSymbol MICROBAR then Inr MICROBAR
      else if symbolString = getSymbol MILLIBAR then Inr MILLIBAR
      else if symbolString = getSymbol HBAR then Inr HBAR
      else if symbolString = getSymbol KILOBAR then Inr KILOBAR
      else if symbolString = getSymbol MEGABAR then Inr MEGABAR
      else if symbolString = getSymbol GIGABAR then Inr GIGABAR
      else Inl InvalidArgument)"

text \<open>
  What the pattern matches: a sign, digits, a fraction, and a unit after a space, all but the digits
  optional. The result is the sign, the digits before the point, and the symbol (empty for none).
\<close>

definition match_pattern :: "string \<Rightarrow> (bool \<times> string \<times> string) option" where
  "match_pattern text =
     (let negative = (text \<noteq> [] \<and> hd text = CHR ''-'');
          t = (if negative \<or> text \<noteq> [] \<and> hd text = CHR ''+'' then tl text else text);
          whole = takeWhile is_digit t;
          rest = dropWhile is_digit t;
          frac = (if rest \<noteq> [] \<and> hd rest = CHR ''.'' then takeWhile is_digit (tl rest) else []);
          after = (if rest \<noteq> [] \<and> hd rest = CHR ''.'' then dropWhile is_digit (tl rest) else rest)
      in if whole = [] \<or> rest \<noteq> [] \<and> hd rest = CHR ''.'' \<and> frac = [] then None
         else if after = [] then Some (negative, whole, [])
         else if hd after = CHR '' '' \<and> getUnit (tl after) \<noteq> Inl InvalidArgument
              then Some (negative, whole, tl after)
         else None)"

text \<open>Reading an \<open>int64_t\<close> from a stream stops at the point, and saturates.\<close>

definition read_i64 :: "bool \<Rightarrow> string \<Rightarrow> int" where
  "read_i64 negative digits =
     (if negative then max (- (2 ^ 63)) (- int (dec_val digits)) else min (2 ^ 63 - 1) (int (dec_val digits)))"

definition Hbar_fromString :: "string \<Rightarrow> Hbar res" where
  "Hbar_fromString text =
     (case match_pattern text of None \<Rightarrow> Inl InvalidArgument
      | Some (negative, amountStr, unitStr) \<Rightarrow>
          rbind (if unitStr = [] then Inr HBAR else getUnit unitStr)
            (\<lambda>unit. Hbar_of (read_i64 negative amountStr) unit))"

section \<open>Lemmas\<close>

definition Hbar_valid :: "Hbar \<Rightarrow> bool" where
  "Hbar_valid h \<longleftrightarrow> - (2 ^ 63) \<le> mValueInTinybar h \<and> mValueInTinybar h < 2 ^ 63"

lemma Hbar_of_tinybar: "Hbar_of v TINYBAR = rbind (i64 v) (\<lambda>v. Inr \<lparr>mValueInTinybar = v\<rparr>)"
  by (simp add: Hbar_of_def)

lemma Hbar_of_valid: "Hbar_of n u = Inr h \<Longrightarrow> Hbar_valid h"
  by (auto simp: Hbar_of_def i64_def Hbar_valid_def res_simps split: if_splits)

lemma negated_negated: "Hbar_valid h \<Longrightarrow> negated h = Inr k \<Longrightarrow> negated k = Inr h"
  by (cases h) (auto simp: negated_def Hbar_of_tinybar i64_def Hbar_valid_def res_simps split: if_splits)

lemma getUnit_getSymbol [simp]: "getUnit (getSymbol u) = Inr u"
  by (cases u) (simp_all add: getUnit_def)

lemma uint_of_int_u64: "0 \<le> v \<Longrightarrow> v < 2 ^ 63 \<Longrightarrow> uint (of_int v :: u64) = v"
  by (simp add: uint_word_of_int)

lemma Hbar_to_nonneg:
  assumes "0 \<le> mValueInTinybar h" and "mValueInTinybar h < 2 ^ 63"
  shows "Hbar_to HBAR h = mValueInTinybar h div 100000000"
proof -
  let ?v = "mValueInTinybar h"
  have u: "uint ((of_int ?v :: u64) div 100000000) = ?v div 100000000"
    using assms by (simp add: uint_div_distrib uint_of_int_u64)
  have "sint ((of_int ?v :: u64) div 100000000) = ?v div 100000000"
    using assms by (simp add: sint_uint u signed_take_bit_int_eq_self)
  then show ?thesis by (simp add: Hbar_to_def)
qed

text \<open>A negative amount is divided as an unsigned number: minus one hbar is 184467440736 hbars.\<close>

lemma Hbar_to_negative:
  assumes "- (2 ^ 63) \<le> v" and "v < 0"
  shows "Hbar_to HBAR \<lparr>mValueInTinybar = v\<rparr> = (2 ^ 64 + v) div 100000000"
proof -
  have v: "uint (of_int v :: u64) = 2 ^ 64 + v"
  proof -
    have "(2 ^ 64 + v) mod 2 ^ 64 = 2 ^ 64 + v" using assms by (intro mod_pos_pos_trivial) simp_all
    then show ?thesis by (simp add: uint_word_of_int)
  qed
  have "sint ((of_int v :: u64) div 100000000) = (2 ^ 64 + v) div 100000000"
    using assms v by (simp add: sint_uint uint_div_distrib signed_take_bit_int_eq_self)
  then show ?thesis by (simp add: Hbar_to_def)
qed

lemma tinybar_branch_dead: "\<not> ((v :: u64) < 10000 \<and> - 10000 < v)"
proof -
  have "(10000 :: u64) < - 10000" by simp
  then show ?thesis by (meson order.strict_trans not_less_iff_gr_or_eq)
qed

lemma Hbar_toString_hbar: "Hbar_toString h = to_string_int (Hbar_to HBAR h) @ CHR '' '' # getSymbol HBAR"
  unfolding Hbar_toString_def Let_def by (simp only: tinybar_branch_dead if_False)

lemma is_digit_signs [simp]: "\<not> is_digit CHR '' ''" "\<not> is_digit CHR ''+''"
  by (simp_all add: is_digit_def)

lemma hd_to_string_digit: "is_digit (hd (to_string n))"
  by (rule to_string_digits [OF hd_in_set]) simp

lemma match_pattern_hbar:
  "match_pattern (to_string n @ CHR '' '' # getSymbol u) = Some (False, to_string n, getSymbol u)"
proof -
  have "hd (to_string n) \<noteq> CHR ''-''" "hd (to_string n) \<noteq> CHR ''+''"
    using hd_to_string_digit [of n] by (auto simp del: hd_in_set)
  then show ?thesis
    by (simp add: match_pattern_def Let_def takeWhile_append2 dropWhile_append2 to_string_digits)
qed

section \<open>Properties\<close>

text \<open>
  The text of an amount of hbars is always in whole hbars, so that reading back the text of a
  nonnegative amount loses the tinybars below one hbar; the branch for small amounts is dead.
\<close>

theorem hbar_text_truncates:
  assumes "0 \<le> mValueInTinybar h" and "mValueInTinybar h < 2 ^ 63"
  shows "Hbar_fromString (Hbar_toString h) =
    Inr \<lparr>mValueInTinybar = mValueInTinybar h - mValueInTinybar h mod 100000000\<rparr>"
proof -
  define q where "q = mValueInTinybar h div 100000000"
  have q: "0 \<le> q" "q * 100000000 = mValueInTinybar h - mValueInTinybar h mod 100000000"
    using assms by (simp_all add: q_def minus_mod_eq_div_mult pos_imp_zdiv_nonneg_iff)
  then have fits: "i64 (q * 100000000) = Inr (q * 100000000)" "q < 2 ^ 63"
    using assms pos_mod_sign [of 100000000 "mValueInTinybar h"] by (auto simp: i64_def)
  have "Hbar_toString h = to_string (nat q) @ CHR '' '' # getSymbol HBAR"
    using q(1) by (simp add: Hbar_toString_hbar Hbar_to_nonneg [OF assms] to_string_int_def q_def)
  moreover have "read_i64 False (to_string (nat q)) = q"
    using q(1) fits(2) by (simp add: read_i64_def)
  ultimately show ?thesis
    using fits(1) q(2)
    by (simp only: Hbar_fromString_def match_pattern_hbar option.case prod.case rbind.simps getUnit_getSymbol if_cancel)
      (simp add: Hbar_of_def)
qed

theorem hbar_text_truncates_witness:
  "Hbar_fromString (Hbar_toString \<lparr>mValueInTinybar = 250000001\<rparr>) = Inr \<lparr>mValueInTinybar = 200000000\<rparr>"
  using hbar_text_truncates [of "\<lparr>mValueInTinybar = 250000001\<rparr>"] by simp

end
