(* ===== verification/Clients.thy ===== *)
theory Clients
  imports Networks PrivateKeys Hbars
begin

text \<open>
  \<open>Client.cc\<close>: the configuration that requests take from a client. The network update thread is
  never started by the code, so that a client is only changed by its member functions, each of which
  holds the client's mutex.
\<close>

type_synonym signer = "bytes \<Rightarrow> bytes res"

record Client =
  mNetworkPtr :: "AccountId BaseNetwork option"
  mOperatorAccountId :: "AccountId option"
  mOperatorPrivateKey :: "PrivateKey option"
  mOperatorPublicKey :: "PublicKey option"
  mOperatorSigner :: "signer option"
  clientMaxTransactionFee :: "Hbar option"
  mMaxQueryPayment :: "Hbar option"
  clientRegenerationPolicy :: "bool option"
  mRequestTimeout :: duration
  clientMaxAttempts :: "u32 option"
  clientMinBackoff :: "duration option"
  clientMaxBackoff :: "duration option"
  clientGrpcDeadline :: "duration option"
  mAutoValidateChecksums :: bool
  clientMaxNodesPerRequest :: u32

definition Client_default :: Client where
  "Client_default =
     \<lparr>mNetworkPtr = None, mOperatorAccountId = None, mOperatorPrivateKey = None, mOperatorPublicKey = None,
      mOperatorSigner = None, clientMaxTransactionFee = None, mMaxQueryPayment = None,
      clientRegenerationPolicy = None, mRequestTimeout = DEFAULT_REQUEST_TIMEOUT, clientMaxAttempts = None,
      clientMinBackoff = None, clientMaxBackoff = None, clientGrpcDeadline = None,
      mAutoValidateChecksums = False, clientMaxNodesPerRequest = 0\<rparr>"

section \<open>The operator\<close>

text \<open>
  With a known network the checksum of the account is validated while the mutex is held, and the
  validation asks the client for its ledger ID, which locks the same mutex again: undefined for a
  \<open>std::mutex\<close>.
\<close>

definition validate_locked :: "Client \<Rightarrow> AccountId \<Rightarrow> unit res" where
  "validate_locked client accountId =
     (case mNetworkPtr client of
        Some net \<Rightarrow>
          if isKnownNetwork (mLedgerId net) \<and> mAccountNum accountId \<noteq> None \<and> accountChecksum accountId \<noteq> []
          then Inl UndefinedBehavior else Inr ()
      | None \<Rightarrow> Inr ())"

definition setOperator :: "AccountId \<Rightarrow> PrivateKey \<Rightarrow> Client \<Rightarrow> Client res" where
  "setOperator accountId privateKey client =
     rbind (validate_locked client accountId) (\<lambda>_.
       Inr (client\<lparr>mOperatorAccountId := Some accountId, mOperatorPrivateKey := Some privateKey\<rparr>))"

definition setOperatorWith :: "AccountId \<Rightarrow> PublicKey \<Rightarrow> signer \<Rightarrow> Client \<Rightarrow> Client res" where
  "setOperatorWith accountId publicKey sig client =
     rbind (validate_locked client accountId) (\<lambda>_.
       Inr (client\<lparr>mOperatorAccountId := Some accountId, mOperatorPublicKey := Some publicKey,
                  mOperatorSigner := Some sig\<rparr>))"

definition getOperatorPublicKey :: "Client \<Rightarrow> PublicKey option" where
  "getOperatorPublicKey client =
     (if mOperatorPublicKey client \<noteq> None \<or> mOperatorPrivateKey client = None then mOperatorPublicKey client
      else map_option mPublicKey (mOperatorPrivateKey client))"

definition getOperatorSigner :: "openssl \<Rightarrow> Client \<Rightarrow> signer option" where
  "getOperatorSigner ssl client =
     (if mOperatorSigner client \<noteq> None \<or> mOperatorPrivateKey client = None then mOperatorSigner client
      else map_option (PrivateKey_sign ssl) (mOperatorPrivateKey client))"

section \<open>Limits and policies\<close>

definition client_setMaxTransactionFee :: "Hbar \<Rightarrow> Client \<Rightarrow> Client res" where
  "client_setMaxTransactionFee fee client =
     (if toTinybars fee < 0 then Inl InvalidArgument else Inr (client\<lparr>clientMaxTransactionFee := Some fee\<rparr>))"

definition client_setMaxQueryPayment :: "Hbar \<Rightarrow> Client \<Rightarrow> Client res" where
  "client_setMaxQueryPayment payment client =
     (if toTinybars payment < 0 then Inl InvalidArgument else Inr (client\<lparr>mMaxQueryPayment := Some payment\<rparr>))"

definition setTransactionIdRegenerationPolicy :: "bool \<Rightarrow> Client \<Rightarrow> Client" where
  "setTransactionIdRegenerationPolicy regenerate client = client\<lparr>clientRegenerationPolicy := Some regenerate\<rparr>"

definition setAutoValidateChecksums :: "bool \<Rightarrow> Client \<Rightarrow> Client" where
  "setAutoValidateChecksums validation client = client\<lparr>mAutoValidateChecksums := validation\<rparr>"

definition client_setRequestTimeout :: "duration \<Rightarrow> Client \<Rightarrow> Client" where
  "client_setRequestTimeout timeout client = client\<lparr>mRequestTimeout := timeout\<rparr>"

definition client_setMaxAttempts :: "u32 \<Rightarrow> Client \<Rightarrow> Client" where
  "client_setMaxAttempts attempts client = client\<lparr>clientMaxAttempts := Some attempts\<rparr>"

definition client_setGrpcDeadline :: "duration \<Rightarrow> Client \<Rightarrow> Client" where
  "client_setGrpcDeadline deadline client = client\<lparr>clientGrpcDeadline := Some deadline\<rparr>"

definition client_setMinBackoff :: "duration \<Rightarrow> Client \<Rightarrow> Client res" where
  "client_setMinBackoff backoff client =
     (if (case clientMaxBackoff client of Some m \<Rightarrow> m < backoff
          | None \<Rightarrow> DEFAULT_MAX_BACKOFF < backoff \<or> backoff < milliseconds 0)
      then Inl InvalidArgument else Inr (client\<lparr>clientMinBackoff := Some backoff\<rparr>))"

definition client_setMaxBackoff :: "duration \<Rightarrow> Client \<Rightarrow> Client res" where
  "client_setMaxBackoff backoff client =
     (if (case clientMinBackoff client of Some m \<Rightarrow> backoff < m
          | None \<Rightarrow> backoff < DEFAULT_MIN_BACKOFF \<or> DEFAULT_MAX_BACKOFF < backoff)
      then Inl InvalidArgument else Inr (client\<lparr>clientMaxBackoff := Some backoff\<rparr>))"

section \<open>The network of a client\<close>

definition client_getLedgerId :: "Client \<Rightarrow> LedgerId res" where
  "client_getLedgerId client = (case mNetworkPtr client of None \<Rightarrow> Inl Uninitialized | Some net \<Rightarrow> Inr (mLedgerId net))"

definition client_setTransportSecurity :: "bool \<Rightarrow> Client \<Rightarrow> Client" where
  "client_setTransportSecurity enable client =
     client\<lparr>mNetworkPtr := map_option (setTransportSecurity (if enable then REQUIRE else DISABLE)) (mNetworkPtr client)\<rparr>"

definition client_setMaxNodeAttempts :: "u32 \<Rightarrow> Client \<Rightarrow> Client" where
  "client_setMaxNodeAttempts attempts client =
     client\<lparr>mNetworkPtr := map_option (net_setMaxNodeAttempts attempts) (mNetworkPtr client)\<rparr>"

definition client_setNodeMinBackoff :: "duration \<Rightarrow> Client \<Rightarrow> Client" where
  "client_setNodeMinBackoff backoff client =
     client\<lparr>mNetworkPtr := map_option (net_setMinNodeBackoff backoff) (mNetworkPtr client)\<rparr>"

definition client_setNodeMaxBackoff :: "duration \<Rightarrow> Client \<Rightarrow> Client" where
  "client_setNodeMaxBackoff backoff client =
     client\<lparr>mNetworkPtr := map_option (net_setMaxNodeBackoff backoff) (mNetworkPtr client)\<rparr>"

definition setMaxNodesPerTransaction :: "u32 \<Rightarrow> Client \<Rightarrow> Client" where
  "setMaxNodesPerTransaction maxNodes client =
     (if mNetworkPtr client = None then client else client\<lparr>clientMaxNodesPerRequest := maxNodes\<rparr>)"

text \<open>The getter answers with the maximum of the node attempts.\<close>

definition getMaxNodesPerTransaction :: "Client \<Rightarrow> u32" where
  "getMaxNodesPerTransaction client =
     (case mNetworkPtr client of None \<Rightarrow> 0 | Some net \<Rightarrow> mMaxNodeAttempts net)"

section \<open>The backoff bounds that a client can reach\<close>

inductive client_backoff_step :: "Client \<Rightarrow> Client \<Rightarrow> bool" where
  setMin: "client_setMinBackoff b c = Inr c' \<Longrightarrow> client_backoff_step c c'"
| setMax: "client_setMaxBackoff b c = Inr c' \<Longrightarrow> client_backoff_step c c'"

inductive_cases client_backoff_stepE: "client_backoff_step c c'"

definition min_backoff :: "Client \<Rightarrow> duration" where
  "min_backoff c = (case clientMinBackoff c of None \<Rightarrow> DEFAULT_MIN_BACKOFF | Some b \<Rightarrow> b)"

definition max_backoff :: "Client \<Rightarrow> duration" where
  "max_backoff c = (case clientMaxBackoff c of None \<Rightarrow> DEFAULT_MAX_BACKOFF | Some b \<Rightarrow> b)"

lemma client_backoff_step_inv:
  "client_backoff_step c c' \<Longrightarrow> min_backoff c \<le> max_backoff c \<Longrightarrow> min_backoff c' \<le> max_backoff c'"
  by (erule client_backoff_stepE)
    (auto simp: client_setMinBackoff_def client_setMaxBackoff_def min_backoff_def max_backoff_def
      split: if_splits option.splits)

lemma client_backoff_default: "min_backoff Client_default \<le> max_backoff Client_default"
  by (simp add: min_backoff_def max_backoff_def Client_default_def DEFAULT_MIN_BACKOFF_def DEFAULT_MAX_BACKOFF_def
      milliseconds_def seconds_def)

lemma client_backoff_ordered:
  "client_backoff_step\<^sup>*\<^sup>* Client_default c \<Longrightarrow> min_backoff c \<le> max_backoff c"
  by (induction rule: rtranclp_induct) (auto intro: client_backoff_default client_backoff_step_inv)

section \<open>Properties\<close>

text \<open>
  C32. A private key given to \<open>setOperator\<close> after a signer was given to \<open>setOperatorWith\<close> changes
  the operator account only: the public key and the signatures are still those of the old operator.
\<close>

theorem stale_operator_key:
  assumes "setOperatorWith a pub sig c = Inr c'" and "setOperator b key c' = Inr c''"
  shows "mOperatorAccountId c'' = Some b \<and> getOperatorPublicKey c'' = Some pub \<and>
    getOperatorSigner ssl c'' = Some sig"
  using assms
  by (auto simp: setOperator_def setOperatorWith_def getOperatorPublicKey_def getOperatorSigner_def res_simps)

theorem stale_operator_key_witness:
  "\<exists>c' c''. setOperatorWith (AccountId_num 3) (ED25519PublicKey [1]) Inr Client_default = Inr c' \<and>
     setOperator (AccountId_num 4)
       \<lparr>keyType = ED25519, mKey = [2], mChainCode = [], mPublicKey = ED25519PublicKey [2]\<rparr> c' = Inr c'' \<and>
     mOperatorAccountId c'' = Some (AccountId_num 4) \<and> getOperatorPublicKey c'' = Some (ED25519PublicKey [1])"
proof -
  obtain c' where c': "setOperatorWith (AccountId_num 3) (ED25519PublicKey [1]) Inr Client_default = Inr c'"
      and n: "mNetworkPtr c' = None"
    by (simp add: setOperatorWith_def validate_locked_def Client_default_def)
  then obtain c'' where c'': "setOperator (AccountId_num 4)
      \<lparr>keyType = ED25519, mKey = [2], mChainCode = [], mPublicKey = ED25519PublicKey [2]\<rparr> c' = Inr c''"
    by (simp add: setOperator_def validate_locked_def)
  from stale_operator_key [OF c' c''] c' c'' show ?thesis by blast
qed

end
