(* ===== verification/Execution.thy ===== *)
theory Execution
  imports Clients
begin

text \<open>
  \<open>Executable.cc\<close>: how a request is sent to the nodes of a network until one answers it. The
  class template is a record that the requests extend; its virtual functions are a record of
  operations. The environment answers every reading of the clock, connection and submission, and
  chooses the random numbers. The log of the state records what the execution does to the world.
\<close>

section \<open>The request and its virtual functions\<close>

datatype ExecutionStatus = REQUEST_SUCCESS | RETRY | SERVER_ERROR | REQUEST_ERROR

datatype grpc_code = GRPC_OK | UNAVAILABLE | RESOURCE_EXHAUSTED | INTERNAL | DEADLINE_EXCEEDED | GRPC_other nat

record ('k, 'q, 'r) Executable =
  mNodeAccountIds :: "'k list"
  mRequestListener :: "('q \<Rightarrow> 'q) option"
  mResponseListener :: "('r \<Rightarrow> 'r) option"
  mMaxAttempts :: "u32 option"
  mMinBackoff :: "duration option"
  mMaxBackoff :: "duration option"
  mGrpcDeadline :: "duration option"
  mCurrentMaxAttempts :: u32
  mCurrentMinBackoff :: duration
  mCurrentMaxBackoff :: duration
  mCurrentRequestBackoff :: duration
  mCurrentGrpcDeadline :: duration

datatype event =
    NodeSlept node_ref duration
  | ConnectFailed node_ref
  | GrpcFailed node_ref grpc_code
  | Answered node_ref Status ExecutionStatus
  | RetrySlept duration

record ('k, 'q, 'r, 'z) exec =
  this :: "('k, 'q, 'r, 'z) Executable_scheme"
  network :: "'k BaseNetwork"
  readings :: nat
  nodeResponses :: "(node_ref \<times> Status) list"
  log :: "event list"

record ('q, 'r) env =
  clock :: "nat \<Rightarrow> time_point"
  connects :: "nat \<Rightarrow> bool"
  answers :: "nat \<Rightarrow> Stub \<times> string \<Rightarrow> 'q \<Rightarrow> time_point \<Rightarrow> grpc_code \<times> 'r"
  randoms :: "nat \<Rightarrow> nat"
  choice_rounds :: nat
  choice_clock :: "nat \<Rightarrow> time_point"
  choice_randoms :: "nat \<Rightarrow> nat"

record ('k, 'q, 'r, 'z, 'o) operations =
  onExecute :: "(('k, 'q, 'r, 'z) exec, unit) act"
  makeRequest :: "nat \<Rightarrow> (('k, 'q, 'r, 'z) exec, 'q) act"
  grpc_method :: "(Stub \<times> string) res"
  mapResponseStatus :: "'r \<Rightarrow> (('k, 'q, 'r, 'z) exec, Status) act"
  determineStatus :: "Status \<Rightarrow> 'r \<Rightarrow> (('k, 'q, 'r, 'z) exec, ExecutionStatus) act"
  mapResponse :: "'r \<Rightarrow> (('k, 'q, 'r, 'z) exec, 'o) act"

definition Executable_default :: "('k, 'q, 'r) Executable" where
  "Executable_default =
     \<lparr>mNodeAccountIds = [], mRequestListener = None, mResponseListener = None, mMaxAttempts = None,
      mMinBackoff = None, mMaxBackoff = None, mGrpcDeadline = None, mCurrentMaxAttempts = 0,
      mCurrentMinBackoff = DEFAULT_MIN_BACKOFF, mCurrentMaxBackoff = DEFAULT_MAX_BACKOFF,
      mCurrentRequestBackoff = DEFAULT_MIN_BACKOFF, mCurrentGrpcDeadline = DEFAULT_GRPC_DEADLINE\<rparr>"

section \<open>The settings of a request\<close>

definition setMinBackoff ::
  "duration \<Rightarrow> ('k, 'q, 'r, 'z) Executable_scheme \<Rightarrow> ('k, 'q, 'r, 'z) Executable_scheme res" where
  "setMinBackoff backoff x =
     (if (case mMaxBackoff x of Some m \<Rightarrow> m < backoff | None \<Rightarrow> DEFAULT_MAX_BACKOFF < backoff)
      then Inl InvalidArgument else Inr (x\<lparr>mMinBackoff := Some backoff\<rparr>))"

definition setMaxBackoff ::
  "duration \<Rightarrow> ('k, 'q, 'r, 'z) Executable_scheme \<Rightarrow> ('k, 'q, 'r, 'z) Executable_scheme res" where
  "setMaxBackoff backoff x =
     (if (case mMinBackoff x of Some m \<Rightarrow> backoff < m | None \<Rightarrow> backoff < DEFAULT_MIN_BACKOFF)
      then Inl InvalidArgument else Inr (x\<lparr>mMaxBackoff := Some backoff\<rparr>))"

definition setNodeAccountIds ::
  "'k list \<Rightarrow> ('k, 'q, 'r, 'z) Executable_scheme \<Rightarrow> ('k, 'q, 'r, 'z) Executable_scheme" where
  "setNodeAccountIds nodeAccountIds x = x\<lparr>mNodeAccountIds := nodeAccountIds\<rparr>"

definition setMaxAttempts :: "u32 \<Rightarrow> ('k, 'q, 'r, 'z) Executable_scheme \<Rightarrow> ('k, 'q, 'r, 'z) Executable_scheme" where
  "setMaxAttempts attempts x = x\<lparr>mMaxAttempts := Some attempts\<rparr>"

definition setGrpcDeadline ::
  "duration \<Rightarrow> ('k, 'q, 'r, 'z) Executable_scheme \<Rightarrow> ('k, 'q, 'r, 'z) Executable_scheme" where
  "setGrpcDeadline deadline x = x\<lparr>mGrpcDeadline := Some deadline\<rparr>"

definition setRequestListener ::
  "('q \<Rightarrow> 'q) \<Rightarrow> ('k, 'q, 'r, 'z) Executable_scheme \<Rightarrow> ('k, 'q, 'r, 'z) Executable_scheme" where
  "setRequestListener listener x = x\<lparr>mRequestListener := Some listener\<rparr>"

definition setResponseListener ::
  "('r \<Rightarrow> 'r) \<Rightarrow> ('k, 'q, 'r, 'z) Executable_scheme \<Rightarrow> ('k, 'q, 'r, 'z) Executable_scheme" where
  "setResponseListener listener x = x\<lparr>mResponseListener := Some listener\<rparr>"

text \<open>The first setting that there is: the request's, the client's, the default.\<close>

definition value_or :: "'a option \<Rightarrow> 'a option \<Rightarrow> 'a \<Rightarrow> 'a" where
  "value_or own client dflt =
     (case own of Some v \<Rightarrow> v | None \<Rightarrow> (case client of Some v \<Rightarrow> v | None \<Rightarrow> dflt))"

definition setExecutionParameters ::
  "Client \<Rightarrow> ('k, 'q, 'r, 'z) Executable_scheme \<Rightarrow> ('k, 'q, 'r, 'z) Executable_scheme" where
  "setExecutionParameters client x =
     (let x = x\<lparr>mCurrentMaxAttempts := value_or (mMaxAttempts x) (clientMaxAttempts client) (of_nat DEFAULT_MAX_ATTEMPTS),
                mCurrentMinBackoff := value_or (mMinBackoff x) (clientMinBackoff client) DEFAULT_MIN_BACKOFF,
                mCurrentMaxBackoff := value_or (mMaxBackoff x) (clientMaxBackoff client) DEFAULT_MAX_BACKOFF\<rparr>
      in x\<lparr>mCurrentRequestBackoff := mCurrentMinBackoff x,
           mCurrentGrpcDeadline := value_or (mGrpcDeadline x) (clientGrpcDeadline client) DEFAULT_GRPC_DEADLINE\<rparr>)"

text \<open>\<open>Executable::determineStatus\<close>.\<close>

definition base_determineStatus :: "Status \<Rightarrow> ExecutionStatus" where
  "base_determineStatus status =
     (case status of
        PLATFORM_TRANSACTION_NOT_CREATED \<Rightarrow> SERVER_ERROR
      | PLATFORM_NOT_ACTIVE \<Rightarrow> SERVER_ERROR
      | BUSY \<Rightarrow> SERVER_ERROR
      | OK \<Rightarrow> REQUEST_SUCCESS
      | _ \<Rightarrow> REQUEST_ERROR)"

section \<open>Choosing a node\<close>

definition now :: "('q, 'r) env \<Rightarrow> (('k, 'q, 'r, 'z) exec, time_point) act" where
  "now E s = (Inr (clock E (readings s)), s\<lparr>readings := Suc (readings s)\<rparr>)"

definition upd_ref :: "node_ref \<Rightarrow> ('k BaseNode \<Rightarrow> 'k BaseNode) \<Rightarrow> ('k, 'q, 'r, 'z) exec \<Rightarrow> ('k, 'q, 'r, 'z) exec" where
  "upd_ref r f s = s\<lparr>network := upd_node r f (network s)\<rparr>"

definition upd_this ::
  "(('k, 'q, 'r, 'z) Executable_scheme \<Rightarrow> ('k, 'q, 'r, 'z) Executable_scheme) \<Rightarrow>
     ('k, 'q, 'r, 'z) exec \<Rightarrow> ('k, 'q, 'r, 'z) exec" where
  "upd_this f s = s\<lparr>this := f (this s)\<rparr>"

text \<open>A member function of the request alone, run in an execution.\<close>

definition on_this :: "(('k, 'q, 'r, 'z) Executable_scheme, 'a) act \<Rightarrow> (('k, 'q, 'r, 'z) exec, 'a) act" where
  "on_this m s = (case m (this s) of (r, x) \<Rightarrow> (r, s\<lparr>this := x\<rparr>))"

definition logged :: "event \<Rightarrow> ('k, 'q, 'r, 'z) exec \<Rightarrow> ('k, 'q, 'r, 'z) exec" where
  "logged e s = s\<lparr>log := log s @ [e]\<rparr>"

text \<open>
  The node account IDs that the client's network chooses for a request that has none. The choice
  has its own clock, random numbers and number of rounds.
\<close>

definition chooseNodeAccountIds :: "('q, 'r) env \<Rightarrow> Client \<Rightarrow> (('k, 'q, 'r, 'z) exec, 'k list) act" where
  "chooseNodeAccountIds E client s =
     (if mNetworkPtr client = None then (Inl Uninitialized, s)
      else case getNodeAccountIdsForExecute (choice_rounds E) (choice_clock E) (choice_randoms E)
                  (unat (clientMaxNodesPerRequest client)) (network s) of
             Inl e \<Rightarrow> (Inl e, s)
           | Inr None \<Rightarrow> (Inl OutOfFuel, s)
           | Inr (Some (nodeAccountIds, net)) \<Rightarrow> (Inr nodeAccountIds, s\<lparr>network := net\<rparr>))"

text \<open>The nodes of one account (\<open>getNodeProxies\<close>); none is an error.\<close>

definition proxies :: "('q, 'r) env \<Rightarrow> 'k \<Rightarrow> (('k, 'q, 'r, 'z) exec, node_ref list) act" where
  "proxies E accountId = abind (now E) (\<lambda>t s.
     (case getNodeProxies t accountId (network s) of (nodes, net) \<Rightarrow>
        (if nodes = [] then Inl IllegalState else Inr nodes, s\<lparr>network := net\<rparr>)))"

text \<open>One random proxy for every account; \<open>i\<close> counts the random numbers.\<close>

primrec pick_proxies :: "('q, 'r) env \<Rightarrow> nat \<Rightarrow> 'k list \<Rightarrow> (('k, 'q, 'r, 'z) exec, node_ref list) act" where
  "pick_proxies E i [] = areturn []"
| "pick_proxies E i (a # as) =
     abind (proxies E a) (\<lambda>nodeProxies.
     abind (pick_proxies E (Suc i) as) (\<lambda>nodes.
       areturn (nodeProxies ! (randoms E i mod length nodeProxies) # nodes)))"

definition getNodesFromNodeAccountIds :: "('q, 'r) env \<Rightarrow> (('k, 'q, 'r, 'z) exec, node_ref list) act" where
  "getNodesFromNodeAccountIds E s =
     (case mNodeAccountIds (this s) of [a] \<Rightarrow> proxies E a s | as \<Rightarrow> pick_proxies E 0 as s)"

text \<open>
  The scan of \<open>getNodeIndexForExecute\<close> over the indices from the starting one to the last. The
  best candidate so far is \<open>None\<close> for the index \<open>-1U\<close>; the clock is read once for a healthy node
  and twice for an unhealthy one.
\<close>

primrec scan_nodes ::
  "('q, 'r) env \<Rightarrow> node_ref list \<Rightarrow> nat list \<Rightarrow> nat option \<times> duration \<Rightarrow> (('k, 'q, 'r, 'z) exec, nat) act" where
  "scan_nodes E nodes [] cand =
     (case fst cand of None \<Rightarrow> athrow OutOfRange | Some i \<Rightarrow> areturn i)"
| "scan_nodes E nodes (i # is) cand =
     abind (now E) (\<lambda>t. abind (areads (\<lambda>s. node (network s) (nodes ! i))) (\<lambda>n.
       if isHealthy t n then areturn i
       else abind (now E) (\<lambda>t'.
         let backoffTime = getRemainingTimeForBackoff t' n
         in scan_nodes E nodes is (if backoffTime < snd cand then (Some i, backoffTime) else cand))))"

definition getNodeIndexForExecute ::
  "('q, 'r) env \<Rightarrow> node_ref list \<Rightarrow> nat \<Rightarrow> (('k, 'q, 'r, 'z) exec, nat) act" where
  "getNodeIndexForExecute E nodes attempt =
     (if nodes = [] then athrow UndefinedBehavior
      else scan_nodes E nodes [attempt mod length nodes ..< length nodes] (None, 2 ^ 63 - 1))"

section \<open>One attempt\<close>

text \<open>What an attempt ends with: another attempt, or the end of the execution.\<close>

datatype 'o verdict = Again | Done 'o

definition grpc_retryable :: "grpc_code \<Rightarrow> bool" where
  "grpc_retryable c \<longleftrightarrow> c = UNAVAILABLE \<or> c = RESOURCE_EXHAUSTED \<or> c = INTERNAL"

definition set_response :: "node_ref \<Rightarrow> Status \<Rightarrow> (node_ref \<times> Status) list \<Rightarrow> (node_ref \<times> Status) list" where
  "set_response r st xs = (if r \<in> fst ` set xs then map (\<lambda>(q, x). (q, if q = r then st else x)) xs else xs @ [(r, st)])"

definition all_busy :: "node_ref list \<Rightarrow> (node_ref \<times> Status) list \<Rightarrow> bool" where
  "all_busy nodes responses \<longleftrightarrow> length responses = length nodes \<and> list_all (\<lambda>(q, st). st = BUSY) responses"

definition sleep_retry :: "('k, 'q, 'r, 'z) exec \<Rightarrow> ('k, 'q, 'r, 'z) exec" where
  "sleep_retry s =
     (let x = this s; s = logged (RetrySlept (mCurrentRequestBackoff x)) s;
          d = mCurrentRequestBackoff x * 2
      in s\<lparr>this := x\<lparr>mCurrentRequestBackoff := (if mCurrentMaxBackoff x < d then mCurrentMaxBackoff x else d)\<rparr>\<rparr>)"

definition apply_listener :: "('a \<Rightarrow> 'a) option \<Rightarrow> 'a \<Rightarrow> 'a" where
  "apply_listener l x = (case l of None \<Rightarrow> x | Some f \<Rightarrow> f x)"

text \<open>The part after a response has arrived.\<close>

definition handle_response ::
  "('k, 'q, 'r, 'z, 'o) operations \<Rightarrow> node_ref list \<Rightarrow> node_ref \<Rightarrow> 'r \<Rightarrow> (('k, 'q, 'r, 'z) exec, 'o verdict) act" where
  "handle_response P nodes r response =
     abind (mapResponseStatus P response) (\<lambda>responseStatus.
     abind (amodify (\<lambda>s. s\<lparr>nodeResponses := set_response r responseStatus (nodeResponses s)\<rparr>)) (\<lambda>_.
     abind (determineStatus P responseStatus response) (\<lambda>decision.
     abind (amodify (logged (Answered r responseStatus decision))) (\<lambda>_ s.
       case decision of
         SERVER_ERROR \<Rightarrow>
           if \<not> all_busy nodes (nodeResponses s) then (Inr Again, s)
           else (Inr Again, sleep_retry (s\<lparr>nodeResponses := []\<rparr>))
       | RETRY \<Rightarrow> (Inr Again, sleep_retry s)
       | REQUEST_ERROR \<Rightarrow> (Inl (PrecheckStatus responseStatus), s)
       | REQUEST_SUCCESS \<Rightarrow> abind (mapResponse P response) (\<lambda>o'. areturn (Done o')) s))))"

text \<open>The part after the node has connected.\<close>

definition submit ::
  "('q, 'r) env \<Rightarrow> ('k, 'q, 'r, 'z, 'o) operations \<Rightarrow> node_ref list \<Rightarrow> nat \<Rightarrow> time_point \<Rightarrow> nat \<Rightarrow> node_ref \<Rightarrow>
     (('k, 'q, 'r, 'z) exec, 'o verdict) act" where
  "submit E P nodes attempt attemptTimeout nodeIndex r =
     abind (makeRequest P nodeIndex) (\<lambda>request.
     abind (areads (\<lambda>s. apply_listener (mRequestListener (this s)) request)) (\<lambda>request.
     abind (\<lambda>s. (stub_call (\<lambda>m q. answers E attempt m q attemptTimeout) (grpc_method P) request
                  (node (network s) r), s)) (\<lambda>(code, response).
       if grpc_retryable code then
         abind (now E) (\<lambda>t. abind (amodify (upd_ref r (increaseBackoff t))) (\<lambda>_.
         abind (amodify (logged (GrpcFailed r code))) (\<lambda>_. areturn Again)))
       else
         abind (amodify (upd_ref r decreaseBackoff)) (\<lambda>_.
         abind (areads (\<lambda>s. apply_listener (mResponseListener (this s)) response)) (\<lambda>response.
           handle_response P nodes r response)))))"

definition attempt_once ::
  "('q, 'r) env \<Rightarrow> ('k, 'q, 'r, 'z, 'o) operations \<Rightarrow> node_ref list \<Rightarrow> nat \<Rightarrow> time_point \<Rightarrow>
     (('k, 'q, 'r, 'z) exec, 'o verdict) act" where
  "attempt_once E P nodes attempt attemptTimeout =
     abind (getNodeIndexForExecute E nodes attempt) (\<lambda>nodeIndex.
     let r = nodes ! nodeIndex in
     abind (now E) (\<lambda>t. abind (areads (\<lambda>s. isHealthy t (node (network s) r))) (\<lambda>healthy.
     abind (if healthy then areturn ()
            else abind (now E) (\<lambda>t'. \<lambda>s. amodify (logged (NodeSlept r
                   (getRemainingTimeForBackoff t' (node (network s) r)))) s)) (\<lambda>_.
     abind (\<lambda>s. case channelFailedToConnect (connects E attempt) (node (network s) r) of
                  (failed, n) \<Rightarrow> (Inr failed, upd_ref r (\<lambda>_. n) s)) (\<lambda>failed.
       if failed then
         abind (now E) (\<lambda>t. abind (amodify (upd_ref r (increaseBackoff t))) (\<lambda>_.
         abind (amodify (logged (ConnectFailed r))) (\<lambda>_. areturn Again)))
       else submit E P nodes attempt attemptTimeout nodeIndex r)))))"

section \<open>The loop\<close>

text \<open>The clock is read for the deadline before the number of attempts is looked at.\<close>

function attempt_loop ::
  "('q, 'r) env \<Rightarrow> ('k, 'q, 'r, 'z, 'o) operations \<Rightarrow> node_ref list \<Rightarrow> time_point \<Rightarrow> nat \<Rightarrow> nat \<Rightarrow>
     (('k, 'q, 'r, 'z) exec, 'o) act" where
  "attempt_loop E P nodes timeoutTime maxAttempts attempt s =
     (case now E s of (_, s1) \<Rightarrow>
       let attemptTimeout = min (clock E (readings s) + mCurrentGrpcDeadline (this s)) timeoutTime in
       if maxAttempts \<le> attempt then (Inl MaxAttemptsExceeded, s1)
       else case attempt_once E P nodes attempt attemptTimeout s1 of
         (Inl e, s2) \<Rightarrow> (Inl e, s2)
       | (Inr (Done o'), s2) \<Rightarrow> (Inr o', s2)
       | (Inr Again, s2) \<Rightarrow> attempt_loop E P nodes timeoutTime maxAttempts (Suc attempt) s2)"
  by pat_completeness auto
termination attempt_loop
  by (relation "measure (\<lambda>(E, P, nodes, timeoutTime, maxAttempts, attempt, s). maxAttempts - attempt)") auto

declare attempt_loop.simps [simp del]

definition execute ::
  "('q, 'r) env \<Rightarrow> Client \<Rightarrow> ('k, 'q, 'r, 'z, 'o) operations \<Rightarrow> duration \<Rightarrow> (('k, 'q, 'r, 'z) exec, 'o) act" where
  "execute E client P timeout =
     abind (amodify (\<lambda>s. s\<lparr>this := setExecutionParameters client (this s)\<rparr>)) (\<lambda>_.
     abind (onExecute P) (\<lambda>_.
     abind (getNodesFromNodeAccountIds E) (\<lambda>nodes.
     abind (now E) (\<lambda>t.
     abind (amodify (\<lambda>s. s\<lparr>nodeResponses := []\<rparr>)) (\<lambda>_ s.
       attempt_loop E P nodes (t + timeout) (unat (mCurrentMaxAttempts (this s))) 0 s)))))"

end
