(* ===== verification/Retries.thy ===== *)
theory Retries
  imports Execution
begin

text \<open>
  What the execution of a request promises: the protocol of its attempts, the delays between them,
  and the choice of the nodes.
\<close>

section \<open>The retry protocol\<close>

text \<open>The events that end an attempt, and those after which there is another one.\<close>

primrec outcome :: "event \<Rightarrow> bool" where
  "outcome (NodeSlept r d) = False"
| "outcome (ConnectFailed r) = True"
| "outcome (GrpcFailed r c) = True"
| "outcome (Answered r st d) = True"
| "outcome (RetrySlept d) = False"

primrec retried :: "event \<Rightarrow> bool" where
  "retried (NodeSlept r d) = False"
| "retried (ConnectFailed r) = True"
| "retried (GrpcFailed r c) = grpc_retryable c"
| "retried (Answered r st d) = (d = SERVER_ERROR \<or> d = RETRY)"
| "retried (RetrySlept d) = False"

text \<open>
  The abstract protocol of an execution with \<open>n\<close> attempts left: its outcomes and its result. Faults
  are exceptions of the request's own functions, of which \<open>F\<close> tells the possible ones.
\<close>

inductive retry_protocol :: "(exn \<Rightarrow> bool) \<Rightarrow> nat \<Rightarrow> event list \<Rightarrow> 'o res \<Rightarrow> bool" for F where
  exhausted: "retry_protocol F 0 [] (Inl MaxAttemptsExceeded)"
| again: "retried e \<Longrightarrow> retry_protocol F n es r \<Longrightarrow> retry_protocol F (Suc n) (e # es) r"
| success: "retry_protocol F (Suc n) [Answered q st REQUEST_SUCCESS] (Inr x)"
| refused: "retry_protocol F (Suc n) [Answered q st REQUEST_ERROR] (Inl (PrecheckStatus st))"
| fault: "F f \<Longrightarrow> retry_protocol F (Suc n) [] (Inl f)"
| fault_late: "F f \<Longrightarrow> retry_protocol F (Suc n) [Answered q st REQUEST_SUCCESS] (Inl f)"

inductive_cases retry_protocol_Inr: "retry_protocol F n es (Inr x)"
inductive_simps retry_protocol_0 [simp]: "retry_protocol F 0 es r"

lemma retry_protocol_length: "retry_protocol F n es r \<Longrightarrow> length es \<le> n"
  by (induction rule: retry_protocol.induct) auto

text \<open>The whole answer of the protocol, by the kind of the result.\<close>

lemma retry_protocol_success:
  "retry_protocol F n es r \<Longrightarrow> r = Inr x \<Longrightarrow>
     \<exists>q st pre. es = pre @ [Answered q st REQUEST_SUCCESS] \<and> list_all retried pre"
proof (induction rule: retry_protocol.induct)
  case (again e n es r)
  then obtain q st pre where "es = pre @ [Answered q st REQUEST_SUCCESS]" "list_all retried pre" by blast
  with again.hyps(1) show ?case by (intro exI [of _ q] exI [of _ st] exI [of _ "e # pre"]) simp
qed auto

lemma retry_protocol_exhausted:
  "retry_protocol F n es r \<Longrightarrow> r = Inl MaxAttemptsExceeded \<Longrightarrow> \<not> F MaxAttemptsExceeded \<Longrightarrow> length es = n \<and> list_all retried es"
  by (induction rule: retry_protocol.induct) auto

lemma retry_protocol_refused:
  "retry_protocol F n es r \<Longrightarrow> r = Inl (PrecheckStatus st) \<Longrightarrow> es \<noteq> [] \<Longrightarrow> \<not> retried (last es) \<Longrightarrow>
     \<exists>q d. last es = Answered q d REQUEST_ERROR \<and> d = st \<or> last es = Answered q d REQUEST_SUCCESS"
  by (induction rule: retry_protocol.induct) (auto split: if_splits)

section \<open>Computations that leave the log alone\<close>

text \<open>
  The functions of a request may change its own fields, but neither the log nor the retry delay.
\<close>

definition quiet :: "(('k, 'q, 'r, 'z) exec, 'a) act \<Rightarrow> bool" where
  "quiet m \<longleftrightarrow> (\<forall>s. log (snd (m s)) = log s \<and>
     mCurrentRequestBackoff (this (snd (m s))) = mCurrentRequestBackoff (this s) \<and>
     mCurrentMaxBackoff (this (snd (m s))) = mCurrentMaxBackoff (this s))"

definition throws :: "(exn \<Rightarrow> bool) \<Rightarrow> ('s, 'a) act \<Rightarrow> bool" where
  "throws F m \<longleftrightarrow> (\<forall>s f. fst (m s) = Inl f \<longrightarrow> F f)"

named_theorems quiet_intros

lemma quietD:
  assumes "quiet m" and "m s = (r, s')"
  shows "log s' = log s" and "mCurrentRequestBackoff (this s') = mCurrentRequestBackoff (this s)"
    and "mCurrentMaxBackoff (this s') = mCurrentMaxBackoff (this s)"
  using assms unfolding quiet_def by (metis snd_conv)+

lemma quiet_abind [quiet_intros]: "quiet m \<Longrightarrow> (\<And>x. quiet (f x)) \<Longrightarrow> quiet (abind m f)"
  unfolding quiet_def abind_def by (auto split: prod.split sum.split) (metis snd_conv)+

lemma quiet_pure [quiet_intros]:
  "quiet (areturn x)" "quiet (athrow e)" "quiet (alift r)" "quiet (areads v)"
  by (simp_all add: quiet_def act_defs)

lemma quiet_now [quiet_intros]: "quiet (now E)"
  by (simp add: quiet_def now_def)

lemma quiet_upd_ref [quiet_intros]: "quiet (amodify (upd_ref r f))"
  by (simp add: quiet_def act_defs upd_ref_def)

lemma throws_abind [quiet_intros]: "throws F m \<Longrightarrow> (\<And>x. throws F (f x)) \<Longrightarrow> throws F (abind m f)"
  unfolding throws_def abind_def by (auto split: prod.split sum.split) (metis fst_conv)+

lemma throws_pure [quiet_intros]:
  "throws F (areturn x)" "throws F (areads v)" "throws F (amodify h)"
  "throws F (now E)" "F e \<Longrightarrow> throws F (athrow e)"
  by (simp_all add: throws_def act_defs now_def)

lemma quiet_scan [quiet_intros]: "quiet (scan_nodes E nodes is cand)"
  by (induction "is" arbitrary: cand)
    (auto intro!: quiet_intros split: option.split simp: Let_def)

lemma throws_scan [quiet_intros]: "F OutOfRange \<Longrightarrow> throws F (scan_nodes E nodes is cand)"
  by (induction "is" arbitrary: cand)
    (auto intro!: quiet_intros split: option.split simp: Let_def)

lemma quiet_index [quiet_intros]:
  "quiet (getNodeIndexForExecute E nodes a)"
  "F OutOfRange \<Longrightarrow> F UndefinedBehavior \<Longrightarrow> throws F (getNodeIndexForExecute E nodes a)"
  by (simp_all add: getNodeIndexForExecute_def quiet_intros)

section \<open>What one attempt does\<close>

primrec retry_sleep :: "event \<Rightarrow> duration list" where
  "retry_sleep (NodeSlept r d) = []"
| "retry_sleep (ConnectFailed r) = []"
| "retry_sleep (GrpcFailed r c) = []"
| "retry_sleep (Answered r st d) = []"
| "retry_sleep (RetrySlept d) = [d]"

abbreviation outcomes :: "event list \<Rightarrow> event list" where
  "outcomes es \<equiv> filter outcome es"

abbreviation retry_sleeps :: "event list \<Rightarrow> duration list" where
  "retry_sleeps es \<equiv> concat (map retry_sleep es)"

abbreviation delay :: "('k, 'q, 'r, 'z) exec \<Rightarrow> duration" where
  "delay s \<equiv> mCurrentRequestBackoff (this s)"

abbreviation delay_cap :: "('k, 'q, 'r, 'z) exec \<Rightarrow> duration" where
  "delay_cap s \<equiv> mCurrentMaxBackoff (this s)"

text \<open>The delays between attempts, from the first one on.\<close>

primrec schedule :: "duration \<Rightarrow> duration \<Rightarrow> nat \<Rightarrow> duration list" where
  "schedule cap cur 0 = []"
| "schedule cap cur (Suc k) = cur # schedule cap (double_capped cur cap) k"

lemma length_schedule [simp]: "length (schedule cap cur k) = k"
  by (induction k arbitrary: cur) simp_all

text \<open>A computation that ends no attempt and does not wait between attempts.\<close>

definition calm :: "(exn \<Rightarrow> bool) \<Rightarrow> (('k, 'q, 'r, 'z) exec, 'a) act \<Rightarrow> bool" where
  "calm F m \<longleftrightarrow> (\<forall>s. (\<forall>f. fst (m s) = Inl f \<longrightarrow> F f) \<and>
     (\<exists>es. log (snd (m s)) = log s @ es \<and> outcomes es = [] \<and> retry_sleeps es = []) \<and>
     delay (snd (m s)) = delay s \<and> delay_cap (snd (m s)) = delay_cap s)"

lemma quiet_calm: "quiet m \<Longrightarrow> throws F m \<Longrightarrow> calm F m"
  by (simp add: quiet_def throws_def calm_def)

text \<open>The result of an attempt, the events it adds, and the delay before and after.\<close>

definition attempt_effect ::
  "(exn \<Rightarrow> bool) \<Rightarrow> ('k, 'q, 'r, 'z) exec \<Rightarrow> 'o verdict res \<Rightarrow> event list \<Rightarrow> ('k, 'q, 'r, 'z) exec \<Rightarrow> bool" where
  "attempt_effect F s r es s' \<longleftrightarrow> log s' = log s @ es \<and>
     (case r of
        Inr Again \<Rightarrow> (\<exists>e. outcomes es = [e] \<and> retried e) \<and> delay_cap s' = delay_cap s \<and>
          (retry_sleeps es = [] \<and> delay s' = delay s \<or>
           retry_sleeps es = [delay s] \<and> delay s' = double_capped (delay s) (delay_cap s))
      | Inr (Done x) \<Rightarrow> (\<exists>q st. outcomes es = [Answered q st REQUEST_SUCCESS]) \<and> retry_sleeps es = []
      | Inl f \<Rightarrow> retry_sleeps es = [] \<and>
          (F f \<and> (outcomes es = [] \<or> (\<exists>q st. outcomes es = [Answered q st REQUEST_SUCCESS])) \<or>
           (\<exists>q st. outcomes es = [Answered q st REQUEST_ERROR] \<and> f = PrecheckStatus st)))"

definition attempts :: "(exn \<Rightarrow> bool) \<Rightarrow> (('k, 'q, 'r, 'z) exec, 'o verdict) act \<Rightarrow> bool" where
  "attempts F m \<longleftrightarrow> (\<forall>s. \<exists>es. attempt_effect F s (fst (m s)) es (snd (m s)))"

lemma attemptsD: "attempts F m \<Longrightarrow> m s = (r, s') \<Longrightarrow> \<exists>es. attempt_effect F s r es s'"
  unfolding attempts_def by (metis fst_conv snd_conv)

lemma attempt_effect_prefix:
  assumes "log s1 = log s @ pre" and "outcomes pre = []" and "retry_sleeps pre = []"
    and "delay s1 = delay s" and "delay_cap s1 = delay_cap s" and "attempt_effect F s1 r es s'"
  shows "attempt_effect F s r (pre @ es) s'"
proof -
  have "retry_sleeps (pre @ es) = retry_sleeps es" "outcomes (pre @ es) = outcomes es"
    using assms(2,3) by (simp_all only: map_append concat_append filter_append append_Nil)
  with assms show ?thesis
    by (simp only: attempt_effect_def append_assoc)
qed

lemma attempts_calm_bind:
  assumes "calm F m" and "\<And>x. attempts F (f x)"
  shows "attempts F (abind m f)"
  unfolding attempts_def
proof
  fix s
  obtain r s1 where m: "m s = (r, s1)" by fastforce
  with assms(1) obtain pre where pre: "log s1 = log s @ pre" "outcomes pre = []" "retry_sleeps pre = []"
    "delay s1 = delay s" "delay_cap s1 = delay_cap s" "\<And>f. r = Inl f \<Longrightarrow> F f"
    unfolding calm_def by (metis fst_conv snd_conv)
  show "\<exists>es. attempt_effect F s (fst (abind m f s)) es (snd (abind m f s))"
  proof (cases r)
    case (Inl e)
    with m pre show ?thesis by (intro exI [of _ pre]) (simp add: abind_def attempt_effect_def)
  next
    case (Inr x)
    from assms(2) [of x] obtain es where "attempt_effect F s1 (fst (f x s1)) es (snd (f x s1))"
      unfolding attempts_def by blast
    with pre Inr m show ?thesis
      by (intro exI [of _ "pre @ es"]) (simp add: abind_def attempt_effect_prefix)
  qed
qed

lemma calm_steps:
  "calm F (now E)" "calm F (areads v)" "calm F (areturn x)" "calm F (amodify (upd_ref r f))"
  "calm F (\<lambda>s. amodify (logged (NodeSlept r (d s))) s)"
  "calm F (\<lambda>s. case channelFailedToConnect c (node (network s) r) of (failed, n) \<Rightarrow> (Inr failed, upd_ref r (\<lambda>_. n) s))"
  by (simp_all add: calm_def act_defs logged_def upd_ref_def now_def split: prod.split)

text \<open>The end of an attempt whose node failed: its backoff is increased.\<close>

lemma attempts_node_failed:
  assumes "retried e" and "outcome e" and "retry_sleep e = []"
  shows "attempts F (abind (now E) (\<lambda>t. abind (amodify (upd_ref r (increaseBackoff t))) (\<lambda>_.
     abind (amodify (logged e)) (\<lambda>_. areturn Again))))"
proof -
  have "attempts F (abind (amodify (logged e)) (\<lambda>_. areturn Again))"
    using assms by (auto simp: attempts_def attempt_effect_def abind_def act_defs logged_def)
  then show ?thesis
    by (rule attempts_calm_bind [OF calm_steps(1) attempts_calm_bind [OF calm_steps(4)]])
qed

section \<open>The contract of a request's functions\<close>

locale quiet_request =
  fixes P :: "('k, 'q, 'r, 'z, 'o) operations"
    and F :: "exn \<Rightarrow> bool"
  assumes quiet_makeRequest: "quiet (makeRequest P i)" "throws F (makeRequest P i)"
    and quiet_determineStatus: "quiet (determineStatus P st response)" "throws F (determineStatus P st response)"
    and quiet_mapResponse: "quiet (mapResponse P response)" "throws F (mapResponse P response)"
    and quiet_mapResponseStatus: "quiet (mapResponseStatus P response)" "throws F (mapResponseStatus P response)"
    and grpc_method_throws: "grpc_method P = Inl f \<Longrightarrow> F f"
    and own_faults: "F OutOfRange" "F UndefinedBehavior"
begin

lemma sleep_retry_again:
  assumes "retried e" and "outcome e" and "retry_sleep e = []"
    and "log s1 = log s @ [e]" and "delay s1 = delay s" and "delay_cap s1 = delay_cap s"
  shows "attempt_effect F s (Inr Again) [e, RetrySlept (delay s)] (sleep_retry s1)"
  using assms
  by (simp add: attempt_effect_def sleep_retry_def logged_def Let_def double_capped_def)

lemma attempts_decision:
  "attempts F (abind (amodify (logged (Answered r st decision))) (\<lambda>_ s.
       case decision of
         SERVER_ERROR \<Rightarrow>
           if \<not> all_busy nodes (nodeResponses s) then (Inr Again, s)
           else (Inr Again, sleep_retry (s\<lparr>nodeResponses := []\<rparr>))
       | RETRY \<Rightarrow> (Inr Again, sleep_retry s)
       | REQUEST_ERROR \<Rightarrow> (Inl (PrecheckStatus st), s)
       | REQUEST_SUCCESS \<Rightarrow> abind (mapResponse P response) (\<lambda>o'. areturn (Done o')) s))"
  (is "attempts F ?m")
  unfolding attempts_def
proof
  fix s :: "('k, 'q, 'r, 'z) exec"
  let ?e = "Answered r st decision"
  let ?s = "logged ?e s"
  have log: "log ?s = log s @ [?e]" "delay ?s = delay s" "delay_cap ?s = delay_cap s"
    by (simp_all add: logged_def)
  show "\<exists>es. attempt_effect F s (fst (?m s)) es (snd (?m s))"
  proof (cases decision)
    case REQUEST_SUCCESS
    obtain x s2 where x: "mapResponse P response ?s = (x, s2)" by fastforce
    then have "log s2 = log s @ [?e]" "\<And>f. x = Inl f \<Longrightarrow> F f"
      using quietD [OF quiet_mapResponse(1) x] quiet_mapResponse(2) log
      by (simp_all add: throws_def) (metis fst_conv)
    then show ?thesis
      using x REQUEST_SUCCESS
      by (intro exI [of _ "[?e]"]) (auto simp: abind_def act_defs attempt_effect_def split: sum.split)
  next
    case RETRY
    show ?thesis
      using sleep_retry_again [OF _ _ _ log] RETRY
      by (intro exI [of _ "[?e, RetrySlept (delay s)]"]) (simp add: abind_def act_defs)
  next
    case SERVER_ERROR
    note log = log [unfolded SERVER_ERROR]
    show ?thesis
    proof (cases "all_busy nodes (nodeResponses ?s)")
      case True
      have "attempt_effect F s (Inr Again) [?e, RetrySlept (delay s)] (sleep_retry (?s\<lparr>nodeResponses := []\<rparr>))"
        by (rule sleep_retry_again) (simp_all add: SERVER_ERROR log del: outcome.simps retried.simps retry_sleep.simps,
            simp_all)
      with True SERVER_ERROR show ?thesis
        by (intro exI [of _ "[?e, RetrySlept (delay s)]"]) (simp add: abind_def act_defs)
    next
      case False
      with SERVER_ERROR log show ?thesis
        by (intro exI [of _ "[?e]"]) (simp add: abind_def act_defs attempt_effect_def)
    qed
  next
    case REQUEST_ERROR
    with log show ?thesis
      by (intro exI [of _ "[?e]"]) (simp add: abind_def act_defs attempt_effect_def)
  qed
qed

lemma attempts_handle_response: "attempts F (handle_response P nodes r response)"
  unfolding handle_response_def
proof (rule attempts_calm_bind, goal_cases)
  case 1
  then show ?case by (intro quiet_calm quiet_mapResponseStatus)
next
  case (2 st)
  have "calm F (amodify (\<lambda>s :: ('k, 'q, 'r, 'z) exec. s\<lparr>nodeResponses := set_response r st (nodeResponses s)\<rparr>))"
    by (simp add: calm_def act_defs)
  moreover have "calm F (determineStatus P st response)"
    by (intro quiet_calm quiet_determineStatus)
  ultimately show ?case
    by (rule attempts_calm_bind [OF _ attempts_calm_bind]) (rule attempts_decision)
qed

lemma attempts_submit: "attempts F (submit E P nodes attempt attemptTimeout nodeIndex r)"
proof -
  have calls: "calm F (makeRequest P nodeIndex)"
    "calm F (\<lambda>s. (stub_call (\<lambda>m q. answers E attempt m q attemptTimeout) (grpc_method P) request
                  (node (network s) r), s))" for request
    using grpc_method_throws own_faults quiet_calm [OF quiet_makeRequest]
    by (simp, auto simp: calm_def stub_call_def res_simps)
  have ends: "attempts F (if grpc_retryable code then
         abind (now E) (\<lambda>t. abind (amodify (upd_ref r (increaseBackoff t))) (\<lambda>_.
         abind (amodify (logged (GrpcFailed r code))) (\<lambda>_. areturn Again)))
       else
         abind (amodify (upd_ref r decreaseBackoff)) (\<lambda>_.
         abind (areads (\<lambda>s. apply_listener (mResponseListener (this s)) response)) (\<lambda>response.
           handle_response P nodes r response)))" for code response
    by (auto intro!: attempts_node_failed)
      (intro attempts_calm_bind calm_steps attempts_handle_response)
  show ?thesis
    unfolding submit_def
    by (intro attempts_calm_bind calls calm_steps) (clarsimp simp only: prod.case ends split: prod.split)
qed

lemma attempts_attempt_once: "attempts F (attempt_once E P nodes attempt attemptTimeout)"
proof -
  have slept: "calm F (if healthy then areturn () else abind (now E) (\<lambda>t'. \<lambda>s. amodify (logged (NodeSlept r
                   (getRemainingTimeForBackoff t' (node (network s) r)))) s))" for healthy r
    by (simp add: calm_def act_defs abind_def now_def logged_def)
  show ?thesis
    unfolding attempt_once_def Let_def
    by (intro attempts_calm_bind slept calm_steps quiet_calm quiet_index own_faults)
      (auto intro!: attempts_submit attempts_node_failed)
qed

lemma attempt_loop_log:
  "k = n - a \<Longrightarrow> attempt_loop E P nodes T n a s = (r, s') \<Longrightarrow>
     \<exists>es. log s' = log s @ es \<and> retry_protocol F k (outcomes es) r \<and>
       retry_sleeps es = schedule (delay_cap s) (delay s) (length (retry_sleeps es))"
proof (induction k arbitrary: a s)
  case 0
  then show ?case
    by (intro exI [of _ "[]"]) (auto simp: attempt_loop.simps [of E P nodes T n a s] now_def)
next
  case (Suc k)
  let ?s = "s\<lparr>readings := Suc (readings s)\<rparr>"
  let ?T = "min (clock E (readings s) + mCurrentGrpcDeadline (this s)) T"
  obtain v s2 where v: "attempt_once E P nodes a ?T ?s = (v, s2)" by fastforce
  obtain es where es: "attempt_effect F ?s v es s2"
    using attemptsD [OF attempts_attempt_once v] by blast
  have "\<not> n \<le> a" using Suc.prems(1) by simp
  with Suc.prems(2) v have loop: "(r, s') = (case v of Inl e \<Rightarrow> (Inl e, s2) | Inr (Done x) \<Rightarrow> (Inr x, s2)
      | Inr Again \<Rightarrow> attempt_loop E P nodes T n (Suc a) s2)"
    unfolding attempt_loop.simps [of E P nodes T n a s]
    by (cases v; (cases "projr v")?) (auto simp: now_def Let_def)
  show ?case
  proof (cases v)
    case (Inl f)
    have "retry_protocol F (Suc k) (outcomes es) (Inl f :: 'o res)"
      using es Inl by (auto simp: attempt_effect_def intro: retry_protocol.intros)
    with es Inl loop show ?thesis
      by (intro exI [of _ es]) (simp add: attempt_effect_def del: concat_eq_Nil_conv)
  next
    case (Inr d)
    show ?thesis
    proof (cases d)
      case (Done x)
      with es Inr loop show ?thesis
        by (intro exI [of _ es]) (auto simp: attempt_effect_def intro: retry_protocol.intros
            simp del: concat_eq_Nil_conv)
    next
      case Again
      with loop Inr have rest: "attempt_loop E P nodes T n (Suc a) s2 = (r, s')" by simp
      have "k = n - Suc a" using Suc.prems(1) by simp
      from Suc.IH [OF this rest] obtain fs where fs: "log s' = log s2 @ fs"
        "retry_protocol F k (outcomes fs) r"
        "retry_sleeps fs = schedule (delay_cap s2) (delay s2) (length (retry_sleeps fs))" by blast
      from es Again Inr obtain e where e: "outcomes es = [e]" "retried e"
        and log: "log s2 = log s @ es" and cap: "delay_cap s2 = delay_cap s"
        and sl: "retry_sleeps es = [] \<and> delay s2 = delay s \<or>
          retry_sleeps es = [delay s] \<and> delay s2 = double_capped (delay s) (delay_cap s)"
        by (auto simp: attempt_effect_def simp del: concat_eq_Nil_conv)
      have "retry_protocol F (Suc k) (outcomes (es @ fs)) r"
        using e fs(2) by (simp add: retry_protocol.again)
      moreover have "retry_sleeps (es @ fs) =
          schedule (delay_cap s) (delay s) (length (retry_sleeps (es @ fs)))"
        using sl
      proof (elim disjE conjE)
        assume "retry_sleeps es = []" "delay s2 = delay s"
        then show ?thesis
          unfolding map_append concat_append using fs(3) cap by (simp del: concat_eq_Nil_conv)
      next
        assume "retry_sleeps es = [delay s]" "delay s2 = double_capped (delay s) (delay_cap s)"
        then show ?thesis
          unfolding map_append concat_append using fs(3) cap by simp
      qed
      ultimately show ?thesis
        using fs(1) log by (intro exI [of _ "es @ fs"]) simp
    qed
  qed
qed

end

text \<open>The schedule in closed form.\<close>

interpretation retry_delay: capped_backoff "\<lambda>(cur, cap). (double_capped cur cap, cap)" fst snd
  by unfold_locales auto

lemma schedule_nth:
  "i < k \<Longrightarrow> schedule cap cur k ! i = fst (((\<lambda>(cur, cap). (double_capped cur cap, cap)) ^^ i) (cur, cap))"
proof (induction k arbitrary: cur i)
  case (Suc k)
  then show ?case by (cases i) (simp_all add: funpow_Suc_right del: funpow.simps(2))
qed simp

lemma schedule_closed:
  assumes "0 \<le> cur" and "cur \<le> cap"
  shows "schedule cap cur k = map (\<lambda>i. min (2 ^ i * cur) cap) [0..<k]"
  using retry_delay.cur_steps [of "(cur, cap)"] assms
  by (intro nth_equalityI) (simp_all add: schedule_nth)

section \<open>The choice of a node\<close>

text \<open>The scan, when the clock stands still at \<open>t\<close>.\<close>

lemma scan_step:
  assumes "\<And>j. clock E j = t" and "n = node (network s) (nodes ! i)"
  shows "\<exists>s'. network s' = network s \<and>
    scan_nodes E nodes (i # ks) cand s =
      (if isHealthy t n then (Inr i, s')
       else scan_nodes E nodes ks
         (if getRemainingTimeForBackoff t n < snd cand then (Some i, getRemainingTimeForBackoff t n) else cand) s')"
proof (cases "isHealthy t n")
  case True
  with assms show ?thesis
    by (intro exI [of _ "s\<lparr>readings := Suc (readings s)\<rparr>"]) (simp add: abind_def now_def act_defs)
next
  case False
  with assms show ?thesis
    by (intro exI [of _ "s\<lparr>readings := Suc (Suc (readings s))\<rparr>"]) (simp add: abind_def now_def act_defs Let_def)
qed

lemma scan_healthy:
  assumes "\<And>j. clock E j = t"
    and "List.find (\<lambda>i. isHealthy t (node (network s) (nodes ! i))) js = Some i"
  shows "fst (scan_nodes E nodes js cand s) = Inr i"
  using assms(2)
proof (induction js arbitrary: cand s)
  case (Cons k ks)
  obtain s' where s': "network s' = network s" "scan_nodes E nodes (k # ks) cand s =
      (if isHealthy t (node (network s) (nodes ! k)) then (Inr k, s')
       else scan_nodes E nodes ks
         (if getRemainingTimeForBackoff t (node (network s) (nodes ! k)) < snd cand
          then (Some k, getRemainingTimeForBackoff t (node (network s) (nodes ! k))) else cand) s')"
    using scan_step [OF assms(1) refl] by blast
  show ?case
    unfolding s'(2) using Cons.prems Cons.IH [of s'] s'(1) by (auto split: if_splits)
qed simp

lemma scan_unhealthy:
  fixes E :: "('q, 'r) env" and s :: "('k, 'q, 'r, 'z) exec" and nodes :: "node_ref list" and t :: time_point
  defines "d \<equiv> \<lambda>i. getRemainingTimeForBackoff t (node (network s) (nodes ! i))"
  assumes "\<And>j. clock E j = t"
    and "\<And>i. i \<in> set js \<Longrightarrow> \<not> isHealthy t (node (network s) (nodes ! i)) \<and> d i < B"
    and "cand = (None, B) \<and> js \<noteq> [] \<and> cs = {} \<or> cand = (Some c, d c) \<and> cs = {c}"
  shows "\<exists>i \<in> set js \<union> cs. fst (scan_nodes E nodes js cand s) = Inr i \<and> (\<forall>j \<in> set js \<union> cs. d i \<le> d j)"
  using assms(3,4) unfolding d_def
proof (induction js arbitrary: cand s c cs)
  case Nil
  then show ?case by (auto simp: act_defs)
next
  case (Cons k ks)
  let ?d = "\<lambda>i. getRemainingTimeForBackoff t (node (network s) (nodes ! i))"
  let ?cand = "if ?d k < snd cand then (Some k, ?d k) else cand"
  have k: "\<not> isHealthy t (node (network s) (nodes ! k))" "?d k < B" using Cons.prems(1) by auto
  obtain s' where s': "network s' = network s" "scan_nodes E nodes (k # ks) cand s = scan_nodes E nodes ks ?cand s'"
    using scan_step [OF assms(2) refl, where s = s and nodes = nodes and i = k and ks = ks and cand = cand] k(1)
    by (auto simp del: scan_nodes.simps)
  define c' where "c' = (if ?d k < snd cand then k else c)"
  have cand: "?cand = (Some c', ?d c')" "c' \<in> insert k cs" "\<forall>j \<in> insert k cs. ?d c' \<le> ?d j"
    using Cons.prems(2) k(2) by (auto simp: c'_def)
  have "\<exists>i \<in> set ks \<union> {c'}. fst (scan_nodes E nodes ks ?cand s') = Inr i \<and> (\<forall>j \<in> set ks \<union> {c'}. ?d i \<le> ?d j)"
    using Cons.IH [where s = s' and cand = ?cand and c = c' and cs = "{c'}"] Cons.prems(1) cand(1) s'(1) by simp
  then obtain i where i: "i \<in> set ks \<union> {c'}" "fst (scan_nodes E nodes ks ?cand s') = Inr i"
    "\<forall>j \<in> set ks \<union> {c'}. ?d i \<le> ?d j" by blast
  have "?d i \<le> ?d j" if "j \<in> set (k # ks) \<union> cs" for j
    using that i(3) cand(3) order_trans [of "?d i" "?d c'" "?d j"] by auto
  moreover have "i \<in> set (k # ks) \<union> cs" using i(1) cand(2) by auto
  ultimately show ?case unfolding s'(2) using i(2) by blast
qed

lemma find_upt:
  "List.find Q [a..<b] = Some i \<Longrightarrow> i \<in> {a..<b} \<and> Q i \<and> (\<forall>j \<in> {a..<i}. \<not> Q j)"
proof (induction "b - a" arbitrary: a)
  case (Suc k)
  then have a: "a < b" by simp
  show ?case
  proof (cases "Q a")
    case True
    with Suc.prems a show ?thesis by (simp add: upt_conv_Cons)
  next
    case False
    with Suc.prems a have "List.find Q [Suc a..<b] = Some i" by (simp add: upt_conv_Cons)
    with Suc.hyps(1) [of "Suc a"] Suc.hyps(2) have "i \<in> {Suc a..<b} \<and> Q i \<and> (\<forall>j \<in> {Suc a..<i}. \<not> Q j)" by simp
    with False show ?thesis
      by (metis Suc_leD atLeastLessThan_iff le_neq_implies_less less_eq_Suc_le)
  qed
qed simp

section \<open>gRPC errors\<close>

text \<open>The environment that answers \<open>OK\<close> for every gRPC error that is not retried.\<close>

definition errors_as_ok :: "('q, 'r) env \<Rightarrow> ('q, 'r) env" where
  "errors_as_ok E = E\<lparr>answers := (\<lambda>a m q t. case answers E a m q t of
     (code, response) \<Rightarrow> (if grpc_retryable code then code else GRPC_OK, response))\<rparr>"

lemma now_errors_as_ok [simp]: "now (errors_as_ok E) = now E"
  by (rule ext) (simp add: now_def errors_as_ok_def)

lemma clock_errors_as_ok [simp]: "clock (errors_as_ok E) = clock E" "connects (errors_as_ok E) = connects E"
  by (simp_all add: errors_as_ok_def)

lemma scan_errors_as_ok [simp]: "scan_nodes (errors_as_ok E) nodes ks cand = scan_nodes E nodes ks cand"
  by (induction ks arbitrary: cand) (simp_all cong del: if_weak_cong)

lemma index_errors_as_ok [simp]: "getNodeIndexForExecute (errors_as_ok E) = getNodeIndexForExecute E"
  by (intro ext) (simp add: getNodeIndexForExecute_def)

lemma stub_errors_as_ok:
  "abind (\<lambda>s. (stub_call (\<lambda>m q. answers (errors_as_ok E) a m q T) gm request (n s), s))
     (\<lambda>(code, response). if grpc_retryable code then f code else g response) =
   abind (\<lambda>s. (stub_call (\<lambda>m q. answers E a m q T) gm request (n s), s))
     (\<lambda>(code, response). if grpc_retryable code then f code else g response)"
  (is "?l = ?r")
proof
  fix s
  show "?l s = ?r s"
  proof (cases gm)
    case (Inr m)
    show ?thesis
      by (cases "answers E a m request T") (simp add: Inr abind_def stub_call_def errors_as_ok_def grpc_retryable_def)
  qed (simp add: abind_def stub_call_def)
qed

lemma submit_errors_as_ok: "submit (errors_as_ok E) P nodes a T i r = submit E P nodes a T i r"
  by (simp only: submit_def now_errors_as_ok stub_errors_as_ok)

lemma attempt_loop_errors_as_ok:
  "attempt_loop (errors_as_ok E) P nodes T n a s = attempt_loop E P nodes T n a s"
proof (induction "n - a" arbitrary: a s)
  case 0
  then show ?case by (simp add: attempt_loop.simps [of _ P nodes T n a s])
next
  case (Suc k)
  have once: "attempt_once (errors_as_ok E) P nodes a T' = attempt_once E P nodes a T'" for T'
    by (simp add: attempt_once_def submit_errors_as_ok cong del: if_weak_cong)
  from Suc have IH: "attempt_loop (errors_as_ok E) P nodes T n (Suc a) s' = attempt_loop E P nodes T n (Suc a) s'" for s'
    by simp
  show ?case
    by (simp add: attempt_loop.simps [of _ P nodes T n a s] once IH
        cong del: if_weak_cong sum.case_cong_weak verdict.case_cong_weak prod.case_cong_weak)
qed

section \<open>Properties\<close>

text \<open>
  A request with the status rules of \<open>Executable\<close> itself, sent to one node that is unreachable
  once and busy twice: the input of the examples below.
\<close>

definition example_request :: "(nat, nat, Status, unit, Status) operations" where
  "example_request =
     \<lparr>onExecute = areturn (), makeRequest = areturn, grpc_method = query_method kConsensusGetTopicInfo,
      mapResponseStatus = areturn, determineStatus = (\<lambda>st r. areturn (base_determineStatus st)),
      mapResponse = areturn\<rparr>"

definition example_env :: "(nat, Status) env" where
  "example_env =
     \<lparr>clock = int, connects = (\<lambda>a. True),
      answers = (\<lambda>a m q t. if a = 0 then (UNAVAILABLE, BUSY) else (GRPC_OK, if a < 3 then BUSY else OK)),
      randoms = (\<lambda>i. 0), choice_rounds = 0, choice_clock = int, choice_randoms = (\<lambda>i. 0)\<rparr>"

definition example_exec :: "(nat, nat, Status, unit) exec" where
  "example_exec =
     \<lparr>this = Executable_default,
      network = BaseNetwork_default 0 \<lparr>nodeStore := (\<lambda>r. BaseNode_of (-1) 3 (BaseNodeAddress_of [] [] 0))\<rparr>,
      readings = 0, nodeResponses = [], log = []\<rparr>"

lemma quiet_example: "quiet_request example_request (\<lambda>f. f = OutOfRange \<or> f = UndefinedBehavior)"
  by unfold_locales
    (simp_all add: example_request_def quiet_intros query_method_def quiet_def throws_def act_defs)

lemma example_run:
  "(let (r, s') = attempt_loop example_env example_request [0] 1000 n 0 example_exec in (r, log s')) =
     (if n = 5 then
        (Inr OK, [GrpcFailed 0 UNAVAILABLE, NodeSlept 0 7999999995, Answered 0 BUSY SERVER_ERROR,
          RetrySlept 250000000, NodeSlept 0 7999999990, Answered 0 BUSY SERVER_ERROR,
          RetrySlept 500000000, NodeSlept 0 7999999985, Answered 0 OK REQUEST_SUCCESS])
      else
        (Inl MaxAttemptsExceeded, [GrpcFailed 0 UNAVAILABLE, NodeSlept 0 7999999995,
          Answered 0 BUSY SERVER_ERROR, RetrySlept 250000000]))"
  if "n = 5 \<or> n = 2"
  using that by (elim disjE) (simp only:, code_simp)+

text \<open>
  C1. The execution of a request implements the abstract retry protocol: its outcomes are at most
  as many as the attempts allowed, every one but the last is retried, it returns a response only
  after a success, reports the status of the answer that refused it, and gives up only when exactly
  the allowed number of attempts has failed. The overall timeout plays no part in it.
\<close>

theorem execution_refines_retry_protocol:
  assumes "quiet_request P F" and "attempt_loop E P nodes timeoutTime n 0 s = (r, s')"
  shows "\<exists>es. log s' = log s @ es \<and> retry_protocol F n (outcomes es) r \<and> length (outcomes es) \<le> n"
  using quiet_request.attempt_loop_log [OF assms(1) refl assms(2)] retry_protocol_length by fastforce

theorem execution_refines_retry_protocol_witness:
  "\<exists>s'. attempt_loop example_env example_request [0] 1000 5 0 example_exec = (Inr OK, s') \<and>
     retry_protocol (\<lambda>f. f = OutOfRange \<or> f = UndefinedBehavior) 5 (outcomes (log s')) (Inr OK) \<and> length (outcomes (log s')) = 4"
proof -
  obtain r s' where run: "attempt_loop example_env example_request [0] 1000 5 0 example_exec = (r, s')" by fastforce
  with example_run [of 5] have "r = Inr OK" "length (outcomes (log s')) = 4" by simp_all
  with execution_refines_retry_protocol [OF quiet_example run] run show ?thesis
    by (auto simp: example_exec_def)
qed

text \<open>
  C11. A request that runs out of attempts has made exactly the allowed number of them, and a request
  waits between attempts for its delay doubled each time, at most its maximum.
\<close>

theorem retry_delays:
  assumes "quiet_request P F" and "attempt_loop E P nodes timeoutTime n 0 s = (r, s')"
    and "0 \<le> mCurrentRequestBackoff (this s)" and "mCurrentRequestBackoff (this s) \<le> mCurrentMaxBackoff (this s)"
  shows "\<exists>es. log s' = log s @ es \<and>
    retry_sleeps es = map (\<lambda>i. min (2 ^ i * mCurrentRequestBackoff (this s)) (mCurrentMaxBackoff (this s)))
      [0..<length (retry_sleeps es)] \<and>
    (r = Inl MaxAttemptsExceeded \<and> \<not> F MaxAttemptsExceeded \<longrightarrow> length (outcomes es) = n \<and> list_all retried (outcomes es))"
proof -
  obtain es where es: "log s' = log s @ es" "retry_protocol F n (outcomes es) r"
    "retry_sleeps es = schedule (delay_cap s) (delay s) (length (retry_sleeps es))"
    using quiet_request.attempt_loop_log [OF assms(1) refl assms(2)] by auto
  have "r = Inl MaxAttemptsExceeded \<and> \<not> F MaxAttemptsExceeded \<longrightarrow> length (outcomes es) = n \<and> list_all retried (outcomes es)"
    using retry_protocol_exhausted [OF es(2)] by blast
  with es(1) es(3) [unfolded schedule_closed [OF assms(3,4)]] show ?thesis
    by blast
qed

theorem retry_delays_witness:
  "\<exists>s'. attempt_loop example_env example_request [0] 1000 2 0 example_exec = (Inl MaxAttemptsExceeded, s') \<and>
     retry_sleeps (log s') = [milliseconds 250] \<and> list_all retried (outcomes (log s'))"
proof -
  obtain r s' where run: "attempt_loop example_env example_request [0] 1000 2 0 example_exec = (r, s')" by fastforce
  with example_run [of 2] have r: "r = Inl MaxAttemptsExceeded" "length (retry_sleeps (log s')) = 1" by simp_all
  have "log example_exec = []" "mCurrentRequestBackoff (this example_exec) = milliseconds 250"
    "mCurrentMaxBackoff (this example_exec) = seconds 8"
    by (simp_all add: example_exec_def Executable_default_def DEFAULT_MIN_BACKOFF_def DEFAULT_MAX_BACKOFF_def)
  with retry_delays [OF quiet_example run] run r show ?thesis
    by (auto simp: milliseconds_def seconds_def)
qed

text \<open>
  C35. With a clock that stands still, an attempt goes to the first healthy node from the index
  \<open>attempt mod n\<close> on; when there is none, to a node of that part of the list whose remaining delay
  is the least, although a node before that index may be healthy.
\<close>

theorem node_choice:
  assumes "\<And>j. clock E j = t" and "nodes \<noteq> []"
    and "\<And>r. r \<in> set nodes \<Longrightarrow> getRemainingTimeForBackoff t (node (network s) r) < 2 ^ 63 - 1"
  shows "\<exists>i \<in> {attempt mod length nodes ..< length nodes}.
    fst (getNodeIndexForExecute E nodes attempt s) = Inr i \<and>
    (if \<exists>j \<in> {attempt mod length nodes ..< length nodes}. isHealthy t (node (network s) (nodes ! j))
     then isHealthy t (node (network s) (nodes ! i)) \<and>
       (\<forall>j \<in> {attempt mod length nodes ..< i}. \<not> isHealthy t (node (network s) (nodes ! j)))
     else \<forall>j \<in> {attempt mod length nodes ..< length nodes}.
       getRemainingTimeForBackoff t (node (network s) (nodes ! i)) \<le>
       getRemainingTimeForBackoff t (node (network s) (nodes ! j)))"
proof (cases "\<exists>j \<in> {attempt mod length nodes ..< length nodes}. isHealthy t (node (network s) (nodes ! j))")
  case True
  then obtain i where i: "List.find (\<lambda>i. isHealthy t (node (network s) (nodes ! i)))
      [attempt mod length nodes ..< length nodes] = Some i"
    by (metis atLeastLessThan_upt find_None_iff option.exhaust_sel)
  have "fst (getNodeIndexForExecute E nodes attempt s) = Inr i"
    using scan_healthy [OF assms(1) i] assms(2) by (simp add: getNodeIndexForExecute_def)
  with True find_upt [OF i] show ?thesis by auto
next
  case False
  have "attempt mod length nodes < length nodes" using assms(2) by simp
  then have "[attempt mod length nodes ..< length nodes] \<noteq> []" unfolding upt_eq_Nil_conv by linarith
  then obtain i where "i \<in> set [attempt mod length nodes ..< length nodes]"
    "fst (scan_nodes E nodes [attempt mod length nodes ..< length nodes] (None, 2 ^ 63 - 1) s) = Inr i"
    "\<forall>j \<in> set [attempt mod length nodes ..< length nodes].
       getRemainingTimeForBackoff t (node (network s) (nodes ! i)) \<le>
       getRemainingTimeForBackoff t (node (network s) (nodes ! j))"
    using scan_unhealthy [where E = E and s = s and nodes = nodes and t = t and B = "2 ^ 63 - 1" and cs = "{}"
        and c = 0 and cand = "(None, 2 ^ 63 - 1)" and js = "[attempt mod length nodes ..< length nodes]", OF assms(1)]
      False assms(3) by (auto simp: )
  with False assms(2) show ?thesis by (auto simp: getNodeIndexForExecute_def)
qed

theorem node_choice_witness:
  "fst (getNodeIndexForExecute (example_env\<lparr>clock := \<lambda>j. 5\<rparr>) [0, 1, 2] 4
     (example_exec\<lparr>network := BaseNetwork_default 0
        \<lparr>nodeStore := (\<lambda>r. BaseNode_of (if r = 0 then 0 else 10 - int r) 3 (BaseNodeAddress_of [] [] 0))\<rparr>\<rparr>)) = Inr 2"
proof -
  define s where "s = example_exec\<lparr>network := BaseNetwork_default 0
        \<lparr>nodeStore := (\<lambda>r. BaseNode_of (if r = 0 then 0 else 10 - int r) 3 (BaseNodeAddress_of [] [] 0))\<rparr>\<rparr>"
  have d: "getRemainingTimeForBackoff 5 (node (network s) r) = (if r = 0 then - 5 else 5 - int r)"
    and h: "isHealthy 5 (node (network s) r) \<longleftrightarrow> r = 0 \<or> 5 < r" for r
    by (auto simp: s_def node_def BaseNode_of_def getRemainingTimeForBackoff_def isHealthy_def)
  have js: "{4 mod length [0 :: nat, 1, 2] ..< length [0 :: nat, 1, 2]} = {1, 2}" by auto
  have "\<And>j. clock (example_env\<lparr>clock := \<lambda>j. 5\<rparr>) j = 5" by simp
  from node_choice [where s = s and attempt = 4 and nodes = "[0, 1, 2]", OF this, unfolded d h js]
  have "fst (getNodeIndexForExecute (example_env\<lparr>clock := \<lambda>j. 5\<rparr>) [0, 1, 2] 4 s) = Inr 2" by auto
  then show ?thesis by (simp only: s_def)
qed

text \<open>
  A gRPC error other than the three that are retried (an expired deadline, for instance) has no
  effect on the execution: it is the same as if the call had succeeded with the same response.
\<close>

theorem grpc_errors_ignored:
  "attempt_loop E P nodes timeoutTime n attempt s = attempt_loop (errors_as_ok E) P nodes timeoutTime n attempt s"
  by (simp only: attempt_loop_errors_as_ok)

end
