(* ===== verification/Transactions.thy ===== *)
theory Transactions
  imports TransactionIds Retries
begin

text \<open>
  \<open>Transaction.cc\<close>: the life of a transaction, from the setters over freezing and signing to the
  requests that an execution sends. The class template is a record that the kinds of transactions
  extend; what they override is a record of functions. Serialisation and hashing are functions of
  the protobuf library and OpenSSL. The unordered map of the signatories is a list in the order of
  insertion; \<open>mPrivateKeys\<close>, which only keeps keys alive, has no counterpart.
\<close>

section \<open>Messages\<close>

record 'd proto_TransactionBody =
  tb_transactionID :: "proto_TransactionID option"
  tb_nodeAccountID :: "proto_AccountID option"
  tb_transactionFee :: u64
  tb_transactionValidDuration :: "int option"
  tb_memo :: string
  tb_data :: "'d option"

record proto_SignedTransaction =
  st_bodyBytes :: bytes
  st_sigMap :: "proto_SignaturePair list"

definition TransactionBody_default :: "'d proto_TransactionBody" where
  "TransactionBody_default =
     \<lparr>tb_transactionID = None, tb_nodeAccountID = None, tb_transactionFee = 0,
      tb_transactionValidDuration = None, tb_memo = [], tb_data = None\<rparr>"

text \<open>
  The third-party functions: OpenSSL, and the serialisation of the messages. The functions of the
  second group tell whether the bytes could be parsed; where the code does not ask, parsing is total.
\<close>

record 'd library =
  lib_ssl :: openssl
  serializeKey :: "proto_Key \<Rightarrow> bytes"
  parseKey :: "bytes \<Rightarrow> proto_Key"
  serializeBody :: "'d proto_TransactionBody \<Rightarrow> bytes"
  parseBody :: "bytes \<Rightarrow> 'd proto_TransactionBody"
  serializeSigned :: "proto_SignedTransaction \<Rightarrow> bytes"
  parseSigned :: "bytes \<Rightarrow> proto_SignedTransaction"
  serializeList :: "bytes list \<Rightarrow> bytes"
  parsesList :: "bytes \<Rightarrow> bytes list option"
  parsesTransaction :: "bytes \<Rightarrow> bytes option"
  parsesBody :: "bytes \<Rightarrow> 'd proto_TransactionBody option"
  computeSHA384 :: "bytes \<Rightarrow> bytes"

section \<open>The state of a transaction\<close>

definition DEFAULT_MAX_TRANSACTION_FEE :: Hbar where "DEFAULT_MAX_TRANSACTION_FEE = \<lparr>mValueInTinybar = 200000000\<rparr>"
definition DEFAULT_TRANSACTION_VALID_DURATION :: duration where "DEFAULT_TRANSACTION_VALID_DURATION = minutes 2"
definition DEFAULT_REGENERATE_TRANSACTION_ID :: bool where "DEFAULT_REGENERATE_TRANSACTION_ID = True"

text \<open>
  A \<open>proto::Transaction\<close> is its signed transaction bytes, a \<open>proto::TransactionResponse\<close> the status
  of its precheck code. A signatory without a signer has contributed its signature already.
\<close>

record 'd Transaction = "(AccountId, bytes, Status) Executable" +
  mSourceTransactionBody :: "'d proto_TransactionBody"
  mTransactions :: "bytes list"
  mSignedTransactions :: "proto_SignedTransaction list"
  mTransactionIndex :: nat
  mSignatories :: "(PublicKey \<times> signer option) list"
  mIsFrozen :: bool
  mTransactionId :: "TransactionId option"
  mMaxTransactionFee :: "Hbar option"
  mDefaultMaxTransactionFee :: Hbar
  mTransactionValidDuration :: duration
  mTransactionMemo :: string
  mTransactionIdRegenerationPolicy :: "bool option"

type_synonym ('d, 'z) tx_exec = "(AccountId, bytes, Status, ('d, 'z) Transaction_ext) exec"

text \<open>What the kinds of transactions override.\<close>

record ('d, 'z) virtuals =
  addToBody :: "('d, 'z) Transaction_scheme \<Rightarrow> 'd proto_TransactionBody \<Rightarrow> 'd proto_TransactionBody res"
  validateChecksums :: "client_ledger \<Rightarrow> ('d, 'z) Transaction_scheme \<Rightarrow> unit res"
  regenerateSigned :: "Client option \<Rightarrow> (('d, 'z) Transaction_scheme, unit) act"
  currentTransactionId :: "('d, 'z) Transaction_scheme \<Rightarrow> TransactionId res"

definition Transaction_fields :: "'d Transaction" where
  "Transaction_fields = Executable.extend Executable_default
     \<lparr>mSourceTransactionBody = TransactionBody_default, mTransactions = [], mSignedTransactions = [],
      mTransactionIndex = 0, mSignatories = [], mIsFrozen = False, mTransactionId = None,
      mMaxTransactionFee = None, mDefaultMaxTransactionFee = DEFAULT_MAX_TRANSACTION_FEE,
      mTransactionValidDuration = DEFAULT_TRANSACTION_VALID_DURATION, mTransactionMemo = [],
      mTransactionIdRegenerationPolicy = None\<rparr>"

section \<open>The setters\<close>

definition isFrozen :: "('d, 'z) Transaction_scheme \<Rightarrow> bool" where
  "isFrozen x = mIsFrozen x"

definition requireNotFrozen :: "(('d, 'z) Transaction_scheme, unit) act" where
  "requireNotFrozen x = (require (\<not> isFrozen x) IllegalState, x)"

definition requireOneNodeAccountId :: "('d, 'z) Transaction_scheme \<Rightarrow> unit res" where
  "requireOneNodeAccountId x = require (length (mNodeAccountIds x) = 1) IllegalState"

definition setTransactionId :: "TransactionId \<Rightarrow> (('d, 'z) Transaction_scheme, unit) act" where
  "setTransactionId i = abind requireNotFrozen (\<lambda>_. amodify (\<lambda>x. x\<lparr>mTransactionId := Some i\<rparr>))"

definition tx_setNodeAccountIds :: "AccountId list \<Rightarrow> (('d, 'z) Transaction_scheme, unit) act" where
  "tx_setNodeAccountIds nodeAccountIds =
     abind requireNotFrozen (\<lambda>_. amodify (setNodeAccountIds nodeAccountIds))"

definition setMaxTransactionFee :: "Hbar \<Rightarrow> (('d, 'z) Transaction_scheme, unit) act" where
  "setMaxTransactionFee fee = abind requireNotFrozen (\<lambda>_. amodify (\<lambda>x. x\<lparr>mMaxTransactionFee := Some fee\<rparr>))"

definition setValidTransactionDuration :: "duration \<Rightarrow> (('d, 'z) Transaction_scheme, unit) act" where
  "setValidTransactionDuration d =
     abind requireNotFrozen (\<lambda>_. amodify (\<lambda>x. x\<lparr>mTransactionValidDuration := d\<rparr>))"

definition setTransactionMemo :: "string \<Rightarrow> (('d, 'z) Transaction_scheme, unit) act" where
  "setTransactionMemo memo = abind requireNotFrozen (\<lambda>_. amodify (\<lambda>x. x\<lparr>mTransactionMemo := memo\<rparr>))"

definition setRegenerateTransactionIdPolicy :: "bool \<Rightarrow> (('d, 'z) Transaction_scheme, unit) act" where
  "setRegenerateTransactionIdPolicy regenerate =
     abind requireNotFrozen (\<lambda>_. amodify (\<lambda>x. x\<lparr>mTransactionIdRegenerationPolicy := Some regenerate\<rparr>))"

definition getTransactionId :: "('d, 'z) Transaction_scheme \<Rightarrow> TransactionId res" where
  "getTransactionId x = (case mTransactionId x of None \<Rightarrow> Inl Uninitialized | Some i \<Rightarrow> Inr i)"

definition getMaxTransactionFee :: "('d, 'z) Transaction_scheme \<Rightarrow> Hbar" where
  "getMaxTransactionFee x = (case mMaxTransactionFee x of None \<Rightarrow> mDefaultMaxTransactionFee x | Some fee \<Rightarrow> fee)"

definition setDefaultMaxTransactionFee :: "Hbar \<Rightarrow> ('d, 'z) Transaction_scheme \<Rightarrow> ('d, 'z) Transaction_scheme" where
  "setDefaultMaxTransactionFee fee x = x\<lparr>mDefaultMaxTransactionFee := fee\<rparr>"

definition base_currentTransactionId :: "('d, 'z) Transaction_scheme \<Rightarrow> TransactionId res" where
  "base_currentTransactionId x =
     Inr (case mTransactionId x of None \<Rightarrow> TransactionId_default | Some i \<Rightarrow> i)"

section \<open>Making the signed transactions\<close>

abbreviation upd_body ::
  "('d proto_TransactionBody \<Rightarrow> 'd proto_TransactionBody) \<Rightarrow> ('d, 'z) Transaction_scheme \<Rightarrow> ('d, 'z) Transaction_scheme" where
  "upd_body f x \<equiv> x\<lparr>mSourceTransactionBody := f (mSourceTransactionBody x)\<rparr>"

definition body_fee :: "Client option \<Rightarrow> ('d, 'z) Transaction_scheme \<Rightarrow> u64" where
  "body_fee client x =
     (case mMaxTransactionFee x of Some fee \<Rightarrow> of_int (toTinybars fee)
      | None \<Rightarrow> (case Option.bind client clientMaxTransactionFee of
          Some fee \<Rightarrow> of_int (toTinybars fee) | None \<Rightarrow> of_int (toTinybars (mDefaultMaxTransactionFee x))))"

definition updateSourceTransactionBody ::
  "'d library \<Rightarrow> (('d, 'z) Transaction_scheme \<Rightarrow> 'd proto_TransactionBody \<Rightarrow> 'd proto_TransactionBody res) \<Rightarrow>
     Client option \<Rightarrow> (('d, 'z) Transaction_scheme, unit) act" where
  "updateSourceTransactionBody L add client =
     abind (\<lambda>x. case mTransactionId x of None \<Rightarrow> areturn () x
              | Some i \<Rightarrow> abind (alift (TransactionId_toProtobuf (serializeKey L) i))
                  (\<lambda>p. amodify (upd_body (tb_transactionID_update (\<lambda>_. Some p)))) x) (\<lambda>_.
     abind (amodify (\<lambda>x. upd_body (\<lambda>b. b\<lparr>tb_transactionFee := body_fee client x,
                  tb_transactionValidDuration := Some (Duration_toProtobuf (mTransactionValidDuration x)),
                  tb_memo := mTransactionMemo x\<rparr>) x)) (\<lambda>_.
     abind (\<lambda>x. (add x (mSourceTransactionBody x), x)) (\<lambda>body.
       amodify (\<lambda>x. x\<lparr>mSourceTransactionBody := body\<rparr>))))"

text \<open>\<open>addTransaction\<close>, for a \<open>Transaction\<close> and for a \<open>SignedTransaction\<close> message.\<close>

definition addTransaction_bytes :: "'d library \<Rightarrow> bytes \<Rightarrow> ('d, 'z) Transaction_scheme \<Rightarrow> ('d, 'z) Transaction_scheme" where
  "addTransaction_bytes L transaction x =
     x\<lparr>mTransactions := mTransactions x @ [transaction],
       mSignedTransactions := mSignedTransactions x @ [parseSigned L transaction]\<rparr>"

definition addTransaction_signed ::
  "proto_SignedTransaction \<Rightarrow> ('d, 'z) Transaction_scheme \<Rightarrow> ('d, 'z) Transaction_scheme" where
  "addTransaction_signed transaction x =
     x\<lparr>mTransactions := mTransactions x @ [[]], mSignedTransactions := mSignedTransactions x @ [transaction]\<rparr>"

definition signed_for :: "'d library \<Rightarrow> 'd proto_TransactionBody \<Rightarrow> AccountId \<Rightarrow> proto_SignedTransaction res" where
  "signed_for L body accountId =
     rbind (AccountId_toProtobuf (serializeKey L) accountId) (\<lambda>p.
       Inr \<lparr>st_bodyBytes = serializeBody L (body\<lparr>tb_nodeAccountID := Some p\<rparr>), st_sigMap = []\<rparr>)"

primrec add_signed_for ::
  "'d library \<Rightarrow> 'd proto_TransactionBody \<Rightarrow> AccountId list \<Rightarrow> (('d, 'z) Transaction_scheme, unit) act" where
  "add_signed_for L body [] = areturn ()"
| "add_signed_for L body (a # as) =
     abind (alift (signed_for L body a)) (\<lambda>t.
     abind (amodify (addTransaction_signed t)) (\<lambda>_. add_signed_for L body as))"

definition addSignedTransactionForEachNode ::
  "'d library \<Rightarrow> 'd proto_TransactionBody \<Rightarrow> (('d, 'z) Transaction_scheme, unit) act" where
  "addSignedTransactionForEachNode L body x = add_signed_for L body (mNodeAccountIds x) x"

definition base_clearTransactions :: "('d, 'z) Transaction_scheme \<Rightarrow> ('d, 'z) Transaction_scheme" where
  "base_clearTransactions x = x\<lparr>mSignedTransactions := [], mTransactions := []\<rparr>"

text \<open>\<open>Transaction::regenerateSignedTransactions\<close>.\<close>

definition base_regenerate ::
  "'d library \<Rightarrow> (('d, 'z) Transaction_scheme \<Rightarrow> 'd proto_TransactionBody \<Rightarrow> 'd proto_TransactionBody res) \<Rightarrow>
     Client option \<Rightarrow> (('d, 'z) Transaction_scheme, unit) act" where
  "base_regenerate L add client =
     abind (updateSourceTransactionBody L add client) (\<lambda>_.
     abind (amodify base_clearTransactions) (\<lambda>_ x.
       addSignedTransactionForEachNode L (mSourceTransactionBody x) x))"

section \<open>Freezing\<close>

text \<open>A transaction ID of the client's operator, and nodes of the client's network, if there are none.\<close>

definition ensure_id :: "(bytes, Status) env \<Rightarrow> Client option \<Rightarrow> (('d, 'z) tx_exec, unit) act" where
  "ensure_id E client s =
     (if mTransactionId (this s) \<noteq> None then areturn () s
      else case client of None \<Rightarrow> athrow IllegalState s
      | Some c \<Rightarrow> (case mOperatorAccountId c of None \<Rightarrow> athrow Uninitialized s
          | Some a \<Rightarrow> abind (now E) (\<lambda>t. amodify (upd_this (\<lambda>x. x\<lparr>mTransactionId := Some (generate t a)\<rparr>))) s))"

definition ensure_nodes :: "(bytes, Status) env \<Rightarrow> Client option \<Rightarrow> (('d, 'z) tx_exec, unit) act" where
  "ensure_nodes E client s =
     (if mNodeAccountIds (this s) \<noteq> [] then areturn () s
      else case client of None \<Rightarrow> athrow IllegalState s
      | Some c \<Rightarrow> abind (chooseNodeAccountIds E c) (\<lambda>as. amodify (upd_this (setNodeAccountIds as))) s)"

text \<open>\<open>freezeWith(nullptr)\<close> is \<open>freeze\<close>.\<close>

definition freezeWith ::
  "(bytes, Status) env \<Rightarrow> ('d, 'z) virtuals \<Rightarrow> Client option \<Rightarrow> (('d, 'z) tx_exec, unit) act" where
  "freezeWith E V client s =
     (if isFrozen (this s) then (Inr (), s)
      else
        abind (ensure_id E client) (\<lambda>_.
        abind (ensure_nodes E client) (\<lambda>_.
        abind (on_this (regenerateSigned V client)) (\<lambda>_.
          amodify (upd_this (\<lambda>x. x\<lparr>mIsFrozen := True\<rparr>))))) s)"

section \<open>Signing\<close>

primrec any_key :: "bytes \<Rightarrow> (PublicKey \<times> signer option) list \<Rightarrow> bool res" where
  "any_key der [] = Inr False"
| "any_key der (t # ts) = rbind (PublicKey_toBytesDer (fst t)) (\<lambda>d. if d = der then Inr True else any_key der ts)"

definition keyAlreadySigned :: "PublicKey \<Rightarrow> ('d, 'z) Transaction_scheme \<Rightarrow> bool res" where
  "keyAlreadySigned publicKey x = rbind (PublicKey_toBytesDer publicKey) (\<lambda>der. any_key der (mSignatories x))"

text \<open>A new signatory makes all built transactions stale.\<close>

definition add_signatory ::
  "PublicKey \<Rightarrow> signer option \<Rightarrow> ('d, 'z) Transaction_scheme \<Rightarrow> ('d, 'z) Transaction_scheme" where
  "add_signatory publicKey sig x =
     x\<lparr>mTransactions := replicate (length (mSignedTransactions x)) [], mSignatories := mSignatories x @ [(publicKey, sig)]\<rparr>"

definition signInternal :: "PublicKey \<Rightarrow> signer \<Rightarrow> (('d, 'z) Transaction_scheme, unit) act" where
  "signInternal publicKey sig =
     abind (\<lambda>x. (require (isFrozen x) IllegalState, x)) (\<lambda>_.
     abind (\<lambda>x. (keyAlreadySigned publicKey x, x)) (\<lambda>signed.
       if signed then areturn () else amodify (add_signatory publicKey (Some sig))))"

definition sign :: "'d library \<Rightarrow> PrivateKey \<Rightarrow> (('d, 'z) Transaction_scheme, unit) act" where
  "sign L key = signInternal (mPublicKey key) (PrivateKey_sign (lib_ssl L) key)"

definition signWith :: "PublicKey \<Rightarrow> signer \<Rightarrow> (('d, 'z) Transaction_scheme, unit) act" where
  "signWith key sig = signInternal key sig"

text \<open>The client of an operator has its key and its signer.\<close>

definition signWithOperator ::
  "'d library \<Rightarrow> (bytes, Status) env \<Rightarrow> ('d, 'z) virtuals \<Rightarrow> Client \<Rightarrow> (('d, 'z) tx_exec, unit) act" where
  "signWithOperator L E V client =
     abind (if mOperatorAccountId client = None then athrow Uninitialized else areturn ()) (\<lambda>_.
     abind (freezeWith E V (Some client)) (\<lambda>_.
       case (getOperatorPublicKey client, getOperatorSigner (lib_ssl L) client) of
         (Some key, Some sig) \<Rightarrow> on_this (signInternal key sig)
       | _ \<Rightarrow> athrow UndefinedBehavior))"

definition addSignature :: "PublicKey \<Rightarrow> bytes \<Rightarrow> (('d, 'z) Transaction_scheme, unit) act" where
  "addSignature publicKey sig =
     abind (\<lambda>x. (requireOneNodeAccountId x, x)) (\<lambda>_.
     abind (\<lambda>x. (require (isFrozen x) IllegalState, x)) (\<lambda>_.
     abind (\<lambda>x. (keyAlreadySigned publicKey x, x)) (\<lambda>signed.
       if signed then areturn ()
       else
         abind (amodify (add_signatory publicKey None)) (\<lambda>_.
         abind (alift (PublicKey_toSignaturePairProtobuf publicKey sig)) (\<lambda>pair x.
           case mSignedTransactions x of [] \<Rightarrow> athrow UndefinedBehavior x
           | t # ts \<Rightarrow> amodify (\<lambda>x. x\<lparr>mSignedTransactions := t\<lparr>st_sigMap := st_sigMap t @ [pair]\<rparr> # ts\<rparr>) x)))))"

section \<open>Building the requests\<close>

text \<open>The signatures of the signatories that have a signer, added to one signed transaction.\<close>

primrec sign_all ::
  "nat \<Rightarrow> (PublicKey \<times> signer option) list \<Rightarrow> (('d, 'z) Transaction_scheme, unit) act" where
  "sign_all i [] = areturn ()"
| "sign_all i (t # ts) =
     abind (case snd t of None \<Rightarrow> areturn ()
            | Some sig \<Rightarrow>
                abind (\<lambda>x. (sig (st_bodyBytes (mSignedTransactions x ! i)), x)) (\<lambda>bs.
                abind (alift (PublicKey_toSignaturePairProtobuf (fst t) bs)) (\<lambda>pair.
                  amodify (\<lambda>x. x\<lparr>mSignedTransactions := (mSignedTransactions x)
                    [i := (mSignedTransactions x ! i)\<lparr>st_sigMap := st_sigMap (mSignedTransactions x ! i) @ [pair]\<rparr>]\<rparr>))))
       (\<lambda>_. sign_all i ts)"

definition buildTransaction :: "'d library \<Rightarrow> nat \<Rightarrow> (('d, 'z) Transaction_scheme, unit) act" where
  "buildTransaction L i =
     abind (\<lambda>x. (vec_at (mTransactions x) i, x)) (\<lambda>built.
       if built \<noteq> [] then areturn ()
       else
         abind (\<lambda>x. if i < length (mSignedTransactions x) then sign_all i (mSignatories x) x
                   else athrow UndefinedBehavior x) (\<lambda>_.
           amodify (\<lambda>x. x\<lparr>mTransactions :=
             (mTransactions x)[i := serializeSigned L (mSignedTransactions x ! i)]\<rparr>)))"

primrec build_all :: "'d library \<Rightarrow> nat list \<Rightarrow> (('d, 'z) Transaction_scheme, unit) act" where
  "build_all L [] = areturn ()"
| "build_all L (i # is) = abind (buildTransaction L i) (\<lambda>_. build_all L is)"

definition buildAllTransactions :: "'d library \<Rightarrow> (('d, 'z) Transaction_scheme, unit) act" where
  "buildAllTransactions L x = build_all L [0..<length (mSignedTransactions x)] x"

definition getTransactionProtobufObject :: "nat \<Rightarrow> ('d, 'z) Transaction_scheme \<Rightarrow> bytes res" where
  "getTransactionProtobufObject i x = vec_at (mTransactions x) i"

definition tx_makeRequest :: "'d library \<Rightarrow> nat \<Rightarrow> (('d, 'z) Transaction_scheme, bytes) act" where
  "tx_makeRequest L i =
     abind (amodify (\<lambda>x. x\<lparr>mTransactionIndex := i\<rparr>)) (\<lambda>_.
     abind (buildTransaction L i) (\<lambda>_ x. (getTransactionProtobufObject i x, x)))"

section \<open>Bytes, hashes and signatures\<close>

definition toBytes :: "'d library \<Rightarrow> ('d, 'z) virtuals \<Rightarrow> (('d, 'z) Transaction_scheme, bytes) act" where
  "toBytes L V x =
     (if mNodeAccountIds x = [] then
        abind (updateSourceTransactionBody L (addToBody V) None) (\<lambda>_ x.
          (Inr (serializeList L [serializeSigned L
             \<lparr>st_bodyBytes = serializeBody L (mSourceTransactionBody x), st_sigMap = []\<rparr>]), x)) x
      else
        abind (\<lambda>x. if isFrozen x then areturn () x else regenerateSigned V None x) (\<lambda>_.
        abind (buildAllTransactions L) (\<lambda>_ x. (Inr (serializeList L (mTransactions x)), x))) x)"

definition getTransactionHash :: "'d library \<Rightarrow> (('d, 'z) Transaction_scheme, bytes) act" where
  "getTransactionHash L =
     abind (\<lambda>x. (require (isFrozen x) IllegalState, x)) (\<lambda>_.
     abind (buildTransaction L 0) (\<lambda>_ x.
       (rbind (getTransactionProtobufObject 0 x) (\<lambda>t. Inr (computeSHA384 L t)), x)))"

text \<open>The hash of every transaction with the node it is for, in the order they are put into the map.\<close>

primrec hashes_per_node :: "'d library \<Rightarrow> AccountId list \<Rightarrow> nat \<Rightarrow> bytes list \<Rightarrow> (AccountId \<times> bytes) list res" where
  "hashes_per_node L nodes i [] = Inr []"
| "hashes_per_node L nodes i (t # ts) =
     rbind (vec_at nodes i) (\<lambda>a. rbind (hashes_per_node L nodes (Suc i) ts) (\<lambda>hs. Inr ((a, computeSHA384 L t) # hs)))"

definition getTransactionHashPerNode :: "'d library \<Rightarrow> (('d, 'z) Transaction_scheme, (AccountId \<times> bytes) list) act" where
  "getTransactionHashPerNode L =
     abind (\<lambda>x. (require (isFrozen x) IllegalState, x)) (\<lambda>_.
     abind (buildAllTransactions L) (\<lambda>_ x. (hashes_per_node L (mNodeAccountIds x) 0 (mTransactions x), x)))"

text \<open>The signature pairs that \<open>getSignaturesInternal\<close> gives to a key: it compares the signature.\<close>

definition matching_pairs :: "PublicKey \<Rightarrow> proto_SignedTransaction \<Rightarrow> bytes list res" where
  "matching_pairs key t =
     rbind (PublicKey_toBytesRaw key) (\<lambda>raw. Inr (concat (map (\<lambda>pair.
       case signature pair of
         sig_ed25519 bs \<Rightarrow> if bs = raw then [bs] else []
       | sig_ECDSA_secp256k1 bs \<Rightarrow> if bs = raw then [bs] else []
       | sig_unset \<Rightarrow> []) (st_sigMap t))))"

primrec node_signatures ::
  "proto_SignedTransaction \<Rightarrow> (PublicKey \<times> signer option) list \<Rightarrow> (PublicKey \<times> bytes) list res" where
  "node_signatures t [] = Inr []"
| "node_signatures t (k # ks) =
     rbind (matching_pairs (fst k) t) (\<lambda>sigs. rbind (node_signatures t ks) (\<lambda>rest.
       Inr (map (Pair (fst k)) sigs @ rest)))"

primrec signatures_from ::
  "nat \<Rightarrow> AccountId list \<Rightarrow> ('d, 'z) Transaction_scheme \<Rightarrow> (AccountId \<times> PublicKey \<times> bytes) list res" where
  "signatures_from i [] x = Inr []"
| "signatures_from i (a # as) x =
     rbind (vec_at (mSignedTransactions x) i) (\<lambda>t. rbind (node_signatures t (mSignatories x)) (\<lambda>sigs.
     rbind (signatures_from (Suc i) as x) (\<lambda>rest. Inr (map (Pair a) sigs @ rest))))"

definition getSignaturesInternal :: "nat \<Rightarrow> ('d, 'z) Transaction_scheme \<Rightarrow> (AccountId \<times> PublicKey \<times> bytes) list res" where
  "getSignaturesInternal offset x = signatures_from (offset * length (mNodeAccountIds x)) (mNodeAccountIds x) x"

definition getSignatures ::
  "'d library \<Rightarrow> (('d, 'z) Transaction_scheme, (AccountId \<times> PublicKey \<times> bytes) list) act" where
  "getSignatures L =
     abind (\<lambda>x. (require (isFrozen x) IllegalState, x)) (\<lambda>_ x.
       if mSignatories x = [] then (Inr [], x)
       else abind (buildAllTransactions L) (\<lambda>_ x. (getSignaturesInternal 0 x, x)) x)"

section \<open>Executing a transaction\<close>

record TransactionResponse =
  mNodeId :: AccountId
  response_transactionId :: TransactionId
  mTransactionHash :: bytes
  mValidateStatus :: bool

definition tx_mapResponse ::
  "'d library \<Rightarrow> ('d, 'z) virtuals \<Rightarrow> ('d, 'z) Transaction_scheme \<Rightarrow> TransactionResponse res" where
  "tx_mapResponse L V x =
     (if mNodeAccountIds x = [] then Inl UndefinedBehavior
      else rbind (vec_at (mNodeAccountIds x) (mTransactionIndex x mod length (mNodeAccountIds x))) (\<lambda>a.
           rbind (currentTransactionId V x) (\<lambda>i.
           rbind (getTransactionProtobufObject (mTransactionIndex x) x) (\<lambda>t.
             Inr \<lparr>mNodeId = a, response_transactionId = i, mTransactionHash = computeSHA384 L t,
                  mValidateStatus = True\<rparr>))))"

definition shouldRegenerate :: "Client \<Rightarrow> ('d, 'z) Transaction_scheme \<Rightarrow> bool" where
  "shouldRegenerate client x =
     value_or (mTransactionIdRegenerationPolicy x) (clientRegenerationPolicy client) DEFAULT_REGENERATE_TRANSACTION_ID"

definition tx_determineStatus ::
  "(bytes, Status) env \<Rightarrow> ('d, 'z) virtuals \<Rightarrow> Client \<Rightarrow> Status \<Rightarrow> Status \<Rightarrow> (('d, 'z) tx_exec, ExecutionStatus) act" where
  "tx_determineStatus E V client status response s =
     (if status \<noteq> TRANSACTION_EXPIRED then (Inr (base_determineStatus status), s)
      else if shouldRegenerate client (this s) then
        (case mTransactionId (this s) of None \<Rightarrow> (Inl UndefinedBehavior, s)
         | Some i \<Rightarrow>
             abind (now E) (\<lambda>t.
             abind (amodify (upd_this (\<lambda>x. x\<lparr>mTransactionId := Some (generate t (mAccountId i))\<rparr>))) (\<lambda>_.
             abind (on_this (regenerateSigned V (Some client))) (\<lambda>_. areturn RETRY))) s)
      else (Inr REQUEST_ERROR, s))"

text \<open>The client's ledger ID, for the checksums.\<close>

definition ledger_of :: "Client \<Rightarrow> client_ledger" where
  "ledger_of client = map_option mLedgerId (mNetworkPtr client)"

definition tx_onExecute ::
  "'d library \<Rightarrow> (bytes, Status) env \<Rightarrow> ('d, 'z) virtuals \<Rightarrow> Client \<Rightarrow> (('d, 'z) tx_exec, unit) act" where
  "tx_onExecute L E V client =
     abind (\<lambda>s. if isFrozen (this s) then areturn () s else freezeWith E V (Some client) s) (\<lambda>_.
     abind (\<lambda>s. if mAutoValidateChecksums client then (validateChecksums V (ledger_of client) (this s), s)
               else areturn () s) (\<lambda>_ s.
       case mOperatorAccountId client of None \<Rightarrow> areturn () s
       | Some a \<Rightarrow> (case mTransactionId (this s) of None \<Rightarrow> athrow UndefinedBehavior s
           | Some i \<Rightarrow> if AccountId_eq (lib_ssl L) a (mAccountId i) then signWithOperator L E V client s
                       else areturn () s)))"

text \<open>The kinds of transactions that override no more than they must.\<close>

definition plain_virtuals ::
  "'d library \<Rightarrow> (('d, 'z) Transaction_scheme \<Rightarrow> 'd proto_TransactionBody \<Rightarrow> 'd proto_TransactionBody res) \<Rightarrow>
     (client_ledger \<Rightarrow> ('d, 'z) Transaction_scheme \<Rightarrow> unit res) \<Rightarrow> ('d, 'z) virtuals" where
  "plain_virtuals L add valid =
     \<lparr>addToBody = add, validateChecksums = valid, regenerateSigned = base_regenerate L add,
      currentTransactionId = base_currentTransactionId\<rparr>"

text \<open>The functions that \<open>Executable\<close> calls, with \<open>kind\<close> the data case that is submitted.\<close>

definition transaction_operations ::
  "'d library \<Rightarrow> (bytes, Status) env \<Rightarrow> ('d, 'z) virtuals \<Rightarrow> Client \<Rightarrow> DataCase \<Rightarrow>
     (AccountId, bytes, Status, ('d, 'z) Transaction_ext, TransactionResponse) operations" where
  "transaction_operations L E V client kind =
     \<lparr>onExecute = tx_onExecute L E V client, makeRequest = (\<lambda>i. on_this (tx_makeRequest L i)),
      grpc_method = transaction_method kind, mapResponseStatus = areturn,
      determineStatus = tx_determineStatus E V client,
      mapResponse = (\<lambda>response s. (tx_mapResponse L V (this s), s))\<rparr>"

end
