(* ===== verification/TransactionLife.thy ===== *)
theory TransactionLife
  imports Transactions
begin

text \<open>
  What a transaction promises in the course of its life: the invariant that freezing, signing,
  building and regenerating keep, and the requests that an execution can send.
\<close>

section \<open>What regenerating leaves alone\<close>

text \<open>The members that regenerating the signed transactions does not touch.\<close>

definition same_request :: "('d, 'z) Transaction_scheme \<Rightarrow> ('d, 'z) Transaction_scheme \<Rightarrow> bool" where
  "same_request x y \<longleftrightarrow>
     mNodeAccountIds y = mNodeAccountIds x \<and> mTransactionId y = mTransactionId x \<and>
     mSignatories y = mSignatories x \<and> mIsFrozen y = mIsFrozen x \<and>
     mCurrentRequestBackoff y = mCurrentRequestBackoff x \<and> mCurrentMaxBackoff y = mCurrentMaxBackoff x"

lemma same_request_refl [simp]: "same_request x x"
  by (simp add: same_request_def)

lemma same_request_trans: "same_request x y \<Longrightarrow> same_request y z \<Longrightarrow> same_request x z"
  by (simp add: same_request_def)

definition inert :: "(('d, 'z) Transaction_scheme, 'a) act \<Rightarrow> bool" where
  "inert m \<longleftrightarrow> (\<forall>x. same_request x (snd (m x)))"

named_theorems inert_intros

lemma inertD: "inert m \<Longrightarrow> m x = (r, y) \<Longrightarrow> same_request x y"
  unfolding inert_def by (metis snd_conv)

lemma inert_abind [inert_intros]:
  assumes "inert m" and "\<And>v. inert (f v)"
  shows "inert (abind m f)"
  unfolding inert_def
proof
  fix x
  obtain r y where m: "m x = (r, y)" by fastforce
  show "same_request x (snd (abind m f x))"
  proof (cases r)
    case (Inl e)
    with m inertD [OF assms(1) m] show ?thesis by (simp add: abind_def)
  next
    case (Inr v)
    obtain r' z where f: "f v y = (r', z)" by fastforce
    from inertD [OF assms(1) m] inertD [OF assms(2) f] m f Inr show ?thesis
      by (auto simp: abind_def intro: same_request_trans)
  qed
qed

lemma inert_pure [inert_intros]:
  "inert (areturn v)" "inert (areads f)" "inert (athrow e)" "inert (alift r)" "inert (\<lambda>x. (g x, x))"
  by (simp_all add: inert_def act_defs)

lemma inert_amodify [inert_intros]: "(\<And>x. same_request x (f x)) \<Longrightarrow> inert (amodify f)"
  by (simp add: inert_def act_defs)

lemma inert_at: "(\<And>v. inert (m v)) \<Longrightarrow> inert (\<lambda>x. m (g x) x)"
  by (simp add: inert_def)

lemma inert_update: "inert (updateSourceTransactionBody L add client)"
proof -
  have "inert (\<lambda>x. case mTransactionId x of None \<Rightarrow> areturn () x
              | Some i \<Rightarrow> abind (alift (TransactionId_toProtobuf (serializeKey L) i))
                  (\<lambda>p. amodify (upd_body (tb_transactionID_update (\<lambda>_. Some p)))) x)"
    by (simp add: inert_def split: option.split)
      (auto simp: abind_def act_defs same_request_def split: sum.split)
  then show ?thesis
    unfolding updateSourceTransactionBody_def
    by (intro inert_intros) (simp_all add: same_request_def)
qed

lemma inert_add_signed: "inert (add_signed_for L body as)"
  by (induction as) (auto intro!: inert_intros simp: same_request_def addTransaction_signed_def)

lemma inert_addSignedTransactions: "inert (addSignedTransactionForEachNode L body)"
  unfolding addSignedTransactionForEachNode_def by (rule inert_at) (rule inert_add_signed)

lemma inert_regenerate: "inert (base_regenerate L add client)"
proof -
  have "inert (\<lambda>x. addSignedTransactionForEachNode L (mSourceTransactionBody x) x)"
    by (rule inert_at) (rule inert_addSignedTransactions)
  then show ?thesis
    unfolding base_regenerate_def
    by (intro inert_intros inert_update) (simp_all add: same_request_def base_clearTransactions_def)
qed

lemma inert_sign_all: "inert (sign_all i ks)"
proof (induction ks)
  case (Cons k ks)
  show ?case
    unfolding sign_all.simps
    by (rule inert_abind [OF _ Cons])
      (auto intro!: inert_intros simp: same_request_def split: option.split)
qed (simp add: inert_intros)

lemma inert_build: "inert (buildTransaction L i)"
proof -
  have "inert (\<lambda>x. if i < length (mSignedTransactions x) then sign_all i (mSignatories x) x
                   else athrow UndefinedBehavior x)"
    unfolding inert_def by (simp add: act_defs inert_sign_all [unfolded inert_def, rule_format])
  then show ?thesis
    unfolding buildTransaction_def
    by (intro inert_intros) (auto intro!: inert_intros simp: same_request_def)
qed

lemma inert_makeRequest: "inert (tx_makeRequest L i)"
  unfolding tx_makeRequest_def by (intro inert_intros inert_build) (simp_all add: same_request_def)

section \<open>An execution of a transaction\<close>

lemma quiet_on_this: "inert m \<Longrightarrow> quiet (on_this m)"
  by (simp add: quiet_def on_this_def inert_def same_request_def split: prod.split) (metis snd_conv)

text \<open>
  The contract that a kind of transactions has to keep: whatever it does to make the signed
  transactions leaves the request itself alone.
\<close>

locale transaction_kind =
  fixes V :: "('d, 'z) virtuals"
  assumes inert_regenerateSigned: "inert (regenerateSigned V client)"
begin

lemma quiet_determineStatus: "quiet (tx_determineStatus E V client st response)"
proof -
  have m: "quiet (abind (now E) (\<lambda>t.
             abind (amodify (upd_this (\<lambda>x. x\<lparr>mTransactionId := Some (generate t a)\<rparr>))) (\<lambda>_.
             abind (on_this (regenerateSigned V (Some client))) (\<lambda>_. areturn RETRY))))" for a
    by (intro quiet_intros quiet_on_this inert_regenerateSigned) (simp add: quiet_def act_defs upd_this_def)
  show ?thesis
    unfolding quiet_def tx_determineStatus_def
    using m [unfolded quiet_def, rule_format] by (simp split: option.split)
qed

lemma transaction_quiet: "quiet_request (transaction_operations L E V client kind) (\<lambda>f. True)"
  by unfold_locales
    (simp_all add: transaction_operations_def quiet_on_this inert_makeRequest quiet_determineStatus throws_def,
      simp_all add: quiet_def act_defs)

end

interpretation plain: transaction_kind "plain_virtuals L add valid" for L add valid
  by unfold_locales (simp add: plain_virtuals_def inert_regenerate)

interpretation plain_request: quiet_request "transaction_operations L E (plain_virtuals L add valid) client kind" "\<lambda>f. True"
  for L E add valid client kind
  by (rule plain.transaction_quiet)

lemma plain_simps [simp]:
  "addToBody (plain_virtuals L add valid) = add" "validateChecksums (plain_virtuals L add valid) = valid"
  "regenerateSigned (plain_virtuals L add valid) = base_regenerate L add"
  "currentTransactionId (plain_virtuals L add valid) = base_currentTransactionId"
  by (simp_all add: plain_virtuals_def)

section \<open>The invariant of the built transactions\<close>

text \<open>Does a signed transaction have a signature of every signatory that can sign?\<close>

definition signed_by :: "(PublicKey \<times> signer option) list \<Rightarrow> proto_SignedTransaction \<Rightarrow> bool" where
  "signed_by ks t \<longleftrightarrow> list_all (\<lambda>(k, sig). case sig of None \<Rightarrow> True
     | Some f \<Rightarrow> \<exists>bs pair. f (st_bodyBytes t) = Inr bs \<and> PublicKey_toSignaturePairProtobuf k bs = Inr pair \<and>
         pair \<in> set (st_sigMap t)) ks"

text \<open>A transaction that is built is the serialisation of its signed transaction, signed by all.\<close>

definition built_ok :: "'d library \<Rightarrow> ('d, 'z) Transaction_scheme \<Rightarrow> bool" where
  "built_ok L x \<longleftrightarrow> length (mTransactions x) = length (mSignedTransactions x) \<and>
     (\<forall>i < length (mSignedTransactions x). mTransactions x ! i = [] \<or>
        mTransactions x ! i = serializeSigned L (mSignedTransactions x ! i) \<and>
        signed_by (mSignatories x) (mSignedTransactions x ! i))"

text \<open>
  The signed transactions of a frozen transaction are for its nodes, in their order, and carry its
  transaction ID and body.
\<close>

definition for_nodes :: "'d library \<Rightarrow> ('d, 'z) Transaction_scheme \<Rightarrow> bool" where
  "for_nodes L x \<longleftrightarrow>
     (\<exists>i p. mTransactionId x = Some i \<and> TransactionId_toProtobuf (serializeKey L) i = Inr p \<and>
        tb_transactionID (mSourceTransactionBody x) = Some p) \<and>
     map (signed_for L (mSourceTransactionBody x)) (mNodeAccountIds x) =
     map (\<lambda>t. Inr \<lparr>st_bodyBytes = st_bodyBytes t, st_sigMap = []\<rparr>) (mSignedTransactions x)"

definition frozen_ok :: "'d library \<Rightarrow> ('d, 'z) Transaction_scheme \<Rightarrow> bool" where
  "frozen_ok L x \<longleftrightarrow> (mIsFrozen x \<longrightarrow> for_nodes L x)"

lemma built_okD:
  "built_ok L x \<Longrightarrow> i < length (mSignedTransactions x) \<Longrightarrow> mTransactions x ! i \<noteq> [] \<Longrightarrow>
     mTransactions x ! i = serializeSigned L (mSignedTransactions x ! i) \<and>
     signed_by (mSignatories x) (mSignedTransactions x ! i)"
  by (auto simp: built_ok_def)

lemma built_ok_length: "built_ok L x \<Longrightarrow> length (mTransactions x) = length (mSignedTransactions x)"
  by (simp add: built_ok_def)

lemma built_ok_unbuilt:
  "mTransactions x = replicate (length (mSignedTransactions x)) [] \<Longrightarrow> built_ok L x"
  by (simp add: built_ok_def)

text \<open>The members that the two parts of the invariant look at.\<close>

lemma built_ok_cong:
  "mTransactions y = mTransactions x \<Longrightarrow> mSignedTransactions y = mSignedTransactions x \<Longrightarrow>
     mSignatories y = mSignatories x \<Longrightarrow> built_ok L y = built_ok L x"
  by (simp add: built_ok_def)

lemma for_nodes_cong:
  assumes "mNodeAccountIds y = mNodeAccountIds x"
    and "mTransactionId y = mTransactionId x" and "mSourceTransactionBody y = mSourceTransactionBody x"
    and "map st_bodyBytes (mSignedTransactions y) = map st_bodyBytes (mSignedTransactions x)"
  shows "for_nodes L y = for_nodes L x"
proof -
  have "map (\<lambda>t. Inr \<lparr>st_bodyBytes = st_bodyBytes t, st_sigMap = []\<rparr>) ts =
      map (\<lambda>b. Inr \<lparr>st_bodyBytes = b, st_sigMap = []\<rparr> :: proto_SignedTransaction res) (map st_bodyBytes ts)" for ts
    by simp
  with assms show ?thesis unfolding for_nodes_def by metis
qed

lemma frozen_ok_cong:
  assumes "mIsFrozen y = mIsFrozen x" and "mNodeAccountIds y = mNodeAccountIds x"
    and "mTransactionId y = mTransactionId x" and "mSourceTransactionBody y = mSourceTransactionBody x"
    and "map st_bodyBytes (mSignedTransactions y) = map st_bodyBytes (mSignedTransactions x)"
  shows "frozen_ok L y = frozen_ok L x"
  using for_nodes_cong [OF assms(2-5)] assms(1) by (simp add: frozen_ok_def)

abbreviation tx_ok :: "'d library \<Rightarrow> ('d, 'z) Transaction_scheme \<Rightarrow> bool" where
  "tx_ok L x \<equiv> built_ok L x \<and> frozen_ok L x"

lemma keeps_unfrozen_set:
  fixes f :: "('d, 'z) Transaction_scheme \<Rightarrow> ('d, 'z) Transaction_scheme"
  assumes "\<And>x. mTransactions (f x) = mTransactions x \<and> mSignedTransactions (f x) = mSignedTransactions x \<and>
    mSignatories (f x) = mSignatories x \<and> mIsFrozen (f x) = mIsFrozen x"
  shows "keeps (tx_ok L) (abind requireNotFrozen (\<lambda>_. amodify f))"
  unfolding keeps_def
proof (intro allI impI)
  fix x :: "('d, 'z) Transaction_scheme" assume x: "tx_ok L x"
  show "tx_ok L (snd (abind requireNotFrozen (\<lambda>_. amodify f) x))"
  proof (cases "mIsFrozen x")
    case True
    with x show ?thesis by (simp add: abind_def requireNotFrozen_def isFrozen_def)
  next
    case False
    then have "frozen_ok L (f x)" using assms [of x] by (simp add: frozen_ok_def)
    moreover have "built_ok L (f x)" using x assms [of x] built_ok_cong by blast
    ultimately show ?thesis
      using False by (simp add: abind_def requireNotFrozen_def isFrozen_def act_defs)
  qed
qed

lemma keeps_setters:
  "keeps (tx_ok L) (setTransactionId i)" "keeps (tx_ok L) (tx_setNodeAccountIds as)"
  "keeps (tx_ok L) (setMaxTransactionFee fee)" "keeps (tx_ok L) (setValidTransactionDuration d)"
  "keeps (tx_ok L) (setTransactionMemo memo)" "keeps (tx_ok L) (setRegenerateTransactionIdPolicy b)"
  unfolding setTransactionId_def tx_setNodeAccountIds_def setMaxTransactionFee_def
    setValidTransactionDuration_def setTransactionMemo_def setRegenerateTransactionIdPolicy_def
  by (rule keeps_unfrozen_set, simp add: setNodeAccountIds_def)+

subsection \<open>Signing and building\<close>

lemma keeps_reads: "keeps I (\<lambda>x. (f x, x))"
  by (simp add: keeps_def)

lemma tx_ok_add_signatory: "tx_ok L x \<Longrightarrow> tx_ok L (add_signatory k sig x)"
  using frozen_ok_cong [of "add_signatory k sig x" x L]
  by (simp add: add_signatory_def built_ok_unbuilt)

lemma keeps_signInternal: "keeps (tx_ok L) (signInternal k sig)"
  unfolding signInternal_def
  by (intro keeps_intros keeps_reads) (auto intro!: keeps_intros tx_ok_add_signatory)

lemma tx_ok_sigmap:
  assumes "tx_ok L x" and "mTransactions x ! i = []" and "i < length (mSignedTransactions x)"
  shows "tx_ok L (x\<lparr>mSignedTransactions := (mSignedTransactions x)
    [i := (mSignedTransactions x ! i)\<lparr>st_sigMap := sigs\<rparr>]\<rparr>)" (is "tx_ok L ?y")
proof -
  have "map st_bodyBytes (mSignedTransactions ?y) = map st_bodyBytes (mSignedTransactions x)"
    using assms(3) by (simp add: map_update list_update_same_conv)
  then have "frozen_ok L ?y" using frozen_ok_cong [of ?y x L] assms(1) by simp
  moreover have "built_ok L ?y"
    using assms by (auto simp: built_ok_def nth_list_update)
  ultimately show ?thesis by simp
qed

lemma keeps_addSignature: "keeps (tx_ok L) (addSignature k bs :: (('d, 'z) Transaction_scheme, unit) act)"
proof -
  have "keeps (tx_ok L)
         (abind (amodify (add_signatory k None)) (\<lambda>_.
         abind (alift (PublicKey_toSignaturePairProtobuf k bs)) (\<lambda>pair x.
           case mSignedTransactions x of [] \<Rightarrow> athrow UndefinedBehavior x
           | t # ts \<Rightarrow> amodify (\<lambda>x. x\<lparr>mSignedTransactions := t\<lparr>st_sigMap := st_sigMap t @ [pair]\<rparr> # ts\<rparr>) x)) :: (('d, 'z) Transaction_scheme, unit) act)"
    (is "keeps _ ?m")
    unfolding keeps_def
  proof (intro allI impI)
    fix x :: "('d, 'z) Transaction_scheme" assume "tx_ok L x"
    then have y: "tx_ok L (add_signatory k None x)" by (rule tx_ok_add_signatory)
    show "tx_ok L (snd (?m x))"
    proof (cases "PublicKey_toSignaturePairProtobuf k bs")
      case (Inl e)
      with y show ?thesis by (simp add: abind_def act_defs)
    next
      case (Inr pair)
      show ?thesis
      proof (cases "mSignedTransactions x")
        case Nil
        with y Inr show ?thesis by (simp add: abind_def act_defs add_signatory_def)
      next
        case (Cons t ts)
        with tx_ok_sigmap [OF y, of 0] y Inr show ?thesis
          by (simp add: abind_def act_defs add_signatory_def)
      qed
    qed
  qed
  then show ?thesis
    unfolding addSignature_def
    by (intro keeps_intros keeps_reads) (simp add: keeps_intros)
qed

text \<open>What the signatories add to a signed transaction, also when one of them fails.\<close>

abbreviation add_pairs ::
  "nat \<Rightarrow> proto_SignaturePair list \<Rightarrow> ('d, 'z) Transaction_scheme \<Rightarrow> ('d, 'z) Transaction_scheme" where
  "add_pairs i sigs x \<equiv> x\<lparr>mSignedTransactions := (mSignedTransactions x)
     [i := (mSignedTransactions x ! i)\<lparr>st_sigMap := st_sigMap (mSignedTransactions x ! i) @ sigs\<rparr>]\<rparr>"

lemma add_pairs_add:
  "i < length (mSignedTransactions x) \<Longrightarrow> add_pairs i b (add_pairs i a x) = add_pairs i (a @ b) x"
  by simp

lemma sign_all_spec:
  assumes "sign_all i ks x = (r, y)" and "i < length (mSignedTransactions x)"
  shows "\<exists>sigs. y = add_pairs i sigs x \<and> (\<forall>u. r = Inr u \<longrightarrow> signed_by ks (mSignedTransactions y ! i))"
  using assms
proof (induction ks arbitrary: x)
  case Nil
  then show ?case by (intro exI [of _ "[]"]) (simp add: act_defs signed_by_def)
next
  case (Cons t ts)
  obtain k so where t: "t = (k, so)" by (cases t)
  show ?case
  proof (cases so)
    case None
    with Cons.prems t have "sign_all i ts x = (r, y)" by (simp add: abind_def act_defs)
    with Cons.IH [OF this Cons.prems(2)] t None show ?thesis by (simp add: signed_by_def)
  next
    case (Some f)
    let ?body = "st_bodyBytes (mSignedTransactions x ! i)"
    consider (fails) e where "r = Inl e" "y = x"
      | (signs) bs pair where "f ?body = Inr bs" "PublicKey_toSignaturePairProtobuf k bs = Inr pair"
          "sign_all i ts (add_pairs i [pair] x) = (r, y)"
      using Cons.prems t Some
      by (cases "f ?body"; cases "PublicKey_toSignaturePairProtobuf k (projr (f ?body))")
        (auto simp: abind_def act_defs)
    then show ?thesis
    proof cases
      case fails
      with Cons.prems(2) show ?thesis by (intro exI [of _ "[]"]) simp
    next
      case signs
      have "i < length (mSignedTransactions (add_pairs i [pair] x))" using Cons.prems(2) by simp
      from Cons.IH [OF signs(3) this] obtain sigs where y: "y = add_pairs i sigs (add_pairs i [pair] x)"
        and ok: "\<forall>u. r = Inr u \<longrightarrow> signed_by ts (mSignedTransactions y ! i)" by blast
      have "y = add_pairs i (pair # sigs) x"
        unfolding y using add_pairs_add [OF Cons.prems(2)] by simp
      moreover from this have "st_bodyBytes (mSignedTransactions y ! i) = ?body"
        "pair \<in> set (st_sigMap (mSignedTransactions y ! i))"
        using Cons.prems(2) by simp_all
      ultimately show ?thesis
        using ok t Some signs(1,2) by (intro exI [of _ "pair # sigs"]) (auto simp: signed_by_def)
    qed
  qed
qed

lemma buildTransaction_eq:
  "buildTransaction L i x =
     (if length (mTransactions x) \<le> i then (Inl OutOfRange, x)
      else if mTransactions x ! i \<noteq> [] then (Inr (), x)
      else if length (mSignedTransactions x) \<le> i then (Inl UndefinedBehavior, x)
      else case sign_all i (mSignatories x) x of (Inl e, z) \<Rightarrow> (Inl e, z)
        | (Inr u, z) \<Rightarrow>
            (Inr (), z\<lparr>mTransactions := (mTransactions z)[i := serializeSigned L (mSignedTransactions z ! i)]\<rparr>))"
  by (simp add: buildTransaction_def abind_def act_defs vec_at_def split: prod.split sum.split)

lemma keeps_build: "keeps (tx_ok L) (buildTransaction L i :: (('d, 'z) Transaction_scheme, unit) act)"
  unfolding keeps_def
proof (intro allI impI)
  fix x :: "('d, 'z) Transaction_scheme" assume x: "tx_ok L x"
  have len: "length (mTransactions x) = length (mSignedTransactions x)"
    using x built_ok_length by blast
  show "tx_ok L (snd (buildTransaction L i x))"
  proof (cases "i < length (mSignedTransactions x) \<and> mTransactions x ! i = []")
    case False
    with x show ?thesis by (auto simp: buildTransaction_eq)
  next
    case True
    obtain r y where run: "sign_all i (mSignatories x) x = (r, y)" by fastforce
    from sign_all_spec [OF run] True obtain sigs where y: "y = add_pairs i sigs x"
      and signed: "\<forall>u. r = Inr u \<longrightarrow> signed_by (mSignatories x) (mSignedTransactions y ! i)" by blast
    have ok: "tx_ok L y" unfolding y using tx_ok_sigmap [OF x] True by simp
    show ?thesis
    proof (cases r)
      case (Inl e)
      with run True x ok show ?thesis by (simp add: buildTransaction_eq)
    next
      case (Inr u)
      let ?z = "y\<lparr>mTransactions := (mTransactions y)[i := serializeSigned L (mSignedTransactions y ! i)]\<rparr>"
      have "mSignatories y = mSignatories x" by (simp add: y)
      moreover have "i < length (mTransactions y)"
        using True len y by simp
      ultimately have "built_ok L ?z"
        using ok signed Inr by (auto simp: built_ok_def nth_list_update)
      moreover have "snd (buildTransaction L i x) = ?z"
        using run True len Inr by (simp add: buildTransaction_eq)
      moreover have "frozen_ok L ?z" using ok frozen_ok_cong [of ?z y L] by simp
      ultimately show ?thesis by simp
    qed
  qed
qed

lemma keeps_at: "(\<And>v. keeps I (m v)) \<Longrightarrow> keeps I (\<lambda>x. m (g x) x)"
  by (simp add: keeps_def)

lemma keeps_build_all: "keeps (tx_ok L) (build_all L is)"
  by (induction "is") (auto intro!: keeps_intros keeps_build)

lemma keeps_buildAll: "keeps (tx_ok L) (buildAllTransactions L)"
  unfolding buildAllTransactions_def by (rule keeps_at) (rule keeps_build_all)

lemma keeps_set_irrelevant:
  assumes "\<And>x :: ('d, 'z) Transaction_scheme. mTransactions (f x) = mTransactions x \<and> mSignedTransactions (f x) = mSignedTransactions x \<and>
    mSignatories (f x) = mSignatories x \<and> mIsFrozen (f x) = mIsFrozen x \<and> mNodeAccountIds (f x) = mNodeAccountIds x \<and>
    mTransactionId (f x) = mTransactionId x \<and> mSourceTransactionBody (f x) = mSourceTransactionBody x"
    and "tx_ok L x"
  shows "tx_ok L (f x)"
  using assms built_ok_cong [of "f x" x L] frozen_ok_cong [of "f x" x L] by simp

lemma keeps_makeRequest: "keeps (tx_ok L) (tx_makeRequest L i)"
  unfolding tx_makeRequest_def
  by (intro keeps_intros keeps_build keeps_reads) (rule keeps_set_irrelevant, simp_all)

lemma keeps_outputs:
  "keeps (tx_ok L) (getTransactionHash L)" "keeps (tx_ok L) (getTransactionHashPerNode L)"
  unfolding getTransactionHash_def getTransactionHashPerNode_def
  by (intro keeps_intros keeps_build keeps_buildAll keeps_reads)+

lemma keeps_getSignatures:
  fixes L :: "'d library"
  shows "keeps (tx_ok L) (getSignatures L)"
proof -
  have "keeps (tx_ok L) (\<lambda>x :: ('d, 'z) Transaction_scheme. if mSignatories x = [] then (Inr [], x)
      else abind (buildAllTransactions L) (\<lambda>_ x. (getSignaturesInternal 0 x, x)) x)"
    using keeps_abind [OF keeps_buildAll keeps_reads, of L "\<lambda>_. getSignaturesInternal 0"]
    by (auto simp: keeps_def)
  then show ?thesis
    unfolding getSignatures_def by (intro keeps_intros keeps_reads)
qed

subsection \<open>Regenerating\<close>

text \<open>The contract of a kind of transactions that adds only its own data to the body.\<close>

locale body_builder =
  fixes add :: "('d, 'z) Transaction_scheme \<Rightarrow> 'd proto_TransactionBody \<Rightarrow> 'd proto_TransactionBody res"
    and valid :: "client_ledger \<Rightarrow> ('d, 'z) Transaction_scheme \<Rightarrow> unit res"
  assumes adds_data: "add x b = Inr b' \<Longrightarrow> \<exists>d. b' = b\<lparr>tb_data := d\<rparr>"
begin

lemma update_spec:
  assumes "updateSourceTransactionBody L add client x = (r, y)"
  shows "\<exists>b. y = x\<lparr>mSourceTransactionBody := b\<rparr> \<and>
    (\<forall>i. mTransactionId x = Some i \<longrightarrow>
       (case TransactionId_toProtobuf (serializeKey L) i of Inl e \<Rightarrow> r = Inl e | Inr p \<Rightarrow> tb_transactionID b = Some p))"
proof (cases "mTransactionId x")
  case None
  with assms show ?thesis
    by (auto simp: updateSourceTransactionBody_def abind_def act_defs split: sum.splits)
next
  case (Some i)
  show ?thesis
  proof (cases "TransactionId_toProtobuf (serializeKey L) i")
    case (Inl e)
    with assms Some show ?thesis
      by (intro exI [of _ "mSourceTransactionBody x"])
        (auto simp: updateSourceTransactionBody_def abind_def act_defs)
  next
    case (Inr p)
    define b where "b = (mSourceTransactionBody x)\<lparr>tb_transactionID := Some p, tb_transactionFee := body_fee client x,
        tb_transactionValidDuration := Some (Duration_toProtobuf (mTransactionValidDuration x)), tb_memo := mTransactionMemo x\<rparr>"
    have "body_fee client (x\<lparr>mSourceTransactionBody := c\<rparr>) = body_fee client x" for c
      by (simp add: body_fee_def split: option.split)
    then have *: "updateSourceTransactionBody L add client x =
        (case add (x\<lparr>mSourceTransactionBody := b\<rparr>) b of Inl e \<Rightarrow> (Inl e, x\<lparr>mSourceTransactionBody := b\<rparr>)
         | Inr b' \<Rightarrow> (Inr (), x\<lparr>mSourceTransactionBody := b'\<rparr>))"
      using Some Inr by (simp add: updateSourceTransactionBody_def abind_def act_defs b_def split: sum.split)
    have p: "tb_transactionID b = Some p" by (simp add: b_def)
    show ?thesis
    proof (cases "add (x\<lparr>mSourceTransactionBody := b\<rparr>) b")
      case (Inl e)
      with assms * Some p \<open>TransactionId_toProtobuf (serializeKey L) i = Inr p\<close> show ?thesis
        by (intro exI [of _ b]) auto
    next
      case (Inr b')
      from adds_data [OF this] p have "tb_transactionID b' = Some p" by auto
      with Inr assms * Some \<open>TransactionId_toProtobuf (serializeKey L) i = Inr p\<close> show ?thesis
        by (intro exI [of _ b']) auto
    qed
  qed
qed

lemma add_signed_spec:
  assumes "add_signed_for L body as x = (r, y)"
  shows "\<exists>ts. y = x\<lparr>mTransactions := mTransactions x @ replicate (length ts) [],
      mSignedTransactions := mSignedTransactions x @ ts\<rparr> \<and>
    (r = Inr () \<longrightarrow> map (signed_for L body) as =
       map (\<lambda>t. Inr \<lparr>st_bodyBytes = st_bodyBytes t, st_sigMap = []\<rparr>) ts)"
  using assms
proof (induction as arbitrary: x)
  case Nil
  then show ?case by (intro exI [of _ "[]"]) (simp add: act_defs)
next
  case (Cons a as)
  show ?case
  proof (cases "signed_for L body a")
    case (Inl e)
    with Cons.prems show ?thesis by (intro exI [of _ "[]"]) (auto simp: abind_def act_defs)
  next
    case (Inr t)
    with Cons.prems have "add_signed_for L body as (addTransaction_signed t x) = (r, y)"
      by (simp add: abind_def act_defs)
    from Cons.IH [OF this] obtain ts where ts: "y = (addTransaction_signed t x)
        \<lparr>mTransactions := mTransactions (addTransaction_signed t x) @ replicate (length ts) [],
         mSignedTransactions := mSignedTransactions (addTransaction_signed t x) @ ts\<rparr>"
      "r = Inr () \<longrightarrow> map (signed_for L body) as = map (\<lambda>t. Inr \<lparr>st_bodyBytes = st_bodyBytes t, st_sigMap = []\<rparr>) ts"
      by blast
    have "st_sigMap t = []" using Inr by (auto simp: signed_for_def res_simps)
    then have "\<lparr>st_bodyBytes = st_bodyBytes t, st_sigMap = []\<rparr> = t" by simp
    with ts Inr show ?thesis by (intro exI [of _ "t # ts"]) (simp add: addTransaction_signed_def)
  qed
qed

lemma regenerate_spec:
  assumes run: "base_regenerate L add client x = (r, y)" and x: "built_ok L x"
  shows "built_ok L y" and "r = Inr () \<Longrightarrow> mTransactionId x \<noteq> None \<Longrightarrow> for_nodes L y"
proof -
  obtain r1 x1 where upd: "updateSourceTransactionBody L add client x = (r1, x1)" by fastforce
  from update_spec [OF upd] obtain b where x1: "x1 = x\<lparr>mSourceTransactionBody := b\<rparr>"
    and b: "\<And>i. mTransactionId x = Some i \<Longrightarrow> (case TransactionId_toProtobuf (serializeKey L) i of
      Inl e \<Rightarrow> r1 = Inl e | Inr p \<Rightarrow> tb_transactionID b = Some p)" by blast
  have "built_ok L y \<and> (r = Inr () \<longrightarrow> mTransactionId x \<noteq> None \<longrightarrow> for_nodes L y)"
  proof (cases r1)
    case (Inl e)
    with run upd have "y = x1" "r = Inl e" by (simp_all add: base_regenerate_def abind_def)
    with x built_ok_cong [of x1 x L] show ?thesis by (simp add: x1)
  next
    case (Inr u)
    have "add_signed_for L b (mNodeAccountIds x) (base_clearTransactions x1) = (r, y)"
      using run upd Inr by (simp add: base_regenerate_def abind_def act_defs addSignedTransactionForEachNode_def
          base_clearTransactions_def x1)
    from add_signed_spec [OF this] obtain ts where y: "y = x1\<lparr>mTransactions := replicate (length ts) [],
        mSignedTransactions := ts\<rparr>" and ts: "r = Inr () \<longrightarrow> map (signed_for L b) (mNodeAccountIds x) =
       map (\<lambda>t. Inr \<lparr>st_bodyBytes = st_bodyBytes t, st_sigMap = []\<rparr>) ts"
      by (auto simp: base_clearTransactions_def)
    have "built_ok L y" by (rule built_ok_unbuilt) (simp add: y)
    moreover have "for_nodes L y" if "r = Inr ()" "mTransactionId x \<noteq> None"
      using that ts b Inr by (force simp: for_nodes_def y x1 split: sum.splits)
    ultimately show ?thesis by blast
  qed
  then show "built_ok L y" and "r = Inr () \<Longrightarrow> mTransactionId x \<noteq> None \<Longrightarrow> for_nodes L y" by blast+
qed

lemma regenerate_unfrozen: "mIsFrozen y = mIsFrozen x" if "base_regenerate L add client x = (r, y)"
  using inertD [OF inert_regenerate that] by (simp add: same_request_def)


lemma keeps_toBytes: "keeps (tx_ok L) (toBytes L (plain_virtuals L add valid))"
  unfolding keeps_def
proof (intro allI impI)
  fix x :: "('d, 'z) Transaction_scheme" assume x: "tx_ok L x"
  show "tx_ok L (snd (toBytes L (plain_virtuals L add valid) x))"
  proof (cases "mNodeAccountIds x = []")
    case True
    obtain r y where upd: "updateSourceTransactionBody L add None x = (r, y)" by fastforce
    from update_spec [OF upd] obtain b where y: "y = x\<lparr>mSourceTransactionBody := b\<rparr>"
      and b: "\<And>i. mTransactionId x = Some i \<Longrightarrow> (case TransactionId_toProtobuf (serializeKey L) i of
        Inl e \<Rightarrow> r = Inl e | Inr p \<Rightarrow> tb_transactionID b = Some p)" by blast
    have "frozen_ok L y" using x b True by (auto simp: frozen_ok_def for_nodes_def y)
    moreover have "built_ok L y" using x built_ok_cong [of y x L] by (simp add: y)
    moreover have "snd (toBytes L (plain_virtuals L add valid) x) = y"
      using True upd by (simp add: toBytes_def abind_def plain_virtuals_def split: sum.split)
    ultimately show ?thesis by simp
  next
    case False
    let ?m = "\<lambda>x. if isFrozen x then areturn () x else base_regenerate L add None x"
    have "keeps (tx_ok L) ?m"
      unfolding keeps_def
    proof (intro allI impI)
      fix x :: "('d, 'z) Transaction_scheme" assume x: "tx_ok L x"
      obtain r y where run: "base_regenerate L add None x = (r, y)" by fastforce
      show "tx_ok L (snd (?m x))"
        using x run regenerate_spec(1) [OF run] regenerate_unfrozen [OF run]
        by (auto simp: isFrozen_def act_defs frozen_ok_def)
    qed
    then have "keeps (tx_ok L) (abind ?m (\<lambda>_. abind (buildAllTransactions L) (\<lambda>_ x. (Inr (serializeList L (mTransactions x)), x))))"
      by (intro keeps_abind keeps_buildAll keeps_reads)
    with x False show ?thesis
      unfolding toBytes_def plain_simps by (simp add: keeps_def)
  qed
qed

lemma ensure_id_spec:
  assumes "ensure_id E client s = (r, s')"
  shows "\<exists>i. this s' = (this s)\<lparr>mTransactionId := i\<rparr> \<and> (r = Inr () \<longrightarrow> i \<noteq> None)"
proof (cases "mTransactionId (this s)")
  case (Some j)
  with assms have "s' = s" by (simp add: ensure_id_def act_defs)
  with Some show ?thesis by (intro exI [of _ "Some j"]) simp
next
  case None
  show ?thesis
  proof (cases "Option.bind client mOperatorAccountId")
    case None
    with \<open>mTransactionId (this s) = None\<close> assms have "s' = s \<and> r \<noteq> Inr ()"
      by (auto simp: ensure_id_def act_defs bind_eq_None_conv split: option.splits)
    with \<open>mTransactionId (this s) = None\<close> show ?thesis by (intro exI [of _ None]) simp
  next
    case (Some a)
    with None assms show ?thesis
      by (intro exI [of _ "Some (generate (clock E (readings s)) a)"])
        (auto simp: ensure_id_def abind_def now_def act_defs upd_this_def bind_eq_Some_conv)
  qed
qed

lemma ensure_nodes_spec:
  assumes "ensure_nodes E client s = (r, s')"
  shows "\<exists>as. this s' = (this s)\<lparr>mNodeAccountIds := as\<rparr>"
proof -
  have *: "this (snd (chooseNodeAccountIds E c s)) = this s" for c
    by (simp add: chooseNodeAccountIds_def split: sum.split option.split)
  have "this s' = this s \<or> (\<exists>as. this s' = (this s)\<lparr>mNodeAccountIds := as\<rparr>)"
    using assms * by (auto simp: ensure_nodes_def abind_def act_defs upd_this_def setNodeAccountIds_def
        split: if_splits option.splits prod.splits sum.splits) (metis snd_conv)+
  then show ?thesis
    by (elim disjE exE) (intro exI [of _ "mNodeAccountIds (this s)"], simp, blast)
qed

text \<open>Freezing, and the answer to an expired transaction.\<close>

lemma tx_ok_unfrozen:
  "\<not> mIsFrozen x \<Longrightarrow> tx_ok L x \<longleftrightarrow> built_ok L x"
  by (simp add: frozen_ok_def)

lemma freezeWith_ok:
  assumes x: "tx_ok L (this s)"
  shows "tx_ok L (this (snd (freezeWith E (plain_virtuals L add valid) client s)))"
proof (cases "isFrozen (this s)")
  case True
  with x show ?thesis by (simp add: freezeWith_def)
next
  case False
  obtain r1 s1 where e1: "ensure_id E client s = (r1, s1)" by fastforce
  from ensure_id_spec [OF e1] obtain i where s1: "this s1 = (this s)\<lparr>mTransactionId := i\<rparr>"
    and i: "r1 = Inr () \<longrightarrow> i \<noteq> None" by blast
  have ok1: "built_ok L (this s1)" using x built_ok_cong [of "this s1" "this s" L] by (simp add: s1)
  show ?thesis
  proof (cases r1)
    case (Inl e)
    with False e1 ok1 show ?thesis by (simp add: freezeWith_def abind_def frozen_ok_def isFrozen_def s1)
  next
    case (Inr u)
    obtain r2 s2 where e2: "ensure_nodes E client s1 = (r2, s2)" by fastforce
    from ensure_nodes_spec [OF e2] obtain as where s2: "this s2 = (this s1)\<lparr>mNodeAccountIds := as\<rparr>" by blast
    have ok2: "built_ok L (this s2)" using ok1 built_ok_cong [of "this s2" "this s1" L] by (simp add: s2)
    show ?thesis
    proof (cases r2)
      case (Inl e)
      with False e1 e2 Inr ok2 show ?thesis
        by (simp add: freezeWith_def abind_def frozen_ok_def isFrozen_def s1 s2)
    next
      case (Inr u2)
      obtain r3 y where e3: "base_regenerate L add client (this s2) = (r3, y)" by fastforce
      note spec = regenerate_spec [OF e3 ok2] and un = regenerate_unfrozen [OF e3]
      have run: "snd (freezeWith E (plain_virtuals L add valid) client s) =
          (case r3 of Inl e \<Rightarrow> s2\<lparr>this := y\<rparr> | Inr u \<Rightarrow> s2\<lparr>this := y\<lparr>mIsFrozen := True\<rparr>\<rparr>)"
        using False e1 e2 e3 Inr \<open>r1 = Inr u\<close>
        by (simp add: freezeWith_def abind_def on_this_def act_defs upd_this_def split: sum.split)
      show ?thesis
      proof (cases r3)
        case (Inl e)
        with run spec(1) un False show ?thesis by (simp add: frozen_ok_def isFrozen_def s1 s2)
      next
        case (Inr u3)
        have "mTransactionId (this s2) \<noteq> None" using i \<open>r1 = Inr u\<close> by (simp add: s1 s2)
        with spec(2) Inr have "for_nodes L y" by simp
        then have "frozen_ok L (y\<lparr>mIsFrozen := True\<rparr>)"
          using for_nodes_cong [of "y\<lparr>mIsFrozen := True\<rparr>" y L] by (simp add: frozen_ok_def)
        moreover have "built_ok L (y\<lparr>mIsFrozen := True\<rparr>)"
          using spec(1) built_ok_cong [of "y\<lparr>mIsFrozen := True\<rparr>" y L] by simp
        ultimately show ?thesis using run Inr by simp
      qed
    qed
  qed
qed

lemma determineStatus_ok:
  assumes "tx_ok L (this s)" and "tx_determineStatus E (plain_virtuals L add valid) c st response s = (Inr d, s')"
  shows "tx_ok L (this s')"
proof (cases "st = TRANSACTION_EXPIRED \<and> shouldRegenerate c (this s)")
  case False
  with assms show ?thesis by (auto simp: tx_determineStatus_def split: if_splits)
next
  case True
  let ?s = "\<lambda>i. upd_this (\<lambda>x. x\<lparr>mTransactionId := Some (generate (clock E (readings s)) (mAccountId i))\<rparr>)
    (s\<lparr>readings := Suc (readings s)\<rparr>)"
  from True assms(2) obtain i y where i: "mTransactionId (this s) = Some i"
    and run: "base_regenerate L add (Some c) (this (?s i)) = (Inr (), y)" and s': "s' = (?s i)\<lparr>this := y\<rparr>"
    by (auto simp: tx_determineStatus_def abind_def now_def act_defs on_this_def split: option.splits prod.splits sum.splits)
  have "built_ok L (this (?s i))"
    using assms(1) built_ok_cong [of "this (?s i)" "this s" L] by (simp add: upd_this_def)
  from regenerate_spec [OF run this] show ?thesis by (simp add: s' upd_this_def frozen_ok_def)
qed

end

section \<open>Reachable transactions\<close>

text \<open>
  What can happen to a transaction: its own member functions, whether they return or throw, what an
  execution does, and changes of the members of the derived class and of the rest of the state. The
  one exception that is left out is that of a regeneration that fails half-way in an execution.
\<close>

inductive tx_step ::
  "'d library \<Rightarrow> (bytes, Status) env \<Rightarrow> ('d, 'z) virtuals \<Rightarrow> ('d, 'z) tx_exec \<Rightarrow> ('d, 'z) tx_exec \<Rightarrow> bool"
  for L E V where
  setter: "m \<in> {setTransactionId i, tx_setNodeAccountIds as, setMaxTransactionFee fee, setValidTransactionDuration d,
      setTransactionMemo memo, setRegenerateTransactionIdPolicy b} \<Longrightarrow> tx_step L E V s (snd (on_this m s))"
| signing: "m \<in> {sign L key, signWith k sig, addSignature k bs} \<Longrightarrow> tx_step L E V s (snd (on_this m s))"
| freezing: "tx_step L E V s (snd (freezeWith E V client s))"
| operator_signing: "tx_step L E V s (snd (signWithOperator L E V c s))"
| request: "tx_step L E V s (snd (on_this (tx_makeRequest L i) s))"
| bytes: "tx_step L E V s (snd (on_this (toBytes L V) s))"
| hash: "tx_step L E V s (snd (on_this (getTransactionHash L) s))"
| hashes: "tx_step L E V s (snd (on_this (getTransactionHashPerNode L) s))"
| signatures: "tx_step L E V s (snd (on_this (getSignatures L) s))"
| status: "tx_determineStatus E V c st response s = (Inr d, s') \<Longrightarrow> tx_step L E V s s'"
| derived: "tx_step L E V s (upd_this (Transaction.more_update f) s)"
| elsewhere: "tx_step L E V s (t\<lparr>this := this s\<rparr>)"

lemma keeps_on_this:
  "keeps I m \<Longrightarrow> I (this s) \<Longrightarrow> I (this (snd (on_this m s)))"
  by (auto simp: keeps_def on_this_def split: prod.split)

context body_builder
begin

lemma signWithOperator_ok:
  assumes "tx_ok L (this s)"
  shows "tx_ok L (this (snd (signWithOperator L E (plain_virtuals L add valid) c s)))"
proof (cases "mOperatorAccountId c")
  case None
  with assms show ?thesis by (simp add: signWithOperator_def abind_def act_defs)
next
  case (Some a)
  obtain r s1 where f: "freezeWith E (plain_virtuals L add valid) (Some c) s = (r, s1)" by fastforce
  then have "tx_ok L (this s1)" using freezeWith_ok [OF assms] by (metis snd_conv)
  with f Some show ?thesis
    by (cases r; cases "getOperatorPublicKey c"; cases "getOperatorSigner (lib_ssl L) c")
      (simp_all add: signWithOperator_def abind_def act_defs keeps_on_this [OF keeps_signInternal])
qed

lemma tx_step_ok:
  assumes "tx_step L E (plain_virtuals L add valid) s s'" and "tx_ok L (this s)"
  shows "tx_ok L (this s')"
  using assms
proof (induction rule: tx_step.induct)
  case (setter m i as fee d memo b s)
  then have "keeps (tx_ok L) m" using keeps_setters by blast
  then show ?case using setter.prems by (rule keeps_on_this)
next
  case (signing m key k sig bs s)
  then have "keeps (tx_ok L) m"
    using keeps_signInternal keeps_addSignature by (auto simp: sign_def signWith_def)
  then show ?case using signing.prems by (rule keeps_on_this)
next
  case (derived s f)
  have "tx_ok L (Transaction.more_update f x) = tx_ok L x" for x :: "('d, 'z) Transaction_scheme"
    using built_ok_cong [of "Transaction.more_update f x" x L] frozen_ok_cong [of "Transaction.more_update f x" x L]
    by (cases x) simp
  with derived show ?case by (simp add: upd_this_def)
next
  case (status c st response s d s')
  then show ?case using determineStatus_ok by blast
next
  case (elsewhere s t)
  then show ?case by simp
qed (erule freezeWith_ok signWithOperator_ok keeps_on_this [OF keeps_makeRequest] keeps_on_this [OF keeps_toBytes]
    keeps_on_this [OF keeps_outputs(1)] keeps_on_this [OF keeps_outputs(2)] keeps_on_this [OF keeps_getSignatures])+

end

text \<open>A request that is made is the serialisation of a transaction that all signatories signed.\<close>

lemma makeRequest_spec:
  assumes x: "tx_ok L x" and run: "tx_makeRequest L i x = (Inr request, y)"
  shows "i < length (mSignedTransactions y) \<and> request = serializeSigned L (mSignedTransactions y ! i) \<and>
    signed_by (mSignatories y) (mSignedTransactions y ! i) \<and> tx_ok L y"
proof -
  let ?x = "x\<lparr>mTransactionIndex := i\<rparr>"
  have ok: "tx_ok L ?x" by (rule keeps_set_irrelevant [OF _ x]) simp
  have len: "length (mTransactions x) = length (mSignedTransactions x)" using x built_ok_length by blast
  from run have y: "buildTransaction L i ?x = (Inr (), y)" and r: "vec_at (mTransactions y) i = Inr request"
    by (auto simp: tx_makeRequest_def act_simps abind_eq getTransactionProtobufObject_def)
  have "tx_ok L y" using keepsD [OF keeps_build, of L ?x i] ok y by simp
  moreover have "i < length (mSignedTransactions y) \<and> request = serializeSigned L (mSignedTransactions y ! i) \<and>
    signed_by (mSignatories y) (mSignedTransactions y ! i)"
  proof (cases "mTransactions x ! i = []")
    case False
    with y r have "y = ?x" "i < length (mTransactions x)" "mTransactions x ! i = request"
      by (auto simp: buildTransaction_eq vec_at_def split: if_splits)
    with False x built_okD [of L x i] len show ?thesis by simp
  next
    case True
    from y have i: "i < length (mTransactions x)"
      by (simp add: buildTransaction_eq split: if_splits)
    obtain r1 z where z: "sign_all i (mSignatories x) ?x = (r1, z)" by fastforce
    with y True i len have r1: "r1 = Inr ()"
      and yz: "y = z\<lparr>mTransactions := (mTransactions z)[i := serializeSigned L (mSignedTransactions z ! i)]\<rparr>"
      by (simp_all add: buildTransaction_eq split: sum.splits)
    from sign_all_spec [OF z] i len obtain sigs where "z = add_pairs i sigs ?x"
      and signed: "signed_by (mSignatories x) (mSignedTransactions z ! i)" using r1 by auto
    then have "mSignatories z = mSignatories x" "length (mSignedTransactions z) = length (mSignedTransactions x)"
      "mTransactions z = mTransactions x" by simp_all
    with r yz i len signed show ?thesis by (simp add: vec_at_def)
  qed
  ultimately show ?thesis by blast
qed


lemma for_nodes_nth:
  assumes "for_nodes L x" and "i < length (mSignedTransactions x)"
  shows "i < length (mNodeAccountIds x) \<and> signed_for L (mSourceTransactionBody x) (mNodeAccountIds x ! i) =
    Inr \<lparr>st_bodyBytes = st_bodyBytes (mSignedTransactions x ! i), st_sigMap = []\<rparr>"
proof -
  have maps: "map (signed_for L (mSourceTransactionBody x)) (mNodeAccountIds x) =
     map (\<lambda>t. Inr \<lparr>st_bodyBytes = st_bodyBytes t, st_sigMap = []\<rparr>) (mSignedTransactions x)"
    using assms(1) by (simp add: for_nodes_def)
  then have "length (mNodeAccountIds x) = length (mSignedTransactions x)" by (metis length_map)
  with assms(2) arg_cong [OF maps, of "\<lambda>xs. xs ! i"] show ?thesis by simp
qed

text \<open>The signatures that the signatories give for a body.\<close>

primrec pairs_of :: "bytes \<Rightarrow> (PublicKey \<times> signer option) list \<Rightarrow> proto_SignaturePair list res" where
  "pairs_of body [] = Inr []"
| "pairs_of body (t # ts) =
     (case snd t of None \<Rightarrow> pairs_of body ts
      | Some f \<Rightarrow> rbind (f body) (\<lambda>bs. rbind (PublicKey_toSignaturePairProtobuf (fst t) bs) (\<lambda>pair.
          rbind (pairs_of body ts) (\<lambda>pairs. Inr (pair # pairs)))))"

lemma pairs_of_append:
  "pairs_of body (ks @ ls) = rbind (pairs_of body ks) (\<lambda>ps. rbind (pairs_of body ls) (\<lambda>qs. Inr (ps @ qs)))"
proof (induction ks)
  case (Cons k ks)
  then show ?case by (cases "snd k") (simp_all add: rbind_assoc)
qed simp

lemma sign_all_pairs:
  assumes "i < length (mSignedTransactions x)"
  shows "sign_all i ks x = (Inr (), y) \<longleftrightarrow>
    (\<exists>sigs. pairs_of (st_bodyBytes (mSignedTransactions x ! i)) ks = Inr sigs \<and> y = add_pairs i sigs x)"
  using assms
proof (induction ks arbitrary: x)
  case Nil
  then show ?case by (auto simp: act_defs)
next
  case (Cons t ts)
  show ?case
  proof (cases "snd t")
    case None
    with Cons.IH [OF Cons.prems] show ?thesis by (simp add: act_simps)
  next
    case (Some f)
    show ?thesis
    proof (cases "rbind (f (st_bodyBytes (mSignedTransactions x ! i))) (PublicKey_toSignaturePairProtobuf (fst t))")
      case (Inl e)
      with Some Cons.prems show ?thesis
        by (cases "f (st_bodyBytes (mSignedTransactions x ! i))") (auto simp: abind_def act_defs)
    next
      case (Inr pair)
      then obtain bs where bs: "f (st_bodyBytes (mSignedTransactions x ! i)) = Inr bs"
        "PublicKey_toSignaturePairProtobuf (fst t) bs = Inr pair" by (auto simp: res_simps)
      have "sign_all i (t # ts) x = sign_all i ts (add_pairs i [pair] x)"
        using Some bs by (simp add: abind_def act_defs)
      moreover have "add_pairs i sigs (add_pairs i [pair] x) = add_pairs i (pair # sigs) x" for sigs
        using add_pairs_add [OF Cons.prems] by simp
      ultimately show ?thesis
        using Cons.IH [of "add_pairs i [pair] x"] Cons.prems Some bs by (auto simp: res_simps)
    qed
  qed
qed

lemma makeRequest_unbuilt:
  assumes "tx_makeRequest L i x = (Inr request, y)" and "mTransactions x ! i = []"
  shows "i < length (mTransactions x) \<and> i < length (mSignedTransactions x) \<and>
    (\<exists>sigs. pairs_of (st_bodyBytes (mSignedTransactions x ! i)) (mSignatories x) = Inr sigs \<and>
       mSignedTransactions y = mSignedTransactions (add_pairs i sigs x) \<and> mSignatories y = mSignatories x \<and>
       mIsFrozen y = mIsFrozen x)"
proof -
  let ?x = "x\<lparr>mTransactionIndex := i\<rparr>"
  from assms(1) have b: "buildTransaction L i ?x = (Inr (), y)"
    by (auto simp: tx_makeRequest_def act_simps abind_eq getTransactionProtobufObject_def)
  with assms(2) have i: "i < length (mTransactions x)" "i < length (mSignedTransactions x)"
    by (auto simp: buildTransaction_eq split: if_splits)
  obtain r z where z: "sign_all i (mSignatories x) ?x = (r, z)" by fastforce
  with b assms(2) i have "r = Inr ()"
    and y: "y = z\<lparr>mTransactions := (mTransactions z)[i := serializeSigned L (mSignedTransactions z ! i)]\<rparr>"
    by (auto simp: buildTransaction_eq split: sum.splits)
  with z sign_all_pairs [of i ?x "mSignatories x" z] i obtain sigs where
    "pairs_of (st_bodyBytes (mSignedTransactions x ! i)) (mSignatories x) = Inr sigs" "z = add_pairs i sigs ?x" by auto
  with i y show ?thesis by auto
qed

lemma signInternal_new:
  assumes "signInternal k f y = (Inr (), z)" and "mSignatories z \<noteq> mSignatories y"
  shows "z = add_signatory k (Some f) y"
  using assms by (auto simp: signInternal_def abind_eq act_defs split: if_splits)

lemma sign_build_sign:
  assumes "mTransactions x ! i = []" and first: "tx_makeRequest L i x = (Inr r1, y)"
    and new: "signInternal k f y = (Inr (), z)" "mSignatories z \<noteq> mSignatories y"
    and second: "tx_makeRequest L i z = (Inr r2, w)"
  shows "\<exists>sigs pair. pairs_of (st_bodyBytes (mSignedTransactions x ! i)) (mSignatories x) = Inr sigs \<and>
    st_sigMap (mSignedTransactions y ! i) = st_sigMap (mSignedTransactions x ! i) @ sigs \<and>
    st_sigMap (mSignedTransactions w ! i) = st_sigMap (mSignedTransactions x ! i) @ sigs @ sigs @ [pair]"
proof -
  from makeRequest_unbuilt [OF first assms(1)] obtain sigs where i: "i < length (mSignedTransactions x)"
    and sigs: "pairs_of (st_bodyBytes (mSignedTransactions x ! i)) (mSignatories x) = Inr sigs"
    and y: "mSignedTransactions y = mSignedTransactions (add_pairs i sigs x)" "mSignatories y = mSignatories x" by blast
  have z: "mSignedTransactions z = mSignedTransactions y" "mSignatories z = mSignatories x @ [(k, Some f)]"
    "mTransactions z = replicate (length (mSignedTransactions y)) []"
    using signInternal_new [OF new] y by (simp_all add: add_signatory_def)
  with i y have "mTransactions z ! i = []" by simp
  from makeRequest_unbuilt [OF second this] obtain sigs' where
    sigs': "pairs_of (st_bodyBytes (mSignedTransactions x ! i)) (mSignatories x @ [(k, Some f)]) = Inr sigs'"
    and w: "mSignedTransactions w = mSignedTransactions (add_pairs i sigs' z)" using z y i by auto
  from sigs' sigs obtain pair where "sigs' = sigs @ [pair]"
    by (auto simp: pairs_of_append res_simps)
  with sigs y z w i show ?thesis by (intro exI [of _ sigs] exI [of _ pair]) simp
qed

end
