(* ===== verification/BodyMessages.thy ===== *)
theory BodyMessages
  imports TransactionIds
begin

text \<open>
  The messages of the kinds of transactions that have no chunks. The records of the protobuf classes
  have the fields that the code uses: a field with \<open>has_x()\<close> is an option, a \<open>oneof\<close> a datatype, an
  enumeration its number.
\<close>

section \<open>Common parts\<close>

record proto_FixedFee =
  ff_amount :: int
  ff_denominating_token_id :: "proto_entity_id option"

record proto_Fraction =
  numerator :: int
  denominator :: int

record proto_FractionalFee =
  fr_fractional_amount :: "proto_Fraction option"
  fr_minimum_amount :: int
  fr_maximum_amount :: int
  fr_net_of_transfers :: bool

record proto_RoyaltyFee =
  ro_exchange_value_fraction :: "proto_Fraction option"
  ro_fallback_fee :: "proto_FixedFee option"

datatype proto_fee_case = fee_unset | fee_fixed proto_FixedFee | fee_fractional proto_FractionalFee | fee_royalty proto_RoyaltyFee

record proto_CustomFee =
  cf_fee :: proto_fee_case
  cf_fee_collector_account_id :: "proto_AccountID option"
  cf_all_collectors_are_exempt :: bool

datatype proto_staked = staked_unset | staked_account proto_AccountID | staked_node int
datatype proto_initcode = initcode_unset | initcode_file proto_entity_id | initcode_bytes string
datatype proto_obtainer = obtainer_unset | obtainer_account proto_AccountID | obtainer_contract proto_ContractID
datatype proto_target = target_unset | target_file proto_entity_id | target_contract proto_ContractID

section \<open>Accounts\<close>

record proto_AccountCreate =
  AccountCreate_key :: "proto_Key option"
  AccountCreate_initialbalance :: u64
  AccountCreate_receiversigrequired :: bool
  AccountCreate_autorenewperiod :: "int option"
  AccountCreate_memo :: string
  AccountCreate_max_automatic_token_associations :: int
  AccountCreate_staked_id :: proto_staked
  AccountCreate_decline_reward :: bool
  AccountCreate_alias :: string

record proto_AccountUpdate =
  AccountUpdate_accountidtoupdate :: "proto_AccountID option"
  AccountUpdate_key :: "proto_Key option"
  AccountUpdate_receiversigrequiredwrapper :: "bool option"
  AccountUpdate_autorenewperiod :: "int option"
  AccountUpdate_expirationtime :: "proto_Timestamp option"
  AccountUpdate_memo :: "string option"
  AccountUpdate_max_automatic_token_associations :: "int option"
  AccountUpdate_staked_id :: proto_staked
  AccountUpdate_decline_reward :: "bool option"

record proto_AccountDelete =
  AccountDelete_deleteaccountid :: "proto_AccountID option"
  AccountDelete_transferaccountid :: "proto_AccountID option"

datatype AccountData =
    data_cryptocreateaccount proto_AccountCreate
  | data_cryptoupdateaccount proto_AccountUpdate
  | data_cryptodelete proto_AccountDelete

section \<open>Files\<close>

record proto_FileCreate =
  FileCreate_expirationtime :: "proto_Timestamp option"
  FileCreate_keys :: "proto_Key list option"
  FileCreate_contents :: string
  FileCreate_memo :: string

record proto_FileUpdate =
  FileUpdate_fileid :: "proto_entity_id option"
  FileUpdate_expirationtime :: "proto_Timestamp option"
  FileUpdate_keys :: "proto_Key list option"
  FileUpdate_contents :: string
  FileUpdate_memo :: "string option"

record proto_FileDelete =
  FileDelete_fileid :: "proto_entity_id option"

datatype FileData =
    data_filecreate proto_FileCreate
  | data_fileupdate proto_FileUpdate
  | data_filedelete proto_FileDelete

section \<open>Topics\<close>

record proto_TopicCreate =
  TopicCreate_memo :: string
  TopicCreate_adminkey :: "proto_Key option"
  TopicCreate_submitkey :: "proto_Key option"
  TopicCreate_autorenewperiod :: "int option"
  TopicCreate_autorenewaccount :: "proto_AccountID option"

record proto_TopicUpdate =
  TopicUpdate_topicid :: "proto_entity_id option"
  TopicUpdate_memo :: "string option"
  TopicUpdate_expirationtime :: "proto_Timestamp option"
  TopicUpdate_adminkey :: "proto_Key option"
  TopicUpdate_submitkey :: "proto_Key option"
  TopicUpdate_autorenewperiod :: "int option"
  TopicUpdate_autorenewaccount :: "proto_AccountID option"

record proto_TopicDelete =
  TopicDelete_topicid :: "proto_entity_id option"

datatype TopicData =
    data_consensuscreatetopic proto_TopicCreate
  | data_consensusupdatetopic proto_TopicUpdate
  | data_consensusdeletetopic proto_TopicDelete

section \<open>Contracts\<close>

record proto_ContractCreate =
  ContractCreate_initcode_source :: proto_initcode
  ContractCreate_adminkey :: "proto_Key option"
  ContractCreate_gas :: int
  ContractCreate_initialbalance :: int
  ContractCreate_autorenewperiod :: "int option"
  ContractCreate_constructorparameters :: string
  ContractCreate_memo :: string
  ContractCreate_max_automatic_token_associations :: int
  ContractCreate_auto_renew_account_id :: "proto_AccountID option"
  ContractCreate_staked_id :: proto_staked
  ContractCreate_decline_reward :: bool

record proto_ContractUpdate =
  ContractUpdate_contractid :: "proto_ContractID option"
  ContractUpdate_expirationtime :: "proto_Timestamp option"
  ContractUpdate_adminkey :: "proto_Key option"
  ContractUpdate_autorenewperiod :: "int option"
  ContractUpdate_memowrapper :: "string option"
  ContractUpdate_max_automatic_token_associations :: "int option"
  ContractUpdate_auto_renew_account_id :: "proto_AccountID option"
  ContractUpdate_staked_id :: proto_staked
  ContractUpdate_decline_reward :: "bool option"

record proto_ContractDelete =
  ContractDelete_contractid :: "proto_ContractID option"
  ContractDelete_obtainers :: proto_obtainer

record proto_ContractExecute =
  ContractExecute_contractid :: "proto_ContractID option"
  ContractExecute_gas :: int
  ContractExecute_amount :: int
  ContractExecute_functionparameters :: string

record proto_Ethereum =
  Ethereum_ethereum_data :: string
  Ethereum_call_data :: "proto_entity_id option"
  Ethereum_max_gas_allowance :: int

datatype ContractData =
    data_contractcreateinstance proto_ContractCreate
  | data_contractupdateinstance proto_ContractUpdate
  | data_contractdeleteinstance proto_ContractDelete
  | data_contractcall proto_ContractExecute
  | data_ethereumtransaction proto_Ethereum

section \<open>The network\<close>

record proto_Freeze =
  Freeze_update_file :: "proto_entity_id option"
  Freeze_file_hash :: string
  Freeze_start_time :: "proto_Timestamp option"
  Freeze_freeze_type :: int

record proto_Prng =
  Prng_range :: int

record proto_SystemDelete =
  SystemDelete_id :: proto_target
  SystemDelete_expirationtime :: "int option"

record proto_SystemUndelete =
  SystemUndelete_id :: proto_target

datatype NetworkData =
    data_freeze proto_Freeze
  | data_util_prng proto_Prng
  | data_systemdelete proto_SystemDelete
  | data_systemundelete proto_SystemUndelete

section \<open>Schedules\<close>

record proto_ScheduleDelete =
  ScheduleDelete_scheduleid :: "proto_entity_id option"

record proto_ScheduleSign =
  ScheduleSign_scheduleid :: "proto_entity_id option"

datatype ScheduleData =
    data_scheduledelete proto_ScheduleDelete
  | data_schedulesign proto_ScheduleSign

section \<open>Tokens\<close>

record proto_TokenAssociate =
  TokenAssociate_account :: "proto_AccountID option"
  TokenAssociate_tokens :: "proto_entity_id list"

record proto_TokenDissociate =
  TokenDissociate_account :: "proto_AccountID option"
  TokenDissociate_tokens :: "proto_entity_id list"

record proto_TokenBurn =
  TokenBurn_token :: "proto_entity_id option"
  TokenBurn_amount :: u64
  TokenBurn_serialnumbers :: "int list"

record proto_TokenMint =
  TokenMint_token :: "proto_entity_id option"
  TokenMint_amount :: u64
  TokenMint_metadata :: "string list"

record proto_TokenWipe =
  TokenWipe_token :: "proto_entity_id option"
  TokenWipe_account :: "proto_AccountID option"
  TokenWipe_amount :: u64
  TokenWipe_serialnumbers :: "int list"

record proto_TokenDelete =
  TokenDelete_token :: "proto_entity_id option"

record proto_TokenFreeze =
  TokenFreeze_account :: "proto_AccountID option"
  TokenFreeze_token :: "proto_entity_id option"

record proto_TokenUnfreeze =
  TokenUnfreeze_account :: "proto_AccountID option"
  TokenUnfreeze_token :: "proto_entity_id option"

record proto_TokenGrantKyc =
  TokenGrantKyc_account :: "proto_AccountID option"
  TokenGrantKyc_token :: "proto_entity_id option"

record proto_TokenRevokeKyc =
  TokenRevokeKyc_account :: "proto_AccountID option"
  TokenRevokeKyc_token :: "proto_entity_id option"

record proto_TokenPause =
  TokenPause_token :: "proto_entity_id option"

record proto_TokenUnpause =
  TokenUnpause_token :: "proto_entity_id option"

record proto_TokenFeeScheduleUpdate =
  TokenFeeScheduleUpdate_token_id :: "proto_entity_id option"
  TokenFeeScheduleUpdate_custom_fees :: "proto_CustomFee list"

record proto_TokenUpdateNfts =
  TokenUpdateNfts_token :: "proto_entity_id option"
  TokenUpdateNfts_serial_numbers :: "int list"
  TokenUpdateNfts_metadata :: "string option"

record proto_TokenCreate =
  TokenCreate_name :: string
  TokenCreate_symbol :: string
  TokenCreate_decimals :: u32
  TokenCreate_initialsupply :: u64
  TokenCreate_treasury :: "proto_AccountID option"
  TokenCreate_adminkey :: "proto_Key option"
  TokenCreate_kyckey :: "proto_Key option"
  TokenCreate_freezekey :: "proto_Key option"
  TokenCreate_wipekey :: "proto_Key option"
  TokenCreate_supplykey :: "proto_Key option"
  TokenCreate_freezedefault :: bool
  TokenCreate_expiry :: "proto_Timestamp option"
  TokenCreate_autorenewaccount :: "proto_AccountID option"
  TokenCreate_autorenewperiod :: "int option"
  TokenCreate_memo :: string
  TokenCreate_tokentype :: int
  TokenCreate_supplytype :: int
  TokenCreate_maxsupply :: int
  TokenCreate_fee_schedule_key :: "proto_Key option"
  TokenCreate_custom_fees :: "proto_CustomFee list"
  TokenCreate_pause_key :: "proto_Key option"
  TokenCreate_metadata :: string
  TokenCreate_metadata_key :: "proto_Key option"

record proto_TokenUpdate =
  TokenUpdate_token :: "proto_entity_id option"
  TokenUpdate_name :: string
  TokenUpdate_symbol :: string
  TokenUpdate_treasury :: "proto_AccountID option"
  TokenUpdate_adminkey :: "proto_Key option"
  TokenUpdate_kyckey :: "proto_Key option"
  TokenUpdate_freezekey :: "proto_Key option"
  TokenUpdate_wipekey :: "proto_Key option"
  TokenUpdate_supplykey :: "proto_Key option"
  TokenUpdate_autorenewaccount :: "proto_AccountID option"
  TokenUpdate_autorenewperiod :: "int option"
  TokenUpdate_expiry :: "proto_Timestamp option"
  TokenUpdate_memo :: "string option"
  TokenUpdate_fee_schedule_key :: "proto_Key option"
  TokenUpdate_pause_key :: "proto_Key option"
  TokenUpdate_metadata :: "string option"
  TokenUpdate_metadata_key :: "proto_Key option"
  TokenUpdate_key_verification_mode :: int

datatype TokenData =
    data_tokenassociate proto_TokenAssociate
  | data_tokendissociate proto_TokenDissociate
  | data_tokenburn proto_TokenBurn
  | data_tokenmint proto_TokenMint
  | data_tokenwipe proto_TokenWipe
  | data_tokendeletion proto_TokenDelete
  | data_tokenfreeze proto_TokenFreeze
  | data_tokenunfreeze proto_TokenUnfreeze
  | data_tokengrantkyc proto_TokenGrantKyc
  | data_tokenrevokekyc proto_TokenRevokeKyc
  | data_token_pause proto_TokenPause
  | data_token_unpause proto_TokenUnpause
  | data_token_fee_schedule_update proto_TokenFeeScheduleUpdate
  | data_token_update_nfts proto_TokenUpdateNfts
  | data_tokencreation proto_TokenCreate
  | data_tokenupdate proto_TokenUpdate

end
