(* ===== verification/TransactionBodies.thy ===== *)
theory TransactionBodies
  imports TransactionLife BodyMessages
begin

text \<open>
  The messages that the bodies of the transactions carry, as far as the modelled kinds of
  transactions read and write them: protobuf classes are records of their fields, a message field
  that may be absent is an option, and an absent one is read as the default message. A transaction
  that is scheduled is carried by the body of another.
\<close>

record proto_AccountAmount =
  aa_accountID :: "proto_AccountID option"
  aa_amount :: int
  aa_is_approval :: bool

record proto_NftTransfer =
  nt_senderAccountID :: "proto_AccountID option"
  nt_receiverAccountID :: "proto_AccountID option"
  nt_serialNumber :: u64
  nt_is_approval :: bool

record proto_TokenTransferList =
  tl_token :: "proto_entity_id option"
  tl_transfers :: "proto_AccountAmount list"
  tl_nftTransfers :: "proto_NftTransfer list"
  tl_expected_decimals :: "u32 option"

record proto_CryptoTransfer =
  ct_accountAmounts :: "proto_AccountAmount list"
  ct_tokenTransfers :: "proto_TokenTransferList list"

record proto_FileAppend =
  fa_fileID :: "proto_entity_id option"
  fa_contents :: string

record proto_ConsensusMessageChunkInfo =
  ci_initialTransactionID :: "proto_TransactionID option"
  ci_total :: int
  ci_number :: int

record proto_ConsensusSubmitMessage =
  sm_topicID :: "proto_entity_id option"
  sm_message :: string
  sm_chunkInfo :: "proto_ConsensusMessageChunkInfo option"

definition entity_id_default :: proto_entity_id where
  "entity_id_default = \<lparr>p_shardnum = 0, p_realmnum = 0, p_num = 0\<rparr>"

definition AccountID_default :: proto_AccountID where
  "AccountID_default = \<lparr>account_shardnum = 0, account_realmnum = 0, account_case = account_unset\<rparr>"

definition or_default :: "'a \<Rightarrow> 'a option \<Rightarrow> 'a" where
  "or_default d x = (case x of None \<Rightarrow> d | Some v \<Rightarrow> v)"

lemma or_default_simps [simp]: "or_default d (Some x) = x" "or_default d None = d"
  by (simp_all add: or_default_def)

datatype 'd proto_SchedulableTransactionBody =
  SchedulableTransactionBody (sb_transactionFee: u64) (sb_memo: string) (sb_data: "'d option")

datatype 'd proto_ScheduleCreate =
  ScheduleCreateTransactionBody
    (sc_scheduledTransactionBody: "'d proto_SchedulableTransactionBody option") (sc_memo: string)
    (sc_adminKey: "proto_Key option") (sc_payerAccountID: "proto_AccountID option")
    (sc_expiration_time: "proto_Timestamp option") (sc_wait_for_expiry: bool)

text \<open>
  The data of a body: the cases of the simple kinds are grouped as in \<open>BodyMessages\<close>, and every
  case without a constructor of its own is its case alone.
\<close>

datatype TransactionData =
    data_account AccountData
  | data_file FileData
  | data_topic TopicData
  | data_contract ContractData
  | data_network NetworkData
  | data_schedule ScheduleData
  | data_token TokenData
  | data_scheduleCreate "TransactionData proto_ScheduleCreate"
  | data_cryptoTransfer proto_CryptoTransfer
  | data_fileAppend proto_FileAppend
  | data_consensusSubmitMessage proto_ConsensusSubmitMessage
  | data_other DataCase

end
