(* ===== verification/TransactionBytes.thy ===== *)
theory TransactionBytes
  imports TransactionBodies
begin

text \<open>
  How a transaction is made from its bytes: \<open>Transaction::fromBytes\<close>, the constructors of
  \<open>Transaction.cc\<close> and the order of the maps they use. The key of such a map is compared as text.
\<close>

section \<open>Maps ordered by text\<close>

text \<open>\<open>std::string\<close> compares its characters as unsigned numbers.\<close>

fun text_less :: "string \<Rightarrow> string \<Rightarrow> bool" where
  "text_less [] ys = (ys \<noteq> [])"
| "text_less (x # xs) [] = False"
| "text_less (x # xs) (y # ys) =
     ((of_char x :: nat) < of_char y \<or> x = y \<and> text_less xs ys)"

text \<open>
  A \<open>std::map\<close> is the list of its entries in their order, each with the text of its key.
  \<open>m[k]\<close> makes an entry when there is none, with the key it is given.
\<close>

type_synonym ('k, 'v) text_map = "(string \<times> 'k \<times> 'v) list"

primrec text_update :: "string \<Rightarrow> 'k \<Rightarrow> 'v \<Rightarrow> ('v \<Rightarrow> 'v) \<Rightarrow> ('k, 'v) text_map \<Rightarrow> ('k, 'v) text_map" where
  "text_update t k d f [] = [(t, k, f d)]"
| "text_update t k d f (e # es) =
     (if text_less t (fst e) then (t, k, f d) # e # es
      else if fst e = t then (t, fst (snd e), f (snd (snd e))) # es
      else e # text_update t k d f es)"

type_synonym transaction_map = "(TransactionId, (AccountId, bytes) text_map) text_map"

section \<open>Reading the bytes\<close>

definition DUMMY_ACCOUNT_ID :: AccountId where "DUMMY_ACCOUNT_ID = AccountId_of 0 0 0 []"
definition DUMMY_TRANSACTION_ID :: TransactionId where
  "DUMMY_TRANSACTION_ID = withValidStart DUMMY_ACCOUNT_ID 0"

text \<open>\<open>transactions[id][account] = tx\<close>, with the identifiers of a body.\<close>

definition add_entry ::
  "'d library \<Rightarrow> 'd proto_TransactionBody \<Rightarrow> bytes \<Rightarrow> transaction_map \<Rightarrow> transaction_map res" where
  "add_entry L body transaction m =
     rbind (case tb_transactionID body of None \<Rightarrow> Inr DUMMY_TRANSACTION_ID
            | Some p \<Rightarrow> TransactionId_fromProtobuf (lib_ssl L) (parseKey L) p) (\<lambda>i.
     rbind (case tb_nodeAccountID body of None \<Rightarrow> Inr DUMMY_ACCOUNT_ID
            | Some p \<Rightarrow> AccountId_fromProtobuf (lib_ssl L) (parseKey L) p) (\<lambda>a.
     rbind (TransactionId_toString (lib_ssl L) i) (\<lambda>ti. rbind (AccountId_toString (lib_ssl L) a) (\<lambda>ta.
       Inr (text_update ti i [] (text_update ta a [] (\<lambda>_. transaction)) m)))))"

definition body_of :: "'d library \<Rightarrow> bytes \<Rightarrow> 'd proto_TransactionBody" where
  "body_of L transaction = parseBody L (st_bodyBytes (parseSigned L transaction))"

text \<open>The loop over the transactions of a list, and the body of the last one.\<close>

fun add_entries ::
  "'d library \<Rightarrow> bytes list \<Rightarrow> transaction_map \<Rightarrow> 'd proto_TransactionBody \<Rightarrow> (transaction_map \<times> 'd proto_TransactionBody) res" where
  "add_entries L [] m body = Inr (m, body)"
| "add_entries L (t # ts) m body =
     rbind (add_entry L (body_of L t) t m) (\<lambda>m. add_entries L ts m (body_of L t))"

text \<open>
  The bytes are those of a list of transactions, of a transaction or of a body. In the second and
  third case no body has been read yet, so that its data case is not set.
\<close>

definition read_transactions ::
  "'d library \<Rightarrow> bytes \<Rightarrow> (transaction_map \<times> 'd proto_TransactionBody) res" where
  "read_transactions L bs =
     (case parsesList L bs of
        Some (t # ts) \<Rightarrow> add_entries L (t # ts) [] TransactionBody_default
      | _ \<Rightarrow> (case parsesTransaction L bs of
          Some (b # t) \<Rightarrow> add_entries L [b # t] [] TransactionBody_default
        | _ \<Rightarrow> (case parsesBody L bs of
            Some body \<Rightarrow>
              rbind (add_entry L body (serializeSigned L \<lparr>st_bodyBytes = serializeBody L body, st_sigMap = []\<rparr>) [])
                (\<lambda>m. Inr (m, body))
          | None \<Rightarrow> Inl InvalidArgument)))"

section \<open>The constructors\<close>

text \<open>The members that both constructors take from a body.\<close>

definition read_body :: "'d proto_TransactionBody \<Rightarrow> ('d, 'z) Transaction_scheme \<Rightarrow> ('d, 'z) Transaction_scheme res" where
  "read_body body x =
     rbind (if 0 < tb_transactionFee body then rbind (Hbar_of (sint (tb_transactionFee body)) TINYBAR) (\<lambda>h. Inr (Some h))
            else Inr (mMaxTransactionFee x)) (\<lambda>fee.
     rbind (case tb_transactionValidDuration body of None \<Rightarrow> Inr (mTransactionValidDuration x)
            | Some d \<Rightarrow> Duration_fromProtobuf d) (\<lambda>d.
       Inr (x\<lparr>mMaxTransactionFee := fee, mTransactionValidDuration := d, mTransactionMemo := tb_memo body,
              mSourceTransactionBody := body\<rparr>)))"

definition Transaction_of_body ::
  "'d library \<Rightarrow> 'd proto_TransactionBody \<Rightarrow> ('d, 'z) Transaction_scheme \<Rightarrow> ('d, 'z) Transaction_scheme res" where
  "Transaction_of_body L body x =
     rbind (case tb_transactionID body of None \<Rightarrow> Inr (mTransactionId x)
            | Some p \<Rightarrow> rbind (TransactionId_fromProtobuf (lib_ssl L) (parseKey L) p) (\<lambda>i. Inr (Some i))) (\<lambda>i.
       read_body body (x\<lparr>mTransactionId := i\<rparr>))"

text \<open>The keys of the signatures of the first transaction, without signers.\<close>

primrec read_signatories :: "openssl \<Rightarrow> proto_SignaturePair list \<Rightarrow> (PublicKey \<times> signer option) list res" where
  "read_signatories ssl [] = Inr []"
| "read_signatories ssl (p # ps) =
     rbind (PublicKey_fromBytes ssl (pubkeyprefix p)) (\<lambda>k. rbind (read_signatories ssl ps) (\<lambda>ks. Inr ((k, None) # ks)))"

definition read_nodes ::
  "'d library \<Rightarrow> (AccountId, bytes) text_map \<Rightarrow> ('d, 'z) Transaction_scheme \<Rightarrow> ('d, 'z) Transaction_scheme res" where
  "read_nodes L nodes x =
     (case nodes of [] \<Rightarrow> Inl UndefinedBehavior
      | n # _ \<Rightarrow>
          let sigs = st_sigMap (parseSigned L (snd (snd n)));
              x = fold (\<lambda>e. addTransaction_bytes L (snd (snd e))) nodes x
          in rbind (read_signatories (lib_ssl L) sigs) (\<lambda>ks.
               Inr (setNodeAccountIds (map (\<lambda>e. fst (snd e)) nodes)
                 (x\<lparr>mSignatories := mSignatories x @ ks, mIsFrozen := mIsFrozen x \<or> sigs \<noteq> [],
                    mSourceTransactionBody := body_of L (snd (snd n))\<rparr>))))"

definition Transaction_of_map ::
  "'d library \<Rightarrow> transaction_map \<Rightarrow> ('d, 'z) Transaction_scheme \<Rightarrow> ('d, 'z) Transaction_scheme res" where
  "Transaction_of_map L transactions x =
     (case transactions of [] \<Rightarrow> Inr x
      | (_, i, nodes) # _ \<Rightarrow>
          let x = (if TransactionId_eq (lib_ssl L) i DUMMY_TRANSACTION_ID then x else x\<lparr>mTransactionId := Some i\<rparr>)
          in rbind (case nodes of
                 (_, a, t) # _ \<Rightarrow>
                   if AccountId_eq (lib_ssl L) a DUMMY_ACCOUNT_ID then Inr (x\<lparr>mSourceTransactionBody := body_of L t\<rparr>)
                   else read_nodes L nodes x
               | [] \<Rightarrow> read_nodes L nodes x) (\<lambda>x. read_body (mSourceTransactionBody x) x))"

end
