(* ===== verification/ChunkedTransactions.thy ===== *)
theory ChunkedTransactions
  imports TransactionBytes
begin

text \<open>
  \<open>ChunkedTransaction.cc\<close>: transactions whose data is sent in several parts, each with a transaction
  ID of its own. The numbers of chunks and nodes are natural numbers; the position of a chunk in the
  data is computed with 32 bits, as in the code.
\<close>

section \<open>The state\<close>

definition DEFAULT_CHUNK_SIZE :: u32 where "DEFAULT_CHUNK_SIZE = 1024"
definition DEFAULT_MAX_CHUNKS :: nat where "DEFAULT_MAX_CHUNKS = 20"

record 'd ChunkedTransaction = "'d Transaction" +
  mChunkedTransactionIds :: "TransactionId list"
  mData :: bytes
  mChunkSize :: u32
  mMaxChunks :: nat
  mShouldGetReceipt :: bool
  mCurrentChunk :: nat

definition ChunkedTransaction_fields :: "'d ChunkedTransaction" where
  "ChunkedTransaction_fields = Transaction.extend Transaction_fields
     \<lparr>mChunkedTransactionIds = [], mData = [], mChunkSize = DEFAULT_CHUNK_SIZE, mMaxChunks = DEFAULT_MAX_CHUNKS,
      mShouldGetReceipt = False, mCurrentChunk = 0\<rparr>"

definition setMaxChunks :: "nat \<Rightarrow> (('d, 'z) ChunkedTransaction_scheme, unit) act" where
  "setMaxChunks chunks = abind requireNotFrozen (\<lambda>_. amodify (\<lambda>x. x\<lparr>mMaxChunks := chunks\<rparr>))"

definition setChunkSize :: "u32 \<Rightarrow> (('d, 'z) ChunkedTransaction_scheme, unit) act" where
  "setChunkSize c = abind requireNotFrozen (\<lambda>_. amodify (\<lambda>x. x\<lparr>mChunkSize := c\<rparr>))"

definition setData :: "bytes \<Rightarrow> ('d, 'z) ChunkedTransaction_scheme \<Rightarrow> ('d, 'z) ChunkedTransaction_scheme" where
  "setData data x = x\<lparr>mData := data\<rparr>"

definition setShouldGetReceipt :: "bool \<Rightarrow> ('d, 'z) ChunkedTransaction_scheme \<Rightarrow> ('d, 'z) ChunkedTransaction_scheme" where
  "setShouldGetReceipt retrieveReceipt x = x\<lparr>mShouldGetReceipt := retrieveReceipt\<rparr>"

section \<open>The chunks\<close>

text \<open>
  The rounded-up quotient is computed with \<open>double\<close>s, which is exact for sizes below \<open>2\<^sup>5\<^sup>3\<close>; infinity,
  which a chunk size of zero gives, and quotients of more than 32 bits cannot be converted back.
\<close>

definition getNumberOfChunksRequired :: "('d, 'z) ChunkedTransaction_scheme \<Rightarrow> nat res" where
  "getNumberOfChunksRequired x =
     (let c = unat (mChunkSize x); n = (length (mData x) + c - 1) div c
      in if c = 0 \<or> 2 ^ 32 \<le> n then Inl UndefinedBehavior else Inr n)"

text \<open>The iterators must stay in the data.\<close>

definition getDataForChunk :: "nat \<Rightarrow> ('d, 'z) ChunkedTransaction_scheme \<Rightarrow> bytes res" where
  "getDataForChunk chunk x =
     (let startingByteForChunk = mChunkSize x * of_nat chunk; start = unat startingByteForChunk;
          count = (if length (mData x) < unat (mChunkSize x + startingByteForChunk)
                   then int (length (mData x)) - int start else uint (mChunkSize x))
      in if length (mData x) < start \<or> int (length (mData x)) < int start + count then Inl UndefinedBehavior
         else Inr (take (nat count) (drop start (mData x))))"

definition chunk_clearTransactions :: "('d, 'z) ChunkedTransaction_scheme \<Rightarrow> ('d, 'z) ChunkedTransaction_scheme" where
  "chunk_clearTransactions x = (base_clearTransactions x)\<lparr>mChunkedTransactionIds := []\<rparr>"

text \<open>The ID of a further chunk is that of the chunk before it, one tick of the clock later.\<close>

definition next_chunk_id ::
  "'d library \<Rightarrow> 'd proto_TransactionBody \<Rightarrow> (('d, 'z) ChunkedTransaction_scheme, 'd proto_TransactionBody) act" where
  "next_chunk_id L body =
     (case tb_transactionID body of None \<Rightarrow> athrow UndefinedBehavior
      | Some p \<Rightarrow>
          abind (alift (AccountId_fromProtobuf (lib_ssl L) (parseKey L) (or_default AccountID_default (tid_accountID p)))) (\<lambda>a.
          abind (alift (case tid_transactionValidStart p of None \<Rightarrow> Inr 0 | Some t \<Rightarrow> Timestamp_fromProtobuf t)) (\<lambda>t.
          abind (alift (i64 (t + 1))) (\<lambda>t.
          abind (amodify (\<lambda>x. x\<lparr>mChunkedTransactionIds := mChunkedTransactionIds x @ [withValidStart a t]\<rparr>)) (\<lambda>_.
          abind (alift (TransactionId_toProtobuf (serializeKey L) (withValidStart a t))) (\<lambda>q.
            areturn (body\<lparr>tb_transactionID := Some q\<rparr>)))))))"

text \<open>\<open>part i n\<close> is \<open>addToChunk\<close>, with the number of the chunk and how many there are.\<close>

type_synonym ('d, 'z) chunk_part =
  "nat \<Rightarrow> nat \<Rightarrow> ('d, 'z) ChunkedTransaction_scheme \<Rightarrow> 'd proto_TransactionBody \<Rightarrow> 'd proto_TransactionBody res"

primrec chunk_loop ::
  "'d library \<Rightarrow> ('d, 'z) chunk_part \<Rightarrow> nat \<Rightarrow> nat list \<Rightarrow> 'd proto_TransactionBody \<Rightarrow>
     (('d, 'z) ChunkedTransaction_scheme, unit) act" where
  "chunk_loop L part n [] body = areturn ()"
| "chunk_loop L part n (i # is) body =
     abind (if i = 0 then areturn body else next_chunk_id L body) (\<lambda>body.
     abind (\<lambda>x. (part i n x body, x)) (\<lambda>body.
     abind (addSignedTransactionForEachNode L body) (\<lambda>_. chunk_loop L part n is body)))"

definition chunk_regenerate ::
  "'d library \<Rightarrow> (('d, 'z) ChunkedTransaction_scheme \<Rightarrow> 'd proto_TransactionBody \<Rightarrow> 'd proto_TransactionBody res) \<Rightarrow>
     ('d, 'z) chunk_part \<Rightarrow> Client option \<Rightarrow> (('d, 'z) ChunkedTransaction_scheme, unit) act" where
  "chunk_regenerate L add part client =
     abind (updateSourceTransactionBody L add client) (\<lambda>_.
     abind (areads mSourceTransactionBody) (\<lambda>body.
     abind (amodify chunk_clearTransactions) (\<lambda>_.
       if tb_transactionID body \<noteq> None then
         abind (\<lambda>x. (getNumberOfChunksRequired x, x)) (\<lambda>n. chunk_loop L part n [0..<n] body)
       else addSignedTransactionForEachNode L body)))"

definition chunk_makeRequest :: "'d library \<Rightarrow> nat \<Rightarrow> (('d, 'z) ChunkedTransaction_scheme, bytes) act" where
  "chunk_makeRequest L i x = tx_makeRequest L (mCurrentChunk x * length (mNodeAccountIds x) + i) x"

definition chunk_currentTransactionId :: "('d, 'z) ChunkedTransaction_scheme \<Rightarrow> TransactionId res" where
  "chunk_currentTransactionId x =
     (if mCurrentChunk x = 0 then base_currentTransactionId x
      else vec_at (mChunkedTransactionIds x) (mCurrentChunk x - 1))"

section \<open>Signatures and hashes\<close>

definition chunk_addSignature :: "PublicKey \<Rightarrow> bytes \<Rightarrow> (('d, 'z) ChunkedTransaction_scheme, unit) act" where
  "chunk_addSignature publicKey sig =
     abind (\<lambda>x. (require (length (mData x) \<le> unat (mChunkSize x)) IllegalState, x)) (\<lambda>_. addSignature publicKey sig)"

definition chunk_getSignatures ::
  "'d library \<Rightarrow> (('d, 'z) ChunkedTransaction_scheme, (AccountId \<times> PublicKey \<times> bytes) list) act" where
  "chunk_getSignatures L =
     abind (\<lambda>x. (require (length (mData x) \<le> unat (mChunkSize x)) IllegalState, x)) (\<lambda>_. getSignatures L)"

text \<open>The loop ends at the number of the further transaction IDs, so that the last chunk is left out.\<close>

definition getAllSignatures ::
  "'d library \<Rightarrow> (('d, 'z) ChunkedTransaction_scheme, (AccountId \<times> PublicKey \<times> bytes) list list) act" where
  "getAllSignatures L =
     abind (getSignatures L) (\<lambda>sigs x.
       if sigs = [] then (Inr [], x)
       else (rbind (rmap (\<lambda>i. getSignaturesInternal i x) [1..<length (mChunkedTransactionIds x)])
               (\<lambda>rest. Inr (sigs # rest)), x))"

definition chunk_getTransactionHash :: "'d library \<Rightarrow> (('d, 'z) ChunkedTransaction_scheme, bytes) act" where
  "chunk_getTransactionHash L =
     abind (\<lambda>x. (require (mChunkedTransactionIds x = []) IllegalState, x)) (\<lambda>_. getTransactionHash L)"

definition chunk_getTransactionHashPerNode ::
  "'d library \<Rightarrow> (('d, 'z) ChunkedTransaction_scheme, (AccountId \<times> bytes) list) act" where
  "chunk_getTransactionHashPerNode L =
     abind (\<lambda>x. (require (mChunkedTransactionIds x = []) IllegalState, x)) (\<lambda>_. getTransactionHashPerNode L)"

definition chunk_hashes :: "'d library \<Rightarrow> ('d, 'z) ChunkedTransaction_scheme \<Rightarrow> nat \<Rightarrow> (AccountId \<times> bytes) list res" where
  "chunk_hashes L x i =
     rmap (\<lambda>j. rbind (vec_at (mNodeAccountIds x) j) (\<lambda>a.
             rbind (getTransactionProtobufObject (i * length (mNodeAccountIds x) + j) x) (\<lambda>t.
               Inr (a, computeSHA384 L t)))) [0..<length (mNodeAccountIds x)]"

definition getAllTransactionHashesPerNode ::
  "'d library \<Rightarrow> (('d, 'z) ChunkedTransaction_scheme, (AccountId \<times> bytes) list list) act" where
  "getAllTransactionHashesPerNode L =
     abind (\<lambda>x. (require (isFrozen x) IllegalState, x)) (\<lambda>_.
     abind (buildAllTransactions L) (\<lambda>_ x.
       (rmap (chunk_hashes L x) [0..<length (mChunkedTransactionIds x) + 1], x)))"

section \<open>Execution\<close>

definition chunked_virtuals ::
  "'d library \<Rightarrow> (('d, 'z) ChunkedTransaction_scheme \<Rightarrow> 'd proto_TransactionBody \<Rightarrow> 'd proto_TransactionBody res) \<Rightarrow>
     (client_ledger \<Rightarrow> ('d, 'z) ChunkedTransaction_scheme \<Rightarrow> unit res) \<Rightarrow> ('d, 'z) chunk_part \<Rightarrow>
     ('d, 'z ChunkedTransaction_ext) virtuals" where
  "chunked_virtuals L add valid part =
     \<lparr>addToBody = add, validateChecksums = valid, regenerateSigned = chunk_regenerate L add part,
      currentTransactionId = chunk_currentTransactionId\<rparr>"

definition chunked_operations where
  "chunked_operations L E V client kind =
     (transaction_operations L E V client kind)\<lparr>makeRequest := (\<lambda>i. on_this (chunk_makeRequest L i))\<rparr>"

text \<open>
  \<open>executeAll\<close>: the executions of the chunks from the current one on, at most \<open>k\<close> of them. Every
  execution has an environment of its own; \<open>receipt\<close> is the query for the receipt of a response.
\<close>

primrec execute_chunks ::
  "'d library \<Rightarrow> (nat \<Rightarrow> (bytes, Status) env) \<Rightarrow> ('d, 'z ChunkedTransaction_ext) virtuals \<Rightarrow> Client \<Rightarrow> DataCase \<Rightarrow>
     (TransactionResponse \<Rightarrow> (('d, 'z ChunkedTransaction_ext) tx_exec, unit) act) \<Rightarrow> duration \<Rightarrow> nat \<Rightarrow>
     (('d, 'z ChunkedTransaction_ext) tx_exec, TransactionResponse list) act" where
  "execute_chunks L E V client kind receipt timeout 0 = areturn []"
| "execute_chunks L E V client kind receipt timeout (Suc k) =
     abind (\<lambda>s. let e = E (mCurrentChunk (this s)) in execute e client (chunked_operations L e V client kind) timeout s) (\<lambda>response.
     abind (\<lambda>s. if mShouldGetReceipt (this s) then receipt response s else areturn () s) (\<lambda>_.
     abind (amodify (upd_this (\<lambda>x. x\<lparr>mCurrentChunk := Suc (mCurrentChunk x)\<rparr>))) (\<lambda>_.
     abind (execute_chunks L E V client kind receipt timeout k) (\<lambda>responses. areturn (response # responses)))))"

definition executeAll ::
  "'d library \<Rightarrow> (nat \<Rightarrow> (bytes, Status) env) \<Rightarrow> ('d, 'z ChunkedTransaction_ext) virtuals \<Rightarrow> Client \<Rightarrow> DataCase \<Rightarrow>
     (TransactionResponse \<Rightarrow> (('d, 'z ChunkedTransaction_ext) tx_exec, unit) act) \<Rightarrow> duration \<Rightarrow>
     (('d, 'z ChunkedTransaction_ext) tx_exec, TransactionResponse list) act" where
  "executeAll L E V client kind receipt timeout =
     abind (\<lambda>s. (getNumberOfChunksRequired (this s), s)) (\<lambda>n.
     abind (\<lambda>s. (require (n \<le> mMaxChunks (this s)) IllegalState, s)) (\<lambda>_.
     abind (\<lambda>s. execute_chunks L E V client kind receipt timeout (n - mCurrentChunk (this s)) s) (\<lambda>responses.
     abind (amodify (upd_this (\<lambda>x. x\<lparr>mCurrentChunk := 0\<rparr>))) (\<lambda>_. areturn responses))))"

definition chunked_execute where
  "chunked_execute L E V client kind receipt timeout =
     abind (executeAll L E V client kind receipt timeout) (\<lambda>responses. alift (vec_at responses 0))"

section \<open>The constructor from a map\<close>

definition add_chunk ::
  "'d library \<Rightarrow> TransactionId \<times> (AccountId, bytes) text_map \<Rightarrow>
     ('d, 'z) ChunkedTransaction_scheme \<Rightarrow> ('d, 'z) ChunkedTransaction_scheme" where
  "add_chunk L c x =
     fold (\<lambda>(_, a, t) x. if AccountId_eq (lib_ssl L) a DUMMY_ACCOUNT_ID then x else addTransaction_bytes L t x) (snd c)
       (x\<lparr>mChunkedTransactionIds := mChunkedTransactionIds x @ [fst c]\<rparr>)"

definition ChunkedTransaction_of_map ::
  "'d library \<Rightarrow> transaction_map \<Rightarrow> ('d, 'z) ChunkedTransaction_scheme \<Rightarrow> ('d, 'z) ChunkedTransaction_scheme res" where
  "ChunkedTransaction_of_map L transactions x =
     rbind (Transaction_of_map L transactions x) (\<lambda>x.
       Inr (if length transactions \<le> 1 then x else fold (\<lambda>e. add_chunk L (snd e)) (tl transactions) x))"

section \<open>The chunks make up the data\<close>

lemma concat_chunks: "concat (map (\<lambda>i. take c (drop (i * c) xs)) [0..<n]) = take (n * c) xs"
proof (induction n)
  case (Suc n)
  have "take (n * c + c) xs = take (n * c) xs @ take c (drop (n * c) xs)" by (rule take_add)
  with Suc show ?case by (simp add: add.commute)
qed simp

lemma ceiling_div:
  fixes c :: nat
  assumes "0 < c"
  shows "m \<le> (m + c - 1) div c * c" and "(m + c - 1) div c * c < m + c"
proof -
  have "m + c - 1 = (m + c - 1) div c * c + (m + c - 1) mod c" by simp
  moreover have "(m + c - 1) mod c < c" using assms by simp
  ultimately show "m \<le> (m + c - 1) div c * c" and "(m + c - 1) div c * c < m + c"
    using assms by linarith+
qed

lemma unat_chunk_start:
  assumes "unat c * (i + 1) < 2 ^ 32"
  shows "unat (c * of_nat i :: u32) = unat c * i" and "unat (c + c * of_nat i :: u32) = unat c * (i + 1)"
proof -
  have "c * of_nat i = of_nat (unat c * i)" "c + c * of_nat i = of_nat (unat c * (i + 1))"
    by (simp_all add: algebra_simps)
  moreover have "unat c * i < 2 ^ 32" using assms by (simp add: algebra_simps)
  ultimately show "unat (c * of_nat i :: u32) = unat c * i" and "unat (c + c * of_nat i :: u32) = unat c * (i + 1)"
    using assms by (simp_all only: unat_of_nat_mod) simp_all
qed

lemma getDataForChunk_eq:
  assumes n: "getNumberOfChunksRequired x = Inr n" and "i < n" and fits: "length (mData x) + unat (mChunkSize x) \<le> 2 ^ 32"
  shows "getDataForChunk i x = Inr (take (unat (mChunkSize x)) (drop (i * unat (mChunkSize x)) (mData x)))"
    and "i * unat (mChunkSize x) < length (mData x)"
proof -
  let ?c = "unat (mChunkSize x)" and ?l = "length (mData x)"
  from n have c: "0 < ?c" and n': "n = (?l + ?c - 1) div ?c"
    by (auto simp: getNumberOfChunksRequired_def Let_def split: if_splits)
  have le: "i * ?c + ?c \<le> n * ?c"
    using \<open>i < n\<close> mult_le_mono1 [of "Suc i" n ?c] by simp
  then show start: "i * ?c < ?l"
    using ceiling_div(2) [OF c, of ?l, folded n'] by linarith
  have "?c * (i + 1) = i * ?c + ?c" by (simp add: algebra_simps)
  then have "?c * (i + 1) < 2 ^ 32"
    using le ceiling_div(2) [OF c, of ?l, folded n'] fits by linarith
  note u = unat_chunk_start [OF this]
  show "getDataForChunk i x = Inr (take ?c (drop (i * ?c) (mData x)))"
  proof (cases "?l < ?c * (i + 1)")
    case True
    define a where "a = ?c * i"
    have a: "i * ?c = a" "?c * (i + 1) = a + ?c" by (simp_all add: a_def algebra_simps)
    then have l: "?l < a + ?c" "a < ?l" using True start by metis+
    then have "nat (int ?l - int a) = ?l - a" "\<not> int ?l < int a + (int ?l - int a)" "\<not> ?l < a" by simp_all
    then have "getDataForChunk i x = Inr (take (?l - a) (drop a (mData x)))"
      using l(1) by (simp only: getDataForChunk_def Let_def u a_def [symmetric] a if_True simp_thms if_False)
    also have "take (?l - a) (drop a (mData x)) = take ?c (drop a (mData x))" using l by simp
    finally show ?thesis using a(1) by simp
  next
    case False
    define a where "a = ?c * i"
    have a: "i * ?c = a" "?c * (i + 1) = a + ?c" by (simp_all add: a_def algebra_simps)
    have l: "a + ?c \<le> ?l" using False unfolding a not_less .
    have l2: "\<not> ?l < a" using start unfolding a not_less by (rule less_imp_le)
    have c: "uint (mChunkSize x) = int ?c" by simp
    have "\<not> int ?l < int a + int ?c" "\<not> ?l < a + ?c" using l by linarith+
    with l2 have "getDataForChunk i x = Inr (take (nat (int ?c)) (drop a (mData x)))"
      by (simp only: getDataForChunk_def Let_def u a_def [symmetric] a c if_False simp_thms)
    then show ?thesis by (simp only: nat_int a)
  qed
qed

lemma chunks_cover:
  assumes n: "getNumberOfChunksRequired x = Inr n" and fits: "length (mData x) + unat (mChunkSize x) \<le> 2 ^ 32"
  shows "\<exists>chunks. rmap (\<lambda>i. getDataForChunk i x) [0..<n] = Inr chunks \<and> concat chunks = mData x \<and>
    list_all (\<lambda>c. c \<noteq> [] \<and> length c \<le> unat (mChunkSize x)) chunks"
proof -
  let ?c = "unat (mChunkSize x)"
  let ?chunk = "\<lambda>i. take ?c (drop (i * ?c) (mData x))"
  from n have c: "0 < ?c" and n': "n = (length (mData x) + ?c - 1) div ?c"
    by (auto simp: getNumberOfChunksRequired_def Let_def split: if_splits)
  have "rmap (\<lambda>i. getDataForChunk i x) [0..<n] = Inr (map ?chunk [0..<n])"
    using getDataForChunk_eq(1) [OF n _ fits] by (simp add: rmap_eq_Inr list_all2_map2 list_all2_same)
  moreover have "concat (map ?chunk [0..<n]) = mData x"
    unfolding concat_chunks using ceiling_div(1) [OF c, of "length (mData x)"] n' by simp
  moreover have "?chunk i \<noteq> [] \<and> length (?chunk i) \<le> ?c" if "i < n" for i
    using getDataForChunk_eq(2) [OF n that fits] c by simp
  then have "list_all (\<lambda>c. c \<noteq> [] \<and> length c \<le> ?c) (map ?chunk [0..<n])"
    by (simp add: list_all_iff)
  ultimately show ?thesis by blast
qed

section \<open>Executing a chunk follows the retry protocol\<close>

lemma inert_next: "inert (next_chunk_id L body)"
  unfolding next_chunk_id_def
  by (cases "tb_transactionID body") (auto intro!: inert_intros simp: same_request_def)

lemma inert_chunk_loop: "inert (chunk_loop L part n is body)"
proof (induction "is" arbitrary: body)
  case (Cons i "is")
  show ?case
    unfolding chunk_loop.simps
    by (intro inert_intros inert_addSignedTransactions Cons) (simp add: inert_next inert_intros)
qed (simp add: inert_intros)

lemma inert_chunk_regenerate: "inert (chunk_regenerate L add part client)"
  unfolding chunk_regenerate_def
  by (intro inert_intros inert_update)
    (auto intro!: inert_intros inert_chunk_loop inert_addSignedTransactions
      simp: same_request_def chunk_clearTransactions_def base_clearTransactions_def)

lemma inert_chunk_makeRequest: "inert (chunk_makeRequest L i)"
  unfolding chunk_makeRequest_def [abs_def] by (rule inert_at) (rule inert_makeRequest)

interpretation chunked: transaction_kind "chunked_virtuals L add valid part" for L add valid part
  by unfold_locales (simp add: chunked_virtuals_def inert_chunk_regenerate)

interpretation chunked_request: quiet_request "chunked_operations L E (chunked_virtuals L add valid part) client kind" "\<lambda>f. True"
  for L E add valid part client kind
  by unfold_locales
    (simp_all add: chunked_operations_def transaction_operations_def quiet_on_this inert_chunk_makeRequest
        chunked.quiet_determineStatus throws_def, simp_all add: quiet_def act_defs)

section \<open>What a regeneration makes\<close>

lemma add_signed_for_all:
  assumes "add_signed_for L body as x = (Inr (), y)"
  shows "\<exists>ts. rmap (signed_for L body) as = Inr ts \<and>
    y = x\<lparr>mTransactions := mTransactions x @ replicate (length ts) [], mSignedTransactions := mSignedTransactions x @ ts\<rparr>"
  using assms
proof (induction as arbitrary: x)
  case Nil
  then show ?case by (simp add: act_defs)
next
  case (Cons a as)
  from Cons.prems obtain t where t: "signed_for L body a = Inr t"
    and run: "add_signed_for L body as (addTransaction_signed t x) = (Inr (), y)"
    by (auto simp: abind_eq act_defs)
  from Cons.IH [OF run] obtain ts where "rmap (signed_for L body) as = Inr ts" "y = addTransaction_signed t x
      \<lparr>mTransactions := mTransactions (addTransaction_signed t x) @ replicate (length ts) [],
       mSignedTransactions := mSignedTransactions (addTransaction_signed t x) @ ts\<rparr>" by blast
  with t show ?case by (simp add: addTransaction_signed_def)
qed

text \<open>The ID of the \<open>k\<close>-th chunk, and the members that a regeneration sets.\<close>

definition chunk_id :: "TransactionId \<Rightarrow> nat \<Rightarrow> TransactionId" where
  "chunk_id i k = (if k = 0 then i else withValidStart (mAccountId i) (mValidTransactionTime i + int k))"

definition made ::
  "TransactionId list \<Rightarrow> proto_SignedTransaction list \<Rightarrow> ('d, 'z) ChunkedTransaction_scheme \<Rightarrow> ('d, 'z) ChunkedTransaction_scheme" where
  "made is ts x = x\<lparr>mChunkedTransactionIds := mChunkedTransactionIds x @ is,
     mTransactions := mTransactions x @ replicate (length ts) [], mSignedTransactions := mSignedTransactions x @ ts\<rparr>"

lemma made_simps [simp]:
  "mNodeAccountIds (made is ts x) = mNodeAccountIds x" "mTransactionId (made is ts x) = mTransactionId x"
  "mData (made is ts x) = mData x" "mChunkSize (made is ts x) = mChunkSize x"
  "mChunkedTransactionIds (made is ts x) = mChunkedTransactionIds x @ is"
  "mTransactions (made is ts x) = mTransactions x @ replicate (length ts) []"
  "mSignedTransactions (made is ts x) = mSignedTransactions x @ ts"
  "ChunkedTransaction.more (made is ts x) = ChunkedTransaction.more x"
  by (simp_all add: made_def)

lemma made_made [simp]: "made js us (made is ts x) = made (is @ js) (ts @ us) x"
  by (cases x) (simp add: made_def replicate_add)

lemma made_Nil [simp]: "made [] [] x = x"
  by (cases x) (simp add: made_def)

lemma made_id: "x\<lparr>mChunkedTransactionIds := mChunkedTransactionIds x @ is\<rparr> = made is [] x"
  by (cases x) (simp add: made_def)

lemma made_signed:
  "x\<lparr>mTransactions := mTransactions x @ replicate (length ts) [], mSignedTransactions := mSignedTransactions x @ ts\<rparr> = made [] ts x"
  by (cases x) (simp add: made_def)

lemma chunk_id_next:
  assumes "numbered (mAccountId i)" and "TransactionId_toProtobuf (serializeKey L) (chunk_id i k) = Inr p"
    and "tb_transactionID body = Some p" and "- (2 ^ 63) \<le> mValidTransactionTime i" and "mValidTransactionTime i + int k + 1 < 2 ^ 63"
  shows "next_chunk_id L body x = (case TransactionId_toProtobuf (serializeKey L) (chunk_id i (Suc k)) of
    Inl e \<Rightarrow> (Inl e, made [chunk_id i (Suc k)] [] x)
  | Inr q \<Rightarrow> (Inr (body\<lparr>tb_transactionID := Some q\<rparr>), made [chunk_id i (Suc k)] [] x))"
proof -
  let ?t = "mValidTransactionTime i + int k"
  obtain a where a: "AccountId_toProtobuf (serializeKey L) (mAccountId i) = Inr a"
    and read: "AccountId_fromProtobuf (lib_ssl L) (parseKey L) a = Inr (mAccountId i)"
    using numbered_roundtrip [OF assms(1)] by blast
  have p: "tid_accountID p = Some a" "tid_transactionValidStart p = Some (Timestamp_toProtobuf ?t)"
    using assms(2) a by (auto simp: TransactionId_toProtobuf_def chunk_id_def withValidStart_def TransactionId_default_def res_simps split: if_splits)
  have "Timestamp_fromProtobuf (Timestamp_toProtobuf ?t) = Inr ?t" "i64 (?t + 1) = Inr (?t + 1)"
    using assms(4,5) by (intro Timestamp_roundtrip, simp_all add: i64_fits)
  moreover have "chunk_id i (Suc k) = withValidStart (mAccountId i) (?t + 1)" by (simp add: chunk_id_def algebra_simps)
  ultimately show ?thesis
    using assms(3) p read by (simp add: next_chunk_id_def act_defs abind_def made_id split: sum.split)
qed

text \<open>
  The body of the \<open>j\<close>-th of \<open>n\<close> chunks and its signed transactions: the body has the ID of the chunk
  and what \<open>addToChunk\<close> put there, and there is one signed transaction for every node.
\<close>

definition chunk_ok ::
  "'d library \<Rightarrow> ('d, 'z) chunk_part \<Rightarrow> nat \<Rightarrow> TransactionId \<Rightarrow> ('d, 'z) ChunkedTransaction_scheme \<Rightarrow> nat \<Rightarrow>
     'd proto_TransactionBody \<times> proto_SignedTransaction list \<Rightarrow> bool" where
  "chunk_ok L part n k x j row \<longleftrightarrow>
     (\<exists>p. TransactionId_toProtobuf (serializeKey L) (chunk_id k j) = Inr p \<and> tb_transactionID (fst row) = Some p) \<and>
     (\<exists>is ts b. part j n (made is ts x) b = Inr (fst row)) \<and>
     rmap (signed_for L (fst row)) (mNodeAccountIds x) = Inr (snd row)"

lemma chunk_ok_made: "chunk_ok L part n k (made is ts x) j row \<Longrightarrow> chunk_ok L part n k x j row"
  unfolding chunk_ok_def made_made by auto

text \<open>The contract of a kind of chunked transactions: \<open>addToBody\<close> and \<open>addToChunk\<close> set the data only.\<close>

locale chunk_builder = body_builder add valid
  for add :: "('d, 'z) ChunkedTransaction_scheme \<Rightarrow> 'd proto_TransactionBody \<Rightarrow> 'd proto_TransactionBody res"
    and valid :: "client_ledger \<Rightarrow> ('d, 'z) ChunkedTransaction_scheme \<Rightarrow> unit res" +
  fixes part :: "('d, 'z) chunk_part"
  assumes part_data: "part i n x b = Inr b' \<Longrightarrow> \<exists>d. b' = b\<lparr>tb_data := d\<rparr>"
begin

lemma part_transactionID: "part i n x b = Inr b' \<Longrightarrow> tb_transactionID b' = tb_transactionID b"
  using part_data by fastforce

lemma chunk_loop_spec:
  assumes k: "numbered (mAccountId k)" "- (2 ^ 63) \<le> mValidTransactionTime k" "mValidTransactionTime k + int n < 2 ^ 63"
    and "chunk_loop L part n [i..<n] body x = (Inr (), y)" and "i \<le> n"
    and "\<exists>p. TransactionId_toProtobuf (serializeKey L) (chunk_id k (i - 1)) = Inr p \<and> tb_transactionID body = Some p"
  shows "\<exists>rows. length rows = n - i \<and> y = made (map (chunk_id k) [max 1 i..<n]) (concat (map snd rows)) x \<and>
    (\<forall>j < n - i. chunk_ok L part n k x (i + j) (rows ! j))"
  using assms(4-6)
proof (induction "n - i" arbitrary: i body x)
  case 0
  then show ?case by (auto simp: act_defs)
next
  case (Suc d)
  then have i: "i < n" by simp
  then have upt: "[i..<n] = i # [Suc i..<n]" by (rule upt_conv_Cons)
  obtain body1 x1 body2 x2 where
    first: "(if i = 0 then areturn body else next_chunk_id L body) x = (Inr body1, x1)" and
    body2: "part i n x1 body1 = Inr body2" and
    nodes: "addSignedTransactionForEachNode L body2 x1 = (Inr (), x2)" and
    rest: "chunk_loop L part n [Suc i..<n] body2 x2 = (Inr (), y)"
    using Suc.prems(1) unfolding upt by (simp only: chunk_loop.simps abind_eq) auto
  from Suc.prems(3) obtain p where p: "TransactionId_toProtobuf (serializeKey L) (chunk_id k (i - 1)) = Inr p"
    "tb_transactionID body = Some p" by blast
  have step: "x1 = made (map (chunk_id k) (if i = 0 then [] else [i])) [] x \<and>
      (\<exists>q. TransactionId_toProtobuf (serializeKey L) (chunk_id k i) = Inr q \<and> tb_transactionID body1 = Some q)"
  proof (cases i)
    case 0
    with first p show ?thesis by (simp add: act_defs)
  next
    case (Suc i')
    with chunk_id_next [OF k(1), of L i' p body x] p k i first show ?thesis
      by (auto split: sum.splits)
  qed
  from nodes obtain ts where ts: "rmap (signed_for L body2) (mNodeAccountIds x1) = Inr ts"
    and x2: "x2 = made [] ts x1"
    using add_signed_for_all [of L body2 "mNodeAccountIds x1" x1 x2]
    by (auto simp: addSignedTransactionForEachNode_def made_signed)
  have tid: "tb_transactionID body2 = tb_transactionID body1" by (rule part_transactionID [OF body2])
  have "d = n - Suc i" "Suc i \<le> n" using Suc.hyps(2) i by simp_all
  from Suc.hyps(1) [OF this(1) rest this(2)] step tid obtain rows where rows: "length rows = n - Suc i"
    "y = made (map (chunk_id k) [max 1 (Suc i)..<n]) (concat (map snd rows)) x2"
    "\<forall>j < n - Suc i. chunk_ok L part n k x2 (Suc i + j) (rows ! j)" by (simp only: diff_Suc_1) blast
  have x2': "x2 = made (map (chunk_id k) (if i = 0 then [] else [i])) ts x"
    using step x2 by simp
  have "chunk_ok L part n k x i (body2, ts)"
    using step ts tid body2 unfolding chunk_ok_def by fastforce
  have "chunk_ok L part n k x (i + j) (((body2, ts) # rows) ! j)" if "j < n - i" for j
  proof (cases j)
    case 0
    with \<open>chunk_ok L part n k x i (body2, ts)\<close> show ?thesis by simp
  next
    case (Suc j')
    with that rows(3) have "chunk_ok L part n k x2 (Suc i + j') (rows ! j')" by simp
    with Suc chunk_ok_made show ?thesis unfolding x2' by simp blast
  qed
  moreover have "y = made (map (chunk_id k) [max 1 i..<n]) (concat (map snd ((body2, ts) # rows))) x"
    using rows(2) i unfolding x2' by (cases i) (simp_all add: upt_conv_Cons)
  ultimately show ?case using rows(1) i by (intro exI [of _ "(body2, ts) # rows"]) simp
qed

end

context chunk_builder
begin

lemma chunk_regenerate_spec:
  assumes k: "mTransactionId x = Some k" "numbered (mAccountId k)" "- (2 ^ 63) \<le> mValidTransactionTime k"
      "mValidTransactionTime k + int n < 2 ^ 63"
    and n: "getNumberOfChunksRequired x = Inr n" and run: "chunk_regenerate L add part client x = (Inr (), y)"
  shows "\<exists>rows x'. length rows = n \<and> y = made (map (chunk_id k) [1..<n]) (concat (map snd rows)) x' \<and>
    (\<forall>j < n. chunk_ok L part n k x' j (rows ! j)) \<and>
    (\<exists>b. x' = x\<lparr>mSourceTransactionBody := b, mTransactions := [], mSignedTransactions := [], mChunkedTransactionIds := []\<rparr>)"
proof -
  from run obtain z where z: "updateSourceTransactionBody L add client x = (Inr (), z)"
    and rest: "(if tb_transactionID (mSourceTransactionBody z) \<noteq> None
      then abind (\<lambda>x. (getNumberOfChunksRequired x, x)) (\<lambda>n. chunk_loop L part n [0..<n] (mSourceTransactionBody z))
      else addSignedTransactionForEachNode L (mSourceTransactionBody z)) (chunk_clearTransactions z) = (Inr (), y)"
    by (auto simp: chunk_regenerate_def abind_eq act_defs)
  from update_spec [OF z] k(1) obtain b where zb: "z = x\<lparr>mSourceTransactionBody := b\<rparr>"
    and b: "case TransactionId_toProtobuf (serializeKey L) k of Inl e \<Rightarrow> (Inr () :: unit res) = Inl e
      | Inr p \<Rightarrow> tb_transactionID b = Some p"
    by blast
  obtain p where p: "TransactionId_toProtobuf (serializeKey L) k = Inr p" "tb_transactionID b = Some p"
    using b by (auto split: sum.splits)
  let ?x = "x\<lparr>mSourceTransactionBody := b, mTransactions := [], mSignedTransactions := [], mChunkedTransactionIds := []\<rparr>"
  have c: "chunk_clearTransactions z = ?x"
    by (cases x) (simp add: zb chunk_clearTransactions_def base_clearTransactions_def)
  have "getNumberOfChunksRequired ?x = Inr n" using n by (simp add: getNumberOfChunksRequired_def)
  with rest c zb p have "chunk_loop L part n [0..<n] b ?x = (Inr (), y)" by (simp add: abind_def)
  from chunk_loop_spec [OF k(2-4) this] p show ?thesis by (auto simp: chunk_id_def)
qed

end

lemma concat_block:
  assumes "\<And>r. r \<in> set rows \<Longrightarrow> length (f r) = m" and "k < length rows" and "j < m"
  shows "k * m + j < length (concat (map f rows)) \<and> concat (map f rows) ! (k * m + j) = f (rows ! k) ! j"
  using assms
proof (induction rows arbitrary: k)
  case (Cons r rows)
  then show ?case by (cases k) (auto simp: nth_append add.assoc)
qed simp

end
