(* ===== verification/Transfers.thy ===== *)
theory Transfers
  imports TransactionBytes
begin

text \<open>
  Transfers of hbars, fungible tokens and NFTs: \<open>HbarTransfer.cc\<close>, \<open>TokenTransfer.cc\<close>,
  \<open>TokenNftTransfer.cc\<close> and \<open>TransferTransaction.cc\<close>. Amounts are signed 64-bit numbers, whose
  overflow is undefined.
\<close>

section \<open>The single transfers\<close>

record HbarTransfer =
  hbarAccountId :: AccountId
  hbarAmount :: Hbar
  mIsApproved :: bool

record TokenTransfer =
  transferTokenId :: TokenId
  transferAccountId :: AccountId
  transferAmount :: int
  mExpectedDecimals :: u32
  tokenIsApproval :: bool

record TokenNftTransfer =
  mNftId :: NftId
  mSenderAccountId :: AccountId
  mReceiverAccountId :: AccountId
  nftIsApproval :: bool

text \<open>\<open>L\<close> has the third-party functions that reading and writing account IDs needs.\<close>

abbreviation read_account :: "'d library \<Rightarrow> proto_AccountID option \<Rightarrow> AccountId res" where
  "read_account L a \<equiv> AccountId_fromProtobuf (lib_ssl L) (parseKey L) (or_default AccountID_default a)"

definition HbarTransfer_fromProtobuf :: "'d library \<Rightarrow> proto_AccountAmount \<Rightarrow> HbarTransfer res" where
  "HbarTransfer_fromProtobuf L p =
     rbind (case aa_accountID p of None \<Rightarrow> Inr AccountId_default
            | Some a \<Rightarrow> AccountId_fromProtobuf (lib_ssl L) (parseKey L) a) (\<lambda>a.
     rbind (Hbar_of (aa_amount p) TINYBAR) (\<lambda>h.
       Inr \<lparr>hbarAccountId = a, hbarAmount = h, mIsApproved = aa_is_approval p\<rparr>))"

definition HbarTransfer_toProtobuf :: "'d library \<Rightarrow> HbarTransfer \<Rightarrow> proto_AccountAmount res" where
  "HbarTransfer_toProtobuf L x =
     rbind (AccountId_toProtobuf (serializeKey L) (hbarAccountId x)) (\<lambda>a.
       Inr \<lparr>aa_accountID = Some a, aa_amount = toTinybars (hbarAmount x), aa_is_approval = mIsApproved x\<rparr>)"

definition TokenTransfer_fromProtobuf ::
  "'d library \<Rightarrow> proto_AccountAmount \<Rightarrow> TokenId \<Rightarrow> u32 \<Rightarrow> TokenTransfer res" where
  "TokenTransfer_fromProtobuf L p tokenId decimals =
     rbind (read_account L (aa_accountID p)) (\<lambda>a.
       Inr \<lparr>transferTokenId = tokenId, transferAccountId = a, transferAmount = aa_amount p,
            mExpectedDecimals = decimals, tokenIsApproval = aa_is_approval p\<rparr>)"

definition TokenTransfer_toProtobuf :: "'d library \<Rightarrow> TokenTransfer \<Rightarrow> proto_AccountAmount res" where
  "TokenTransfer_toProtobuf L x =
     rbind (AccountId_toProtobuf (serializeKey L) (transferAccountId x)) (\<lambda>a.
       Inr \<lparr>aa_accountID = Some a, aa_amount = transferAmount x, aa_is_approval = tokenIsApproval x\<rparr>)"

definition TokenTransfer_validateChecksums :: "client_ledger \<Rightarrow> TokenTransfer \<Rightarrow> unit res" where
  "TokenTransfer_validateChecksums client x =
     rbind (TokenId_validateChecksum client (transferTokenId x)) (\<lambda>_.
       AccountId_validateChecksum client (transferAccountId x))"

definition TokenNftTransfer_fromProtobuf ::
  "'d library \<Rightarrow> proto_NftTransfer \<Rightarrow> TokenId \<Rightarrow> TokenNftTransfer res" where
  "TokenNftTransfer_fromProtobuf L p tokenId =
     rbind (read_account L (nt_senderAccountID p)) (\<lambda>s.
     rbind (read_account L (nt_receiverAccountID p)) (\<lambda>r.
       Inr \<lparr>mNftId = \<lparr>mTokenId = tokenId, mSerialNum = nt_serialNumber p\<rparr>, mSenderAccountId = s,
            mReceiverAccountId = r, nftIsApproval = nt_is_approval p\<rparr>))"

definition TokenNftTransfer_toProtobuf :: "'d library \<Rightarrow> TokenNftTransfer \<Rightarrow> proto_NftTransfer res" where
  "TokenNftTransfer_toProtobuf L x =
     rbind (AccountId_toProtobuf (serializeKey L) (mSenderAccountId x)) (\<lambda>s.
     rbind (AccountId_toProtobuf (serializeKey L) (mReceiverAccountId x)) (\<lambda>r.
       Inr \<lparr>nt_senderAccountID = Some s, nt_receiverAccountID = Some r,
            nt_serialNumber = mSerialNum (mNftId x), nt_is_approval = nftIsApproval x\<rparr>))"

definition TokenNftTransfer_validateChecksums :: "client_ledger \<Rightarrow> TokenNftTransfer \<Rightarrow> unit res" where
  "TokenNftTransfer_validateChecksums client x =
     rbind (TokenId_validateChecksum client (mTokenId (mNftId x))) (\<lambda>_.
     rbind (AccountId_validateChecksum client (mSenderAccountId x)) (\<lambda>_.
       AccountId_validateChecksum client (mReceiverAccountId x)))"

section \<open>Adding a transfer to those there are\<close>

text \<open>The first transfer of the account with the same approval takes the amount; a sum of zero removes it.\<close>

primrec doHbarTransfer :: "openssl \<Rightarrow> AccountId \<Rightarrow> Hbar \<Rightarrow> bool \<Rightarrow> HbarTransfer list \<Rightarrow> HbarTransfer list res" where
  "doHbarTransfer ssl accountId amount approved [] =
     Inr [\<lparr>hbarAccountId = accountId, hbarAmount = amount, mIsApproved = approved\<rparr>]"
| "doHbarTransfer ssl accountId amount approved (t # ts) =
     (if AccountId_eq ssl (hbarAccountId t) accountId \<and> mIsApproved t = approved then
        rbind (i64 (toTinybars (hbarAmount t) + toTinybars amount)) (\<lambda>sum.
        rbind (Hbar_of sum TINYBAR) (\<lambda>newValue.
          Inr (if toTinybars newValue = 0 then ts else t\<lparr>hbarAmount := newValue\<rparr> # ts)))
      else rbind (doHbarTransfer ssl accountId amount approved ts) (\<lambda>ts. Inr (t # ts)))"

definition same_transfer :: "openssl \<Rightarrow> TokenTransfer \<Rightarrow> TokenTransfer \<Rightarrow> bool" where
  "same_transfer ssl t u \<longleftrightarrow>
     TokenId_eq (transferTokenId t) (transferTokenId u) \<and> AccountId_eq ssl (transferAccountId t) (transferAccountId u) \<and>
     tokenIsApproval t = tokenIsApproval u"

primrec doTokenTransfer :: "openssl \<Rightarrow> TokenTransfer \<Rightarrow> TokenTransfer list \<Rightarrow> TokenTransfer list res" where
  "doTokenTransfer ssl transfer [] = Inr [transfer]"
| "doTokenTransfer ssl transfer (t # ts) =
     (if same_transfer ssl t transfer then
        if mExpectedDecimals t \<noteq> mExpectedDecimals transfer then Inl InvalidArgument
        else rbind (i64 (transferAmount t + transferAmount transfer)) (\<lambda>newAmount.
               Inr (if newAmount = 0 then ts else t\<lparr>transferAmount := newAmount\<rparr> # ts))
      else rbind (doTokenTransfer ssl transfer ts) (\<lambda>ts. Inr (t # ts)))"

text \<open>A transfer of the same serial number in the opposite direction is taken back; the token is not compared.\<close>

primrec doNftTransfer ::
  "openssl \<Rightarrow> NftId \<Rightarrow> AccountId \<Rightarrow> AccountId \<Rightarrow> bool \<Rightarrow> TokenNftTransfer list \<Rightarrow> TokenNftTransfer list" where
  "doNftTransfer ssl nftId sender receiver approved [] =
     [\<lparr>mNftId = nftId, mSenderAccountId = sender, mReceiverAccountId = receiver, nftIsApproval = approved\<rparr>]"
| "doNftTransfer ssl nftId sender receiver approved (t # ts) =
     (if mSerialNum (mNftId t) = mSerialNum nftId \<and> AccountId_eq ssl (mSenderAccountId t) receiver \<and>
         AccountId_eq ssl (mReceiverAccountId t) sender \<and> nftIsApproval t = approved
      then ts else t # doNftTransfer ssl nftId sender receiver approved ts)"

section \<open>The transaction\<close>

record TransferTransaction = "TransactionData Transaction" +
  mHbarTransfers :: "HbarTransfer list"
  mTokenTransfers :: "TokenTransfer list"
  mNftTransfers :: "TokenNftTransfer list"

definition TransferTransaction_default :: TransferTransaction where
  "TransferTransaction_default =
     Transaction.extend Transaction_fields \<lparr>mHbarTransfers = [], mTokenTransfers = [], mNftTransfers = []\<rparr>"

definition hbar_transfer ::
  "openssl \<Rightarrow> AccountId \<Rightarrow> Hbar \<Rightarrow> bool \<Rightarrow> ('z TransferTransaction_scheme, unit) act" where
  "hbar_transfer ssl accountId amount approved =
     abind requireNotFrozen (\<lambda>_.
     abind (\<lambda>x. (doHbarTransfer ssl accountId amount approved (mHbarTransfers x), x)) (\<lambda>ts.
       amodify (\<lambda>x. x\<lparr>mHbarTransfers := ts\<rparr>)))"

definition addHbarTransfer where
  "addHbarTransfer ssl accountId amount = hbar_transfer ssl accountId amount False"

definition addApprovedHbarTransfer where
  "addApprovedHbarTransfer ssl accountId amount = hbar_transfer ssl accountId amount True"

text \<open>The recipient is given by its EVM address, on shard and realm 0.\<close>

definition addHbarTransfer_evm :: "openssl \<Rightarrow> EvmAddress \<Rightarrow> Hbar \<Rightarrow> ('z TransferTransaction_scheme, unit) act" where
  "addHbarTransfer_evm ssl evmAddress amount =
     abind requireNotFrozen (\<lambda>_. addHbarTransfer ssl (AccountId_of_evm 0 0 evmAddress) amount)"

definition token_transfer :: "openssl \<Rightarrow> TokenTransfer \<Rightarrow> ('z TransferTransaction_scheme, unit) act" where
  "token_transfer ssl transfer =
     abind requireNotFrozen (\<lambda>_.
     abind (\<lambda>x. (doTokenTransfer ssl transfer (mTokenTransfers x), x)) (\<lambda>ts.
       amodify (\<lambda>x. x\<lparr>mTokenTransfers := ts\<rparr>)))"

definition TokenTransfer_of :: "TokenId \<Rightarrow> AccountId \<Rightarrow> int \<Rightarrow> u32 \<Rightarrow> bool \<Rightarrow> TokenTransfer" where
  "TokenTransfer_of tokenId accountId amount decimals approved =
     \<lparr>transferTokenId = tokenId, transferAccountId = accountId, transferAmount = amount,
      mExpectedDecimals = decimals, tokenIsApproval = approved\<rparr>"

definition addTokenTransfer where
  "addTokenTransfer ssl tokenId accountId amount =
     token_transfer ssl (TokenTransfer_of tokenId accountId amount 0 False)"

definition addTokenTransferWithDecimals where
  "addTokenTransferWithDecimals ssl tokenId accountId amount decimals =
     token_transfer ssl (TokenTransfer_of tokenId accountId amount decimals False)"

definition addApprovedTokenTransfer where
  "addApprovedTokenTransfer ssl tokenId accountId amount =
     token_transfer ssl (TokenTransfer_of tokenId accountId amount 0 True)"

definition addApprovedTokenTransferWithDecimals where
  "addApprovedTokenTransferWithDecimals ssl tokenId accountId amount decimals =
     token_transfer ssl (TokenTransfer_of tokenId accountId amount decimals True)"

definition nft_transfer ::
  "openssl \<Rightarrow> NftId \<Rightarrow> AccountId \<Rightarrow> AccountId \<Rightarrow> bool \<Rightarrow> ('z TransferTransaction_scheme, unit) act" where
  "nft_transfer ssl nftId sender receiver approved =
     abind requireNotFrozen (\<lambda>_.
       amodify (\<lambda>x. x\<lparr>mNftTransfers := doNftTransfer ssl nftId sender receiver approved (mNftTransfers x)\<rparr>))"

definition addNftTransfer where
  "addNftTransfer ssl nftId sender receiver = nft_transfer ssl nftId sender receiver False"

definition addApprovedNftTransfer where
  "addApprovedNftTransfer ssl nftId sender receiver = nft_transfer ssl nftId sender receiver True"

section \<open>The body\<close>

text \<open>The last list of a token that there is.\<close>

primrec last_list :: "TokenId \<Rightarrow> proto_TokenTransferList list \<Rightarrow> nat option" where
  "last_list tokenId [] = None"
| "last_list tokenId (l # ls) =
     (case last_list tokenId ls of Some i \<Rightarrow> Some (Suc i)
      | None \<Rightarrow> if TokenId_eq (TokenId_fromProtobuf (or_default entity_id_default (tl_token l))) tokenId
                then Some 0 else None)"

definition with_list ::
  "TokenId \<Rightarrow> (proto_TokenTransferList \<Rightarrow> proto_TokenTransferList) \<Rightarrow>
     proto_TokenTransferList list \<Rightarrow> proto_TokenTransferList list" where
  "with_list tokenId f ls =
     (case last_list tokenId ls of
        Some i \<Rightarrow> ls[i := f (ls ! i)]
      | None \<Rightarrow> ls @ [f \<lparr>tl_token = Some (TokenId_toProtobuf tokenId), tl_transfers = [], tl_nftTransfers = [],
                        tl_expected_decimals = None\<rparr>])"

text \<open>The two loops that put transfers into the lists of their tokens.\<close>

primrec build_lists ::
  "('t \<Rightarrow> 'p res) \<Rightarrow> ('t \<Rightarrow> TokenId) \<Rightarrow> ('t \<Rightarrow> 'p \<Rightarrow> proto_TokenTransferList \<Rightarrow> proto_TokenTransferList) \<Rightarrow>
     't list \<Rightarrow> proto_TokenTransferList list \<Rightarrow> proto_TokenTransferList list res" where
  "build_lists conv tok upd [] ls = Inr ls"
| "build_lists conv tok upd (t # ts) ls =
     rbind (conv t) (\<lambda>p. build_lists conv tok upd ts (with_list (tok t) (upd t p) ls))"

text \<open>The number of decimals is set for every transfer, the default 0 included.\<close>

definition add_transfer :: "TokenTransfer \<Rightarrow> proto_AccountAmount \<Rightarrow> proto_TokenTransferList \<Rightarrow> proto_TokenTransferList" where
  "add_transfer t p l =
     l\<lparr>tl_transfers := tl_transfers l @ [p], tl_expected_decimals := Some (mExpectedDecimals t)\<rparr>"

definition build_tokens ::
  "'d library \<Rightarrow> TokenTransfer list \<Rightarrow> proto_TokenTransferList list \<Rightarrow> proto_TokenTransferList list res" where
  "build_tokens L = build_lists (TokenTransfer_toProtobuf L) transferTokenId add_transfer"

definition add_nft :: "TokenNftTransfer \<Rightarrow> proto_NftTransfer \<Rightarrow> proto_TokenTransferList \<Rightarrow> proto_TokenTransferList" where
  "add_nft t p l = l\<lparr>tl_nftTransfers := tl_nftTransfers l @ [p]\<rparr>"

definition build_nfts ::
  "'d library \<Rightarrow> TokenNftTransfer list \<Rightarrow> proto_TokenTransferList list \<Rightarrow> proto_TokenTransferList list res" where
  "build_nfts L = build_lists (TokenNftTransfer_toProtobuf L) (\<lambda>t. mTokenId (mNftId t)) add_nft"

definition transfer_build :: "'d library \<Rightarrow> 'z TransferTransaction_scheme \<Rightarrow> proto_CryptoTransfer res" where
  "transfer_build L x =
     rbind (rmap (HbarTransfer_toProtobuf L) (mHbarTransfers x)) (\<lambda>hs.
     rbind (build_tokens L (mTokenTransfers x) []) (\<lambda>ls. rbind (build_nfts L (mNftTransfers x) ls) (\<lambda>ls.
       Inr \<lparr>ct_accountAmounts = hs, ct_tokenTransfers = ls\<rparr>)))"

definition transfer_addToBody ::
  "TransactionData library \<Rightarrow> 'z TransferTransaction_scheme \<Rightarrow> TransactionData proto_TransactionBody \<Rightarrow>
     TransactionData proto_TransactionBody res" where
  "transfer_addToBody L x body =
     rbind (transfer_build L x) (\<lambda>b. Inr (body\<lparr>tb_data := Some (data_cryptoTransfer b)\<rparr>))"

definition transfer_validateChecksums :: "client_ledger \<Rightarrow> 'z TransferTransaction_scheme \<Rightarrow> unit res" where
  "transfer_validateChecksums client x =
     rbind (reach (\<lambda>t. AccountId_validateChecksum client (hbarAccountId t)) (mHbarTransfers x)) (\<lambda>_.
     rbind (reach (TokenTransfer_validateChecksums client) (mTokenTransfers x)) (\<lambda>_.
       reach (TokenNftTransfer_validateChecksums client) (mNftTransfers x)))"

text \<open>The transfers of the lists of a message, appended to those there are.\<close>

definition list_transfers :: "'d library \<Rightarrow> proto_TokenTransferList \<Rightarrow> (TokenTransfer list \<times> TokenNftTransfer list) res" where
  "list_transfers L l =
     (let tokenId = TokenId_fromProtobuf (or_default entity_id_default (tl_token l))
      in rbind (rmap (\<lambda>p. TokenTransfer_fromProtobuf L p tokenId (or_default 0 (tl_expected_decimals l))) (tl_transfers l)) (\<lambda>ts.
         rbind (rmap (\<lambda>p. TokenNftTransfer_fromProtobuf L p tokenId) (tl_nftTransfers l)) (\<lambda>ns. Inr (ts, ns))))"

definition transfer_init :: "'d library \<Rightarrow> 'z TransferTransaction_scheme \<Rightarrow> 'z TransferTransaction_scheme res" where
  "transfer_init L x =
     (case tb_data (mSourceTransactionBody x) of
        Some (data_cryptoTransfer body) \<Rightarrow>
          rbind (rmap (HbarTransfer_fromProtobuf L) (ct_accountAmounts body)) (\<lambda>hs.
          rbind (rmap (list_transfers L) (ct_tokenTransfers body)) (\<lambda>ls.
            Inr (x\<lparr>mHbarTransfers := mHbarTransfers x @ hs, mTokenTransfers := mTokenTransfers x @ concat (map fst ls),
                   mNftTransfers := mNftTransfers x @ concat (map snd ls)\<rparr>)))
      | _ \<Rightarrow> Inl InvalidArgument)"

definition TransferTransaction_of_body ::
  "TransactionData library \<Rightarrow> TransactionData proto_TransactionBody \<Rightarrow> TransferTransaction res" where
  "TransferTransaction_of_body L body =
     rbind (Transaction_of_body L body TransferTransaction_default) (transfer_init L)"

definition TransferTransaction_of_map ::
  "TransactionData library \<Rightarrow> transaction_map \<Rightarrow> TransferTransaction res" where
  "TransferTransaction_of_map L transactions =
     rbind (Transaction_of_map L transactions TransferTransaction_default) (transfer_init L)"

section \<open>The getters\<close>

text \<open>A hash map is the list of its entries; \<open>eq\<close> is the equality of its keys.\<close>

primrec hash_update :: "('k \<Rightarrow> 'k \<Rightarrow> bool) \<Rightarrow> 'k \<Rightarrow> ('v option \<Rightarrow> 'v res) \<Rightarrow> ('k \<times> 'v) list \<Rightarrow> ('k \<times> 'v) list res" where
  "hash_update eq k f [] = rbind (f None) (\<lambda>v. Inr [(k, v)])"
| "hash_update eq k f (e # es) =
     (if eq (fst e) k then rbind (f (Some (snd e))) (\<lambda>v. Inr ((fst e, v) # es))
      else rbind (hash_update eq k f es) (\<lambda>es. Inr (e # es)))"

primrec hash_all :: "('k \<Rightarrow> 'k \<Rightarrow> bool) \<Rightarrow> ('k \<times> ('v option \<Rightarrow> 'v res)) list \<Rightarrow> ('k \<times> 'v) list \<Rightarrow> ('k \<times> 'v) list res" where
  "hash_all eq [] m = Inr m"
| "hash_all eq (u # us) m = rbind (hash_update eq (fst u) (snd u) m) (hash_all eq us)"

definition getHbarTransfers :: "openssl \<Rightarrow> 'z TransferTransaction_scheme \<Rightarrow> (AccountId \<times> int) list res" where
  "getHbarTransfers ssl x =
     hash_all (AccountId_eq ssl) (map (\<lambda>t. (hbarAccountId t, \<lambda>v. i64 (or_default 0 v + toTinybars (hbarAmount t)))) (mHbarTransfers x)) []"

definition getTokenTransfers ::
  "openssl \<Rightarrow> 'z TransferTransaction_scheme \<Rightarrow> (TokenId \<times> (AccountId \<times> int) list) list res" where
  "getTokenTransfers ssl x =
     hash_all TokenId_eq (map (\<lambda>t. (transferTokenId t, \<lambda>m.
       hash_update (AccountId_eq ssl) (transferAccountId t) (\<lambda>v. i64 (or_default 0 v + transferAmount t)) (or_default [] m)))
         (mTokenTransfers x)) []"

definition getNftTransfers :: "'z TransferTransaction_scheme \<Rightarrow> (TokenId \<times> TokenNftTransfer list) list res" where
  "getNftTransfers x =
     hash_all TokenId_eq (map (\<lambda>t. (mTokenId (mNftId t), \<lambda>m. Inr (or_default [] m @ [t]))) (mNftTransfers x)) []"

definition getTokenIdDecimals :: "'z TransferTransaction_scheme \<Rightarrow> (TokenId \<times> u32) list res" where
  "getTokenIdDecimals x =
     hash_all TokenId_eq (map (\<lambda>t. (transferTokenId t, \<lambda>_. Inr (mExpectedDecimals t)))
       (filter (\<lambda>t. mExpectedDecimals t \<noteq> 0) (mTokenTransfers x))) []"

section \<open>The contract of the list of hbar transfers\<close>

abbreviation hbar_key :: "HbarTransfer \<Rightarrow> AccountId \<times> bool" where
  "hbar_key t \<equiv> (hbarAccountId t, mIsApproved t)"

text \<open>What an account is to receive: the abstract value of the list.\<close>

definition hbar_net :: "HbarTransfer list \<Rightarrow> AccountId \<times> bool \<Rightarrow> int" where
  "hbar_net ts k = (\<Sum>t\<leftarrow>ts. if hbar_key t = k then toTinybars (hbarAmount t) else 0)"

definition hbar_ok :: "HbarTransfer list \<Rightarrow> bool" where
  "hbar_ok ts \<longleftrightarrow> (\<forall>t \<in> set ts. numbered (hbarAccountId t)) \<and> distinct (map hbar_key ts)"

lemma hbar_net_simps [simp]:
  "hbar_net [] k = 0"
  "hbar_net (t # ts) k = (if hbar_key t = k then toTinybars (hbarAmount t) else 0) + hbar_net ts k"
  by (simp_all add: hbar_net_def)

lemma hbar_net_absent: "k \<notin> hbar_key ` set ts \<Longrightarrow> hbar_net ts k = 0"
  by (induction ts) auto

lemma Hbar_of_tinybars: "Hbar_of n TINYBAR = rbind (i64 n) (\<lambda>v. Inr \<lparr>mValueInTinybar = v\<rparr>)"
  by (simp add: Hbar_of_def)

lemma doHbarTransfer_spec:
  assumes "hbar_ok ts" and "numbered a" and "doHbarTransfer ssl a h b ts = Inr us"
  shows "hbar_ok us \<and> hbar_key ` set us \<subseteq> insert (a, b) (hbar_key ` set ts) \<and>
    hbar_net us k = hbar_net ts k + (if k = (a, b) then toTinybars h else 0)"
  using assms
proof (induction ts arbitrary: us)
  case Nil
  then show ?case by (auto simp: hbar_ok_def)
next
  case (Cons t ts)
  from Cons.prems(1) have t: "numbered (hbarAccountId t)" and ts: "hbar_ok ts" and new: "hbar_key t \<notin> hbar_key ` set ts"
    by (auto simp: hbar_ok_def)
  show ?case
  proof (cases "hbar_key t = (a, b)")
    case True
    then have "doHbarTransfer ssl a h b (t # ts) = rbind (i64 (toTinybars (hbarAmount t) + toTinybars h))
        (\<lambda>v. Inr (if v = 0 then ts else t\<lparr>hbarAmount := \<lparr>mValueInTinybar = v\<rparr>\<rparr> # ts))"
      using Cons.prems(2) by (simp add: numbered_eq Hbar_of_tinybars rbind_assoc toTinybars_def i64_def)
    from trans [OF this [symmetric] Cons.prems(3)] obtain v where v: "v = toTinybars (hbarAmount t) + toTinybars h"
      and us: "us = (if v = 0 then ts else t\<lparr>hbarAmount := \<lparr>mValueInTinybar = v\<rparr>\<rparr> # ts)"
      by (auto simp add: res_simps simp del: doHbarTransfer.simps)
    have "hbar_ok (t\<lparr>hbarAmount := w\<rparr> # ts)" for w
      using t ts new by (simp add: hbar_ok_def)
    moreover have "hbar_net ts k = 0" if "k = (a, b)"
      using new True that by (simp add: hbar_net_absent)
    ultimately show ?thesis
      using True ts v us by (auto simp: toTinybars_def)
  next
    case False
    with t Cons.prems(2) have "\<not> (AccountId_eq ssl (hbarAccountId t) a \<and> mIsApproved t = b)"
      by (simp add: numbered_eq)
    with Cons.prems(3) obtain vs where vs: "doHbarTransfer ssl a h b ts = Inr vs" "us = t # vs"
      by (auto simp: res_simps)
    from Cons.IH [OF ts Cons.prems(2) vs(1)] vs(2) t new False show ?thesis
      by (auto simp: hbar_ok_def)
  qed
qed

text \<open>A list of additions, one after the other.\<close>

fun hbar_all :: "openssl \<Rightarrow> (AccountId \<times> Hbar \<times> bool) list \<Rightarrow> HbarTransfer list \<Rightarrow> HbarTransfer list res" where
  "hbar_all ssl [] ts = Inr ts"
| "hbar_all ssl ((a, h, b) # us) ts = rbind (doHbarTransfer ssl a h b ts) (hbar_all ssl us)"

lemma hbar_all_spec:
  assumes "hbar_ok ts" and "\<forall>(a, h, b) \<in> set us. numbered a" and "hbar_all ssl us ts = Inr vs"
  shows "hbar_ok vs \<and> hbar_net vs k = hbar_net ts k + (\<Sum>(a, h, b)\<leftarrow>us. if k = (a, b) then toTinybars h else 0)"
  using assms
proof (induction us arbitrary: ts)
  case (Cons u us)
  obtain a h b where u: "u = (a, h, b)" by (cases u)
  with Cons.prems obtain ws where "doHbarTransfer ssl a h b ts = Inr ws" "hbar_all ssl us ws = Inr vs"
    by (auto simp: res_simps)
  with Cons.IH [of ws] doHbarTransfer_spec [OF Cons.prems(1), of a ssl h b ws k] Cons.prems(2) u show ?case by auto
qed simp

section \<open>Building and reading back the body\<close>

text \<open>The lists of a body as a map from their tokens.\<close>

definition list_key :: "proto_TokenTransferList \<Rightarrow> TokenId" where
  "list_key l = TokenId_fromProtobuf (or_default entity_id_default (tl_token l))"


definition new_list :: "TokenId \<Rightarrow> proto_TokenTransferList" where
  "new_list k = \<lparr>tl_token = Some (TokenId_toProtobuf k), tl_transfers = [], tl_nftTransfers = [],
                 tl_expected_decimals = None\<rparr>"


lemma list_key_new [simp]: "tokenChecksum k = [] \<Longrightarrow> list_key (new_list k) = k"
  by (cases k) (simp add: list_key_def new_list_def TokenId_fromProtobuf_def TokenId_of_def TokenId_toProtobuf_def)


















section \<open>The contract of the kinds of transactions\<close>

interpretation transfer: body_builder "transfer_addToBody L" transfer_validateChecksums for L
  by unfold_locales (auto simp: transfer_addToBody_def res_simps)

abbreviation transfer_virtuals ::
  "TransactionData library \<Rightarrow> (TransactionData, 'z TransferTransaction_ext) virtuals" where
  "transfer_virtuals L \<equiv> plain_virtuals L (transfer_addToBody L) transfer_validateChecksums"

text \<open>A library for the examples, whose messages are written as the numbers that the examples tell apart.\<close>

definition example_library :: "TransactionData library" where
  "example_library =
     \<lparr>lib_ssl = reference_openssl, serializeKey = (\<lambda>k. []), parseKey = (\<lambda>bs. pk_unset),
      serializeBody = (\<lambda>b. case tb_nodeAccountID b of
         Some p \<Rightarrow> (case account_case p of account_num n \<Rightarrow> [ucast n] | _ \<Rightarrow> [0]) | None \<Rightarrow> [0]),
      parseBody = (\<lambda>bs. TransactionBody_default),
      serializeSigned = (\<lambda>t. st_bodyBytes t @ concat (map pubkeyprefix (st_sigMap t))),
      parseSigned = (\<lambda>bs. \<lparr>st_bodyBytes = bs, st_sigMap = []\<rparr>), serializeList = concat,
      parsesList = (\<lambda>bs. None), parsesTransaction = (\<lambda>bs. None), parsesBody = (\<lambda>bs. None),
      computeSHA384 = (\<lambda>bs. bs)\<rparr>"

abbreviation token :: "u64 \<Rightarrow> TokenId" where
  "token n \<equiv> TokenId_of 0 0 n []"


section \<open>Properties\<close>

text \<open>
  C15. Adding hbar transfers one after the other keeps at most one transfer for an account and its
  approval, and what an account is to receive is the sum of the amounts that were added for it.
\<close>

theorem hbar_transfers_net:
  assumes "\<forall>(a, h, b) \<in> set us. numbered a" and "hbar_all ssl us [] = Inr ts"
  shows "distinct (map (\<lambda>t. (hbarAccountId t, mIsApproved t)) ts) \<and>
    hbar_net ts (a, b) = (\<Sum>(c, h, d)\<leftarrow>us. if (a, b) = (c, d) then toTinybars h else 0)"
  using hbar_all_spec [OF _ assms, of "(a, b)"] by (simp add: hbar_ok_def)

theorem hbar_transfers_net_witness:
  "\<exists>ts. hbar_all reference_openssl [(AccountId_of 0 0 3 [], \<lparr>mValueInTinybar = 5\<rparr>, False),
       (AccountId_of 0 0 4 [], \<lparr>mValueInTinybar = - 5\<rparr>, False), (AccountId_of 0 0 3 [], \<lparr>mValueInTinybar = 2\<rparr>, False)] [] = Inr ts \<and>
     length ts = 2 \<and> hbar_net ts (AccountId_of 0 0 3 [], False) = 7"
proof -
  let ?us = "[(AccountId_of 0 0 3 [], \<lparr>mValueInTinybar = 5\<rparr>, False),
       (AccountId_of 0 0 4 [], \<lparr>mValueInTinybar = - 5\<rparr>, False), (AccountId_of 0 0 3 [], \<lparr>mValueInTinybar = 2\<rparr>, False)]"
  obtain ts where ts: "hbar_all reference_openssl ?us [] = Inr ts" "length ts = 2"
    by (simp add: Hbar_of_tinybars i64_def toTinybars_def)
  have "AccountId_of 0 0 3 [] \<noteq> AccountId_of 0 0 4 []"
    by (simp add: AccountId_of_def AccountId_default_def)
  with hbar_transfers_net [OF _ ts(1), of "AccountId_of 0 0 3 []" False] ts show ?thesis
    by (auto simp: numbered_def toTinybars_def)
qed



text \<open>
  Two transfers of one token to different accounts may be given different numbers of decimals:
  the second is accepted, and the body carries its number for both.
\<close>

theorem expected_decimals_overwritten:
  assumes "a \<noteq> b"
  shows "doTokenTransfer ssl (TokenTransfer_of (token k) (account b) n e p)
      [TokenTransfer_of (token k) (account a) m d p] =
      Inr [TokenTransfer_of (token k) (account a) m d p, TokenTransfer_of (token k) (account b) n e p] \<and>
    rbind (build_tokens L [TokenTransfer_of (token k) (account a) m d p, TokenTransfer_of (token k) (account b) n e p] [])
      (\<lambda>ls. Inr (map tl_expected_decimals ls)) = Inr [Some e]"
  using assms
  by (simp add: same_transfer_def TokenTransfer_of_def build_tokens_def TokenTransfer_toProtobuf_def
      AccountId_toProtobuf_def with_list_def add_transfer_def TokenId_eq_def TokenId_fromProtobuf_def TokenId_toProtobuf_def
      TokenId_of_def) (simp add: AccountId_of_def AccountId_default_def with_list_def TokenId_eq_def TokenId_fromProtobuf_def TokenId_of_def)

theorem expected_decimals_overwritten_witness:
  "doTokenTransfer reference_openssl (TokenTransfer_of (token 7) (account 4) 10 3 False)
     [TokenTransfer_of (token 7) (account 3) (- 10) 2 False] =
     Inr [TokenTransfer_of (token 7) (account 3) (- 10) 2 False, TokenTransfer_of (token 7) (account 4) 10 3 False]"
  using expected_decimals_overwritten [of 3 4 reference_openssl 7 10 3 False "- 10" 2 example_library] by simp

text \<open>
  The transfer of an NFT is taken back by a transfer of the same serial number of any other token in
  the opposite direction, and neither is made.
\<close>

theorem nft_of_other_token_lost:
  "doNftTransfer ssl \<lparr>mTokenId = u, mSerialNum = n\<rparr> (account b) (account a) p
     (doNftTransfer ssl \<lparr>mTokenId = t, mSerialNum = n\<rparr> (account a) (account b) p []) = []"
  by simp

end
