(* ===== verification/Requests.thy ===== *)
theory Requests
  imports Transfers
begin

text \<open>
  What can be said of the requests and signatures of a transaction over its whole life, for the
  transfer transaction: the properties of \<open>Transaction.cc\<close>.
\<close>

section \<open>Lemmas\<close>

lemma transfer_reachable_ok:
  assumes "(tx_step L E (transfer_virtuals L))\<^sup>*\<^sup>* s s'" and "tx_ok L (this s)"
  shows "tx_ok L (this s')"
  using assms by (induction rule: rtranclp_induct) (auto dest: transfer.tx_step_ok)

lemma fresh_ok:
  "mTransactions x = [] \<Longrightarrow> mSignedTransactions x = [] \<Longrightarrow> \<not> mIsFrozen x \<Longrightarrow> tx_ok L x"
  by (simp add: built_ok_def frozen_ok_def)



lemma request_index:
  assumes x: "tx_ok L x" "mIsFrozen x" and i: "length (mNodeAccountIds x) \<le> i"
  shows "fst (tx_makeRequest L i x) = Inl OutOfRange"
proof -
  have "map (signed_for L (mSourceTransactionBody x)) (mNodeAccountIds x) =
      map (\<lambda>t. Inr \<lparr>st_bodyBytes = st_bodyBytes t, st_sigMap = []\<rparr>) (mSignedTransactions x)"
    using x by (simp add: frozen_ok_def for_nodes_def)
  then have "length (mSignedTransactions x) = length (mNodeAccountIds x)" by (metis length_map)
  with i built_ok_length [of L x] x(1) have "\<not> i < length (mTransactions x)" by simp
  then show ?thesis
    by (simp add: tx_makeRequest_def act_simps buildTransaction_eq abind_def [of "buildTransaction L i"])
qed

text \<open>What a regeneration leaves: unsigned transactions, one for every node.\<close>

lemma add_signed_for_spec:
  assumes "add_signed_for L body as x = (Inr (), y)"
  shows "\<exists>ts. y = x\<lparr>mTransactions := mTransactions x @ replicate (length as) [],
      mSignedTransactions := mSignedTransactions x @ ts\<rparr> \<and>
    length ts = length as \<and> (\<forall>t \<in> set ts. st_sigMap t = [])"
  using assms
proof (induction as arbitrary: x)
  case Nil
  then show ?case by (simp add: act_defs)
next
  case (Cons a as)
  from Cons.prems obtain t where t: "signed_for L body a = Inr t"
    and run: "add_signed_for L body as (addTransaction_signed t x) = (Inr (), y)"
    by (auto simp: abind_eq act_defs)
  then have "st_sigMap t = []" by (auto simp: signed_for_def res_simps)
  moreover from Cons.IH [OF run] obtain ts where "y = addTransaction_signed t x
      \<lparr>mTransactions := mTransactions (addTransaction_signed t x) @ replicate (length as) [],
       mSignedTransactions := mSignedTransactions (addTransaction_signed t x) @ ts\<rparr>"
    "length ts = length as" "\<forall>t \<in> set ts. st_sigMap t = []" by blast
  ultimately show ?case
    by (intro exI [of _ "t # ts"]) (simp add: addTransaction_signed_def)
qed

lemma regenerated_unsigned:
  assumes "base_regenerate L add client x = (Inr (), y)"
  shows "list_all (\<lambda>t. st_sigMap t = []) (mSignedTransactions y) \<and>
    mTransactions y = replicate (length (mSignedTransactions y)) [] \<and> same_request x y"
proof -
  from assms obtain z where z: "updateSourceTransactionBody L add client x = (Inr (), z)"
    and run: "add_signed_for L (mSourceTransactionBody z) (mNodeAccountIds z) (base_clearTransactions z) = (Inr (), y)"
    by (auto simp: base_regenerate_def abind_eq act_defs addSignedTransactionForEachNode_def base_clearTransactions_def)
  from add_signed_for_spec [OF run] inertD [OF inert_regenerate assms] show ?thesis
    by (auto simp: base_clearTransactions_def list_all_iff)
qed

lemma expired_regenerated:
  assumes "tx_determineStatus E (plain_virtuals L add valid) c TRANSACTION_EXPIRED response s = (Inr RETRY, s')"
  shows "\<exists>i t. mTransactionId (this s) = Some i \<and> mTransactionId (this s') = Some (generate t (mAccountId i)) \<and>
    list_all (\<lambda>t. st_sigMap t = []) (mSignedTransactions (this s')) \<and>
    mTransactions (this s') = replicate (length (mSignedTransactions (this s'))) [] \<and>
    mSignatories (this s') = mSignatories (this s) \<and> mIsFrozen (this s') = mIsFrozen (this s)"
proof -
  from assms obtain i where i: "mTransactionId (this s) = Some i"
    by (auto simp: tx_determineStatus_def split: if_splits option.splits)
  let ?s = "upd_this (\<lambda>x. x\<lparr>mTransactionId := Some (generate (clock E (readings s)) (mAccountId i))\<rparr>)
    (s\<lparr>readings := Suc (readings s)\<rparr>)"
  from assms i obtain y where run: "base_regenerate L add (Some c) (this ?s) = (Inr (), y)" and s': "s' = ?s\<lparr>this := y\<rparr>"
    by (auto simp: tx_determineStatus_def abind_def now_def act_defs on_this_def split: if_splits option.splits prod.splits sum.splits)
  from regenerated_unsigned [OF run] i show ?thesis
    by (auto simp: s' same_request_def upd_this_def)
qed

lemma transfer_expired_nodes:
  assumes "tx_determineStatus E (plain_virtuals L add valid) c TRANSACTION_EXPIRED response s = (Inr RETRY, s')"
  shows "mNodeAccountIds (this s') = mNodeAccountIds (this s)"
  using assms inertD [OF inert_regenerate]
  by (fastforce simp: tx_determineStatus_def abind_def now_def act_defs on_this_def same_request_def upd_this_def
      split: if_splits option.splits prod.splits sum.splits)

text \<open>A key among the signatories is not signed with again.\<close>

lemma addSignature_again:
  assumes "length (mNodeAccountIds x) = 1" and "mIsFrozen x" and "keyAlreadySigned k x = Inr True"
  shows "addSignature k bs x = (Inr (), x)"
  using assms by (simp add: addSignature_def abind_def act_defs requireOneNodeAccountId_def isFrozen_def)

text \<open>The signatures that are given out are the keys themselves.\<close>

lemma matching_pairs_raw: "matching_pairs k t = Inr sigs \<Longrightarrow> bs \<in> set sigs \<Longrightarrow> PublicKey_toBytesRaw k = Inr bs"
  by (auto simp: matching_pairs_def res_simps split: if_splits) (auto split: proto_signature.splits if_splits)

lemma node_signatures_raw:
  "node_signatures t ks = Inr sigs \<Longrightarrow> (k, bs) \<in> set sigs \<Longrightarrow> PublicKey_toBytesRaw k = Inr bs"
  by (induction ks arbitrary: sigs) (auto simp: res_simps dest: matching_pairs_raw)

lemma signatures_from_raw:
  "signatures_from i as x = Inr sigs \<Longrightarrow> (a, k, bs) \<in> set sigs \<Longrightarrow> PublicKey_toBytesRaw k = Inr bs"
  by (induction as arbitrary: i sigs) (auto simp: res_simps dest: node_signatures_raw)

lemma getSignatures_raw:
  assumes "getSignatures L x = (Inr sigs, y)" and "(a, k, bs) \<in> set sigs"
  shows "PublicKey_toBytesRaw k = Inr bs"
  using assms signatures_from_raw
  by (fastforce simp: getSignatures_def abind_eq getSignaturesInternal_def split: if_splits)

section \<open>Properties\<close>

text \<open>The example: a transfer to two nodes that is frozen and then signed with one key.\<close>

definition example_tx_env :: "(bytes, Status) env" where
  "example_tx_env =
     \<lparr>clock = int, connects = (\<lambda>a. False), answers = (\<lambda>a m q t. (GRPC_OK, OK)), randoms = (\<lambda>i. 0),
      choice_rounds = 0, choice_clock = int, choice_randoms = (\<lambda>i. 0)\<rparr>"

abbreviation example_key :: "byte \<Rightarrow> PublicKey" where
  "example_key b \<equiv> ED25519PublicKey (ED25519_der (replicate 32 b))"

definition fresh :: "AccountId list \<Rightarrow> (TransactionData, unit TransferTransaction_ext) tx_exec" where
  "fresh nodes =
     \<lparr>this = TransferTransaction_default\<lparr>mTransactionId := Some (withValidStart (account 2) 5), mNodeAccountIds := nodes\<rparr>,
      network = BaseNetwork_default 0, readings = 0, nodeResponses = [], log = []\<rparr>"

definition frozen :: "AccountId list \<Rightarrow> (TransactionData, unit TransferTransaction_ext) tx_exec" where
  "frozen nodes = snd (freezeWith example_tx_env (transfer_virtuals example_library) None (fresh nodes))"

definition signed :: "byte \<Rightarrow> (TransactionData, unit TransferTransaction_ext) tx_exec \<Rightarrow> (TransactionData, unit TransferTransaction_ext) tx_exec" where
  "signed b s = snd (on_this (signWith (example_key b) (\<lambda>bs. Inr [b])) s)"

lemmas fresh_simps = fresh_def TransferTransaction_default_def Transaction_fields_def Executable_default_def
  Executable.defs Transaction.defs

lemma fresh_step: "(tx_step L E V)\<^sup>*\<^sup>* (fresh as) (signed b (snd (freezeWith E V c (fresh as))))"
proof -
  have "tx_step L E V (fresh as) (snd (freezeWith E V c (fresh as)))" by (rule tx_step.freezing)
  moreover have "tx_step L E V s (signed b s)" for s
    unfolding signed_def by (rule tx_step.signing) blast
  ultimately show ?thesis by (meson converse_rtranclp_into_rtranclp r_into_rtranclp)
qed

lemma fresh_empty: "mTransactions (this (fresh as)) = [] \<and> mSignedTransactions (this (fresh as)) = [] \<and> \<not> mIsFrozen (this (fresh as))"
  by (simp add: fresh_simps)

lemma frozen_reachable: "tx_ok example_library (this (signed b (frozen as)))"
  unfolding frozen_def
  by (rule transfer_reachable_ok [OF fresh_step]) (simp add: fresh_ok fresh_empty)




text \<open>
  C12. Building a transaction's request, signing with a further key and building again adds the
  signatures of the first signatories a second time.
\<close>

theorem signatures_duplicated:
  assumes "mTransactions x ! i = []" and "tx_makeRequest L i x = (Inr r1, y)"
    and "signInternal k f y = (Inr (), z)" and "mSignatories z \<noteq> mSignatories y"
    and "tx_makeRequest L i z = (Inr r2, w)"
  shows "\<exists>sigs pair. st_sigMap (mSignedTransactions y ! i) = st_sigMap (mSignedTransactions x ! i) @ sigs \<and>
    pairs_of (st_bodyBytes (mSignedTransactions x ! i)) (mSignatories x) = Inr sigs \<and>
    st_sigMap (mSignedTransactions w ! i) = st_sigMap (mSignedTransactions x ! i) @ sigs @ sigs @ [pair]"
  using sign_build_sign [OF assms] by blast

lemma example_twice:
  "let x = this (signed 7 (frozen [account 3, account 4])); y = snd (tx_makeRequest example_library 1 x);
       z = snd (signInternal (example_key 8) (\<lambda>bs. Inr [8]) y) in
   mTransactions x ! 1 = [] \<and> fst (tx_makeRequest example_library 1 x) = Inr (4 # replicate 32 7) \<and>
   fst (signInternal (example_key 8) (\<lambda>bs. Inr [8]) y) = Inr () \<and> length (mSignatories z) = 2 \<and> length (mSignatories y) = 1 \<and>
   fst (tx_makeRequest example_library 1 z) = Inr (4 # replicate 64 7 @ replicate 32 8) \<and>
   st_sigMap (mSignedTransactions x ! 1) = [] \<and> length (st_sigMap (mSignedTransactions y ! 1)) = 1"
  by code_simp

theorem signatures_duplicated_witness:
  "\<exists>x y z w. x = this (signed 7 (frozen [account 3, account 4])) \<and>
     tx_makeRequest example_library 1 x = (Inr (4 # replicate 32 7), y) \<and>
     signInternal (example_key 8) (\<lambda>bs. Inr [8]) y = (Inr (), z) \<and>
     tx_makeRequest example_library 1 z = (Inr (4 # replicate 64 7 @ replicate 32 8), w) \<and>
     length (st_sigMap (mSignedTransactions w ! 1)) = 3"
proof -
  define x where "x = this (signed 7 (frozen [account 3, account 4]))"
  obtain r1 y where y: "tx_makeRequest example_library 1 x = (r1, y)" by fastforce
  obtain u z where z: "signInternal (example_key 8) (\<lambda>bs. Inr [8]) y = (u, z)" by fastforce
  obtain r2 w where w: "tx_makeRequest example_library 1 z = (r2, w)" by fastforce
  note ex = example_twice [folded x_def, unfolded Let_def y snd_conv, unfolded fst_conv z snd_conv, unfolded fst_conv w]
  then have "mSignatories z \<noteq> mSignatories y" by auto
  with signatures_duplicated [of x 1 example_library _ y "example_key 8" "\<lambda>bs. Inr [8]" z] ex y z w x_def
  show ?thesis by fastforce
qed



text \<open>
  C4. When the network reports a signed transaction to one node expired, the transaction gets a new ID
  of the same payer and is made anew without signatures. A signature that was added with
  \<open>addSignature\<close> is lost, the next request has those of the signatories with signers only, and adding
  the signature of the new bytes has no effect, because the key counts as signed already.
\<close>

theorem regeneration_drops_signatures:
  assumes "tx_determineStatus E (transfer_virtuals L) c TRANSACTION_EXPIRED response s = (Inr RETRY, s')"
    and "length (mNodeAccountIds (this s)) = 1" and "mIsFrozen (this s)" and "keyAlreadySigned k (this s) = Inr True"
    and "tx_makeRequest L 0 (this s') = (Inr request, y)"
  shows "(\<exists>i t. mTransactionId (this s) = Some i \<and> mTransactionId (this s') = Some (generate t (mAccountId i))) \<and>
    pairs_of (st_bodyBytes (mSignedTransactions (this s') ! 0)) (mSignatories (this s)) =
      Inr (st_sigMap (mSignedTransactions y ! 0)) \<and>
    addSignature k bs (this s') = (Inr (), this s')"
proof -
  note new = expired_regenerated [OF assms(1)]
  have nodes: "mNodeAccountIds (this s') = mNodeAccountIds (this s)"
    using transfer_expired_nodes [OF assms(1)] .
  have k: "keyAlreadySigned k (this s') = Inr True"
    using assms(4) new by (auto simp: keyAlreadySigned_def)
  have "mTransactions (this s') \<noteq> []"
    using assms(5) by (auto simp: tx_makeRequest_def act_simps abind_eq buildTransaction_eq split: if_splits)
  then have "mTransactions (this s') ! 0 = []" using new by auto
  from makeRequest_unbuilt [OF assms(5) this] new
  have "pairs_of (st_bodyBytes (mSignedTransactions (this s') ! 0)) (mSignatories (this s)) =
      Inr (st_sigMap (mSignedTransactions y ! 0))"
    by (auto simp: list_all_iff)
  with new addSignature_again [OF _ _ k] nodes assms(2,3) show ?thesis by auto
qed

definition example_expired :: "(TransactionData, unit TransferTransaction_ext) tx_exec" where
  "example_expired = snd (on_this (addSignature (example_key 8) [8]) (signed 7 (frozen [account 3])))"

lemma example_expired_run:
  "case tx_determineStatus example_tx_env (transfer_virtuals example_library) Client_default TRANSACTION_EXPIRED OK example_expired of (r, s') \<Rightarrow>
     r = Inr RETRY \<and> length (mNodeAccountIds (this example_expired)) = 1 \<and> mIsFrozen (this example_expired) \<and>
     map (length \<circ> st_sigMap) (mSignedTransactions (this example_expired)) = [1] \<and>
     keyAlreadySigned (example_key 8) (this example_expired) = Inr True \<and>
     fst (tx_makeRequest example_library 0 (this s')) = Inr (3 # replicate 32 7)"
  by code_simp

theorem regeneration_drops_signatures_witness:
  "\<exists>s' y. tx_determineStatus example_tx_env (transfer_virtuals example_library) Client_default TRANSACTION_EXPIRED OK example_expired = (Inr RETRY, s') \<and>
     tx_makeRequest example_library 0 (this s') = (Inr (3 # replicate 32 7), y) \<and>
     addSignature (example_key 8) [9] (this s') = (Inr (), this s')"
proof -
  obtain r s' where s': "tx_determineStatus example_tx_env (transfer_virtuals example_library) Client_default
      TRANSACTION_EXPIRED OK example_expired = (r, s')" by fastforce
  note ex = example_expired_run [unfolded s' prod.case]
  obtain q y where y: "tx_makeRequest example_library 0 (this s') = (q, y)" by fastforce
  with ex have q: "q = Inr (3 # replicate 32 7)" by simp
  from ex regeneration_drops_signatures [of example_tx_env example_library Client_default OK example_expired s' "example_key 8", OF _ _ _ _ y [unfolded q]] s' y q
  show ?thesis by auto
qed

text \<open>
  C5. \<open>getSignatures\<close> never gives out a signature of a key: what it maps a key to is that key's own
  raw bytes, because it compares the signatures with them.
\<close>

theorem signatures_are_keys:
  assumes "getSignatures L x = (Inr sigs, y)" and "(a, k, bs) \<in> set sigs"
  shows "PublicKey_toBytesRaw k = Inr bs"
  using assms by (rule getSignatures_raw)

theorem signatures_are_keys_witness:
  "case getSignatures example_library (snd (signWith (example_key 7) (\<lambda>bs. Inr (replicate 32 7)) (this (frozen [account 3])))) of
     (r, y) \<Rightarrow> r = Inr [(account 3, example_key 7, replicate 32 7)] \<and> PublicKey_toBytesRaw (example_key 7) = Inr (replicate 32 7)"
proof -
  let ?x = "snd (signWith (example_key 7) (\<lambda>bs. Inr (replicate 32 7)) (this (frozen [account 3])))"
  have "fst (getSignatures example_library ?x) = Inr [(account 3, example_key 7, replicate 32 7)]" by code_simp
  then obtain y where y: "getSignatures example_library ?x = (Inr [(account 3, example_key 7, replicate 32 7)], y)"
    by (metis prod.collapse)
  from signatures_are_keys [OF this, of "account 3" "example_key 7" "replicate 32 7"] y show ?thesis by simp
qed

text \<open>
  An execution chooses the request by the index of a node among all proxies of the account, but a
  transaction for one node account has one request: with any further proxy it throws.
\<close>

theorem second_proxy_throws:
  assumes "(tx_step L E (transfer_virtuals L))\<^sup>*\<^sup>* s s'"
    and "mTransactions (this s) = []" and "mSignedTransactions (this s) = []" and "\<not> mIsFrozen (this s)"
    and "mIsFrozen (this s')" and "mNodeAccountIds (this s') = [a]" and "1 \<le> i"
  shows "fst (getNodesFromNodeAccountIds E s') = fst (proxies E a s') \<and>
    fst (tx_makeRequest L i (this s')) = Inl OutOfRange"
proof -
  have "tx_ok L (this s')" using transfer_reachable_ok [OF assms(1) fresh_ok [OF assms(2-4)]] .
  from request_index [OF this assms(5), of i] assms(6,7) show ?thesis
    by (simp add: getNodesFromNodeAccountIds_def)
qed

theorem second_proxy_throws_witness:
  "fst (tx_makeRequest example_library 1 (this (signed 7 (frozen [account 3])))) = Inl OutOfRange"
proof -
  have "(tx_step example_library example_tx_env (transfer_virtuals example_library))\<^sup>*\<^sup>* (fresh [account 3]) (signed 7 (frozen [account 3]))"
    unfolding frozen_def by (rule fresh_step)
  moreover have "mIsFrozen (this (signed 7 (frozen [account 3]))) \<and> mNodeAccountIds (this (signed 7 (frozen [account 3]))) = [account 3]"
    by code_simp
  ultimately show ?thesis
    using second_proxy_throws [of example_library example_tx_env "fresh [account 3]" "signed 7 (frozen [account 3])" "account 3" 1]
      fresh_empty by simp
qed

end
