(* ===== verification/ChunkedKinds.thy ===== *)
theory ChunkedKinds
  imports ChunkedTransactions Requests
begin

text \<open>
  The two kinds of chunked transactions: \<open>FileAppendTransaction.cc\<close> and
  \<open>TopicMessageSubmitTransaction.cc\<close>.
\<close>

section \<open>\<open>FileAppendTransaction\<close>\<close>

record FileAppendTransaction = "TransactionData ChunkedTransaction" +
  mFileId :: FileId

text \<open>The constructors from messages leave the chunk size and the default fee of the base classes.\<close>

definition FileAppendTransaction_fields :: FileAppendTransaction where
  "FileAppendTransaction_fields = ChunkedTransaction.extend ChunkedTransaction_fields \<lparr>mFileId = FileId_of 0 0 0 []\<rparr>"

definition FileAppendTransaction_default :: FileAppendTransaction where
  "FileAppendTransaction_default = setShouldGetReceipt True
     (setDefaultMaxTransactionFee \<lparr>mValueInTinybar = 500000000\<rparr> FileAppendTransaction_fields)\<lparr>mChunkSize := 2048\<rparr>"

definition setFileId :: "FileId \<Rightarrow> ('z FileAppendTransaction_scheme, unit) act" where
  "setFileId fileId = abind requireNotFrozen (\<lambda>_. amodify (\<lambda>x. x\<lparr>mFileId := fileId\<rparr>))"

definition setContents :: "bytes \<Rightarrow> ('z FileAppendTransaction_scheme, unit) act" where
  "setContents contents = abind requireNotFrozen (\<lambda>_. amodify (setData contents))"

definition chunk_or_all :: "nat option \<Rightarrow> ('d, 'z) ChunkedTransaction_scheme \<Rightarrow> bytes res" where
  "chunk_or_all chunk x = (case chunk of None \<Rightarrow> Inr (mData x) | Some i \<Rightarrow> getDataForChunk i x)"

definition append_build :: "'z FileAppendTransaction_scheme \<Rightarrow> nat option \<Rightarrow> proto_FileAppend res" where
  "append_build x chunk =
     rbind (chunk_or_all chunk x) (\<lambda>d. Inr \<lparr>fa_fileID = Some (FileId_toProtobuf (mFileId x)), fa_contents = byteVectorToString d\<rparr>)"

definition append_addToBody ::
  "'z FileAppendTransaction_scheme \<Rightarrow> TransactionData proto_TransactionBody \<Rightarrow> TransactionData proto_TransactionBody res" where
  "append_addToBody x body = rbind (append_build x None) (\<lambda>b. Inr (body\<lparr>tb_data := Some (data_fileAppend b)\<rparr>))"

definition append_addToChunk :: "(TransactionData, 'z FileAppendTransaction_ext) chunk_part" where
  "append_addToChunk chunk chunks x body =
     rbind (append_build x (Some chunk)) (\<lambda>b. Inr (body\<lparr>tb_data := Some (data_fileAppend b)\<rparr>))"

definition append_validateChecksums :: "client_ledger \<Rightarrow> 'z FileAppendTransaction_scheme \<Rightarrow> unit res" where
  "append_validateChecksums client x = FileId_validateChecksum client (mFileId x)"

definition append_init :: "'z FileAppendTransaction_scheme \<Rightarrow> 'z FileAppendTransaction_scheme res" where
  "append_init x =
     (case tb_data (mSourceTransactionBody x) of
        Some (data_fileAppend body) \<Rightarrow>
          Inr (setData (stringToByteVector (fa_contents body))
            (case fa_fileID body of None \<Rightarrow> x | Some p \<Rightarrow> x\<lparr>mFileId := FileId_fromProtobuf p\<rparr>))
      | _ \<Rightarrow> Inl InvalidArgument)"

definition FileAppendTransaction_of_body ::
  "TransactionData library \<Rightarrow> TransactionData proto_TransactionBody \<Rightarrow> FileAppendTransaction res" where
  "FileAppendTransaction_of_body L body =
     rbind (Transaction_of_body L body FileAppendTransaction_fields) (\<lambda>x. append_init (setShouldGetReceipt True x))"

definition FileAppendTransaction_of_map ::
  "TransactionData library \<Rightarrow> transaction_map \<Rightarrow> FileAppendTransaction res" where
  "FileAppendTransaction_of_map L transactions =
     rbind (ChunkedTransaction_of_map L transactions FileAppendTransaction_fields) (\<lambda>x. append_init (setShouldGetReceipt True x))"

interpretation append: chunk_builder append_addToBody append_validateChecksums append_addToChunk
  by unfold_locales (auto simp: append_addToBody_def append_addToChunk_def res_simps)

section \<open>\<open>TopicMessageSubmitTransaction\<close>\<close>

record TopicMessageSubmitTransaction = "TransactionData ChunkedTransaction" +
  mTopicId :: TopicId

definition TopicMessageSubmitTransaction_default :: TopicMessageSubmitTransaction where
  "TopicMessageSubmitTransaction_default =
     ChunkedTransaction.extend ChunkedTransaction_fields \<lparr>mTopicId = TopicId_of 0 0 0 []\<rparr>"

definition setTopicId :: "TopicId \<Rightarrow> ('z TopicMessageSubmitTransaction_scheme, unit) act" where
  "setTopicId topicId = abind requireNotFrozen (\<lambda>_. amodify (\<lambda>x. x\<lparr>mTopicId := topicId\<rparr>))"

definition setMessage :: "bytes \<Rightarrow> ('z TopicMessageSubmitTransaction_scheme, unit) act" where
  "setMessage message = abind requireNotFrozen (\<lambda>_. amodify (setData message))"

definition topic_build :: "'z TopicMessageSubmitTransaction_scheme \<Rightarrow> nat option \<Rightarrow> proto_ConsensusSubmitMessage res" where
  "topic_build x chunk =
     rbind (chunk_or_all chunk x) (\<lambda>d.
       Inr \<lparr>sm_topicID = (if TopicId_eq (mTopicId x) (TopicId_of 0 0 0 []) then None else Some (TopicId_toProtobuf (mTopicId x))),
            sm_message = byteVectorToString d, sm_chunkInfo = None\<rparr>)"

definition topic_addToBody ::
  "'z TopicMessageSubmitTransaction_scheme \<Rightarrow> TransactionData proto_TransactionBody \<Rightarrow> TransactionData proto_TransactionBody res" where
  "topic_addToBody x body = rbind (topic_build x None) (\<lambda>b. Inr (body\<lparr>tb_data := Some (data_consensusSubmitMessage b)\<rparr>))"

definition topic_addToChunk ::
  "TransactionData library \<Rightarrow> (TransactionData, 'z TopicMessageSubmitTransaction_ext) chunk_part" where
  "topic_addToChunk L chunk chunks x body =
     rbind (topic_build x (Some chunk)) (\<lambda>b. rbind (getTransactionId x) (\<lambda>i.
     rbind (TransactionId_toProtobuf (serializeKey L) i) (\<lambda>p.
       Inr (body\<lparr>tb_data := Some (data_consensusSubmitMessage (b\<lparr>sm_chunkInfo := Some
         \<lparr>ci_initialTransactionID = Some p, ci_total = int chunks, ci_number = int (chunk + 1)\<rparr>\<rparr>))\<rparr>))))"

definition topic_validateChecksums :: "client_ledger \<Rightarrow> 'z TopicMessageSubmitTransaction_scheme \<Rightarrow> unit res" where
  "topic_validateChecksums client x = TopicId_validateChecksum client (mTopicId x)"

text \<open>
  The message is put together from the first transaction of every chunk, until there is no further
  transaction; at most \<open>fuel\<close> rounds of this loop are modelled.
\<close>

definition message_of :: "TransactionData proto_TransactionBody \<Rightarrow> string" where
  "message_of body = (case tb_data body of Some (data_consensusSubmitMessage m) \<Rightarrow> sm_message m | _ \<Rightarrow> [])"

primrec message_loop ::
  "TransactionData library \<Rightarrow> nat \<Rightarrow> nat \<Rightarrow> 'z TopicMessageSubmitTransaction_scheme \<Rightarrow> string res" where
  "message_loop L 0 i x = Inl OutOfFuel"
| "message_loop L (Suc fuel) i x =
     (case getTransactionProtobufObject (i * length (mNodeAccountIds x)) x of
        Inl e \<Rightarrow> Inr []
      | Inr t \<Rightarrow> rbind (message_loop L fuel (Suc i) x) (\<lambda>rest. Inr (message_of (body_of L t) @ rest)))"

definition topic_init ::
  "TransactionData library \<Rightarrow> nat \<Rightarrow> 'z TopicMessageSubmitTransaction_scheme \<Rightarrow> 'z TopicMessageSubmitTransaction_scheme res" where
  "topic_init L fuel x =
     (case tb_data (mSourceTransactionBody x) of
        Some (data_consensusSubmitMessage body) \<Rightarrow>
          rbind (message_loop L fuel 0 x) (\<lambda>data.
            Inr (setData (stringToByteVector data)
              (case sm_topicID body of None \<Rightarrow> x | Some p \<Rightarrow> x\<lparr>mTopicId := TopicId_fromProtobuf p\<rparr>)))
      | _ \<Rightarrow> Inl InvalidArgument)"

definition TopicMessageSubmitTransaction_of_body ::
  "TransactionData library \<Rightarrow> nat \<Rightarrow> TransactionData proto_TransactionBody \<Rightarrow> TopicMessageSubmitTransaction res" where
  "TopicMessageSubmitTransaction_of_body L fuel body =
     rbind (Transaction_of_body L body TopicMessageSubmitTransaction_default) (topic_init L fuel)"

definition TopicMessageSubmitTransaction_of_map ::
  "TransactionData library \<Rightarrow> nat \<Rightarrow> transaction_map \<Rightarrow> TopicMessageSubmitTransaction res" where
  "TopicMessageSubmitTransaction_of_map L fuel transactions =
     rbind (ChunkedTransaction_of_map L transactions TopicMessageSubmitTransaction_default) (topic_init L fuel)"

interpretation topic: chunk_builder topic_addToBody topic_validateChecksums "topic_addToChunk L" for L
  by unfold_locales (auto simp: topic_addToBody_def topic_addToChunk_def res_simps)

section \<open>The requests of a message\<close>

lemma topic_part:
  assumes "topic_addToChunk L j n x b = Inr b'" and "mTransactionId x = Some k"
  shows "\<exists>m q d. tb_data b' = Some (data_consensusSubmitMessage m) \<and> getDataForChunk j x = Inr d \<and>
    sm_message m = byteVectorToString d \<and> TransactionId_toProtobuf (serializeKey L) k = Inr q \<and>
    sm_chunkInfo m = Some \<lparr>ci_initialTransactionID = Some q, ci_total = int n, ci_number = int j + 1\<rparr>"
  using assms
  by (auto simp: topic_addToChunk_def topic_build_def chunk_or_all_def getTransactionId_def res_simps)

lemma getDataForChunk_cong:
  assumes "mData y = mData x" and "mChunkSize y = mChunkSize x"
  shows "getDataForChunk j y = getDataForChunk j x"
  unfolding getDataForChunk_def assms ..

lemma topic_chunks:
  assumes k: "mTransactionId x = Some k" "numbered (mAccountId k)" "- (2 ^ 63) \<le> mValidTransactionTime k"
      "mValidTransactionTime k + int n < 2 ^ 63"
    and n: "getNumberOfChunksRequired x = Inr n" and fits: "length (mData x) + unat (mChunkSize x) \<le> 2 ^ 32"
    and run: "chunk_regenerate L topic_addToBody (topic_addToChunk L) client x = (Inr (), y)"
    and j: "j < n" and i: "i < length (mNodeAccountIds x)"
  shows "\<exists>b m p q q0. mSignedTransactions y ! (j * length (mNodeAccountIds x) + i) =
      \<lparr>st_bodyBytes = serializeBody L (b\<lparr>tb_nodeAccountID := Some p\<rparr>), st_sigMap = []\<rparr> \<and>
    AccountId_toProtobuf (serializeKey L) (mNodeAccountIds x ! i) = Inr p \<and>
    TransactionId_toProtobuf (serializeKey L) (chunk_id k j) = Inr q \<and> tb_transactionID b = Some q \<and>
    tb_data b = Some (data_consensusSubmitMessage m) \<and>
    sm_message m = byteVectorToString (take (unat (mChunkSize x)) (drop (j * unat (mChunkSize x)) (mData x))) \<and>
    TransactionId_toProtobuf (serializeKey L) k = Inr q0 \<and>
    sm_chunkInfo m = Some \<lparr>ci_initialTransactionID = Some q0, ci_total = int n, ci_number = int j + 1\<rparr>"
proof -
  let ?m = "length (mNodeAccountIds x)"
  from topic.chunk_regenerate_spec [OF k n run] obtain rows x' where rows: "length rows = n"
    and y: "y = made (map (chunk_id k) [1..<n]) (concat (map snd rows)) x'"
    and ok: "\<forall>j < n. chunk_ok L (topic_addToChunk L) n k x' j (rows ! j)"
    and x': "\<exists>b. x' = x\<lparr>mSourceTransactionBody := b, mTransactions := [], mSignedTransactions := [], mChunkedTransactionIds := []\<rparr>"
    by blast
  have x'_simps: "mNodeAccountIds x' = mNodeAccountIds x" "mData x' = mData x" "mChunkSize x' = mChunkSize x"
    "mTransactionId x' = mTransactionId x" "mSignedTransactions x' = []"
    using x' by auto
  have len: "length (snd r) = ?m" if "r \<in> set rows" for r
  proof -
    from that obtain l where "l < n" "r = rows ! l" using rows by (metis in_set_conv_nth)
    with ok have "rmap (signed_for L (fst r)) (mNodeAccountIds x) = Inr (snd r)" by (simp add: chunk_ok_def x'_simps)
    then show ?thesis by (rule rmap_length)
  qed
  from concat_block [of rows snd ?m j i, OF len] rows j i
  have sel: "mSignedTransactions y ! (j * ?m + i) = snd (rows ! j) ! i"
    by (simp add: y x'_simps)
  from ok j obtain q us ts b' where q: "TransactionId_toProtobuf (serializeKey L) (chunk_id k j) = Inr q"
      "tb_transactionID (fst (rows ! j)) = Some q"
    and part: "topic_addToChunk L j n (made us ts x') b' = Inr (fst (rows ! j))"
    and nodes: "rmap (signed_for L (fst (rows ! j))) (mNodeAccountIds x) = Inr (snd (rows ! j))"
    by (auto simp: chunk_ok_def x'_simps)
  from nodes i have "signed_for L (fst (rows ! j)) (mNodeAccountIds x ! i) = Inr (snd (rows ! j) ! i)"
    by (auto simp: rmap_eq_Inr dest: list_all2_nthD)
  then obtain p where p: "AccountId_toProtobuf (serializeKey L) (mNodeAccountIds x ! i) = Inr p"
    "snd (rows ! j) ! i = \<lparr>st_bodyBytes = serializeBody L ((fst (rows ! j))\<lparr>tb_nodeAccountID := Some p\<rparr>), st_sigMap = []\<rparr>"
    by (auto simp: signed_for_def res_simps)
  have "mTransactionId (made us ts x') = Some k" by (simp add: x'_simps k)
  from topic_part [OF part this] getDataForChunk_eq(1) [OF n j fits]
    getDataForChunk_cong [of "made us ts x'" x j] obtain m q0 where
    "tb_data (fst (rows ! j)) = Some (data_consensusSubmitMessage m)"
    "sm_message m = byteVectorToString (take (unat (mChunkSize x)) (drop (j * unat (mChunkSize x)) (mData x)))"
    "TransactionId_toProtobuf (serializeKey L) k = Inr q0"
    "sm_chunkInfo m = Some \<lparr>ci_initialTransactionID = Some q0, ci_total = int n, ci_number = int j + 1\<rparr>"
    by (auto simp: x'_simps)
  with sel p q show ?thesis by metis
qed

section \<open>Reading back from a map\<close>

lemma message_loop_ends:
  "mNodeAccountIds x \<noteq> [] \<Longrightarrow> length (mTransactions x) \<le> i + fuel \<Longrightarrow>
     \<exists>r. message_loop L (Suc fuel) i x = Inr r"
proof (induction fuel arbitrary: i)
  case 0
  then have "\<not> i * length (mNodeAccountIds x) < length (mTransactions x)"
    by (cases "mNodeAccountIds x") (simp_all add: trans_le_add1)
  then show ?case by (simp add: getTransactionProtobufObject_def vec_at_def)
next
  case (Suc fuel)
  have "length (mTransactions x) \<le> Suc i + fuel" using Suc.prems(2) by simp
  from Suc.IH [OF Suc.prems(1) this] obtain r where "message_loop L (Suc fuel) (Suc i) x = Inr r" by blast
  then show ?case
    by (simp only: message_loop.simps(2) [of L "Suc fuel" i x] rbind.simps) (simp split: sum.split)
qed

lemma message_loop_hangs:
  "mNodeAccountIds x = [] \<Longrightarrow> mTransactions x \<noteq> [] \<Longrightarrow> message_loop L fuel i x = Inl OutOfFuel"
  by (induction fuel arbitrary: i) (simp_all add: getTransactionProtobufObject_def vec_at_def)

lemma read_body_fields:
  "read_body b x = Inr y \<Longrightarrow> \<exists>fee d. y = x\<lparr>mMaxTransactionFee := fee, mTransactionValidDuration := d,
     mTransactionMemo := tb_memo b, mSourceTransactionBody := b\<rparr>"
  by (auto simp: read_body_def res_simps)

lemma fold_addTransaction:
  "mTransactions (fold (\<lambda>e. addTransaction_bytes L (snd (snd e))) ns x) = mTransactions x @ map (\<lambda>e. snd (snd e)) ns \<and>
   mTransactionId (fold (\<lambda>e. addTransaction_bytes L (snd (snd e))) ns x) = mTransactionId x \<and>
   Transaction.more (fold (\<lambda>e. addTransaction_bytes L (snd (snd e))) ns x) = Transaction.more x"
  by (induction ns arbitrary: x) (simp_all add: addTransaction_bytes_def)

lemma Transaction_of_map_spec:
  assumes "Transaction_of_map L ((ti, i, (ta, a, t) # ns) # others) x0 = Inr x"
    and "\<not> AccountId_eq (lib_ssl L) a DUMMY_ACCOUNT_ID" and "\<not> TransactionId_eq (lib_ssl L) i DUMMY_TRANSACTION_ID"
  shows "mNodeAccountIds x = a # map (\<lambda>e. fst (snd e)) ns \<and> mSourceTransactionBody x = body_of L t \<and>
    mTransactions x = mTransactions x0 @ t # map (\<lambda>e. snd (snd e)) ns \<and> mTransactionId x = Some i \<and>
    Transaction.more x = Transaction.more x0"
proof -
  let ?x = "x0\<lparr>mTransactionId := Some i\<rparr>"
  from assms obtain y where y: "read_nodes L ((ta, a, t) # ns) ?x = Inr y"
    and x: "read_body (mSourceTransactionBody y) y = Inr x"
    by (auto simp: Transaction_of_map_def Let_def res_simps)
  from y have "mNodeAccountIds y = a # map (\<lambda>e. fst (snd e)) ns \<and> mSourceTransactionBody y = body_of L t \<and>
    mTransactions y = mTransactions x0 @ t # map (\<lambda>e. snd (snd e)) ns \<and> mTransactionId y = Some i \<and>
    Transaction.more y = Transaction.more x0"
    using fold_addTransaction [of L "(ta, a, t) # ns" ?x]
    by (auto simp: read_nodes_def Let_def res_simps setNodeAccountIds_def)
  with read_body_fields [OF x] show ?thesis by auto
qed

end
