(* ===== verification/ChunkedResults.thy ===== *)
theory ChunkedResults
  imports ChunkedKinds
begin

text \<open>
  Properties of the chunked transactions: what their requests carry, what an execution sends, and
  what is read back from their bytes.
\<close>

section \<open>A message for the examples\<close>

text \<open>The number of chunks, computed with integers.\<close>

lemma chunk_limit: "(2 ^ 32 \<le> int n) = (2 ^ 32 \<le> n)"
  using of_nat_le_iff [where 'a = int and m = "2 ^ 32" and n = n] by (simp only: of_nat_power of_nat_numeral)

lemma ceiling_div_int:
  assumes "c \<noteq> 0"
  shows "(int m + int c - 1) div int c = int ((m + c - 1) div c)"
proof -
  from assms have "int m + int c - 1 = int (m + c - 1)" by linarith
  then show ?thesis by (simp only: zdiv_int)
qed

lemma chunks_int:
  "(if int c = 0 \<or> 2 ^ 32 \<le> (int m + int c - 1) div int c then A else Inr (nat ((int m + int c - 1) div int c))) =
   (if c = 0 \<or> 2 ^ 32 \<le> (m + c - 1) div c then A else Inr ((m + c - 1) div c))"
  by (cases "c = 0") (simp_all only: ceiling_div_int chunk_limit nat_int of_nat_eq_0_iff simp_thms if_True)

lemma getNumberOfChunksRequired_code [code]:
  "getNumberOfChunksRequired x =
     (let c = uint (mChunkSize x); n = (int (length (mData x)) + c - 1) div c
      in if c = 0 \<or> 2 ^ 32 \<le> n then Inl UndefinedBehavior else Inr (nat n))"
  unfolding getNumberOfChunksRequired_def Let_def uint_nat chunks_int ..

definition example_message :: "bytes \<Rightarrow> u32 \<Rightarrow> TopicMessageSubmitTransaction" where
  "example_message d c = TopicMessageSubmitTransaction_default\<lparr>mData := d, mChunkSize := c,
     mTransactionId := Some (withValidStart (account 2) 5), mNodeAccountIds := [account 3, account 4]\<rparr>"

lemma example_message_simps [simp]:
  "mData (example_message d c) = d" "mChunkSize (example_message d c) = c"
  "mTransactionId (example_message d c) = Some (withValidStart (account 2) 5)"
  "mNodeAccountIds (example_message d c) = [account 3, account 4]"
  by (simp_all add: example_message_def)

abbreviation example_made :: "unit res \<times> TopicMessageSubmitTransaction" where
  "example_made \<equiv> chunk_regenerate example_library (topic_addToBody) (topic_addToChunk example_library) None
     (example_message [104, 101, 108, 108, 111] 2)"

lemma example_made_run:
  "fst example_made = Inr () \<and> getNumberOfChunksRequired (example_message [104, 101, 108, 108, 111] 2) = Inr 3 \<and>
   map st_bodyBytes (mSignedTransactions (snd example_made)) = [[3], [4], [3], [4], [3], [4]] \<and>
   map mValidTransactionTime (mChunkedTransactionIds (snd example_made)) = [6, 7]"
  by code_simp

section \<open>Properties\<close>

text \<open>
  C5. The chunks of the data of a chunked transaction, one after the other, are the data; none is empty
  or longer than the chunk size.
\<close>

theorem chunks_make_up_data:
  assumes "getNumberOfChunksRequired x = Inr n" and "length (mData x) + unat (mChunkSize x) \<le> 2 ^ 32"
  shows "\<exists>chunks. rmap (\<lambda>i. getDataForChunk i x) [0..<n] = Inr chunks \<and> concat chunks = mData x \<and>
    list_all (\<lambda>c. c \<noteq> [] \<and> length c \<le> unat (mChunkSize x)) chunks"
  using assms by (rule chunks_cover)

theorem chunks_make_up_data_witness:
  "\<exists>chunks. rmap (\<lambda>i. getDataForChunk i (example_message [104, 101, 108, 108, 111] 2)) [0..<3] = Inr chunks \<and>
     concat chunks = [104, 101, 108, 108, 111] \<and> list_all (\<lambda>c. c \<noteq> [] \<and> length c \<le> 2) chunks"
  using chunks_make_up_data [of "example_message [104, 101, 108, 108, 111] 2" 3] example_made_run by simp

text \<open>
  A regenerated topic message of \<open>n\<close> chunks has for its \<open>j\<close>-th chunk and \<open>i\<close>-th node a transaction
  whose body has that node, the transaction's ID with \<open>j\<close> further nanoseconds, the \<open>j\<close>-th part of
  the message, and the chunk's number, the number of chunks and the ID of the first chunk.
\<close>

theorem topic_message_chunks:
  assumes k: "mTransactionId x = Some k" "numbered (mAccountId k)" "- (2 ^ 63) \<le> mValidTransactionTime k"
      "mValidTransactionTime k + int n < 2 ^ 63"
    and n: "getNumberOfChunksRequired x = Inr n" and fits: "length (mData x) + unat (mChunkSize x) \<le> 2 ^ 32"
    and run: "chunk_regenerate L topic_addToBody (topic_addToChunk L) client x = (Inr (), y)"
    and j: "j < n" and i: "i < length (mNodeAccountIds x)"
  shows "\<exists>b m p q q0. mSignedTransactions y ! (j * length (mNodeAccountIds x) + i) =
      \<lparr>st_bodyBytes = serializeBody L (b\<lparr>tb_nodeAccountID := Some p\<rparr>), st_sigMap = []\<rparr> \<and>
    AccountId_toProtobuf (serializeKey L) (mNodeAccountIds x ! i) = Inr p \<and>
    TransactionId_toProtobuf (serializeKey L) (chunk_id k j) = Inr q \<and> tb_transactionID b = Some q \<and>
    tb_data b = Some (data_consensusSubmitMessage m) \<and>
    sm_message m = byteVectorToString (take (unat (mChunkSize x)) (drop (j * unat (mChunkSize x)) (mData x))) \<and>
    TransactionId_toProtobuf (serializeKey L) k = Inr q0 \<and>
    sm_chunkInfo m = Some \<lparr>ci_initialTransactionID = Some q0, ci_total = int n, ci_number = int j + 1\<rparr>"
  using assms by (rule topic_chunks)

theorem topic_message_chunks_witness:
  "\<exists>b m p q q0. mSignedTransactions (snd example_made) ! 3 = \<lparr>st_bodyBytes = serializeBody example_library (b\<lparr>tb_nodeAccountID := Some p\<rparr>), st_sigMap = []\<rparr> \<and>
    AccountId_toProtobuf (serializeKey example_library) (account 4) = Inr p \<and>
    TransactionId_toProtobuf (serializeKey example_library) (chunk_id (withValidStart (account 2) 5) 1) = Inr q \<and>
    tb_transactionID b = Some q \<and> tb_data b = Some (data_consensusSubmitMessage m) \<and>
    sm_message m = byteVectorToString [108, 108] \<and>
    TransactionId_toProtobuf (serializeKey example_library) (withValidStart (account 2) 5) = Inr q0 \<and>
    sm_chunkInfo m = Some \<lparr>ci_initialTransactionID = Some q0, ci_total = 3, ci_number = 2\<rparr>"
proof -
  have run: "example_made = (Inr (), snd example_made)" using example_made_run by (metis prod.collapse)
  have k: "numbered (mAccountId (withValidStart (account 2) 5))" "mValidTransactionTime (withValidStart (account 2) 5) = 5"
    by (simp_all add: withValidStart_def)
  show ?thesis
    using topic_message_chunks [of "example_message [104, 101, 108, 108, 111] 2" "withValidStart (account 2) 5" 3
        example_library None "snd example_made" 1 1] example_made_run run k
    by (simp add: numeral_3_eq_3)
qed

text \<open>
  Of a transaction in several chunks, \<open>getAllSignatures\<close> gives as many lists as there are chunks
  after the first one: the signatures of the last chunk are missing.
\<close>

theorem last_signatures_missing:
  assumes "getAllSignatures L x = (Inr sigs, y)" and "sigs \<noteq> []"
  shows "length sigs = max 1 (length (mChunkedTransactionIds y))"
  using assms by (auto simp: getAllSignatures_def abind_eq res_simps split: if_splits dest: rmap_length)

definition example_signed :: TopicMessageSubmitTransaction where
  "example_signed = snd (signWith (example_key 7) (\<lambda>bs. Inr (replicate 32 7)) ((snd example_made)\<lparr>mIsFrozen := True\<rparr>))"

lemma example_signed_run:
  "fst (getAllSignatures example_library example_signed) =
     Inr (replicate 2 [(account 3, example_key 7, replicate 32 7), (account 4, example_key 7, replicate 32 7)])"
  by code_simp

theorem last_signatures_missing_witness:
  "\<exists>sigs y. getAllSignatures example_library example_signed = (Inr sigs, y) \<and> length sigs = 2 \<and>
     max 1 (length (mChunkedTransactionIds y)) = 2"
proof -
  obtain r y where run: "getAllSignatures example_library example_signed = (r, y)" by fastforce
  with example_signed_run have "r = Inr (replicate 2 [(account 3, example_key 7, replicate 32 7), (account 4, example_key 7, replicate 32 7)])"
    by simp
  with run last_signatures_missing [OF run [unfolded this]] show ?thesis by simp
qed

text \<open>
  Without data there are no chunks: an execution sends nothing, changes nothing but the current chunk
  and throws. With more chunks than allowed it throws before anything is sent.
\<close>

theorem empty_data_not_sent:
  assumes "mChunkSize (this s) \<noteq> 0" and "mData (this s) = []"
  shows "executeAll L E V client kind receipt timeout s = (Inr [], upd_this (\<lambda>x. x\<lparr>mCurrentChunk := 0\<rparr>) s) \<and>
    chunked_execute L E V client kind receipt timeout s = (Inl OutOfRange, upd_this (\<lambda>x. x\<lparr>mCurrentChunk := 0\<rparr>) s)"
proof -
  have "getNumberOfChunksRequired (this s) = Inr 0"
    using assms by (simp add: getNumberOfChunksRequired_def Let_def unat_eq_0 unat_gt_0 div_less)
  then have "executeAll L E V client kind receipt timeout s = (Inr [], upd_this (\<lambda>x. x\<lparr>mCurrentChunk := 0\<rparr>) s)"
    by (simp add: executeAll_def abind_def require_def act_defs)
  then show ?thesis by (simp add: chunked_execute_def abind_def act_defs vec_at_def)
qed

theorem empty_data_not_sent_witness:
  "chunked_execute example_library (\<lambda>i. example_tx_env) (chunked_virtuals example_library topic_addToBody topic_validateChecksums (topic_addToChunk example_library))
     Client_default kConsensusSubmitMessage (\<lambda>r. areturn ()) 0
     \<lparr>this = example_message [] 2, network = BaseNetwork_default 0, readings = 0, nodeResponses = [], log = []\<rparr> =
   (Inl OutOfRange, \<lparr>this = example_message [] 2, network = BaseNetwork_default 0, readings = 0, nodeResponses = [], log = []\<rparr>)"
proof -
  have "example_message [] 2\<lparr>mCurrentChunk := 0\<rparr> = example_message [] 2"
    by (simp add: example_message_def TopicMessageSubmitTransaction_default_def ChunkedTransaction_fields_def
        ChunkedTransaction.defs Transaction_fields_def Transaction.defs Executable_default_def Executable.defs)
  then show ?thesis
    using empty_data_not_sent [of "\<lparr>this = example_message [] 2, network = BaseNetwork_default 0, readings = 0, nodeResponses = [], log = []\<rparr>"]
    by (simp add: upd_this_def)
qed

text \<open>
  C31. The loop that puts a message together from the chunks that were read: it ends when there are nodes
  or no transactions, after at most one round more than there are transactions, and otherwise never.
\<close>

theorem message_loop_terminates:
  "if mNodeAccountIds x = [] \<and> mTransactions x \<noteq> []
   then \<forall>fuel. message_loop L fuel 0 x = Inl OutOfFuel
   else \<exists>r. message_loop L (length (mTransactions x) + 1) 0 x = Inr r"
  using message_loop_ends [of x 0 "length (mTransactions x)" L] message_loop_hangs [of x L _ 0]
  by (auto simp: getTransactionProtobufObject_def vec_at_def)

section \<open>Reading two transactions\<close>

abbreviation id_at :: "int \<Rightarrow> TransactionId" where "id_at t \<equiv> withValidStart (account 2) t"

lemma id_texts:
  "TransactionId_toString ssl (id_at 9) = Inr ''0.0.2@0.9''" "TransactionId_toString ssl (id_at 10) = Inr ''0.0.2@0.10''"
  "AccountId_toString ssl (account 3) = Inr ''0.0.3''" "AccountId_toString ssl DUMMY_ACCOUNT_ID = Inr ''0.0.0''"
  by code_simp+

lemma id_order: "text_less ''0.0.2@0.10'' ''0.0.2@0.9''" "\<not> text_less ''0.0.2@0.9'' ''0.0.2@0.10''"
  by code_simp+

lemma id_plain: "TransactionId_plain (id_at 9)" "TransactionId_plain (id_at 10)"
  by (auto simp: TransactionId_plain_def withValidStart_def TransactionId_default_def)

text \<open>A body of the transaction with the given ID and data, for the given node.\<close>

definition names :: "'d library \<Rightarrow> bytes \<Rightarrow> TransactionId \<Rightarrow> AccountId option \<Rightarrow> 'd \<Rightarrow> bool" where
  "names L t i a d \<longleftrightarrow>
     (\<exists>p q b. TransactionId_toProtobuf (serializeKey L) i = Inr p \<and>
       (case a of None \<Rightarrow> q = None | Some a \<Rightarrow> \<exists>r. AccountId_toProtobuf (serializeKey L) a = Inr r \<and> q = Some r) \<and>
       body_of L t = b\<lparr>tb_transactionID := Some p, tb_nodeAccountID := q, tb_transactionFee := 0,
         tb_transactionValidDuration := None, tb_data := Some d\<rparr>)"

lemma add_named:
  assumes "names L t i a d" and "TransactionId_plain i" and "pred_option numbered a"
    and "TransactionId_toString (lib_ssl L) i = Inr ti"
    and "AccountId_toString (lib_ssl L) (or_default DUMMY_ACCOUNT_ID a) = Inr ta"
  shows "add_entry L (body_of L t) t m =
    Inr (text_update ti i [] (text_update ta (or_default DUMMY_ACCOUNT_ID a) [] (\<lambda>_. t)) m)"
proof -
  from assms(1) obtain p q b where p: "TransactionId_toProtobuf (serializeKey L) i = Inr p"
    and q: "case a of None \<Rightarrow> q = None | Some a \<Rightarrow> \<exists>r. AccountId_toProtobuf (serializeKey L) a = Inr r \<and> q = Some r"
    and b: "body_of L t = b\<lparr>tb_transactionID := Some p, tb_nodeAccountID := q, tb_transactionFee := 0,
         tb_transactionValidDuration := None, tb_data := Some d\<rparr>"
    by (auto simp: names_def)
  from transaction_id_protobuf [OF assms(2), of "serializeKey L" "lib_ssl L" "parseKey L"] p
  have i: "TransactionId_fromProtobuf (lib_ssl L) (parseKey L) p = Inr i" by simp
  have "(case q of None \<Rightarrow> Inr DUMMY_ACCOUNT_ID | Some p \<Rightarrow> AccountId_fromProtobuf (lib_ssl L) (parseKey L) p) =
      Inr (or_default DUMMY_ACCOUNT_ID a)"
    using q assms(3) numbered_roundtrip [of _ "serializeKey L" "lib_ssl L" "parseKey L"]
    by (cases a) fastforce+
  with i b assms(4,5) show ?thesis by (simp add: add_entry_def)
qed

definition node_text :: "AccountId option \<Rightarrow> string" where
  "node_text a = (case a of None \<Rightarrow> ''0.0.0'' | Some a \<Rightarrow> ''0.0.3'')"

lemma node_text:
  assumes "a = None \<or> a = Some (account 3)"
  shows "AccountId_toString ssl (or_default DUMMY_ACCOUNT_ID a) = Inr (node_text a) \<and> pred_option numbered a"
  using assms id_texts(3,4) [of ssl] by (auto simp: node_text_def)

lemma read_two:
  assumes "parsesList L bs = Some [t, u]" and "names L t (id_at 9) a d" and "names L u (id_at 10) a' d'"
    and a: "a = None \<or> a = Some (account 3)" and a': "a' = None \<or> a' = Some (account 3)"
  shows "read_transactions L bs = Inr
    ([(''0.0.2@0.10'', id_at 10, [(node_text a', or_default DUMMY_ACCOUNT_ID a', u)]),
      (''0.0.2@0.9'', id_at 9, [(node_text a, or_default DUMMY_ACCOUNT_ID a, t)])], body_of L u)"
  using add_named [OF assms(2) id_plain(1) _ id_texts(1)] add_named [OF assms(3) id_plain(2) _ id_texts(2)] assms(1)
    node_text [OF a, of "lib_ssl L"] node_text [OF a', of "lib_ssl L"]
  by (simp add: read_transactions_def id_order)

lemma named_fields:
  "names L t i a d \<Longrightarrow> tb_data (body_of L t) = Some d \<and> tb_transactionFee (body_of L t) = 0 \<and> tb_transactionValidDuration (body_of L t) = None"
  by (auto simp: names_def)

lemma not_dummy: "\<not> TransactionId_eq ssl (id_at 9) DUMMY_TRANSACTION_ID" "\<not> TransactionId_eq ssl (id_at 10) DUMMY_TRANSACTION_ID"
  "\<not> AccountId_eq ssl (account 3) DUMMY_ACCOUNT_ID" "AccountId_eq ssl DUMMY_ACCOUNT_ID DUMMY_ACCOUNT_ID"
  by (simp_all add: TransactionId_eq_def DUMMY_TRANSACTION_ID_def DUMMY_ACCOUNT_ID_def withValidStart_def AccountId_of_eq)

lemma topic_fields [simp]:
  "mChunkedTransactionIds TopicMessageSubmitTransaction_default = []" "mTransactions TopicMessageSubmitTransaction_default = []"
  "mSignedTransactions TopicMessageSubmitTransaction_default = []" "mNodeAccountIds TopicMessageSubmitTransaction_default = []"
  by (simp_all add: TopicMessageSubmitTransaction_default_def ChunkedTransaction_fields_def ChunkedTransaction.defs
      Transaction_fields_def Transaction.defs Executable_default_def Executable.defs)

lemma append_fields [simp]:
  "mChunkedTransactionIds FileAppendTransaction_fields = []" "mChunkSize FileAppendTransaction_fields = 1024"
  by (simp_all add: FileAppendTransaction_fields_def ChunkedTransaction_fields_def ChunkedTransaction.defs DEFAULT_CHUNK_SIZE_def
      Transaction_fields_def Transaction.defs Executable_default_def Executable.defs)

lemma message_loop_two:
  "mNodeAccountIds x = [a] \<Longrightarrow> mTransactions x = [t, u] \<Longrightarrow>
     message_loop L 3 0 x = Inr (message_of (body_of L t) @ message_of (body_of L u))"
  by (simp add: numeral_3_eq_3 getTransactionProtobufObject_def vec_at_def)

lemma add_transactions_keep:
  fixes x :: "('d, 'z) ChunkedTransaction_scheme"
  shows "mSourceTransactionBody (fold (\<lambda>(_, a, t) x. if P a then x else addTransaction_bytes L t x) es x) = mSourceTransactionBody x \<and>
    mChunkSize (fold (\<lambda>(_, a, t) x. if P a then x else addTransaction_bytes L t x) es x) = mChunkSize x"
  by (induction es arbitrary: x) (auto simp: addTransaction_bytes_def)

lemma add_chunk_keeps:
  "mSourceTransactionBody (add_chunk L c x) = mSourceTransactionBody x \<and> mChunkSize (add_chunk L c x) = mChunkSize x"
  unfolding add_chunk_def by (simp add: add_transactions_keep)

lemma add_chunks_keep:
  "mSourceTransactionBody (fold (\<lambda>e. add_chunk L (snd e)) es x) = mSourceTransactionBody x \<and>
   mChunkSize (fold (\<lambda>e. add_chunk L (snd e)) es x) = mChunkSize x"
  by (induction es arbitrary: x) (simp_all add: add_chunk_keeps)

lemma more_chunkSize: "Transaction.more x = Transaction.more y \<Longrightarrow> mChunkSize x = mChunkSize y"
  by (cases x; cases y) simp

lemmas read_defs = ChunkedTransaction_of_map_def Transaction_of_map_def not_dummy read_nodes_def Let_def read_body_def
  add_chunk_def addTransaction_bytes_def setNodeAccountIds_def

text \<open>A library for the examples that reads two such bodies.\<close>

definition named_body :: "TransactionId \<Rightarrow> AccountId option \<Rightarrow> TransactionData \<Rightarrow> TransactionData proto_TransactionBody" where
  "named_body i a d = TransactionBody_default
     \<lparr>tb_transactionID := (case TransactionId_toProtobuf (\<lambda>k. []) i of Inr p \<Rightarrow> Some p | Inl e \<Rightarrow> None),
      tb_nodeAccountID := (case a of Some a \<Rightarrow> (case AccountId_toProtobuf (\<lambda>k. []) a of Inr p \<Rightarrow> Some p | Inl e \<Rightarrow> None) | None \<Rightarrow> None),
      tb_transactionFee := 0, tb_transactionValidDuration := None, tb_data := Some d\<rparr>"

definition two_bodies ::
  "AccountId option \<Rightarrow> TransactionData \<Rightarrow> AccountId option \<Rightarrow> TransactionData \<Rightarrow> TransactionData library" where
  "two_bodies a d a' d' = example_library\<lparr>parsesList := (\<lambda>bs. Some [[9], [10]]),
     parseBody := (\<lambda>bs. if bs = [9] then named_body (id_at 9) a d else named_body (id_at 10) a' d')\<rparr>"

lemma body_named:
  assumes "body_of L t = named_body i a d" and "serializeKey L = (\<lambda>k. [])" and "TransactionId_plain i" and "pred_option numbered a"
  shows "names L t i a d"
proof -
  obtain p where "TransactionId_toProtobuf (\<lambda>k. []) i = Inr p"
    using transaction_id_protobuf [OF assms(3), of "\<lambda>k. []" "lib_ssl L" "parseKey L"]
    by (auto simp: rbind_eq_Inr)
  moreover have "case a of None \<Rightarrow> True | Some b \<Rightarrow> \<exists>r. AccountId_toProtobuf (\<lambda>k. []) b = Inr r"
    using assms(4) numbered_roundtrip [of _ "\<lambda>k. []" "lib_ssl L" "parseKey L"] by (cases a) fastforce+
  ultimately show ?thesis
    using assms(1,2) by (cases a) (auto simp: names_def named_body_def)
qed

lemma two_bodies_named:
  assumes "pred_option numbered a" and "pred_option numbered a'"
  shows "parsesList (two_bodies a d a' d') bs = Some [[9], [10]]" and "names (two_bodies a d a' d') [9] (id_at 9) a d"
    and "names (two_bodies a d a' d') [10] (id_at 10) a' d'" and "st_sigMap (parseSigned (two_bodies a d a' d') t) = []"
proof -
  have "body_of (two_bodies a d a' d') [9] = named_body (id_at 9) a d" "body_of (two_bodies a d a' d') [10] = named_body (id_at 10) a' d'"
    "serializeKey (two_bodies a d a' d') = (\<lambda>k. [])"
    by (simp_all add: body_of_def two_bodies_def example_library_def)
  with assms show "names (two_bodies a d a' d') [9] (id_at 9) a d" and "names (two_bodies a d a' d') [10] (id_at 10) a' d'"
    by (simp_all add: body_named id_plain)
qed (simp_all add: two_bodies_def example_library_def)

abbreviation example_part :: "string \<Rightarrow> TransactionData" where
  "example_part m \<equiv> data_consensusSubmitMessage \<lparr>sm_topicID = None, sm_message = m, sm_chunkInfo = None\<rparr>"

section \<open>Properties of what is read\<close>

text \<open>
  C30. A topic message in two chunks that were made at 9 and 10 nanoseconds after a second: their
  transaction IDs are compared as texts, so that the second chunk comes first. The transaction that
  is read has the ID of the second chunk, and the parts of its message have changed places.
\<close>

theorem message_parts_swapped:
  assumes "parsesList L bs = Some [t, u]"
    and "names L t (id_at 9) (Some (account 3)) (data_consensusSubmitMessage m)"
    and "names L u (id_at 10) (Some (account 3)) (data_consensusSubmitMessage m')"
    and "st_sigMap (parseSigned L u) = []"
  shows "\<exists>transactions body x. read_transactions L bs = Inr (transactions, body) \<and>
    TopicMessageSubmitTransaction_of_map L 3 transactions = Inr x \<and> mTransactionId x = Some (id_at 10) \<and>
    mChunkedTransactionIds x = [id_at 9] \<and> mData x = stringToByteVector (sm_message m' @ sm_message m)"
  using read_two [OF assms(1-3)] named_fields [OF assms(2)] named_fields [OF assms(3)] assms(4)
  by (simp add: TopicMessageSubmitTransaction_of_map_def read_defs topic_init_def message_loop_two message_of_def setData_def
      split: option.split)

theorem message_parts_swapped_witness:
  "\<exists>x. mTransactionId x = Some (id_at 10) \<and> mData x = stringToByteVector ''world hello '' \<and>
     rbind (read_transactions (two_bodies (Some (account 3)) (example_part ''hello '') (Some (account 3)) (example_part ''world '')) [])
       (\<lambda>(m, b). TopicMessageSubmitTransaction_of_map
          (two_bodies (Some (account 3)) (example_part ''hello '') (Some (account 3)) (example_part ''world '')) 3 m) = Inr x"
proof -
  let ?L = "two_bodies (Some (account 3)) (example_part ''hello '') (Some (account 3)) (example_part ''world '')"
  have "pred_option numbered (Some (account 3))" by simp
  note L = two_bodies_named [OF this this, of "example_part ''hello ''" "example_part ''world ''"]
  from message_parts_swapped [OF L, of "[]"] obtain m b x where
    "read_transactions ?L [] = Inr (m, b)" "TopicMessageSubmitTransaction_of_map ?L 3 m = Inr x"
    "mTransactionId x = Some (id_at 10)" "mData x = stringToByteVector (''world '' @ ''hello '')" by auto
  then show ?thesis by (intro exI [of _ x]) simp
qed

text \<open>
  A topic message whose first transaction names no node, with a second one that has another ID: no
  number of rounds is enough to read it, so that \<open>fromBytes\<close> never ends on these bytes.
\<close>

theorem message_bytes_never_read:
  assumes "parsesList L bs = Some [t, u]"
    and "names L t (id_at 9) (Some (account 3)) (data_consensusSubmitMessage m)"
    and "names L u (id_at 10) None (data_consensusSubmitMessage m')"
  shows "\<exists>transactions body. read_transactions L bs = Inr (transactions, body) \<and>
    (\<forall>fuel. TopicMessageSubmitTransaction_of_map L fuel transactions = Inl OutOfFuel)"
  using read_two [OF assms(1-3)] named_fields [OF assms(3)]
  by (simp add: TopicMessageSubmitTransaction_of_map_def read_defs topic_init_def message_loop_hangs)

theorem message_bytes_never_read_witness:
  "\<exists>m b. read_transactions (two_bodies (Some (account 3)) (example_part ''hello '') None (example_part ''world'')) [1] = Inr (m, b) \<and>
     TopicMessageSubmitTransaction_of_map (two_bodies (Some (account 3)) (example_part ''hello '') None (example_part ''world'')) 1000 m = Inl OutOfFuel"
proof -
  have "pred_option numbered (Some (account 3))" "pred_option numbered None" by simp_all
  note L = two_bodies_named [OF this, of "example_part ''hello ''" "example_part ''world''"]
  from message_bytes_never_read [OF L(1-3), of "[1]"] show ?thesis by blast
qed

text \<open>
  A file append that is read back from bytes with several chunks has the contents of the first chunk
  only, with the default chunk size, whatever its further chunks are.
\<close>

theorem file_append_keeps_first_chunk:
  assumes "FileAppendTransaction_of_map L ((ti, i, (ta, a, t) # ns) # others) = Inr x"
    and "\<not> AccountId_eq (lib_ssl L) a DUMMY_ACCOUNT_ID" and "\<not> TransactionId_eq (lib_ssl L) i DUMMY_TRANSACTION_ID"
  shows "\<exists>c. tb_data (body_of L t) = Some (data_fileAppend c) \<and> mData x = stringToByteVector (fa_contents c) \<and>
    mChunkSize x = 1024"
proof -
  from assms(1) obtain y where y: "Transaction_of_map L ((ti, i, (ta, a, t) # ns) # others) FileAppendTransaction_fields = Inr y"
    and x: "append_init (setShouldGetReceipt True (fold (\<lambda>e. add_chunk L (snd e)) others y)) = Inr x"
    by (auto simp: FileAppendTransaction_of_map_def ChunkedTransaction_of_map_def res_simps split: if_splits)
  note y = Transaction_of_map_spec [OF y assms(2,3)]
  then have "mChunkSize y = 1024" using more_chunkSize [of y FileAppendTransaction_fields] by simp
  with x y show ?thesis
    using add_chunks_keep [of L others y]
    by (auto simp: append_init_def setShouldGetReceipt_def setData_def split: option.splits TransactionData.splits)
qed

theorem file_append_keeps_first_chunk_witness:
  "\<exists>m b x. read_transactions (two_bodies (Some (account 3)) (data_fileAppend \<lparr>fa_fileID = None, fa_contents = ''second''\<rparr>)
       (Some (account 3)) (data_fileAppend \<lparr>fa_fileID = None, fa_contents = ''first''\<rparr>)) [] = Inr (m, b) \<and> length m = 2 \<and>
     FileAppendTransaction_of_map (two_bodies (Some (account 3)) (data_fileAppend \<lparr>fa_fileID = None, fa_contents = ''second''\<rparr>)
       (Some (account 3)) (data_fileAppend \<lparr>fa_fileID = None, fa_contents = ''first''\<rparr>)) m = Inr x \<and>
     mData x = stringToByteVector ''first'' \<and> mChunkSize x = 1024"
proof -
  let ?d = "data_fileAppend \<lparr>fa_fileID = None, fa_contents = ''second''\<rparr>"
  let ?d' = "data_fileAppend \<lparr>fa_fileID = None, fa_contents = ''first''\<rparr>"
  let ?L = "two_bodies (Some (account 3)) ?d (Some (account 3)) ?d'"
  have "pred_option numbered (Some (account 3))" by simp
  note L = two_bodies_named [OF this this, of ?d ?d']
  note m = read_two [OF L(1-3), of "[]", simplified]
  note f = named_fields [OF L(2)] named_fields [OF L(3)]
  obtain x where x: "FileAppendTransaction_of_map ?L
      ((''0.0.2@0.10'', id_at 10, (node_text (Some (account 3)), account 3, [10]) # []) #
        [(''0.0.2@0.9'', id_at 9, [(node_text (Some (account 3)), account 3, [9])])]) = Inr x"
    using f L(4) by (simp add: FileAppendTransaction_of_map_def read_defs append_init_def setShouldGetReceipt_def)
  from file_append_keeps_first_chunk [OF x not_dummy(3,2)] f m x show ?thesis by fastforce
qed

end
