(* ===== verification/Preservation.thy ===== *)
theory Preservation
  imports Retries
begin

text \<open>
  What an execution leaves of the request itself: a view of the request that its virtual functions and
  the settings of the execution keep is kept by the whole of \<open>Executable::execute\<close>.
\<close>

definition preserves ::
  "(('k, 'q, 'r, 'z) Executable_scheme \<Rightarrow> 'v) \<Rightarrow> (('k, 'q, 'r, 'z) exec, 'a) act \<Rightarrow> bool" where
  "preserves g m \<longleftrightarrow> (\<forall>s. g (this (snd (m s))) = g (this s))"

named_theorems preserves_intros

lemma preservesD: "preserves g m \<Longrightarrow> m s = (r, s') \<Longrightarrow> g (this s') = g (this s)"
  unfolding preserves_def by (metis snd_conv)

lemma preserves_abind [preserves_intros]:
  "preserves g m \<Longrightarrow> (\<And>x. preserves g (f x)) \<Longrightarrow> preserves g (abind m f)"
  unfolding preserves_def abind_def by (auto split: prod.split sum.split) (metis snd_conv)+

lemma preserves_pure [preserves_intros]:
  "preserves g (areturn x)" "preserves g (athrow e)" "preserves g (alift r)" "preserves g (areads v)" "preserves g (now E)"
  "preserves g (\<lambda>s. (f s, s))"
  by (simp_all add: preserves_def act_defs now_def)

lemma preserves_modify [preserves_intros]:
  "(\<And>s. g (this (f s)) = g (this s)) \<Longrightarrow> preserves g (amodify f)"
  by (simp add: preserves_def act_defs)

lemma preserves_if [preserves_intros]:
  "preserves g m \<Longrightarrow> preserves g n \<Longrightarrow> preserves g (\<lambda>s. if P s then m s else n s)"
  by (simp add: preserves_def)

lemma preserves_option [preserves_intros]:
  "preserves g m \<Longrightarrow> (\<And>c. preserves g (n c)) \<Longrightarrow> preserves g (\<lambda>s. case f s of None \<Rightarrow> m s | Some c \<Rightarrow> n c s)"
  by (simp add: preserves_def split: option.split)

lemma preserves_on_this: "(\<And>x. g (snd (m x)) = g x) \<Longrightarrow> preserves g (on_this m)"
  unfolding preserves_def on_this_def by (auto split: prod.split) (metis snd_conv)

lemma preserves_proxies [preserves_intros]: "preserves g (proxies E a)"
  unfolding proxies_def by (intro preserves_intros) (simp add: preserves_def split: prod.split)

lemma preserves_pick [preserves_intros]: "preserves g (pick_proxies E i as)"
  by (induction as arbitrary: i) (simp_all add: preserves_intros)

lemma preserves_nodes [preserves_intros]: "preserves g (getNodesFromNodeAccountIds E)"
proof -
  have "g (this (snd (proxies E a s))) = g (this s)" "g (this (snd (pick_proxies E i as s))) = g (this s)" for a s i as
    using preserves_proxies [of g E a] preserves_pick [of g E i as] by (simp_all add: preserves_def)
  then show ?thesis
    unfolding preserves_def getNodesFromNodeAccountIds_def by (auto split: list.split simp del: pick_proxies.simps)
qed

lemma preserves_choose [preserves_intros]: "preserves g (chooseNodeAccountIds E client)"
  unfolding preserves_def chooseNodeAccountIds_def by (auto split: sum.split option.split prod.split)

lemma preserves_scan [preserves_intros]: "preserves g (scan_nodes E nodes is cand)"
proof (induction "is" arbitrary: cand)
  case Nil
  show ?case by (cases "fst cand") (simp_all add: preserves_intros)
next
  case (Cons i "is")
  show ?case
    unfolding scan_nodes.simps Let_def
    by (intro preserves_intros) (auto intro!: preserves_intros Cons simp: Let_def)
qed

lemma preserves_index [preserves_intros]: "preserves g (getNodeIndexForExecute E nodes a)"
  by (simp add: getNodeIndexForExecute_def preserves_intros)

section \<open>The contract of the virtual functions\<close>

locale preserving_request =
  fixes P :: "('k, 'q, 'r, 'z, 'o) operations"
    and g :: "('k, 'q, 'r, 'z) Executable_scheme \<Rightarrow> 'v"
  assumes preserves_makeRequest: "preserves g (makeRequest P i)"
    and preserves_mapResponseStatus: "preserves g (mapResponseStatus P response)"
    and preserves_determineStatus: "preserves g (determineStatus P st response)"
    and preserves_mapResponse: "preserves g (mapResponse P response)"
    and ignores_backoff: "g (x\<lparr>mCurrentRequestBackoff := d\<rparr>) = g x"
begin

lemma preserves_handle: "preserves g (handle_response P nodes r response)"
proof -
  have sleep: "g (this (sleep_retry s)) = g (this s)" for s
    by (simp add: sleep_retry_def Let_def logged_def ignores_backoff)
  have last: "preserves g (abind (mapResponse P response) (\<lambda>o'. areturn (Done o')))"
    by (intro preserves_intros preserves_mapResponse)
  show ?thesis
    unfolding handle_response_def
    apply (intro preserves_abind preserves_mapResponseStatus preserves_determineStatus preserves_modify)
      apply (simp_all add: logged_def)
    subgoal for st decision using last by (cases decision) (auto simp: preserves_def sleep)
    done
qed

lemma preserves_submit: "preserves g (submit E P nodes attempt t i r)"
proof -
  have "preserves g (if c then abind (now E) (\<lambda>t. abind (amodify (upd_ref r (increaseBackoff t))) (\<lambda>_.
         abind (amodify (logged e)) (\<lambda>_. areturn Again)))
       else abind (amodify (upd_ref r decreaseBackoff)) (\<lambda>_.
         abind (areads f) (\<lambda>response. handle_response P nodes r response)))" for c e f
    by (simp add: preserves_intros preserves_handle upd_ref_def logged_def)
  then show ?thesis
    unfolding submit_def
    by (intro preserves_abind preserves_makeRequest preserves_pure) (auto split: prod.split)
qed

lemma preserves_attempt: "preserves g (attempt_once E P nodes attempt t)"
proof -
  have slept: "preserves g (\<lambda>s. amodify (logged (f s)) s)" for f
    by (simp add: preserves_def act_defs logged_def)
  have connect: "preserves g (\<lambda>s. case channelFailedToConnect c (node (network s) r) of (failed, n) \<Rightarrow> (Inr failed, upd_ref r (\<lambda>_. n) s))" for c r
    by (simp add: preserves_def upd_ref_def split: prod.split)
  have again: "preserves g (abind (now E) (\<lambda>t. abind (amodify (upd_ref r (increaseBackoff t))) (\<lambda>_.
         abind (amodify (logged e)) (\<lambda>_. areturn Again))))" for r e
    by (intro preserves_intros) (simp_all add: upd_ref_def logged_def)
  show ?thesis
    unfolding attempt_once_def Let_def
    by (intro preserves_abind preserves_index preserves_pure connect)
      (auto intro!: preserves_abind preserves_pure slept again preserves_submit)
qed

lemma loop_preserves: "g (this (snd (attempt_loop E P nodes timeoutTime n k s))) = g (this s)"
proof (induction "n - k" arbitrary: k s)
  case 0
  then show ?case by (simp add: attempt_loop.simps [of E P nodes timeoutTime n k s] now_def)
next
  case (Suc d)
  have now: "snd (now E s) = s\<lparr>readings := Suc (readings s)\<rparr>" by (simp add: now_def)
  define t where "t = min (clock E (readings s) + mCurrentGrpcDeadline (this s)) timeoutTime"
  obtain r s2 where once: "attempt_once E P nodes k t (s\<lparr>readings := Suc (readings s)\<rparr>) = (r, s2)" by fastforce
  with preservesD [OF preserves_attempt this] have g: "g (this s2) = g (this s)" by simp
  have "d = n - Suc k" using Suc.hyps(2) by simp
  from Suc.hyps(1) [OF this] g Suc.hyps(2) show ?case
    by (simp add: attempt_loop.simps [of E P nodes timeoutTime n k s] now_def once [unfolded t_def] split: sum.split verdict.split)
qed

lemma preserves_rest:
  "preserves g (abind (getNodesFromNodeAccountIds E) (\<lambda>nodes. abind (now E) (\<lambda>t.
     abind (amodify (\<lambda>s. s\<lparr>nodeResponses := []\<rparr>)) (\<lambda>_ s.
       attempt_loop E P nodes (t + timeout) (unat (mCurrentMaxAttempts (this s))) 0 s))))"
  by (intro preserves_abind preserves_nodes preserves_pure preserves_modify)
    (simp_all add: preserves_def loop_preserves)

text \<open>An execution keeps the view from the end of \<open>onExecute\<close> on.\<close>

lemma execute_keeps:
  assumes "execute E client P timeout s = (r, s')"
    and "onExecute P (s\<lparr>this := setExecutionParameters client (this s)\<rparr>) = (r1, s1)"
  shows "g (this s') = g (this s1)"
proof (cases r1)
  case (Inl e)
  with assms show ?thesis by (simp add: execute_def abind_def act_defs)
next
  case (Inr u)
  with assms have "abind (getNodesFromNodeAccountIds E) (\<lambda>nodes. abind (now E) (\<lambda>t.
     abind (amodify (\<lambda>s. s\<lparr>nodeResponses := []\<rparr>)) (\<lambda>_ s.
       attempt_loop E P nodes (t + timeout) (unat (mCurrentMaxAttempts (this s))) 0 s))) s1 = (r, s')"
    by (simp add: execute_def abind_def [of "amodify f" for f] abind_def [of "onExecute P"] act_defs)
  then show ?thesis by (rule preservesD [OF preserves_rest])
qed

end

end
