(* ===== verification/Queries.thy ===== *)
theory Queries
  imports Requests Preservation
begin

text \<open>
  \<open>Query.cc\<close>: requests for information, most of which are paid for. A query asks for its cost with a
  request of its own first, and then sends itself together with a transfer of that cost from the
  client's operator to the node that answers. The request for the cost is an execution of the same
  object; it has an environment of its own.
\<close>

section \<open>The state and the virtual functions\<close>

datatype ResponseType = ANSWER_ONLY | COST_ANSWER

record proto_QueryHeader =
  qh_payment :: "bytes option"
  qh_responseType :: ResponseType

record proto_ResponseHeader =
  rh_nodeTransactionPrecheckCode :: Status
  rh_cost :: u64

definition DEFAULT_MAX_QUERY_PAYMENT :: Hbar where "DEFAULT_MAX_QUERY_PAYMENT = \<lparr>mValueInTinybar = 100000000\<rparr>"

record ('q, 'r) Query = "(AccountId, 'q, 'r) Executable" +
  mPayment :: "Hbar option"
  mMaxPayment :: "Hbar option"
  mPaymentTransactionId :: "TransactionId option"
  mGetCost :: bool
  mCost :: Hbar
  mClient :: "Client option"

type_synonym ('q, 'r, 'z) q_exec = "(AccountId, 'q, 'r, 'z Query_ext) exec"

record ('q, 'r, 'z, 'o) query_virtuals =
  buildRequest :: "('q, 'r, 'z) Query_scheme \<Rightarrow> proto_QueryHeader \<Rightarrow> 'q res"
  mapResponseHeader :: "'r \<Rightarrow> proto_ResponseHeader"
  isPaymentRequired :: bool
  query_validateChecksums :: "client_ledger \<Rightarrow> ('q, 'r, 'z) Query_scheme \<Rightarrow> unit res"
  query_determineStatus :: "('q, 'r, 'z) Query_scheme \<Rightarrow> Status \<Rightarrow> 'r \<Rightarrow> ExecutionStatus"
  query_mapResponse :: "('q, 'r, 'z) Query_scheme \<Rightarrow> 'r \<Rightarrow> 'o res"
  queryCase :: QueryCase

definition Query_fields :: "('q, 'r) Query" where
  "Query_fields = Executable.extend Executable_default
     \<lparr>mPayment = None, mMaxPayment = None, mPaymentTransactionId = None, mGetCost = False,
      mCost = \<lparr>mValueInTinybar = 0\<rparr>, mClient = None\<rparr>"

definition setQueryPayment :: "Hbar \<Rightarrow> ('q, 'r, 'z) Query_scheme \<Rightarrow> ('q, 'r, 'z) Query_scheme" where
  "setQueryPayment amount x = x\<lparr>mPayment := Some amount\<rparr>"

definition setMaxQueryPayment :: "Hbar \<Rightarrow> ('q, 'r, 'z) Query_scheme \<Rightarrow> ('q, 'r, 'z) Query_scheme" where
  "setMaxQueryPayment maxAmount x = x\<lparr>mMaxPayment := Some maxAmount\<rparr>"

definition setPaymentTransactionId :: "TransactionId \<Rightarrow> ('q, 'r, 'z) Query_scheme \<Rightarrow> ('q, 'r, 'z) Query_scheme" where
  "setPaymentTransactionId transactionId x = x\<lparr>mPaymentTransactionId := Some transactionId\<rparr>"

definition saveCostFromHeader :: "proto_ResponseHeader \<Rightarrow> (('q, 'r, 'z) Query_scheme, unit) act" where
  "saveCostFromHeader header x =
     (if mGetCost x then
        (case Hbar_of (sint (rh_cost header)) TINYBAR of Inl e \<Rightarrow> (Inl e, x) | Inr c \<Rightarrow> (Inr (), x\<lparr>mCost := c\<rparr>))
      else (Inr (), x))"

section \<open>The payment\<close>

text \<open>A transfer transaction is a local object of \<open>makeRequest\<close>; it reads the same clock.\<close>

definition payment_env :: "('q, 'r) env \<Rightarrow> (bytes, Status) env" where
  "payment_env E =
     \<lparr>clock = clock E, connects = connects E, answers = (\<lambda>a m q t. (GRPC_OK, OK)), randoms = randoms E,
      choice_rounds = choice_rounds E, choice_clock = choice_clock E, choice_randoms = choice_randoms E\<rparr>"

definition payment_transfer ::
  "TransactionData library \<Rightarrow> ('q, 'r) env \<Rightarrow> Client \<Rightarrow> TransactionId \<Rightarrow> AccountId \<Rightarrow> AccountId \<Rightarrow> Hbar \<Rightarrow>
     ((TransactionData, unit TransferTransaction_ext) tx_exec, bytes) act" where
  "payment_transfer L E client i operator accountId cost =
     abind (on_this (setTransactionId i)) (\<lambda>_.
     abind (on_this (tx_setNodeAccountIds [accountId])) (\<lambda>_.
     abind (alift (negated cost)) (\<lambda>minus.
     abind (on_this (addHbarTransfer (lib_ssl L) operator minus)) (\<lambda>_.
     abind (on_this (addHbarTransfer (lib_ssl L) accountId cost)) (\<lambda>_.
     abind (freezeWith (payment_env E) (transfer_virtuals L) None) (\<lambda>_.
     abind (signWithOperator L (payment_env E) (transfer_virtuals L) client) (\<lambda>_.
       on_this (tx_makeRequest L 0))))))))"

definition query_payment ::
  "TransactionData library \<Rightarrow> ('q, 'r) env \<Rightarrow> Client \<Rightarrow> AccountId \<Rightarrow> (('q, 'r, 'z) q_exec, bytes) act" where
  "query_payment L E client accountId =
     (case mOperatorAccountId client of
        None \<Rightarrow> athrow BadOptionalAccess
      | Some operator \<Rightarrow>
          abind (\<lambda>s. case mPaymentTransactionId (this s) of
                   Some i \<Rightarrow> areturn i s
                 | None \<Rightarrow> abind (now E) (\<lambda>t. areturn (generate t operator)) s) (\<lambda>i s.
            (fst (payment_transfer L E client i operator accountId (mCost (this s))
                   \<lparr>this = TransferTransaction_default, network = network s, readings = readings s, nodeResponses = [], log = []\<rparr>),
             s)))"

definition query_makeRequest ::
  "TransactionData library \<Rightarrow> ('q, 'r) env \<Rightarrow> ('q, 'r, 'z, 'o) query_virtuals \<Rightarrow> nat \<Rightarrow> (('q, 'r, 'z) q_exec, 'q) act" where
  "query_makeRequest L E V index =
     abind (\<lambda>s. if isPaymentRequired V \<and> \<not> mGetCost (this s) then
                abind (\<lambda>s. (vec_at (mNodeAccountIds (this s)) index, s)) (\<lambda>accountId s.
                  case mClient (this s) of None \<Rightarrow> athrow UndefinedBehavior s
                  | Some client \<Rightarrow> abind (query_payment L E client accountId) (\<lambda>p. areturn (Some p)) s) s
              else areturn None s) (\<lambda>payment s.
       (buildRequest V (this s) \<lparr>qh_payment = payment, qh_responseType = (if mGetCost (this s) then COST_ANSWER else ANSWER_ONLY)\<rparr>, s))"

section \<open>Execution\<close>

definition query_limit :: "Client \<Rightarrow> ('q, 'r, 'z) Query_scheme \<Rightarrow> Hbar" where
  "query_limit client x = value_or (mMaxPayment x) (mMaxQueryPayment client) DEFAULT_MAX_QUERY_PAYMENT"

text \<open>The nodes and the checksums; \<open>askCost\<close> stands for the nested execution that asks for the cost.\<close>

definition query_prepare ::
  "('q, 'r) env \<Rightarrow> Client \<Rightarrow> ('q, 'r, 'z, 'o) query_virtuals \<Rightarrow> (('q, 'r, 'z) q_exec, unit) act" where
  "query_prepare E client V =
     abind (\<lambda>s. if mNodeAccountIds (this s) \<noteq> [] then areturn () s
              else abind (chooseNodeAccountIds E client) (\<lambda>as. amodify (upd_this (setNodeAccountIds as))) s) (\<lambda>_ s.
       if mAutoValidateChecksums client then (query_validateChecksums V (ledger_of client) (this s), s)
       else areturn () s)"

definition query_onExecute ::
  "('q, 'r) env \<Rightarrow> Client \<Rightarrow> ('q, 'r, 'z, 'o) query_virtuals \<Rightarrow> (('q, 'r, 'z) q_exec, Hbar) act \<Rightarrow>
     (('q, 'r, 'z) q_exec, unit) act" where
  "query_onExecute E client V askCost =
     abind (query_prepare E client V) (\<lambda>_ s.
       if \<not> isPaymentRequired V \<or> mGetCost (this s) then areturn () s
       else
         abind (amodify (upd_this (\<lambda>x. x\<lparr>mClient := Some client\<rparr>))) (\<lambda>_.
         abind askCost (\<lambda>cost.
         abind (amodify (upd_this (\<lambda>x. x\<lparr>mCost := cost\<rparr>))) (\<lambda>_ s.
           (require (toTinybars (mCost (this s)) \<le> toTinybars (query_limit client (this s))) MaxQueryPaymentExceeded, s)))) s)"

definition query_operations ::
  "TransactionData library \<Rightarrow> ('q, 'r) env \<Rightarrow> Client \<Rightarrow> ('q, 'r, 'z, 'o) query_virtuals \<Rightarrow> (('q, 'r, 'z) q_exec, Hbar) act \<Rightarrow>
     (AccountId, 'q, 'r, 'z Query_ext, 'o) operations" where
  "query_operations L E client V askCost =
     \<lparr>onExecute = query_onExecute E client V askCost, makeRequest = query_makeRequest L E V,
      grpc_method = query_method (queryCase V),
      mapResponseStatus = (\<lambda>response. abind (on_this (saveCostFromHeader (mapResponseHeader V response)))
         (\<lambda>_. areturn (rh_nodeTransactionPrecheckCode (mapResponseHeader V response)))),
      determineStatus = (\<lambda>status response s. (Inr (query_determineStatus V (this s) status response), s)),
      mapResponse = (\<lambda>response s. (query_mapResponse V (this s) response, s))\<rparr>"

text \<open>The nested execution has \<open>mGetCost\<close> set and asks for no further cost; an exception leaves it set.\<close>

definition getCost ::
  "TransactionData library \<Rightarrow> ('q, 'r) env \<Rightarrow> Client \<Rightarrow> ('q, 'r, 'z, 'o) query_virtuals \<Rightarrow> duration \<Rightarrow>
     (('q, 'r, 'z) q_exec, Hbar) act" where
  "getCost L E client V timeout =
     abind (amodify (upd_this (\<lambda>x. x\<lparr>mGetCost := True\<rparr>))) (\<lambda>_.
     abind (execute E client (query_operations L E client V (athrow OutOfFuel)) timeout) (\<lambda>_.
     abind (amodify (upd_this (\<lambda>x. x\<lparr>mGetCost := False\<rparr>))) (\<lambda>_.
       areads (\<lambda>s. mCost (this s)))))"

text \<open>\<open>E\<close> answers the query and \<open>F\<close> the request for its cost.\<close>

definition query_execute ::
  "TransactionData library \<Rightarrow> ('q, 'r) env \<Rightarrow> ('q, 'r) env \<Rightarrow> Client \<Rightarrow> ('q, 'r, 'z, 'o) query_virtuals \<Rightarrow> duration \<Rightarrow>
     (('q, 'r, 'z) q_exec, 'o) act" where
  "query_execute L E F client V timeout =
     execute E client (query_operations L E client V (getCost L F client V (mRequestTimeout client))) timeout"

section \<open>Queries follow the retry protocol\<close>

lemma quiet_on_query:
  assumes "\<And>x. mCurrentRequestBackoff (snd (m x)) = mCurrentRequestBackoff x \<and> mCurrentMaxBackoff (snd (m x)) = mCurrentMaxBackoff x"
  shows "quiet (on_this m)"
  using assms unfolding quiet_def on_this_def by (auto split: prod.split) (metis snd_conv)+

lemma quiet_saveCost: "quiet (on_this (saveCostFromHeader h))"
  by (rule quiet_on_query) (simp add: saveCostFromHeader_def split: sum.split)

lemma quiet_payment: "quiet (query_payment L E client a)"
  unfolding query_payment_def
  by (cases "mOperatorAccountId client")
    (auto simp: quiet_def abind_def act_defs now_def split: option.split)

lemma quiet_if: "quiet m \<Longrightarrow> quiet n \<Longrightarrow> quiet (\<lambda>s. if P s then m s else n s)"
  by (simp add: quiet_def)

lemma quiet_option: "quiet m \<Longrightarrow> (\<And>c. quiet (n c)) \<Longrightarrow> quiet (\<lambda>s. case f s of None \<Rightarrow> m s | Some c \<Rightarrow> n c s)"
  by (simp add: quiet_def split: option.split)

lemma quiet_reader: "quiet (\<lambda>s. (f s, s))"
  by (simp add: quiet_def)

lemma quiet_query_makeRequest: "quiet (query_makeRequest L E V i)"
  unfolding query_makeRequest_def
  by (intro quiet_abind quiet_if quiet_option quiet_reader quiet_pure quiet_payment)

interpretation query_request: quiet_request "query_operations L E client V askCost" "\<lambda>f. True"
  for L E client V askCost
  by unfold_locales
    (simp_all add: query_operations_def quiet_query_makeRequest quiet_intros quiet_saveCost throws_def,
      simp_all add: quiet_def)

section \<open>What the answers leave of a query\<close>

text \<open>An answer changes nothing but the cost, and that only when it was asked for.\<close>

definition query_view ::
  "('q, 'r, 'z) Query_scheme \<Rightarrow> bool \<times> Hbar option \<times> Client option \<times> Hbar option \<times> TransactionId option \<times> AccountId list" where
  "query_view x = (mGetCost x, (if mGetCost x then None else Some (mCost x)), mClient x, mMaxPayment x,
     mPaymentTransactionId x, mNodeAccountIds x)"

lemma view_saveCost: "query_view (snd (saveCostFromHeader h x)) = query_view x"
  by (simp add: saveCostFromHeader_def query_view_def split: sum.split)

lemma view_backoff: "query_view (x\<lparr>mCurrentRequestBackoff := d\<rparr>) = query_view x"
  by (simp add: query_view_def)

lemma preserves_payment: "preserves g (query_payment L E client a)"
  unfolding query_payment_def
  by (cases "mOperatorAccountId client") (auto intro!: preserves_intros simp: preserves_def act_defs abind_def now_def split: option.split)

lemma preserves_query_makeRequest: "preserves g (query_makeRequest L E V i)"
  unfolding query_makeRequest_def by (intro preserves_intros preserves_payment)

interpretation query_kept: preserving_request "query_operations L E client V askCost" query_view
  for L E client V askCost
  by unfold_locales
    (auto simp: query_operations_def preserves_query_makeRequest preserves_pure view_saveCost view_backoff
      intro!: preserves_intros preserves_on_this)

lemma preserves_prepare:
  assumes "\<And>x as. g (x\<lparr>mNodeAccountIds := as\<rparr>) = g x"
  shows "preserves g (query_prepare E client V)"
  unfolding query_prepare_def
  by (intro preserves_intros) (simp add: upd_this_def setNodeAccountIds_def assms)

text \<open>A request for the cost asks for no further cost, and an exception leaves the query one for the cost.\<close>

lemma cost_onExecute:
  assumes "mGetCost (this s)" and "query_onExecute E client V askCost s = (r, s')"
  shows "mGetCost (this s') \<and> query_prepare E client V s = (r, s')"
proof -
  obtain r1 s1 where run: "query_prepare E client V s = (r1, s1)" by fastforce
  have "preserves mGetCost (query_prepare E client V)" by (rule preserves_prepare) simp
  from preservesD [OF this run] assms(1) have "mGetCost (this s1)" by simp
  with assms(2) run show ?thesis
    by (cases r1) (simp_all add: query_onExecute_def abind_def act_defs)
qed

lemma cost_request_keeps:
  assumes "mGetCost (this s)" and run: "execute E client (query_operations L E client V askCost) timeout s = (r, s')"
  shows "mGetCost (this s') \<and> mMaxPayment (this s') = mMaxPayment (this s)"
proof -
  let ?s = "s\<lparr>this := setExecutionParameters client (this s)\<rparr>"
  obtain r1 s1 where on: "query_onExecute E client V askCost ?s = (r1, s1)" by fastforce
  have "mGetCost (this ?s)" using assms(1) by (simp add: setExecutionParameters_def Let_def)
  from cost_onExecute [OF this on] have cost: "mGetCost (this s1)" and prep: "query_prepare E client V ?s = (r1, s1)" by blast+
  have "preserves mMaxPayment (query_prepare E client V)" by (rule preserves_prepare) simp
  from preservesD [OF this prep] have "mMaxPayment (this s1) = mMaxPayment (this s)" by (simp add: setExecutionParameters_def Let_def)
  moreover from on have "onExecute (query_operations L E client V askCost) ?s = (r1, s1)" by (simp add: query_operations_def)
  ultimately show ?thesis using query_kept.execute_keeps [OF run] cost by (simp add: query_view_def)
qed

lemma getCost_spec:
  assumes "getCost L E client V timeout s = (r, s')"
  shows "mGetCost (this s') \<longleftrightarrow> (\<exists>e. r = Inl e)" and "r = Inr c \<Longrightarrow> mCost (this s') = c"
    and "mMaxPayment (this s') = mMaxPayment (this s)"
proof -
  obtain r1 s1 where run: "execute E client (query_operations L E client V (athrow OutOfFuel)) timeout
      (upd_this (\<lambda>x. x\<lparr>mGetCost := True\<rparr>) s) = (r1, s1)" by fastforce
  from cost_request_keeps [OF _ run] have "mGetCost (this s1) \<and> mMaxPayment (this s1) = mMaxPayment (this s)" by (simp add: upd_this_def)
  with assms run show "mGetCost (this s') \<longleftrightarrow> (\<exists>e. r = Inl e)" and "r = Inr c \<Longrightarrow> mCost (this s') = c"
    and "mMaxPayment (this s') = mMaxPayment (this s)"
    by (cases r1; auto simp: getCost_def abind_def act_defs upd_this_def)+
qed

text \<open>A query whose \<open>onExecute\<close> returns has its cost, which is within the limit.\<close>

lemma onExecute_paid:
  assumes "query_onExecute E client V (getCost L F client V timeout) s = (Inr (), s')"
    and "isPaymentRequired V" and "\<not> mGetCost (this s)"
  shows "\<not> mGetCost (this s') \<and> toTinybars (mCost (this s')) \<le> toTinybars (query_limit client (this s))"
proof -
  obtain s1 where run: "query_prepare E client V s = (Inr (), s1)"
    using assms(1) by (auto simp: query_onExecute_def abind_eq)
  have "preserves (\<lambda>x. (mGetCost x, mMaxPayment x)) (query_prepare E client V)" by (rule preserves_prepare) simp
  from preservesD [OF this run] assms(3) have s1: "\<not> mGetCost (this s1)" "mMaxPayment (this s1) = mMaxPayment (this s)" by simp_all
  with assms(1,2) run obtain c s2 where c: "getCost L F client V timeout (upd_this (\<lambda>x. x\<lparr>mClient := Some client\<rparr>) s1) = (Inr c, s2)"
    and s': "s' = upd_this (\<lambda>x. x\<lparr>mCost := c\<rparr>) s2"
    and limit: "toTinybars (mCost (this s')) \<le> toTinybars (query_limit client (this s'))"
    by (auto simp: query_onExecute_def abind_eq act_defs require_eq_Inr)
  from getCost_spec(1) [OF c] getCost_spec(3) [OF c] s1 have "\<not> mGetCost (this s2)" "mMaxPayment (this s2) = mMaxPayment (this s)"
    by (simp_all add: upd_this_def)
  with s' limit show ?thesis by (simp add: upd_this_def query_limit_def)
qed

lemma query_execute_paid:
  assumes run: "query_execute L E F client V timeout s = (Inr out, s')" and "isPaymentRequired V" and "\<not> mGetCost (this s)"
  shows "\<not> mGetCost (this s') \<and> toTinybars (mCost (this s')) \<le> toTinybars (query_limit client (this s))"
proof -
  let ?P = "query_operations L E client V (getCost L F client V (mRequestTimeout client))"
  let ?s = "s\<lparr>this := setExecutionParameters client (this s)\<rparr>"
  obtain r1 s1 where on: "onExecute ?P ?s = (r1, s1)" by fastforce
  with run have r1: "r1 = Inr ()" by (cases r1) (simp_all add: query_execute_def execute_def abind_def act_defs)
  have "query_limit client (this ?s) = query_limit client (this s)" "mGetCost (this ?s) = mGetCost (this s)"
    by (simp_all add: setExecutionParameters_def Let_def query_limit_def)
  with onExecute_paid [of E client V L F "mRequestTimeout client" ?s s1] on r1 assms(2,3)
  have "\<not> mGetCost (this s1) \<and> toTinybars (mCost (this s1)) \<le> toTinybars (query_limit client (this s))"
    by (simp add: query_operations_def)
  with query_kept.execute_keeps [OF run [unfolded query_execute_def] on] show ?thesis
    by (simp add: query_view_def split: if_splits)
qed

text \<open>A query that asks for its cost makes requests without a payment.\<close>

lemma cost_request_unpaid:
  "mGetCost (this s) \<Longrightarrow> query_makeRequest L E V i s =
     (buildRequest V (this s) \<lparr>qh_payment = None, qh_responseType = COST_ANSWER\<rparr>, s)"
  by (simp add: query_makeRequest_def abind_def act_defs)

section \<open>What a payment is\<close>

lemma regenerate_one_node:
  assumes "base_regenerate L (transfer_addToBody L) client x = (Inr (), y)"
    and "mTransactionId x = Some i" and "mNodeAccountIds x = [a]"
  shows "\<exists>p q b c. TransactionId_toProtobuf (serializeKey L) i = Inr q \<and> AccountId_toProtobuf (serializeKey L) a = Inr p \<and>
    tb_transactionID b = Some q \<and> tb_data b = Some (data_cryptoTransfer c) \<and> transfer_build L x = Inr c \<and>
    y = x\<lparr>mSourceTransactionBody := b, mTransactions := [[]],
      mSignedTransactions := [\<lparr>st_bodyBytes = serializeBody L (b\<lparr>tb_nodeAccountID := Some p\<rparr>), st_sigMap = []\<rparr>]\<rparr>"
proof -
  have same: "transfer_build L (x\<lparr>mSourceTransactionBody := b\<rparr>) = transfer_build L x" for b
    by (simp add: transfer_build_def)
  from assms(1) obtain z where z: "updateSourceTransactionBody L (transfer_addToBody L) client x = (Inr (), z)"
    and y: "add_signed_for L (mSourceTransactionBody z) (mNodeAccountIds z) (base_clearTransactions z) = (Inr (), y)"
    by (auto simp: base_regenerate_def abind_eq act_defs addSignedTransactionForEachNode_def base_clearTransactions_def)
  from z assms(2) obtain q where q: "TransactionId_toProtobuf (serializeKey L) i = Inr q"
    by (auto simp: updateSourceTransactionBody_def abind_eq act_defs)
  from z assms(2) q obtain b c where b: "z = x\<lparr>mSourceTransactionBody := b\<rparr>" "tb_transactionID b = Some q"
    "tb_data b = Some (data_cryptoTransfer c)" "transfer_build L x = Inr c"
    by (auto simp: updateSourceTransactionBody_def abind_eq act_defs transfer_addToBody_def same res_simps)
  from y assms(3) b obtain p where "AccountId_toProtobuf (serializeKey L) a = Inr p"
    "y = x\<lparr>mSourceTransactionBody := b, mTransactions := [[]],
      mSignedTransactions := [\<lparr>st_bodyBytes = serializeBody L (b\<lparr>tb_nodeAccountID := Some p\<rparr>), st_sigMap = []\<rparr>]\<rparr>"
    by (auto simp: abind_eq act_defs signed_for_def res_simps addTransaction_signed_def base_clearTransactions_def)
  with q b show ?thesis by blast
qed

lemma two_hbar_transfers:
  assumes "numbered a" and "numbered b" and "a \<noteq> b"
  shows "rbind (doHbarTransfer ssl a g False []) (doHbarTransfer ssl b h False) =
    Inr [\<lparr>hbarAccountId = a, hbarAmount = g, mIsApproved = False\<rparr>, \<lparr>hbarAccountId = b, hbarAmount = h, mIsApproved = False\<rparr>]"
  using assms numbered_eq [of a b ssl] by simp

text \<open>The request of an unbuilt transaction for one node.\<close>

lemma makeRequest_one:
  assumes "tx_makeRequest L 0 x = (Inr request, y)" and "mTransactions x = [[]]" and "mSignedTransactions x = [t]"
  shows "\<exists>sigs. pairs_of (st_bodyBytes t) (mSignatories x) = Inr sigs \<and>
    request = serializeSigned L (t\<lparr>st_sigMap := st_sigMap t @ sigs\<rparr>)"
proof -
  let ?x = "x\<lparr>mTransactionIndex := 0\<rparr>"
  obtain r z where z: "sign_all 0 (mSignatories x) ?x = (r, z)" by fastforce
  with assms have "r = Inr ()" "vec_at ((mTransactions z)[0 := serializeSigned L (mSignedTransactions z ! 0)]) 0 = Inr request"
    by (auto simp: tx_makeRequest_def act_simps abind_eq buildTransaction_eq getTransactionProtobufObject_def split: sum.splits)
  with z sign_all_pairs [of 0 ?x "mSignatories x" z] assms(2,3) show ?thesis
    by (auto simp: vec_at_def)
qed

lemma on_setters:
  "\<not> mIsFrozen (this s) \<Longrightarrow> on_this (setTransactionId i) s = (Inr (), s\<lparr>this := (this s)\<lparr>mTransactionId := Some i\<rparr>\<rparr>)"
  "\<not> mIsFrozen (this s) \<Longrightarrow> on_this (tx_setNodeAccountIds as) s = (Inr (), s\<lparr>this := (this s)\<lparr>mNodeAccountIds := as\<rparr>\<rparr>)"
  "\<not> mIsFrozen (this s) \<Longrightarrow> on_this (addHbarTransfer ssl a h) s =
     (case doHbarTransfer ssl a h False (mHbarTransfers (this s)) of Inl e \<Rightarrow> (Inl e, s)
      | Inr ts \<Rightarrow> (Inr (), s\<lparr>this := (this s)\<lparr>mHbarTransfers := ts\<rparr>\<rparr>))"
  by (simp_all add: on_this_def setTransactionId_def tx_setNodeAccountIds_def addHbarTransfer_def hbar_transfer_def
      requireNotFrozen_def isFrozen_def setNodeAccountIds_def abind_def act_defs split: sum.split)

lemma payment_spec:
  assumes run: "payment_transfer L E client i operator accountId cost s = (Inr request, s')"
    and s: "this s = TransferTransaction_default"
    and accounts: "numbered operator" "numbered accountId" "operator \<noteq> accountId"
  shows "\<exists>t b p q r. request = serializeSigned L t \<and> st_bodyBytes t = serializeBody L (b\<lparr>tb_nodeAccountID := Some p\<rparr>) \<and>
    AccountId_toProtobuf (serializeKey L) accountId = Inr p \<and> AccountId_toProtobuf (serializeKey L) operator = Inr r \<and>
    TransactionId_toProtobuf (serializeKey L) i = Inr q \<and> tb_transactionID b = Some q \<and>
    tb_data b = Some (data_cryptoTransfer
      \<lparr>ct_accountAmounts = [\<lparr>aa_accountID = Some r, aa_amount = - toTinybars cost, aa_is_approval = False\<rparr>,
         \<lparr>aa_accountID = Some p, aa_amount = toTinybars cost, aa_is_approval = False\<rparr>], ct_tokenTransfers = []\<rparr>)"
proof -
  let ?m = "\<lambda>minus. [\<lparr>hbarAccountId = operator, hbarAmount = minus, mIsApproved = False\<rparr>,
    \<lparr>hbarAccountId = accountId, hbarAmount = cost, mIsApproved = False\<rparr>]"
  let ?x = "\<lambda>minus. TransferTransaction_default\<lparr>mTransactionId := Some i, mNodeAccountIds := [accountId], mHbarTransfers := ?m minus\<rparr>"
  have default: "\<not> mIsFrozen TransferTransaction_default" "mHbarTransfers TransferTransaction_default = []"
    "mTokenTransfers TransferTransaction_default = []" "mNftTransfers TransferTransaction_default = []"
    "mSignatories TransferTransaction_default = []"
    by (simp_all add: fresh_simps)
  have ne: "\<not> AccountId_eq (lib_ssl L) operator accountId" using accounts numbered_eq [of operator accountId] by simp
  obtain minus where minus: "negated cost = Inr minus"
    using run by (auto simp: payment_transfer_def abind_eq act_defs)
  have "payment_transfer L E client i operator accountId cost s =
      abind (freezeWith (payment_env E) (transfer_virtuals L) None) (\<lambda>_.
      abind (signWithOperator L (payment_env E) (transfer_virtuals L) client) (\<lambda>_. on_this (tx_makeRequest L 0)))
        (s\<lparr>this := ?x minus\<rparr>)"
    by (simp add: payment_transfer_def abind_def [of "on_this m" for m] abind_def [of "alift m" for m] on_setters minus alift_def s default ne)
  with run obtain s1 s2 where s1: "freezeWith (payment_env E) (transfer_virtuals L) None (s\<lparr>this := ?x minus\<rparr>) = (Inr (), s1)"
    and s2: "signWithOperator L (payment_env E) (transfer_virtuals L) client s1 = (Inr (), s2)"
    and request: "on_this (tx_makeRequest L 0) s2 = (Inr request, s')"
    by (auto simp: abind_eq)
  from s1 obtain y where y: "base_regenerate L (transfer_addToBody L) None (?x minus) = (Inr (), y)"
    and s1': "s1 = s\<lparr>this := y\<lparr>mIsFrozen := True\<rparr>\<rparr>"
    by (auto simp: freezeWith_def isFrozen_def default ensure_id_def ensure_nodes_def abind_eq act_defs on_this_def
        plain_virtuals_def upd_this_def split: prod.splits)
  from regenerate_one_node [OF y, of i accountId] obtain p q b c where b:
    "TransactionId_toProtobuf (serializeKey L) i = Inr q" "AccountId_toProtobuf (serializeKey L) accountId = Inr p"
    "tb_transactionID b = Some q" "tb_data b = Some (data_cryptoTransfer c)" "transfer_build L (?x minus) = Inr c"
    and y': "y = (?x minus)\<lparr>mSourceTransactionBody := b, mTransactions := [[]],
      mSignedTransactions := [\<lparr>st_bodyBytes = serializeBody L (b\<lparr>tb_nodeAccountID := Some p\<rparr>), st_sigMap = []\<rparr>]\<rparr>"
    by auto
  let ?t = "\<lparr>st_bodyBytes = serializeBody L (b\<lparr>tb_nodeAccountID := Some p\<rparr>), st_sigMap = []\<rparr>"
  from s2 have z: "mTransactions (this s2) = [[]] \<and> mSignedTransactions (this s2) = [?t]"
    by (auto simp: signWithOperator_def abind_eq act_defs s1' freezeWith_def isFrozen_def y' signInternal_def add_signatory_def
        on_this_def split: if_splits option.splits prod.splits)
  from request obtain y2 where "tx_makeRequest L 0 (this s2) = (Inr request, y2)"
    by (auto simp: on_this_def split: prod.splits)
  from makeRequest_one [OF this] z obtain sigs where "request = serializeSigned L (?t\<lparr>st_sigMap := sigs\<rparr>)" by auto
  moreover from b(5) obtain r where "AccountId_toProtobuf (serializeKey L) operator = Inr r"
    "c = \<lparr>ct_accountAmounts = [\<lparr>aa_accountID = Some r, aa_amount = - toTinybars cost, aa_is_approval = False\<rparr>,
         \<lparr>aa_accountID = Some p, aa_amount = toTinybars cost, aa_is_approval = False\<rparr>], ct_tokenTransfers = []\<rparr>"
    using b(2) minus by (auto simp: transfer_build_def HbarTransfer_toProtobuf_def res_simps default build_tokens_def build_nfts_def
        negated_def Hbar_of_tinybar toTinybars_def)
  ultimately show ?thesis
    using b(1-4) by (intro exI [of _ "?t\<lparr>st_sigMap := sigs\<rparr>"] exI [of _ b]) auto
qed

end
