(* ===== verification/QueryMessages.thy ===== *)
theory QueryMessages
  imports Queries
begin

text \<open>
  The messages that the queries send and read, as far as the modelled kinds of queries use them. A
  response of another kind than that of the query is read as an empty message.
\<close>

section \<open>The messages\<close>

record proto_ExchangeRate =
  er_hbarEquiv :: int
  er_centEquiv :: int
  er_expirationTime :: "int option"

record proto_ExchangeRateSet =
  ers_currentRate :: "proto_ExchangeRate option"
  ers_nextRate :: "proto_ExchangeRate option"

record proto_TransactionReceipt =
  tr_status :: Status
  tr_accountID :: "proto_AccountID option"
  tr_fileID :: "proto_entity_id option"
  tr_contractID :: "proto_ContractID option"
  tr_exchangeRate :: "proto_ExchangeRateSet option"
  tr_topicID :: "proto_entity_id option"
  tr_topicSequenceNumber :: u64
  tr_topicRunningHash :: string
  tr_topicRunningHashVersion :: u64
  tr_tokenID :: "proto_entity_id option"
  tr_newTotalSupply :: u64
  tr_scheduleID :: "proto_entity_id option"
  tr_scheduledTransactionID :: "proto_TransactionID option"
  tr_serialNumbers :: "u64 list"
  tr_node_id :: u64

definition ExchangeRate_message :: proto_ExchangeRate where
  "ExchangeRate_message = \<lparr>er_hbarEquiv = 0, er_centEquiv = 0, er_expirationTime = None\<rparr>"

definition ExchangeRateSet_message :: proto_ExchangeRateSet where
  "ExchangeRateSet_message = \<lparr>ers_currentRate = None, ers_nextRate = None\<rparr>"

definition TransactionReceipt_message :: proto_TransactionReceipt where
  "TransactionReceipt_message =
     \<lparr>tr_status = OK, tr_accountID = None, tr_fileID = None, tr_contractID = None, tr_exchangeRate = None, tr_topicID = None,
      tr_topicSequenceNumber = 0, tr_topicRunningHash = [], tr_topicRunningHashVersion = 0, tr_tokenID = None,
      tr_newTotalSupply = 0, tr_scheduleID = None, tr_scheduledTransactionID = None, tr_serialNumbers = [], tr_node_id = 0\<rparr>"

record proto_GetReceiptResponse =
  gr_header :: proto_ResponseHeader
  gr_receipt :: "proto_TransactionReceipt option"
  gr_duplicates :: "proto_TransactionReceipt list"
  gr_children :: "proto_TransactionReceipt list"

section \<open>Requests and responses\<close>

record proto_AccountBalanceResponse =
  ab_header :: proto_ResponseHeader
  ab_balance :: u64
  ab_tokenBalances :: "(proto_entity_id option \<times> u64) list"

datatype proto_Query =
    query_transactionGetReceipt proto_QueryHeader "proto_TransactionID option" bool bool
  | query_transactionGetRecord proto_QueryHeader "proto_TransactionID option"
  | query_cryptogetAccountBalance proto_QueryHeader "proto_AccountID option" "proto_ContractID option"
  | query_cryptoGetInfo proto_QueryHeader proto_AccountID
  | query_cryptoGetAccountRecords proto_QueryHeader proto_AccountID
  | query_cryptoGetProxyStakers proto_QueryHeader proto_AccountID
  | query_contractGetInfo proto_QueryHeader proto_ContractID
  | query_contractGetBytecode proto_QueryHeader proto_ContractID
  | query_contractCallLocal proto_QueryHeader proto_ContractID int string "proto_AccountID option"
  | query_fileGetContents proto_QueryHeader proto_entity_id
  | query_fileGetInfo proto_QueryHeader proto_entity_id
  | query_scheduleGetInfo proto_QueryHeader proto_entity_id
  | query_tokenGetInfo proto_QueryHeader proto_entity_id
  | query_tokenGetNftInfo proto_QueryHeader proto_NftID
  | query_consensusGetTopicInfo proto_QueryHeader proto_entity_id
  | query_networkGetVersionInfo proto_QueryHeader

datatype proto_Response =
    resp_transactionGetReceipt proto_GetReceiptResponse
  | resp_cryptogetAccountBalance proto_AccountBalanceResponse
  | resp_fileGetContents proto_ResponseHeader string
  | resp_contractGetBytecodeResponse proto_ResponseHeader string
  | resp_other

definition ResponseHeader_message :: proto_ResponseHeader where
  "ResponseHeader_message = \<lparr>rh_nodeTransactionPrecheckCode = OK, rh_cost = 0\<rparr>"

end
