(* ===== verification/Receipts.thy ===== *)
theory Receipts
  imports QueryMessages
begin

text \<open>
  The queries for what became of a transaction: \<open>TransactionReceipt.cc\<close> with \<open>ExchangeRate.cc\<close> and
  \<open>ExchangeRates.cc\<close>, \<open>TransactionReceiptQuery.cc\<close>, the requests of \<open>TransactionRecordQuery.cc\<close>, and
  \<open>TransactionResponse.cc\<close>. The quotient of the exchange rate, a \<open>double\<close>, is left out.
\<close>

section \<open>Exchange rates\<close>

record ExchangeRate =
  mHbars :: int
  mCents :: int
  mExpirationTime :: time_point

record ExchangeRates =
  mCurrentRate :: ExchangeRate
  mNextRate :: ExchangeRate

definition ExchangeRate_default :: ExchangeRate where
  "ExchangeRate_default = \<lparr>mHbars = 0, mCents = 0, mExpirationTime = 0\<rparr>"

definition ExchangeRate_fromProtobuf :: "proto_ExchangeRate \<Rightarrow> ExchangeRate res" where
  "ExchangeRate_fromProtobuf p =
     rbind (TimestampSeconds_fromProtobuf (or_default 0 (er_expirationTime p))) (\<lambda>t.
       Inr \<lparr>mHbars = er_hbarEquiv p, mCents = er_centEquiv p, mExpirationTime = t\<rparr>)"

definition ExchangeRate_toProtobuf :: "ExchangeRate \<Rightarrow> proto_ExchangeRate" where
  "ExchangeRate_toProtobuf x =
     \<lparr>er_hbarEquiv = mHbars x, er_centEquiv = mCents x, er_expirationTime = Some (toSecondsProtobuf (mExpirationTime x))\<rparr>"

definition ExchangeRates_fromProtobuf :: "proto_ExchangeRateSet \<Rightarrow> ExchangeRates res" where
  "ExchangeRates_fromProtobuf p =
     rbind (ExchangeRate_fromProtobuf (or_default ExchangeRate_message (ers_currentRate p))) (\<lambda>c.
     rbind (ExchangeRate_fromProtobuf (or_default ExchangeRate_message (ers_nextRate p))) (\<lambda>n.
       Inr \<lparr>mCurrentRate = c, mNextRate = n\<rparr>))"

definition ExchangeRates_toProtobuf :: "ExchangeRates \<Rightarrow> proto_ExchangeRateSet" where
  "ExchangeRates_toProtobuf x =
     \<lparr>ers_currentRate = Some (ExchangeRate_toProtobuf (mCurrentRate x)), ers_nextRate = Some (ExchangeRate_toProtobuf (mNextRate x))\<rparr>"

section \<open>Receipts\<close>

text \<open>The receipts of the duplicates and children have none of their own.\<close>

record TransactionReceipt =
  receiptTransactionId :: TransactionId
  mStatus :: Status
  receiptAccountId :: "AccountId option"
  receiptFileId :: "FileId option"
  receiptContractId :: "ContractId option"
  mExchangeRates :: ExchangeRates
  receiptTopicId :: "TopicId option"
  mTopicSequenceNumber :: "u64 option"
  mTopicRunningHash :: "bytes option"
  mTopicRunningHashVersion :: "u64 option"
  receiptTokenId :: "TokenId option"
  mNewTotalSupply :: "u64 option"
  receiptScheduleId :: "ScheduleId option"
  mScheduledTransactionId :: "TransactionId option"
  mSerialNumbers :: "u64 list"
  receiptNodeId :: "u64 option"

record FullReceipt = TransactionReceipt +
  mDuplicates :: "TransactionReceipt list"
  mChildren :: "TransactionReceipt list"

definition ExchangeRates_default :: ExchangeRates where
  "ExchangeRates_default = \<lparr>mCurrentRate = ExchangeRate_default, mNextRate = ExchangeRate_default\<rparr>"

definition TransactionReceipt_fromProtobuf ::
  "'d library \<Rightarrow> proto_TransactionReceipt \<Rightarrow> TransactionId \<Rightarrow> TransactionReceipt res" where
  "TransactionReceipt_fromProtobuf L p transactionId =
     rbind (ropt (AccountId_fromProtobuf (lib_ssl L) (parseKey L)) (tr_accountID p)) (\<lambda>a.
     rbind (ropt ContractId_fromProtobuf (tr_contractID p)) (\<lambda>c.
     rbind (ropt ExchangeRates_fromProtobuf (tr_exchangeRate p)) (\<lambda>e.
     rbind (ropt (TransactionId_fromProtobuf (lib_ssl L) (parseKey L)) (tr_scheduledTransactionID p)) (\<lambda>s.
       Inr \<lparr>receiptTransactionId = transactionId, mStatus = tr_status p, receiptAccountId = a,
            receiptFileId = map_option FileId_fromProtobuf (tr_fileID p), receiptContractId = c,
            mExchangeRates = or_default ExchangeRates_default e,
            receiptTopicId = map_option TopicId_fromProtobuf (tr_topicID p),
            mTopicSequenceNumber = (if tr_topicSequenceNumber p \<noteq> 0 then Some (tr_topicSequenceNumber p) else None),
            mTopicRunningHash = (if tr_topicRunningHash p \<noteq> [] then Some (stringToByteVector (tr_topicRunningHash p)) else None),
            mTopicRunningHashVersion = (if tr_topicRunningHashVersion p \<noteq> 0 then Some (tr_topicRunningHashVersion p) else None),
            receiptTokenId = map_option TokenId_fromProtobuf (tr_tokenID p),
            mNewTotalSupply = Some (tr_newTotalSupply p),
            receiptScheduleId = map_option ScheduleId_fromProtobuf (tr_scheduleID p),
            mScheduledTransactionId = s, mSerialNumbers = tr_serialNumbers p, receiptNodeId = Some (tr_node_id p)\<rparr>))))"

definition FullReceipt_fromProtobuf ::
  "'d library \<Rightarrow> proto_GetReceiptResponse \<Rightarrow> TransactionId \<Rightarrow> FullReceipt res" where
  "FullReceipt_fromProtobuf L p transactionId =
     rbind (TransactionReceipt_fromProtobuf L (or_default TransactionReceipt_message (gr_receipt p)) TransactionId_default) (\<lambda>r.
     rbind (rmap (\<lambda>d. TransactionReceipt_fromProtobuf L d TransactionId_default) (gr_duplicates p)) (\<lambda>ds.
     rbind (rmap (\<lambda>c. TransactionReceipt_fromProtobuf L c TransactionId_default) (gr_children p)) (\<lambda>cs.
       Inr (TransactionReceipt.extend (r\<lparr>receiptTransactionId := transactionId\<rparr>) \<lparr>mDuplicates = ds, mChildren = cs\<rparr>))))"

text \<open>Neither the token nor the next exchange rate is written.\<close>

definition TransactionReceipt_toProtobuf :: "'d library \<Rightarrow> 'z TransactionReceipt_scheme \<Rightarrow> proto_TransactionReceipt res" where
  "TransactionReceipt_toProtobuf L x =
     rbind (ropt (AccountId_toProtobuf (serializeKey L)) (receiptAccountId x)) (\<lambda>a.
     rbind (ropt (TransactionId_toProtobuf (serializeKey L)) (mScheduledTransactionId x)) (\<lambda>s.
       Inr \<lparr>tr_status = mStatus x, tr_accountID = a, tr_fileID = map_option FileId_toProtobuf (receiptFileId x),
            tr_contractID = map_option ContractId_toProtobuf (receiptContractId x),
            tr_exchangeRate = Some \<lparr>ers_currentRate = Some (ExchangeRate_toProtobuf (mCurrentRate (mExchangeRates x))), ers_nextRate = None\<rparr>,
            tr_topicID = map_option TopicId_toProtobuf (receiptTopicId x),
            tr_topicSequenceNumber = or_default 0 (mTopicSequenceNumber x),
            tr_topicRunningHash = (case mTopicRunningHash x of None \<Rightarrow> [] | Some h \<Rightarrow> byteVectorToString h),
            tr_topicRunningHashVersion = or_default 0 (mTopicRunningHashVersion x), tr_tokenID = None,
            tr_newTotalSupply = or_default 0 (mNewTotalSupply x),
            tr_scheduleID = map_option ScheduleId_toProtobuf (receiptScheduleId x), tr_scheduledTransactionID = s,
            tr_serialNumbers = mSerialNumbers x, tr_node_id = or_default 0 (receiptNodeId x)\<rparr>))"

definition validateStatus :: "'z TransactionReceipt_scheme \<Rightarrow> unit res" where
  "validateStatus x = require (mStatus x = SUCCESS) (ReceiptStatus (mStatus x))"

section \<open>The queries\<close>

definition receipt_of :: "proto_Response \<Rightarrow> proto_GetReceiptResponse" where
  "receipt_of r = (case r of resp_transactionGetReceipt g \<Rightarrow> g
     | _ \<Rightarrow> \<lparr>gr_header = ResponseHeader_message, gr_receipt = None, gr_duplicates = [], gr_children = []\<rparr>)"

record TransactionReceiptQuery = "(proto_Query, proto_Response) Query" +
  queryTransactionId :: "TransactionId option"
  mIncludeChildren :: bool
  mIncludeDuplicates :: bool

definition TransactionReceiptQuery_default :: TransactionReceiptQuery where
  "TransactionReceiptQuery_default = Query.extend Query_fields
     \<lparr>queryTransactionId = None, mIncludeChildren = False, mIncludeDuplicates = False\<rparr>"

definition setReceiptTransactionId :: "TransactionId \<Rightarrow> 'z TransactionReceiptQuery_scheme \<Rightarrow> 'z TransactionReceiptQuery_scheme" where
  "setReceiptTransactionId transactionId x = x\<lparr>queryTransactionId := Some transactionId\<rparr>"

definition setIncludeChildren :: "bool \<Rightarrow> 'z TransactionReceiptQuery_scheme \<Rightarrow> 'z TransactionReceiptQuery_scheme" where
  "setIncludeChildren children x = x\<lparr>mIncludeChildren := children\<rparr>"

definition setIncludeDuplicates :: "bool \<Rightarrow> 'z TransactionReceiptQuery_scheme \<Rightarrow> 'z TransactionReceiptQuery_scheme" where
  "setIncludeDuplicates duplicates x = x\<lparr>mIncludeDuplicates := duplicates\<rparr>"

text \<open>The decision on a status, and on the status in the receipt when the network answered \<open>OK\<close>.\<close>

definition pending :: "Status \<Rightarrow> bool" where
  "pending st \<longleftrightarrow> st \<in> {BUSY, UNKNOWN, OK, RECEIPT_NOT_FOUND, RECORD_NOT_FOUND}"

definition receipt_determineStatus :: "Status \<Rightarrow> Status \<Rightarrow> ExecutionStatus" where
  "receipt_determineStatus status receiptStatus =
     (if base_determineStatus status = SERVER_ERROR then SERVER_ERROR
      else if status \<in> {BUSY, UNKNOWN, RECEIPT_NOT_FOUND, RECORD_NOT_FOUND} then RETRY
      else if status = OK then (if pending receiptStatus then RETRY else REQUEST_SUCCESS)
      else REQUEST_ERROR)"

definition receipt_buildRequest :: "'d library \<Rightarrow> 'z TransactionReceiptQuery_scheme \<Rightarrow> proto_QueryHeader \<Rightarrow> proto_Query res" where
  "receipt_buildRequest L x header =
     rbind (ropt (TransactionId_toProtobuf (serializeKey L)) (queryTransactionId x)) (\<lambda>i.
       Inr (query_transactionGetReceipt header i (mIncludeDuplicates x) (mIncludeChildren x)))"

definition receipt_validateChecksums :: "client_ledger \<Rightarrow> 'z TransactionReceiptQuery_scheme \<Rightarrow> unit res" where
  "receipt_validateChecksums client x =
     (case queryTransactionId x of None \<Rightarrow> Inr () | Some i \<Rightarrow> AccountId_validateChecksum client (mAccountId i))"

definition receipt_mapResponse :: "'d library \<Rightarrow> 'z TransactionReceiptQuery_scheme \<Rightarrow> proto_Response \<Rightarrow> FullReceipt res" where
  "receipt_mapResponse L x response =
     (case queryTransactionId x of None \<Rightarrow> Inl BadOptionalAccess | Some i \<Rightarrow> FullReceipt_fromProtobuf L (receipt_of response) i)"

definition receipt_virtuals ::
  "'d library \<Rightarrow> (proto_Query, proto_Response, 'z TransactionReceiptQuery_ext, FullReceipt) query_virtuals" where
  "receipt_virtuals L =
     \<lparr>buildRequest = receipt_buildRequest L, mapResponseHeader = (\<lambda>r. gr_header (receipt_of r)), isPaymentRequired = False,
      query_validateChecksums = receipt_validateChecksums,
      query_determineStatus = (\<lambda>x status response. receipt_determineStatus status
        (tr_status (or_default TransactionReceipt_message (gr_receipt (receipt_of response))))),
      query_mapResponse = receipt_mapResponse L, queryCase = kTransactionGetReceipt\<rparr>"

text \<open>The record query sends neither of its flags; a request for its cost is answered without a record.\<close>

record TransactionRecordQuery = "(proto_Query, proto_Response) Query" +
  recordTransactionId :: "TransactionId option"
  recordIncludeChildren :: bool
  recordIncludeDuplicates :: bool

definition record_buildRequest :: "'d library \<Rightarrow> 'z TransactionRecordQuery_scheme \<Rightarrow> proto_QueryHeader \<Rightarrow> proto_Query res" where
  "record_buildRequest L x header =
     rbind (ropt (TransactionId_toProtobuf (serializeKey L)) (recordTransactionId x)) (\<lambda>i.
       Inr (query_transactionGetRecord header i))"

definition record_determineStatus :: "('q, 'r, 'z) Query_scheme \<Rightarrow> Status \<Rightarrow> Status \<Rightarrow> ExecutionStatus" where
  "record_determineStatus x status receiptStatus =
     (if base_determineStatus status = SERVER_ERROR then SERVER_ERROR
      else if status \<in> {BUSY, UNKNOWN, RECEIPT_NOT_FOUND, RECORD_NOT_FOUND} then RETRY
      else if status = OK then (if mGetCost x then REQUEST_SUCCESS else if pending receiptStatus then RETRY else REQUEST_SUCCESS)
      else REQUEST_ERROR)"

section \<open>What a response leads to\<close>

definition getReceiptQuery :: "TransactionResponse \<Rightarrow> TransactionReceiptQuery" where
  "getReceiptQuery response =
     setNodeAccountIds [mNodeId response] (setReceiptTransactionId (response_transactionId response) TransactionReceiptQuery_default)"

text \<open>The query is executed on a network of its own state; \<open>s\<close> is what it leaves.\<close>

definition getReceipt ::
  "TransactionData library \<Rightarrow> (proto_Query, proto_Response) env \<Rightarrow> (proto_Query, proto_Response) env \<Rightarrow> Client \<Rightarrow>
     AccountId BaseNetwork \<Rightarrow> duration \<Rightarrow> TransactionResponse \<Rightarrow>
     FullReceipt res \<times> (proto_Query, proto_Response, unit TransactionReceiptQuery_ext) q_exec" where
  "getReceipt L E F client net timeout response =
     (case query_execute L E F client (receipt_virtuals L) timeout
             \<lparr>this = getReceiptQuery response, network = net, readings = 0, nodeResponses = [], log = []\<rparr> of
        (Inl e, s) \<Rightarrow> (Inl e, s)
      | (Inr receipt, s) \<Rightarrow>
          ((if mValidateStatus response then rbind (validateStatus receipt) (\<lambda>_. Inr receipt) else Inr receipt), s))"

definition setValidateStatus :: "bool \<Rightarrow> TransactionResponse \<Rightarrow> TransactionResponse" where
  "setValidateStatus v response = response\<lparr>mValidateStatus := v\<rparr>"

end
