(* ===== verification/InfoQueries.thy ===== *)
theory InfoQueries
  imports QueryMessages
begin

text \<open>
  The other kinds of queries: \<open>AccountBalanceQuery.cc\<close> with \<open>AccountBalance.cc\<close>, \<open>FileContentsQuery.cc\<close>
  and \<open>ContractByteCodeQuery.cc\<close> with their answers, and the requests of the queries whose answers are
  larger records of information.
\<close>

section \<open>The balance of an account or contract\<close>

record AccountBalance =
  mBalance :: Hbar
  mTokens :: "(TokenId \<times> u64) list"

text \<open>An entry of the map is not replaced by a later one of the same token.\<close>

definition balance_insert :: "(TokenId \<times> u64) list \<Rightarrow> proto_entity_id option \<times> u64 \<Rightarrow> (TokenId \<times> u64) list" where
  "balance_insert m b =
     (let t = TokenId_fromProtobuf (or_default entity_id_default (fst b))
      in if list_ex (\<lambda>e. TokenId_eq (fst e) t) m then m else m @ [(t, snd b)])"

definition AccountBalance_fromProtobuf :: "proto_AccountBalanceResponse \<Rightarrow> AccountBalance res" where
  "AccountBalance_fromProtobuf p =
     rbind (Hbar_of (sint (ab_balance p)) TINYBAR) (\<lambda>h.
       Inr \<lparr>mBalance = h, mTokens = foldl balance_insert [] (ab_tokenBalances p)\<rparr>)"

definition AccountBalance_toProtobuf :: "AccountBalance \<Rightarrow> proto_AccountBalanceResponse" where
  "AccountBalance_toProtobuf x =
     \<lparr>ab_header = ResponseHeader_message, ab_balance = of_int (toTinybars (mBalance x)), ab_tokenBalances = []\<rparr>"

definition balance_of :: "proto_Response \<Rightarrow> proto_AccountBalanceResponse" where
  "balance_of r = (case r of resp_cryptogetAccountBalance b \<Rightarrow> b
     | _ \<Rightarrow> \<lparr>ab_header = ResponseHeader_message, ab_balance = 0, ab_tokenBalances = []\<rparr>)"

record AccountBalanceQuery = "(proto_Query, proto_Response) Query" +
  balanceAccountId :: "AccountId option"
  balanceContractId :: "ContractId option"

definition balance_setAccountId :: "AccountId \<Rightarrow> 'z AccountBalanceQuery_scheme \<Rightarrow> 'z AccountBalanceQuery_scheme" where
  "balance_setAccountId accountId x = x\<lparr>balanceAccountId := Some accountId, balanceContractId := None\<rparr>"

definition balance_setContractId :: "ContractId \<Rightarrow> 'z AccountBalanceQuery_scheme \<Rightarrow> 'z AccountBalanceQuery_scheme" where
  "balance_setContractId contractId x = x\<lparr>balanceContractId := Some contractId, balanceAccountId := None\<rparr>"

definition balance_validateChecksums :: "client_ledger \<Rightarrow> 'z AccountBalanceQuery_scheme \<Rightarrow> unit res" where
  "balance_validateChecksums client x =
     rbind (case balanceAccountId x of None \<Rightarrow> Inr () | Some a \<Rightarrow> AccountId_validateChecksum client a) (\<lambda>_.
       case balanceContractId x of None \<Rightarrow> Inr () | Some c \<Rightarrow> ContractId_validateChecksum client c)"

definition balance_buildRequest :: "'d library \<Rightarrow> 'z AccountBalanceQuery_scheme \<Rightarrow> proto_QueryHeader \<Rightarrow> proto_Query res" where
  "balance_buildRequest L x header =
     rbind (ropt (AccountId_toProtobuf (serializeKey L)) (balanceAccountId x)) (\<lambda>a.
       Inr (query_cryptogetAccountBalance header a (map_option ContractId_toProtobuf (balanceContractId x))))"

text \<open>A query that overrides none of \<open>Executable\<close>'s decisions.\<close>

definition plain_decision :: "('q, 'r, 'z) Query_scheme \<Rightarrow> Status \<Rightarrow> 'r \<Rightarrow> ExecutionStatus" where
  "plain_decision x status response = base_determineStatus status"

definition balance_virtuals ::
  "'d library \<Rightarrow> (proto_Query, proto_Response, 'z AccountBalanceQuery_ext, AccountBalance) query_virtuals" where
  "balance_virtuals L =
     \<lparr>buildRequest = balance_buildRequest L, mapResponseHeader = (\<lambda>r. ab_header (balance_of r)), isPaymentRequired = False,
      query_validateChecksums = balance_validateChecksums, query_determineStatus = plain_decision,
      query_mapResponse = (\<lambda>x r. AccountBalance_fromProtobuf (balance_of r)), queryCase = kCryptogetAccountBalance\<rparr>"

section \<open>The contents of a file and the code of a contract\<close>

record FileContentsQuery = "(proto_Query, proto_Response) Query" +
  contentsFileId :: FileId

definition FileContentsQuery_default :: FileContentsQuery where
  "FileContentsQuery_default = Query.extend Query_fields \<lparr>contentsFileId = FileId_of 0 0 0 []\<rparr>"

definition contents_setFileId :: "FileId \<Rightarrow> 'z FileContentsQuery_scheme \<Rightarrow> 'z FileContentsQuery_scheme" where
  "contents_setFileId fileId x = x\<lparr>contentsFileId := fileId\<rparr>"

definition contents_of :: "proto_Response \<Rightarrow> proto_ResponseHeader \<times> string" where
  "contents_of r = (case r of resp_fileGetContents h c \<Rightarrow> (h, c) | _ \<Rightarrow> (ResponseHeader_message, []))"

definition contents_virtuals :: "(proto_Query, proto_Response, 'z FileContentsQuery_ext, bytes) query_virtuals" where
  "contents_virtuals =
     \<lparr>buildRequest = (\<lambda>x header. Inr (query_fileGetContents header (FileId_toProtobuf (contentsFileId x)))),
      mapResponseHeader = (\<lambda>r. fst (contents_of r)), isPaymentRequired = True,
      query_validateChecksums = (\<lambda>client x. FileId_validateChecksum client (contentsFileId x)),
      query_determineStatus = plain_decision,
      query_mapResponse = (\<lambda>x r. Inr (stringToByteVector (snd (contents_of r)))), queryCase = kFileGetContents\<rparr>"

record ContractByteCodeQuery = "(proto_Query, proto_Response) Query" +
  codeContractId :: ContractId

definition code_setContractId :: "ContractId \<Rightarrow> 'z ContractByteCodeQuery_scheme \<Rightarrow> 'z ContractByteCodeQuery_scheme" where
  "code_setContractId contractId x = x\<lparr>codeContractId := contractId\<rparr>"

definition byteCode_of :: "proto_Response \<Rightarrow> proto_ResponseHeader \<times> string" where
  "byteCode_of r = (case r of resp_contractGetBytecodeResponse h c \<Rightarrow> (h, c) | _ \<Rightarrow> (ResponseHeader_message, []))"

definition byteCode_virtuals :: "(proto_Query, proto_Response, 'z ContractByteCodeQuery_ext, bytes) query_virtuals" where
  "byteCode_virtuals =
     \<lparr>buildRequest = (\<lambda>x header. Inr (query_contractGetBytecode header (ContractId_toProtobuf (codeContractId x)))),
      mapResponseHeader = (\<lambda>r. fst (byteCode_of r)), isPaymentRequired = True,
      query_validateChecksums = (\<lambda>client x. ContractId_validateChecksum client (codeContractId x)),
      query_determineStatus = plain_decision,
      query_mapResponse = (\<lambda>x r. Inr (stringToByteVector (snd (byteCode_of r)))), queryCase = kContractGetBytecode\<rparr>"

section \<open>Requests for information\<close>

record AccountInfoQuery = "(proto_Query, proto_Response) Query" + infoAccountId :: AccountId
record AccountRecordsQuery = "(proto_Query, proto_Response) Query" + recordsAccountId :: AccountId
record AccountStakersQuery = "(proto_Query, proto_Response) Query" + stakersAccountId :: AccountId
record ContractInfoQuery = "(proto_Query, proto_Response) Query" + infoContractId :: ContractId
record FileInfoQuery = "(proto_Query, proto_Response) Query" + infoFileId :: FileId
record ScheduleInfoQuery = "(proto_Query, proto_Response) Query" + infoScheduleId :: ScheduleId
record TokenInfoQuery = "(proto_Query, proto_Response) Query" + infoTokenId :: TokenId
record TokenNftInfoQuery = "(proto_Query, proto_Response) Query" + infoNftId :: NftId
record TopicInfoQuery = "(proto_Query, proto_Response) Query" + infoTopicId :: TopicId
record ContractCallQuery = "(proto_Query, proto_Response) Query" +
  callContractId :: ContractId
  mGas :: u64
  mFunctionParameters :: bytes
  callSenderAccountId :: "AccountId option"

definition info_setAccountId :: "AccountId \<Rightarrow> 'z AccountInfoQuery_scheme \<Rightarrow> 'z AccountInfoQuery_scheme" where
  "info_setAccountId a x = x\<lparr>infoAccountId := a\<rparr>"
definition records_setAccountId :: "AccountId \<Rightarrow> 'z AccountRecordsQuery_scheme \<Rightarrow> 'z AccountRecordsQuery_scheme" where
  "records_setAccountId a x = x\<lparr>recordsAccountId := a\<rparr>"
definition stakers_setAccountId :: "AccountId \<Rightarrow> 'z AccountStakersQuery_scheme \<Rightarrow> 'z AccountStakersQuery_scheme" where
  "stakers_setAccountId a x = x\<lparr>stakersAccountId := a\<rparr>"
definition info_setContractId :: "ContractId \<Rightarrow> 'z ContractInfoQuery_scheme \<Rightarrow> 'z ContractInfoQuery_scheme" where
  "info_setContractId c x = x\<lparr>infoContractId := c\<rparr>"
definition info_setFileId :: "FileId \<Rightarrow> 'z FileInfoQuery_scheme \<Rightarrow> 'z FileInfoQuery_scheme" where
  "info_setFileId f x = x\<lparr>infoFileId := f\<rparr>"
definition info_setScheduleId :: "ScheduleId \<Rightarrow> 'z ScheduleInfoQuery_scheme \<Rightarrow> 'z ScheduleInfoQuery_scheme" where
  "info_setScheduleId s x = x\<lparr>infoScheduleId := s\<rparr>"
definition info_setTokenId :: "TokenId \<Rightarrow> 'z TokenInfoQuery_scheme \<Rightarrow> 'z TokenInfoQuery_scheme" where
  "info_setTokenId t x = x\<lparr>infoTokenId := t\<rparr>"
definition info_setNftId :: "NftId \<Rightarrow> 'z TokenNftInfoQuery_scheme \<Rightarrow> 'z TokenNftInfoQuery_scheme" where
  "info_setNftId n x = x\<lparr>infoNftId := n\<rparr>"
definition info_setTopicId :: "TopicId \<Rightarrow> 'z TopicInfoQuery_scheme \<Rightarrow> 'z TopicInfoQuery_scheme" where
  "info_setTopicId t x = x\<lparr>infoTopicId := t\<rparr>"
definition call_setContractId :: "ContractId \<Rightarrow> 'z ContractCallQuery_scheme \<Rightarrow> 'z ContractCallQuery_scheme" where
  "call_setContractId c x = x\<lparr>callContractId := c\<rparr>"
definition call_setGas :: "u64 \<Rightarrow> 'z ContractCallQuery_scheme \<Rightarrow> 'z ContractCallQuery_scheme" where
  "call_setGas gas x = x\<lparr>mGas := gas\<rparr>"
definition call_setFunctionParameters :: "bytes \<Rightarrow> 'z ContractCallQuery_scheme \<Rightarrow> 'z ContractCallQuery_scheme" where
  "call_setFunctionParameters ps x = x\<lparr>mFunctionParameters := ps\<rparr>"
definition call_setSenderAccountId :: "AccountId \<Rightarrow> 'z ContractCallQuery_scheme \<Rightarrow> 'z ContractCallQuery_scheme" where
  "call_setSenderAccountId a x = x\<lparr>callSenderAccountId := Some a\<rparr>"

definition accountInfo_buildRequest :: "'d library \<Rightarrow> 'z AccountInfoQuery_scheme \<Rightarrow> proto_QueryHeader \<Rightarrow> proto_Query res" where
  "accountInfo_buildRequest L x h = rbind (AccountId_toProtobuf (serializeKey L) (infoAccountId x)) (\<lambda>a. Inr (query_cryptoGetInfo h a))"
definition accountRecords_buildRequest :: "'d library \<Rightarrow> 'z AccountRecordsQuery_scheme \<Rightarrow> proto_QueryHeader \<Rightarrow> proto_Query res" where
  "accountRecords_buildRequest L x h =
     rbind (AccountId_toProtobuf (serializeKey L) (recordsAccountId x)) (\<lambda>a. Inr (query_cryptoGetAccountRecords h a))"
definition accountStakers_buildRequest :: "'d library \<Rightarrow> 'z AccountStakersQuery_scheme \<Rightarrow> proto_QueryHeader \<Rightarrow> proto_Query res" where
  "accountStakers_buildRequest L x h =
     rbind (AccountId_toProtobuf (serializeKey L) (stakersAccountId x)) (\<lambda>a. Inr (query_cryptoGetProxyStakers h a))"
definition contractInfo_buildRequest :: "'z ContractInfoQuery_scheme \<Rightarrow> proto_QueryHeader \<Rightarrow> proto_Query" where
  "contractInfo_buildRequest x h = query_contractGetInfo h (ContractId_toProtobuf (infoContractId x))"
definition fileInfo_buildRequest :: "'z FileInfoQuery_scheme \<Rightarrow> proto_QueryHeader \<Rightarrow> proto_Query" where
  "fileInfo_buildRequest x h = query_fileGetInfo h (FileId_toProtobuf (infoFileId x))"
definition scheduleInfo_buildRequest :: "'z ScheduleInfoQuery_scheme \<Rightarrow> proto_QueryHeader \<Rightarrow> proto_Query" where
  "scheduleInfo_buildRequest x h = query_scheduleGetInfo h (ScheduleId_toProtobuf (infoScheduleId x))"
definition tokenInfo_buildRequest :: "'z TokenInfoQuery_scheme \<Rightarrow> proto_QueryHeader \<Rightarrow> proto_Query" where
  "tokenInfo_buildRequest x h = query_tokenGetInfo h (TokenId_toProtobuf (infoTokenId x))"
definition tokenNftInfo_buildRequest :: "'z TokenNftInfoQuery_scheme \<Rightarrow> proto_QueryHeader \<Rightarrow> proto_Query" where
  "tokenNftInfo_buildRequest x h = query_tokenGetNftInfo h (NftId_toProtobuf (infoNftId x))"
definition topicInfo_buildRequest :: "'z TopicInfoQuery_scheme \<Rightarrow> proto_QueryHeader \<Rightarrow> proto_Query" where
  "topicInfo_buildRequest x h = query_consensusGetTopicInfo h (TopicId_toProtobuf (infoTopicId x))"
definition contractCall_buildRequest :: "'d library \<Rightarrow> 'z ContractCallQuery_scheme \<Rightarrow> proto_QueryHeader \<Rightarrow> proto_Query res" where
  "contractCall_buildRequest L x h =
     rbind (ropt (AccountId_toProtobuf (serializeKey L)) (callSenderAccountId x)) (\<lambda>a.
       Inr (query_contractCallLocal h (ContractId_toProtobuf (callContractId x)) (sint (mGas x))
         (byteVectorToString (mFunctionParameters x)) a))"

definition accountInfo_validateChecksums :: "client_ledger \<Rightarrow> 'z AccountInfoQuery_scheme \<Rightarrow> unit res" where
  "accountInfo_validateChecksums client x = AccountId_validateChecksum client (infoAccountId x)"
definition accountRecords_validateChecksums :: "client_ledger \<Rightarrow> 'z AccountRecordsQuery_scheme \<Rightarrow> unit res" where
  "accountRecords_validateChecksums client x = AccountId_validateChecksum client (recordsAccountId x)"
definition accountStakers_validateChecksums :: "client_ledger \<Rightarrow> 'z AccountStakersQuery_scheme \<Rightarrow> unit res" where
  "accountStakers_validateChecksums client x = AccountId_validateChecksum client (stakersAccountId x)"
definition contractInfo_validateChecksums :: "client_ledger \<Rightarrow> 'z ContractInfoQuery_scheme \<Rightarrow> unit res" where
  "contractInfo_validateChecksums client x = ContractId_validateChecksum client (infoContractId x)"
definition fileInfo_validateChecksums :: "client_ledger \<Rightarrow> 'z FileInfoQuery_scheme \<Rightarrow> unit res" where
  "fileInfo_validateChecksums client x = FileId_validateChecksum client (infoFileId x)"
definition scheduleInfo_validateChecksums :: "client_ledger \<Rightarrow> 'z ScheduleInfoQuery_scheme \<Rightarrow> unit res" where
  "scheduleInfo_validateChecksums client x = ScheduleId_validateChecksum client (infoScheduleId x)"
definition tokenInfo_validateChecksums :: "client_ledger \<Rightarrow> 'z TokenInfoQuery_scheme \<Rightarrow> unit res" where
  "tokenInfo_validateChecksums client x = TokenId_validateChecksum client (infoTokenId x)"
definition tokenNftInfo_validateChecksums :: "client_ledger \<Rightarrow> 'z TokenNftInfoQuery_scheme \<Rightarrow> unit res" where
  "tokenNftInfo_validateChecksums client x = TokenId_validateChecksum client (mTokenId (infoNftId x))"
definition topicInfo_validateChecksums :: "client_ledger \<Rightarrow> 'z TopicInfoQuery_scheme \<Rightarrow> unit res" where
  "topicInfo_validateChecksums client x = TopicId_validateChecksum client (infoTopicId x)"
definition contractCall_validateChecksums :: "client_ledger \<Rightarrow> 'z ContractCallQuery_scheme \<Rightarrow> unit res" where
  "contractCall_validateChecksums client x = ContractId_validateChecksum client (callContractId x)"

end
