(* ===== verification/QueryResults.thy ===== *)
theory QueryResults
  imports Receipts InfoQueries
begin

text \<open>
  Properties of the queries: what they pay and to whom, when a receipt is returned, and what an
  exception leaves behind.
\<close>

section \<open>The answer of a successful execution\<close>

lemma attempt_done:
  assumes "attempt_once E P nodes k t s = (Inr (Done o'), s')"
  shows "\<exists>st response s1 s2 s3. determineStatus P st response s1 = (Inr REQUEST_SUCCESS, s2) \<and>
    mapResponse P response s3 = (Inr o', s')"
proof -
  from assms obtain nodeIndex r s0 where "submit E P nodes k t nodeIndex r s0 = (Inr (Done o'), s')"
    by (auto simp: attempt_once_def Let_def abind_eq act_defs split: if_splits prod.splits)
  then obtain response s0' where "handle_response P nodes r response s0' = (Inr (Done o'), s')"
    by (auto simp: submit_def abind_eq act_defs split: if_splits prod.splits)
  then obtain st s1 decision s2 where d: "determineStatus P st response s1 = (Inr decision, s2)"
    and rest: "(case decision of
         SERVER_ERROR \<Rightarrow>
           if \<not> all_busy nodes (nodeResponses (logged (Answered r st decision) s2)) then (Inr Again, logged (Answered r st decision) s2)
           else (Inr Again, sleep_retry ((logged (Answered r st decision) s2)\<lparr>nodeResponses := []\<rparr>))
       | RETRY \<Rightarrow> (Inr Again, sleep_retry (logged (Answered r st decision) s2))
       | REQUEST_ERROR \<Rightarrow> (Inl (PrecheckStatus st), logged (Answered r st decision) s2)
       | REQUEST_SUCCESS \<Rightarrow> abind (mapResponse P response) (\<lambda>o'. areturn (Done o')) (logged (Answered r st decision) s2)) =
      (Inr (Done o'), s')"
    by (auto simp: handle_response_def abind_eq [of "mapResponseStatus P response"] abind_eq [of "amodify f" for f]
        abind_eq [of "determineStatus P st response" for st] act_defs)
  show ?thesis
  proof (cases decision)
    case REQUEST_SUCCESS
    with d rest show ?thesis by (auto simp: abind_eq act_defs)
  qed (use rest in \<open>auto split: if_splits\<close>)
qed

lemma loop_done:
  "attempt_loop E P nodes T n k s = (Inr o', s') \<Longrightarrow>
     \<exists>st response s1 s2 s3. determineStatus P st response s1 = (Inr REQUEST_SUCCESS, s2) \<and> mapResponse P response s3 = (Inr o', s')"
proof (induction "n - k" arbitrary: k s)
  case 0
  then show ?case by (simp add: attempt_loop.simps [of E P nodes T n k s] now_def)
next
  case (Suc d)
  have k: "d = n - Suc k" "\<not> n \<le> k" using Suc.hyps(2) by simp_all
  define t where "t = min (clock E (readings s) + mCurrentGrpcDeadline (this s)) T"
  obtain r s2 where once: "attempt_once E P nodes k t (s\<lparr>readings := Suc (readings s)\<rparr>) = (r, s2)" by fastforce
  from Suc.prems k(2) have "(case (r, s2) of (Inl e, s2) \<Rightarrow> (Inl e, s2) | (Inr (Done o'), s2) \<Rightarrow> (Inr o', s2)
       | (Inr Again, s2) \<Rightarrow> attempt_loop E P nodes T n (Suc k) s2) = (Inr o', s')"
    by (simp add: attempt_loop.simps [of E P nodes T n k s] now_def once [unfolded t_def])
  with Suc.hyps(1) [OF k(1), of s2] attempt_done [of E P nodes k t "s\<lparr>readings := Suc (readings s)\<rparr>" o' s'] once
  show ?case by (auto split: sum.splits verdict.splits)
qed

lemma execute_done:
  assumes "execute E client P timeout s = (Inr o', s')"
  shows "\<exists>st response s1 s2 s3. determineStatus P st response s1 = (Inr REQUEST_SUCCESS, s2) \<and> mapResponse P response s3 = (Inr o', s')"
  using assms loop_done by (fastforce simp: execute_def abind_eq)

lemma receipt_returned:
  assumes "query_execute L E F client (receipt_virtuals L) timeout s = (Inr receipt, s')"
  shows "\<not> pending (mStatus receipt)"
proof -
  from execute_done [OF assms [unfolded query_execute_def]] obtain st response where
    "receipt_determineStatus st (tr_status (or_default TransactionReceipt_message (gr_receipt (receipt_of response)))) = REQUEST_SUCCESS"
    "receipt_mapResponse L (this s') response = Inr receipt"
    by (auto simp: query_operations_def receipt_virtuals_def)
  then show ?thesis
    by (auto simp: receipt_determineStatus_def receipt_mapResponse_def FullReceipt_fromProtobuf_def TransactionReceipt_fromProtobuf_def
        res_simps TransactionReceipt.defs split: if_splits option.splits)
qed

section \<open>The example\<close>

text \<open>A client with an operator, and a network of one node that answers at once.\<close>

definition example_client :: Client where
  "example_client = Client_default\<lparr>mOperatorAccountId := Some (account 2), mOperatorPublicKey := Some (example_key 7),
     mOperatorSigner := Some (\<lambda>bs. Inr (replicate 32 7))\<rparr>"

definition example_answer :: "proto_Response \<Rightarrow> (proto_Query, proto_Response) env" where
  "example_answer r =
     \<lparr>clock = int, connects = (\<lambda>a. True), answers = (\<lambda>a m q t. (GRPC_OK, r)), randoms = (\<lambda>i. 0),
      choice_rounds = 0, choice_clock = int, choice_randoms = (\<lambda>i. 0)\<rparr>"

definition example_net :: "AccountId BaseNetwork" where
  "example_net = BaseNetwork_default 0 \<lparr>mNodes := [0], mHealthyNodes := [0], mNetwork := (\<lambda>k. [0]),
     nextRef := 1, nodeStore := (\<lambda>r. BaseNode_of (-1) (account 3) (BaseNodeAddress_of [] [] 0))\<rparr>"

definition contents_exec :: "(proto_Query, proto_Response, unit FileContentsQuery_ext) q_exec" where
  "contents_exec = \<lparr>this = FileContentsQuery_default\<lparr>mNodeAccountIds := [account 3]\<rparr>, network = example_net, readings = 0,
     nodeResponses = [], log = []\<rparr>"

definition contents_answer :: "u64 \<Rightarrow> string \<Rightarrow> proto_Response" where
  "contents_answer cost t = resp_fileGetContents \<lparr>rh_nodeTransactionPrecheckCode = OK, rh_cost = cost\<rparr> t"

abbreviation contents_run where
  "contents_run cost \<equiv> query_execute example_library (example_answer (contents_answer 0 ''hi''))
     (example_answer (contents_answer cost [])) example_client contents_virtuals (seconds 10) contents_exec"

lemma contents_example:
  "(case contents_run 5 of (r, s) \<Rightarrow> r = Inr [104, 105] \<and> mCost (this s) = \<lparr>mValueInTinybar = 5\<rparr> \<and>
     log s = [Answered 0 OK REQUEST_SUCCESS, Answered 0 OK REQUEST_SUCCESS])"
  by code_simp

lemma contents_too_expensive:
  "(case contents_run 100000001 of (r, s) \<Rightarrow> r = Inl MaxQueryPaymentExceeded \<and> log s = [Answered 0 OK REQUEST_SUCCESS])"
  by code_simp

section \<open>What a paid query costs\<close>

text \<open>
  C8. The cost of a query is within its limit: a query that must be paid for, was not left waiting
  for its cost, and returns an answer had a cost of at most the maximum set on it, or else the
  client's maximum, or else one Hbar. A query that costs more throws before anything is paid.
\<close>

theorem query_within_limit:
  "query_execute L E F client V timeout s = (Inr out, s') \<Longrightarrow> isPaymentRequired V \<Longrightarrow> \<not> mGetCost (this s) \<Longrightarrow>
     toTinybars (mCost (this s')) \<le> toTinybars (query_limit client (this s))"
  by (rule query_execute_paid [THEN conjunct2])

theorem query_within_limit_witness:
  "toTinybars (mCost (this (snd (contents_run 5)))) \<le> toTinybars (query_limit example_client (this contents_exec))"
proof (rule query_within_limit)
  show "contents_run 5 = (Inr [104, 105], snd (contents_run 5))"
    using contents_example by (cases "contents_run 5") simp
qed (simp_all add: contents_virtuals_def contents_exec_def FileContentsQuery_default_def Query_fields_def
    Query.defs FileContentsQuery.defs Executable.defs Executable_default_def)


text \<open>A payment moves an amount from one account to another, in a signed transaction for the second.\<close>

definition pays :: "TransactionData library \<Rightarrow> bytes \<Rightarrow> AccountId \<Rightarrow> AccountId \<Rightarrow> int \<Rightarrow> bool" where
  "pays L payment sender receiver amount \<longleftrightarrow>
     (\<exists>t b p r. payment = serializeSigned L t \<and> st_bodyBytes t = serializeBody L (b\<lparr>tb_nodeAccountID := Some p\<rparr>) \<and>
        AccountId_toProtobuf (serializeKey L) receiver = Inr p \<and> AccountId_toProtobuf (serializeKey L) sender = Inr r \<and>
        tb_data b = Some (data_cryptoTransfer
          \<lparr>ct_accountAmounts = [\<lparr>aa_accountID = Some r, aa_amount = - amount, aa_is_approval = False\<rparr>,
             \<lparr>aa_accountID = Some p, aa_amount = amount, aa_is_approval = False\<rparr>], ct_tokenTransfers = []\<rparr>))"

lemma query_payment_pays:
  assumes "query_payment L E client nodeId s = (Inr p, s')" and "mOperatorAccountId client = Some operator"
    and "numbered operator" "numbered nodeId" "operator \<noteq> nodeId"
  shows "pays L p operator nodeId (toTinybars (mCost (this s)))"
proof -
  from assms(1,2) obtain i net k where
    "fst (payment_transfer L E client i operator nodeId (mCost (this s))
      \<lparr>this = TransferTransaction_default, network = net, readings = k, nodeResponses = [], log = []\<rparr>) = Inr p"
    by (auto simp: query_payment_def abind_eq act_defs now_def split: option.splits)
  then obtain z where "payment_transfer L E client i operator nodeId (mCost (this s))
      \<lparr>this = TransferTransaction_default, network = net, readings = k, nodeResponses = [], log = []\<rparr> = (Inr p, z)"
    by (metis prod.collapse)
  from payment_spec [OF this _ assms(3-5)] show ?thesis by (auto simp: pays_def)
qed

lemma query_payment_this: "query_payment L E client nodeId s = (r, s') \<Longrightarrow> this s' = this s"
  using preservesD [OF preserves_payment, of L E client nodeId s r s' id] by simp

text \<open>
  C9. What a query pays, and to whom: the request that a paid query makes for one of its nodes
  carries a payment of exactly the cost it found, from the client's operator to that node, and
  asks for the answer.
\<close>

theorem query_payment_exact:
  assumes "query_makeRequest L E V j s = (Inr request, s')" and "isPaymentRequired V" and "\<not> mGetCost (this s)"
    and "mClient (this s) = Some client" and "mOperatorAccountId client = Some operator"
    and "numbered operator" and "\<forall>a \<in> set (mNodeAccountIds (this s)). numbered a \<and> a \<noteq> operator"
  shows "\<exists>p. buildRequest V (this s) \<lparr>qh_payment = Some p, qh_responseType = ANSWER_ONLY\<rparr> = Inr request \<and>
    pays L p operator (mNodeAccountIds (this s) ! j) (toTinybars (mCost (this s)))"
proof -
  from assms(1-4) obtain p s1 where j: "j < length (mNodeAccountIds (this s))"
    and p: "query_payment L E client (mNodeAccountIds (this s) ! j) s = (Inr p, s1)"
    and request: "buildRequest V (this s1) \<lparr>qh_payment = Some p,
      qh_responseType = (if mGetCost (this s1) then COST_ANSWER else ANSWER_ONLY)\<rparr> = Inr request"
    by (auto simp: query_makeRequest_def abind_eq act_defs vec_at_def split: if_splits)
  from assms(7) nth_mem [OF j] have "numbered (mNodeAccountIds (this s) ! j)" "operator \<noteq> mNodeAccountIds (this s) ! j" by auto
  from query_payment_pays [OF p assms(5,6) this] request query_payment_this [OF p] assms(3) show ?thesis by auto
qed

definition paying_exec :: "(proto_Query, proto_Response, unit FileContentsQuery_ext) q_exec" where
  "paying_exec = contents_exec\<lparr>this := (this contents_exec)\<lparr>mClient := Some example_client, mCost := \<lparr>mValueInTinybar = 5\<rparr>\<rparr>\<rparr>"

abbreviation paying_request where
  "paying_request \<equiv> query_makeRequest example_library (example_answer (contents_answer 0 [])) contents_virtuals 0 paying_exec"

lemma contents_request:
  "buildRequest contents_virtuals x h = Inr (query_fileGetContents h (FileId_toProtobuf (contentsFileId x)))"
  by (simp add: contents_virtuals_def)


lemma paying_example:
  "(case fst paying_request of Inr (query_fileGetContents h f) \<Rightarrow> f = entity_id_default \<and> qh_responseType h = ANSWER_ONLY | _ \<Rightarrow> False)"
  by code_simp

theorem query_payment_exact_witness:
  "\<exists>p. fst paying_request = Inr (query_fileGetContents \<lparr>qh_payment = Some p, qh_responseType = ANSWER_ONLY\<rparr> entity_id_default) \<and>
    pays example_library p (account 2) (account 3) 5"
proof -
  from paying_example obtain request where r: "paying_request = (Inr request, snd paying_request)"
    by (cases paying_request) (auto split: sum.splits)
  have "\<exists>p. buildRequest contents_virtuals (this paying_exec) \<lparr>qh_payment = Some p, qh_responseType = ANSWER_ONLY\<rparr> = Inr request \<and>
    pays example_library p (account 2) (mNodeAccountIds (this paying_exec) ! 0) (toTinybars (mCost (this paying_exec)))"
  proof (rule query_payment_exact [OF r])
    show "mClient (this paying_exec) = Some example_client" by (simp add: paying_exec_def)
    show "mOperatorAccountId example_client = Some (account 2)" by (simp add: example_client_def)
    show "isPaymentRequired contents_virtuals" by (simp add: contents_virtuals_def)
    show "\<not> mGetCost (this paying_exec)" by code_simp
    show "numbered (account 2)" by simp
    show "\<forall>a \<in> set (mNodeAccountIds (this paying_exec)). numbered a \<and> a \<noteq> account 2"
      by (simp add: paying_exec_def contents_exec_def) code_simp
  qed
  moreover have "mNodeAccountIds (this paying_exec) ! 0 = account 3" "toTinybars (mCost (this paying_exec)) = 5"
    "FileId_toProtobuf (contentsFileId (this paying_exec)) = entity_id_default" by code_simp+
  ultimately show ?thesis using r by (metis contents_request fst_conv)
qed

section \<open>A query whose cost could not be asked for\<close>








section \<open>Receipts\<close>

lemma plain_query_nodes:
  assumes "query_execute L E F client V timeout s = (r, s')" and "\<not> isPaymentRequired V" and "mNodeAccountIds (this s) \<noteq> []"
  shows "mNodeAccountIds (this s') = mNodeAccountIds (this s)"
proof -
  let ?P = "query_operations L E client V (getCost L F client V (mRequestTimeout client))"
  let ?s = "s\<lparr>this := setExecutionParameters client (this s)\<rparr>"
  obtain r1 s1 where on: "onExecute ?P ?s = (r1, s1)" by fastforce
  with assms(2,3) have "this s1 = this ?s"
    by (auto simp: query_operations_def query_onExecute_def query_prepare_def abind_def act_defs setExecutionParameters_def Let_def
        split: if_splits sum.splits prod.splits)
  with query_kept.execute_keeps [OF assms(1) [unfolded query_execute_def] on] show ?thesis
    by (simp add: query_view_def setExecutionParameters_def Let_def)
qed

text \<open>
  C0. What \<open>getReceipt\<close> returns is final: the status of the receipt is none of those that the
  network answers while the transaction may still be handled, it is \<open>SUCCESS\<close> when the response
  validates it, and only the node that took the transaction is asked.
\<close>

theorem receipt_final:
  assumes "getReceipt L E F client net timeout response = (Inr receipt, s')"
  shows "mStatus receipt \<notin> {BUSY, UNKNOWN, OK, RECEIPT_NOT_FOUND, RECORD_NOT_FOUND} \<and>
    (if mValidateStatus response then mStatus receipt = SUCCESS else True) \<and>
    mNodeAccountIds (this s') = [mNodeId response]"
proof -
  from assms obtain r where run: "query_execute L E F client (receipt_virtuals L) timeout
      \<lparr>this = getReceiptQuery response, network = net, readings = 0, nodeResponses = [], log = []\<rparr> = (Inr r, s')"
    and r: "r = receipt" "mValidateStatus response \<Longrightarrow> mStatus receipt = SUCCESS"
    by (auto simp: getReceipt_def validateStatus_def res_simps split: prod.splits sum.splits if_splits)
  from plain_query_nodes [OF run] have "mNodeAccountIds (this s') = [mNodeId response]"
    by (simp add: receipt_virtuals_def getReceiptQuery_def setNodeAccountIds_def)
  with receipt_returned [OF run] r show ?thesis by (simp add: pending_def)
qed

text \<open>A receipt that is pending for the first two requests.\<close>

definition example_receipt :: "Status \<Rightarrow> proto_Response" where
  "example_receipt st = resp_transactionGetReceipt
     \<lparr>gr_header = ResponseHeader_message, gr_receipt = Some (TransactionReceipt_message\<lparr>tr_status := st\<rparr>), gr_duplicates = [], gr_children = []\<rparr>"

definition pending_twice :: "Status \<Rightarrow> (proto_Query, proto_Response) env" where
  "pending_twice st = (example_answer resp_other)
     \<lparr>answers := (\<lambda>a m q t. (GRPC_OK, example_receipt (if a < 2 then UNKNOWN else st)))\<rparr>"

definition example_response :: TransactionResponse where
  "example_response = \<lparr>mNodeId = account 3, response_transactionId = generate 0 (account 2), mTransactionHash = [], mValidateStatus = True\<rparr>"

abbreviation receipt_run where
  "receipt_run st \<equiv> getReceipt example_library (pending_twice st) (pending_twice st) example_client example_net (seconds 10) example_response"

lemma receipt_example:
  "(case receipt_run SUCCESS of (r, s) \<Rightarrow> (case r of Inr x \<Rightarrow> mStatus x = SUCCESS | _ \<Rightarrow> False) \<and>
     log s = [Answered 0 OK RETRY, RetrySlept (milliseconds 250), Answered 0 OK RETRY, RetrySlept (milliseconds 500), Answered 0 OK REQUEST_SUCCESS])"
  by code_simp

lemma receipt_failed_example: "fst (receipt_run INVALID_SIGNATURE) = Inl (ReceiptStatus INVALID_SIGNATURE)"
  by code_simp

theorem receipt_final_witness:
  "\<exists>receipt s. receipt_run SUCCESS = (Inr receipt, s) \<and> mStatus receipt = SUCCESS \<and> mNodeAccountIds (this s) = [account 3]"
proof -
  from receipt_example obtain receipt s where r: "receipt_run SUCCESS = (Inr receipt, s)"
    by (cases "receipt_run SUCCESS") (auto split: sum.splits)
  from receipt_final [OF r] r show ?thesis by (auto simp: example_response_def)
qed

text \<open>
  C0. A receipt loses its token: \<open>toProtobuf\<close> writes neither the token of a receipt nor the next
  exchange rate, so a receipt that is read back has no token, and a next rate of zero.
\<close>

theorem receipt_loses_token:
  assumes "TransactionReceipt_toProtobuf L x = Inr p" and "TransactionReceipt_fromProtobuf L p i = Inr y"
  shows "receiptTokenId y = None \<and> mNextRate (mExchangeRates y) = ExchangeRate_default"
  using assms
  by (auto simp: TransactionReceipt_toProtobuf_def TransactionReceipt_fromProtobuf_def ExchangeRates_fromProtobuf_def
      ExchangeRate_fromProtobuf_def ExchangeRate_message_def ExchangeRate_default_def TimestampSeconds_fromProtobuf_def res_simps ropt_def)

definition token_receipt :: proto_TransactionReceipt where
  "token_receipt = TransactionReceipt_message\<lparr>tr_status := SUCCESS, tr_tokenID := Some (TokenId_toProtobuf (TokenId_of 0 0 5 []))\<rparr>"

abbreviation read_receipt where
  "read_receipt \<equiv> TransactionReceipt_fromProtobuf example_library token_receipt (generate 0 (account 2))"

abbreviation reread_receipt where
  "reread_receipt \<equiv> rbind read_receipt (\<lambda>x. rbind (TransactionReceipt_toProtobuf example_library x) (\<lambda>p.
     TransactionReceipt_fromProtobuf example_library p (generate 0 (account 2))))"

lemma token_receipt_example:
  "(case read_receipt of Inr x \<Rightarrow> receiptTokenId x = Some (TokenId_of 0 0 5 []) | _ \<Rightarrow> False)"
  "(case reread_receipt of Inr y \<Rightarrow> mStatus y = SUCCESS | _ \<Rightarrow> False)"
  by code_simp+

theorem receipt_loses_token_witness:
  "\<exists>x p y. read_receipt = Inr x \<and> receiptTokenId x = Some (TokenId_of 0 0 5 []) \<and>
    TransactionReceipt_toProtobuf example_library x = Inr p \<and>
    TransactionReceipt_fromProtobuf example_library p (generate 0 (account 2)) = Inr y \<and> receiptTokenId y = None"
proof -
  from token_receipt_example obtain x p y where "read_receipt = Inr x" "receiptTokenId x = Some (TokenId_of 0 0 5 [])"
    and p: "TransactionReceipt_toProtobuf example_library x = Inr p"
    and y: "TransactionReceipt_fromProtobuf example_library p (generate 0 (account 2)) = Inr y"
    by (auto simp: res_simps split: sum.splits)
  with receipt_loses_token [OF p y] show ?thesis by blast
qed

end
