(* ===== verification/ContractCalls.thy ===== *)
theory ContractCalls
  imports AccountIds
begin

text \<open>
  The calls of smart contracts: \<open>ContractFunctionSelector.cc\<close>, \<open>ContractFunctionParameters.cc\<close>, which
  encodes arguments as the Solidity ABI lays them out, and the getters of \<open>ContractFunctionResult.cc\<close>,
  which read values at an index of the answer.
\<close>

section \<open>Selectors\<close>

record ContractFunctionSelector =
  mFunctionCall :: bytes
  addComma :: bool

definition ContractFunctionSelector_default :: ContractFunctionSelector where
  "ContractFunctionSelector_default = \<lparr>mFunctionCall = [], addComma = False\<rparr>"

definition addParameter :: "string \<Rightarrow> ContractFunctionSelector \<Rightarrow> ContractFunctionSelector" where
  "addParameter t x =
     (let call = (if addComma x then mFunctionCall x @ [byte_of_char CHR '','']  else mFunctionCall x) in
      x\<lparr>mFunctionCall := concatenateVectors [call, stringToByteVector t], addComma := True\<rparr>)"

definition selector_addString where "selector_addString = addParameter ''string''"
definition selector_addStringArray where "selector_addStringArray = addParameter ''string[]''"
definition selector_addBytes where "selector_addBytes = addParameter ''bytes''"
definition selector_addBytesArray where "selector_addBytesArray = addParameter ''bytes[]''"
definition selector_addBytes32 where "selector_addBytes32 = addParameter ''bytes32''"
definition selector_addBytes32Array where "selector_addBytes32Array = addParameter ''bytes32[]''"
definition selector_addBool where "selector_addBool = addParameter ''bool''"
definition selector_addInt8 where "selector_addInt8 = addParameter ''int8''"
definition selector_addInt32 where "selector_addInt32 = addParameter ''int32''"
definition selector_addInt64 where "selector_addInt64 = addParameter ''int64''"
definition selector_addInt256 where "selector_addInt256 = addParameter ''int256''"
definition selector_addInt8Array where "selector_addInt8Array = addParameter ''int8[]''"
definition selector_addInt32Array where "selector_addInt32Array = addParameter ''int32[]''"
definition selector_addInt64Array where "selector_addInt64Array = addParameter ''int64[]''"
definition selector_addInt256Array where "selector_addInt256Array = addParameter ''int256[]''"
definition selector_addUint8 where "selector_addUint8 = addParameter ''uint8''"
definition selector_addUint32 where "selector_addUint32 = addParameter ''uint32''"
definition selector_addUint64 where "selector_addUint64 = addParameter ''uint64''"
definition selector_addUint256 where "selector_addUint256 = addParameter ''uint256''"
definition selector_addUint8Array where "selector_addUint8Array = addParameter ''uint8[]''"
definition selector_addUint32Array where "selector_addUint32Array = addParameter ''uint32[]''"
definition selector_addUint64Array where "selector_addUint64Array = addParameter ''uint64[]''"
definition selector_addUint256Array where "selector_addUint256Array = addParameter ''uint256[]''"
definition selector_addAddress where "selector_addAddress = addParameter ''address''"
definition selector_addAddressArray where "selector_addAddressArray = addParameter ''address[]''"
definition selector_addFunction where "selector_addFunction = addParameter ''function''"

definition finish :: "openssl \<Rightarrow> string \<Rightarrow> ContractFunctionSelector \<Rightarrow> bytes" where
  "finish ssl name x =
     take 4 (keccak256 ssl (concatenateVectors
       [stringToByteVector name, [byte_of_char CHR ''(''], mFunctionCall x, [byte_of_char CHR '')'']]))"

section \<open>Words of the ABI\<close>

definition POSITIVE_PADDING :: bytes where "POSITIVE_PADDING = replicate 31 0"
definition NEGATIVE_PADDING :: bytes where "NEGATIVE_PADDING = replicate 31 0xFF"

text \<open>The ceiling of a quotient of doubles, which is exact for lengths below \<open>2 ^ 53\<close>.\<close>

definition getNumSolidityWords :: "bytes \<Rightarrow> nat" where
  "getNumSolidityWords bs = (length bs + 31) div 32"

definition getPaddingAmount :: "bytes \<Rightarrow> nat" where
  "getPaddingAmount bs = getNumSolidityWords bs * 32 - length bs"

definition leftPad :: "bytes \<Rightarrow> bool \<Rightarrow> bytes" where
  "leftPad bs negative =
     concatenateVectors [take (getPaddingAmount bs) (if negative then NEGATIVE_PADDING else POSITIVE_PADDING), bs]"

definition rightPad :: "bytes \<Rightarrow> bool \<Rightarrow> bytes" where
  "rightPad bs negative = concatenateVectors [bs, take (getPaddingAmount bs) POSITIVE_PADDING]"

definition checkByteArraySize :: "bytes \<Rightarrow> bytes res" where
  "checkByteArraySize bs = (if 32 < length bs then Inl InvalidArgument else Inr bs)"

definition encodeValue :: "('v \<Rightarrow> bytes res) \<Rightarrow> (bytes \<Rightarrow> bool \<Rightarrow> bytes) \<Rightarrow> bool \<Rightarrow> 'v \<Rightarrow> bytes res" where
  "encodeValue toBytesFunc paddingFunc negative val = rbind (toBytesFunc val) (\<lambda>bs. Inr (paddingFunc bs negative))"

text \<open>
  The two versions of \<open>encodeArray\<close> differ in \<open>negative\<close>: the one for integers tests the sign of
  each element, the other one pads with zeros.
\<close>

fun encode_elements :: "('v \<Rightarrow> bytes res) \<Rightarrow> (bytes \<Rightarrow> bool \<Rightarrow> bytes) \<Rightarrow> ('v \<Rightarrow> bool) \<Rightarrow> 'v list \<Rightarrow> bytes \<Rightarrow> bytes res" where
  "encode_elements f pad negative [] bs = Inr bs"
| "encode_elements f pad negative (val # vals) bs =
     rbind (encodeValue f pad (negative val) val) (\<lambda>e. encode_elements f pad negative vals (concatenateVectors [bs, e]))"

definition size_word :: "nat \<Rightarrow> bytes" where
  "size_word n = leftPad (getBytes (of_nat n :: u64)) False"

definition encodeArray :: "('v \<Rightarrow> bytes res) \<Rightarrow> (bytes \<Rightarrow> bool \<Rightarrow> bytes) \<Rightarrow> ('v \<Rightarrow> bool) \<Rightarrow> 'v list \<Rightarrow> bytes res" where
  "encodeArray f pad negative vals = encode_elements f pad negative vals (size_word (length vals))"

fun encode_dynamic :: "('v \<Rightarrow> bytes) \<Rightarrow> 'v list \<Rightarrow> bytes \<Rightarrow> bytes \<Rightarrow> u64 \<Rightarrow> bytes" where
  "encode_dynamic f [] offsets vs offset = concatenateVectors [offsets, vs]"
| "encode_dynamic f (val # vals) offsets vs offset =
     encode_dynamic f vals (concatenateVectors [offsets, leftPad (getBytes offset) False]) (concatenateVectors [vs, f val])
       (offset + 32 * of_nat (getNumSolidityWords (f val)))"

definition encodeDynamicArray :: "('v \<Rightarrow> bytes) \<Rightarrow> 'v list \<Rightarrow> bytes" where
  "encodeDynamicArray f vals = encode_dynamic f vals (size_word (length vals)) [] (32 * of_nat (length vals))"

definition SOLIDITY_ADDRESS_HEX :: nat where "SOLIDITY_ADDRESS_HEX = 40"

definition encodeAddress :: "openssl \<Rightarrow> string \<Rightarrow> string \<Rightarrow> bytes res" where
  "encodeAddress ssl address after =
     (let a = (if take 2 address = ''0x'' then drop 2 address else address) in
      if length a \<noteq> SOLIDITY_ADDRESS_HEX then Inl InvalidArgument
      else rcatch (\<lambda>e. e = OpenSSLError) (hexToBytes (hexstr2buf ssl) a after) (Inl InvalidArgument))"

definition encodeBytes :: "bytes \<Rightarrow> bytes" where
  "encodeBytes bs = concatenateVectors [size_word (length bs), rightPad bs False]"

definition encodeString :: "string \<Rightarrow> bytes" where
  "encodeString s = encodeBytes (stringToByteVector s)"

section \<open>Parameters\<close>

record Argument =
  argValue :: bytes
  argDynamic :: bool

record ContractFunctionParameters =
  mArguments :: "Argument list"
  mFunction :: ContractFunctionSelector

definition ContractFunctionParameters_default :: ContractFunctionParameters where
  "ContractFunctionParameters_default = \<lparr>mArguments = [], mFunction = ContractFunctionSelector_default\<rparr>"

text \<open>The type is added to the selector before the value is encoded, which may throw.\<close>

definition add_argument ::
  "(ContractFunctionSelector \<Rightarrow> ContractFunctionSelector) \<Rightarrow> bytes res \<Rightarrow> bool \<Rightarrow> (ContractFunctionParameters, unit) act" where
  "add_argument sel v dynamic x =
     (let y = x\<lparr>mFunction := sel (mFunction x)\<rparr> in
      case v of Inl e \<Rightarrow> (Inl e, y) | Inr bs \<Rightarrow> (Inr (), y\<lparr>mArguments := mArguments y @ [\<lparr>argValue = bs, argDynamic = dynamic\<rparr>]\<rparr>))"

abbreviation is_negative :: "'a::len word \<Rightarrow> bool" where "is_negative v \<equiv> sint v < 0"
abbreviation never :: "'v \<Rightarrow> bool" where "never v \<equiv> False"
abbreviation int_bytes :: "'a::len word \<Rightarrow> bytes res" where "int_bytes v \<equiv> Inr (getBytes v)"

definition addString where "addString p = add_argument selector_addString (Inr (encodeString p)) True"
definition addStringArray where "addStringArray p = add_argument selector_addStringArray (Inr (encodeDynamicArray encodeString p)) True"
definition addBytes where "addBytes p = add_argument selector_addBytes (Inr (encodeBytes p)) True"
definition addBytesArray where "addBytesArray p = add_argument selector_addBytesArray (Inr (encodeDynamicArray encodeBytes p)) True"
definition addBytes32 where
  "addBytes32 p = add_argument selector_addBytes32 (encodeValue checkByteArraySize rightPad False p) False"
definition addBytes32Array where
  "addBytes32Array p = add_argument selector_addBytes32Array (encodeArray checkByteArraySize rightPad never p) True"
definition addBool where
  "addBool p = add_argument selector_addBool (Inr (leftPad [if p then 1 else 0] False)) False"
definition addInt8 :: "byte \<Rightarrow> (ContractFunctionParameters, unit) act" where
  "addInt8 p = add_argument selector_addInt8 (Inr (leftPad (getBytes p) (is_negative p))) False"
definition addInt32 :: "u32 \<Rightarrow> (ContractFunctionParameters, unit) act" where
  "addInt32 p = add_argument selector_addInt32 (Inr (leftPad (getBytes p) (is_negative p))) False"
definition addInt64 :: "u64 \<Rightarrow> (ContractFunctionParameters, unit) act" where
  "addInt64 p = add_argument selector_addInt64 (Inr (leftPad (getBytes p) (is_negative p))) False"
definition addInt256 where
  "addInt256 p = add_argument selector_addInt256
     (encodeValue checkByteArraySize leftPad (p \<noteq> [] \<and> hd p AND 0x10 = 0x10) p) False"
definition addInt8Array :: "byte list \<Rightarrow> (ContractFunctionParameters, unit) act" where
  "addInt8Array p = add_argument selector_addInt8Array (encodeArray int_bytes leftPad (\<lambda>v. is_negative v) p) True"
definition addInt32Array :: "u32 list \<Rightarrow> (ContractFunctionParameters, unit) act" where
  "addInt32Array p = add_argument selector_addInt32Array (encodeArray int_bytes leftPad (\<lambda>v. is_negative v) p) True"
definition addInt64Array :: "u64 list \<Rightarrow> (ContractFunctionParameters, unit) act" where
  "addInt64Array p = add_argument selector_addInt64Array (encodeArray int_bytes leftPad (\<lambda>v. is_negative v) p) True"
definition addInt256Array where
  "addInt256Array p = add_argument selector_addInt256Array (encodeArray checkByteArraySize leftPad never p) True"
definition addUint8 :: "byte \<Rightarrow> (ContractFunctionParameters, unit) act" where
  "addUint8 p = add_argument selector_addUint8 (Inr (leftPad (getBytes p) False)) False"
definition addUint32 :: "u32 \<Rightarrow> (ContractFunctionParameters, unit) act" where
  "addUint32 p = add_argument selector_addUint32 (Inr (leftPad (getBytes p) False)) False"
definition addUint64 :: "u64 \<Rightarrow> (ContractFunctionParameters, unit) act" where
  "addUint64 p = add_argument selector_addUint64 (Inr (leftPad (getBytes p) False)) False"
definition addUint256 where
  "addUint256 p = add_argument selector_addUint256 (encodeValue checkByteArraySize leftPad False p) False"
definition addUint8Array :: "byte list \<Rightarrow> (ContractFunctionParameters, unit) act" where
  "addUint8Array p = add_argument selector_addUint8Array (encodeArray int_bytes leftPad never p) True"
definition addUint32Array :: "u32 list \<Rightarrow> (ContractFunctionParameters, unit) act" where
  "addUint32Array p = add_argument selector_addUint32Array (encodeArray int_bytes leftPad never p) True"
definition addUint64Array :: "u64 list \<Rightarrow> (ContractFunctionParameters, unit) act" where
  "addUint64Array p = add_argument selector_addUint64Array (encodeArray int_bytes leftPad never p) True"
definition addUint256Array where
  "addUint256Array p = add_argument selector_addUint256Array (encodeArray checkByteArraySize leftPad never p) True"
definition addAddress where
  "addAddress ssl p after = add_argument selector_addAddress
     (rbind (encodeAddress ssl p after) (\<lambda>a. Inr (leftPad a False))) False"
definition addAddressArray where
  "addAddressArray ssl p = add_argument selector_addAddressArray (encodeArray (\<lambda>a. encodeAddress ssl a []) leftPad never p) True"

text \<open>A selector given as an object is finished without a name.\<close>

definition addFunction :: "openssl \<Rightarrow> string \<Rightarrow> string \<Rightarrow> bytes \<Rightarrow> (ContractFunctionParameters, unit) act" where
  "addFunction ssl address after sel = add_argument selector_addFunction
     (rbind (encodeAddress ssl address after) (\<lambda>a. Inr (rightPad (concatenateVectors [a, sel]) False))) False"

definition addFunction_of_selector where
  "addFunction_of_selector ssl address after sel = addFunction ssl address after (finish ssl [] sel)"

fun lay_out :: "Argument list \<Rightarrow> u64 \<Rightarrow> bytes \<Rightarrow> bytes \<Rightarrow> bytes \<times> bytes" where
  "lay_out [] dynamicOffset paramsBytes dynamicBytes = (paramsBytes, dynamicBytes)"
| "lay_out (arg # args) dynamicOffset paramsBytes dynamicBytes =
     (if argDynamic arg then
        lay_out args (dynamicOffset + of_nat (length (argValue arg)))
          (concatenateVectors [paramsBytes, leftPad (getBytes dynamicOffset) False])
          (concatenateVectors [dynamicBytes, argValue arg])
      else lay_out args dynamicOffset (concatenateVectors [paramsBytes, argValue arg]) dynamicBytes)"

definition parameters_toBytes :: "openssl \<Rightarrow> string \<Rightarrow> ContractFunctionParameters \<Rightarrow> bytes" where
  "parameters_toBytes ssl name x =
     (case lay_out (mArguments x) (of_nat (length (mArguments x)) * 32) [] [] of (paramsBytes, dynamicBytes) \<Rightarrow>
        concatenateVectors [if name \<noteq> [] then finish ssl name (mFunction x) else [], paramsBytes, dynamicBytes])"

section \<open>Results\<close>

text \<open>
  The getters compute with \<open>int\<close>, whose overflow is undefined. \<open>vector::at\<close> tests the position of the
  first byte only; the memory read there may pass the end.
\<close>

definition i32 :: "int \<Rightarrow> int res" where
  "i32 n = (if - (2 ^ 31) \<le> n \<and> n < 2 ^ 31 then Inr n else Inl UndefinedBehavior)"

definition byte_at :: "bytes \<Rightarrow> int \<Rightarrow> byte res" where
  "byte_at bs i = (if 0 \<le> i \<and> i < int (length bs) then Inr (bs ! nat i) else Inl OutOfRange)"

definition memory_at :: "nat \<Rightarrow> bytes \<Rightarrow> int \<Rightarrow> bytes res" where
  "memory_at k bs i =
     rbind (byte_at bs i) (\<lambda>_. if nat i + k \<le> length bs then Inr (take k (drop (nat i) bs)) else Inl UndefinedBehavior)"

definition getIntValueAt :: "bytes \<Rightarrow> int \<Rightarrow> int res" where
  "getIntValueAt bs offset =
     rbind (i32 (offset + 28)) (\<lambda>p. rbind (memory_at 4 bs p) (\<lambda>m. Inr (sint (swapEndianness (toTypePtr m :: u32)))))"

definition getByteString :: "bytes \<Rightarrow> int \<Rightarrow> int \<Rightarrow> bytes res" where
  "getByteString bs start stop =
     (if 0 \<le> start \<and> start \<le> stop \<and> stop \<le> int (length bs) then Inr (take (nat (stop - start)) (drop (nat start) bs))
      else Inl UndefinedBehavior)"

definition getInt32 :: "bytes \<Rightarrow> int \<Rightarrow> int res" where
  "getInt32 bs index = rbind (i32 (index * 32)) (getIntValueAt bs)"

definition getDynamicBytes :: "bytes \<Rightarrow> int \<Rightarrow> bytes res" where
  "getDynamicBytes bs index =
     rbind (getInt32 bs index) (\<lambda>offset.
     rbind (i32 (offset + 32)) (\<lambda>start.
     rbind (getIntValueAt bs offset) (\<lambda>n.
     rbind (i32 (start + n)) (getByteString bs start))))"

definition getString :: "bytes \<Rightarrow> int \<Rightarrow> string res" where
  "getString bs index = rbind (getDynamicBytes bs index) (\<lambda>b. Inr (byteVectorToString b))"

definition string_element :: "bytes \<Rightarrow> int \<Rightarrow> int \<Rightarrow> string res" where
  "string_element bs offset i =
     rbind (i32 (offset + 32)) (\<lambda>p. rbind (i32 (i * 32)) (\<lambda>q. rbind (i32 (p + q)) (\<lambda>r.
     rbind (getIntValueAt bs r) (\<lambda>strOffset.
     rbind (i32 (offset + strOffset)) (\<lambda>s. rbind (i32 (s + 64)) (\<lambda>start.
     rbind (rbind (i32 (s + 32)) (getIntValueAt bs)) (\<lambda>n.
     rbind (i32 (start + n)) (\<lambda>stop.
     rbind (getByteString bs start stop) (\<lambda>b. Inr (byteVectorToString b))))))))))"

definition getStringArray :: "bytes \<Rightarrow> int \<Rightarrow> string list res" where
  "getStringArray bs index =
     rbind (getInt32 bs index) (\<lambda>offset.
     rbind (getIntValueAt bs offset) (\<lambda>count.
       rmap (\<lambda>i. string_element bs offset (int i)) [0..<nat count]))"

definition getByteArray :: "bytes \<Rightarrow> int \<Rightarrow> bytes res" where
  "getByteArray = getDynamicBytes"

definition getBytes32 :: "bytes \<Rightarrow> int \<Rightarrow> bytes res" where
  "getBytes32 bs index =
     rbind (i32 (index * 32)) (\<lambda>start. rbind (i32 ((index + 1) * 32)) (getByteString bs start))"

definition getInt8 :: "bytes \<Rightarrow> int \<Rightarrow> byte res" where
  "getInt8 bs index = rbind (i32 (index * 32)) (\<lambda>p. rbind (i32 (p + 31)) (byte_at bs))"

definition getBool :: "bytes \<Rightarrow> int \<Rightarrow> bool res" where
  "getBool bs index = rbind (getInt8 bs index) (\<lambda>b. Inr (sint b \<noteq> 0))"

definition getInt64 :: "bytes \<Rightarrow> int \<Rightarrow> u64 res" where
  "getInt64 bs index =
     rbind (i32 (index * 32)) (\<lambda>p. rbind (i32 (p + 24)) (\<lambda>q.
     rbind (memory_at 8 bs q) (\<lambda>m. Inr (swapEndianness (toTypePtr m)))))"

definition getUint8 :: "bytes \<Rightarrow> int \<Rightarrow> byte res" where
  "getUint8 bs index = getInt8 bs index"

definition getUint32 :: "bytes \<Rightarrow> int \<Rightarrow> u32 res" where
  "getUint32 bs index = rbind (getInt32 bs index) (\<lambda>v. Inr (of_int v))"

definition getUint64 :: "bytes \<Rightarrow> int \<Rightarrow> u64 res" where
  "getUint64 bs index = getInt64 bs index"

definition getAddress :: "openssl \<Rightarrow> bytes \<Rightarrow> int \<Rightarrow> string res" where
  "getAddress ssl bs index =
     rbind (i32 (index * 32)) (\<lambda>p. rbind (i32 (p + 12)) (\<lambda>start. rbind (i32 ((index + 1) * 32)) (\<lambda>stop.
     rbind (getByteString bs start stop) (\<lambda>b. Inr (buf2hexstr ssl b)))))"

section \<open>Padding\<close>

lemma length_word_pad: "length bs \<le> 32 \<Longrightarrow> bs \<noteq> [] \<Longrightarrow> getPaddingAmount bs = 32 - length bs"
proof -
  assume "length bs \<le> 32" "bs \<noteq> []"
  then have "0 < length bs" "length bs \<le> 32" by simp_all
  then have "(length bs + 31) div 32 = 1" by linarith
  then show ?thesis by (simp add: getPaddingAmount_def getNumSolidityWords_def)
qed

lemma leftPad_word: "length bs \<le> 32 \<Longrightarrow> bs \<noteq> [] \<Longrightarrow> leftPad bs neg = replicate (32 - length bs) (if neg then 0xFF else 0) @ bs"
  by (cases bs) (auto simp: leftPad_def length_word_pad POSITIVE_PADDING_def NEGATIVE_PADDING_def min_def)

lemma rightPad_word: "length bs \<le> 32 \<Longrightarrow> bs \<noteq> [] \<Longrightarrow> rightPad bs neg = bs @ replicate (32 - length bs) 0"
  by (cases bs) (auto simp: rightPad_def length_word_pad POSITIVE_PADDING_def min_def)

lemma rightPad_append: "\<exists>zs. rightPad bs neg = bs @ zs"
  by (simp add: rightPad_def)

lemma length_rightPad: "length (rightPad bs neg) = 32 * getNumSolidityWords bs"
proof -
  have "length bs \<le> 32 * ((length bs + 31) div 32)" "32 * ((length bs + 31) div 32) \<le> length bs + 31" by linarith+
  then show ?thesis by (simp add: rightPad_def getPaddingAmount_def getNumSolidityWords_def POSITIVE_PADDING_def)
qed

lemma size_word_eq: "size_word n = replicate 24 0 @ getBytes (of_nat n :: u64)"
proof -
  have "getBytes (of_nat n :: u64) \<noteq> []" by (simp flip: length_greater_0_conv)
  then show ?thesis by (simp add: size_word_def leftPad_word)
qed

lemma length_size_word [simp]: "length (size_word n) = 32"
  by (simp add: size_word_eq)

section \<open>Reading words\<close>

lemma toTypePtr_rev:
  assumes "length m = LENGTH('a) div 8" "8 dvd LENGTH('a)"
  shows "swapEndianness (toTypePtr m :: 'a::len word) = of_nat (be_val m)"
proof -
  obtain k where k: "LENGTH('a) = 8 * k" using assms(2) ..
  have "le_val m < 2 ^ LENGTH('a)" using le_val_bound [of m] assms(1) by (simp add: k power_mult)
  then have "unat (toTypePtr m :: 'a word) = le_val m" by (simp add: toTypePtr_def unat_of_nat take_bit_nat_eq_self)
  then have "mem_bytes (toTypePtr m :: 'a word) = m"
    using le_bytes_le_val [of m] assms(1) by (simp add: mem_bytes_def sizeof_def)
  then have "getBytes (toTypePtr m :: 'a word) = rev m" by (simp add: getBytes_eq)
  then have "toTypePtr (rev m) = swapEndianness (toTypePtr m :: 'a word)" by (metis toTypePtr_getBytes)
  then show ?thesis by (simp add: toTypePtr_def be_val_def)
qed

lemma of_nat_be_getBytes: "of_nat (be_val (getBytes (v :: 'a::len word))) = v" if "8 dvd LENGTH('a)"
  by (simp add: be_val_getBytes that)

text \<open>\<open>word_at bs p w\<close>: the 32 bytes at position \<open>p\<close> are \<open>w\<close>.\<close>

definition word_at :: "bytes \<Rightarrow> nat \<Rightarrow> bytes \<Rightarrow> bool" where
  "word_at bs p w \<longleftrightarrow> p + 32 \<le> length bs \<and> take 32 (drop p bs) = w"

lemma word_at_part: "word_at bs p w \<Longrightarrow> k + n \<le> 32 \<Longrightarrow> take n (drop (p + k) bs) = take n (drop k w)"
  by (auto simp: word_at_def drop_take min_def add.commute)

lemma memory_at_word:
  assumes "word_at bs p w" "k + n \<le> 32" "0 < n"
  shows "memory_at n bs (int p + int k) = Inr (take n (drop k w))"
  using assms word_at_part [OF assms(1,2)] by (auto simp: memory_at_def byte_at_def word_at_def nat_add_distrib)

lemma getIntValueAt_word:
  fixes v :: u32
  assumes "word_at bs p (pad @ getBytes v)" "length pad = 28" "length bs < 2 ^ 31"
  shows "getIntValueAt bs (int p) = Inr (sint v)"
proof -
  from assms(1,3) have "int p + 28 < 2 ^ 31" by (simp add: word_at_def)
  with memory_at_word [OF assms(1), of 28 4] assms(2) show ?thesis
    by (simp add: getIntValueAt_def i32_def toTypePtr_rev of_nat_be_getBytes)
qed

lemma be_val_inj: "be_val xs = be_val ys \<Longrightarrow> length xs = length ys \<Longrightarrow> xs = ys"
  using le_bytes_le_val [of "rev xs"] le_bytes_le_val [of "rev ys"] by (simp add: be_val_def)

lemma be_val_zeros: "be_val (replicate n 0 @ bs) = be_val bs"
proof -
  have zero: "be_val (0 # xs) = be_val xs" for xs using be_val_append [of "[0]" xs] by (simp add: be_val_def)
  show ?thesis by (induction n) (simp_all add: zero)
qed

lemma size_word_u32:
  assumes "n < 2 ^ 31"
  shows "size_word n = replicate 28 0 @ getBytes (of_nat n :: u32)"
proof (rule be_val_inj)
  have "unat (of_nat n :: u64) = n" "unat (of_nat n :: u32) = n"
    using assms by (simp_all add: unat_of_nat take_bit_nat_eq_self)
  then show "be_val (size_word n) = be_val (replicate 28 0 @ getBytes (of_nat n :: u32))"
    by (simp add: size_word_eq be_val_zeros be_val_getBytes)
qed simp

lemma sint_of_nat_u32: "n < 2 ^ 31 \<Longrightarrow> sint (of_nat n :: u32) = int n"
  by (simp add: signed_of_nat signed_take_bit_int_eq_self)

lemma getIntValueAt_size:
  assumes "word_at bs p (size_word n)" "n < 2 ^ 31" "length bs < 2 ^ 31"
  shows "getIntValueAt bs (int p) = Inr (int n)"
  using getIntValueAt_word [of bs p "replicate 28 0" "of_nat n"] assms by (simp add: size_word_u32 sint_of_nat_u32)

section \<open>Where the arguments are\<close>

text \<open>
  The layout of the ABI: one word for each argument, which is its value, or for a dynamic argument the
  offset of its value; then the values of the dynamic arguments.
\<close>

definition dynamic_values :: "Argument list \<Rightarrow> bytes" where
  "dynamic_values args = concat (map argValue (filter argDynamic args))"

lemma dynamic_values_simps [simp]:
  "dynamic_values [] = []"
  "dynamic_values (a # args) = (if argDynamic a then argValue a else []) @ dynamic_values args"
  by (simp_all add: dynamic_values_def)

definition abi_head :: "Argument list \<Rightarrow> nat \<Rightarrow> bytes" where
  "abi_head args i =
     (if argDynamic (args ! i) then size_word (32 * length args + length (dynamic_values (take i args))) else argValue (args ! i))"

definition abi_encoding :: "Argument list \<Rightarrow> bytes" where
  "abi_encoding args = concat (map (abi_head args) [0..<length args]) @ dynamic_values args"

lemma lay_out_eq:
  "lay_out args (of_nat n) ps ds =
     (ps @ concat (map (\<lambda>i. if argDynamic (args ! i) then size_word (n + length (dynamic_values (take i args))) else argValue (args ! i))
        [0..<length args]), ds @ dynamic_values args)"
proof (induction args arbitrary: n ps ds)
  case (Cons a args)
  have upt: "[0..<Suc (length args)] = 0 # map Suc [0..<length args]" by (simp add: map_Suc_upt upt_conv_Cons del: upt_Suc)
  have off: "(of_nat n :: u64) + of_nat (length (argValue a)) = of_nat (n + length (argValue a))" by simp
  show ?case
  proof (cases "argDynamic a")
    case True
    have "lay_out (a # args) (of_nat n) ps ds = lay_out args (of_nat (n + length (argValue a))) (ps @ size_word n) (ds @ argValue a)"
      by (simp only: lay_out.simps True if_True off size_word_def concatenateVectors_eq) simp
    also note Cons [of "n + length (argValue a)"]
    finally show ?thesis using True by (simp add: upt comp_def add.assoc del: upt_Suc of_nat_add cong del: if_weak_cong)
  next
    case False
    have "lay_out (a # args) (of_nat n) ps ds = lay_out args (of_nat n) (ps @ argValue a) ds" by (simp add: False)
    also note Cons [of n]
    finally show ?thesis using False by (simp add: upt comp_def del: upt_Suc of_nat_add cong del: if_weak_cong)
  qed
qed simp

lemma parameters_layout:
  "parameters_toBytes ssl name x = (if name \<noteq> [] then finish ssl name (mFunction x) else []) @ abi_encoding (mArguments x)"
proof -
  have "of_nat (length (mArguments x)) * 32 = (of_nat (32 * length (mArguments x)) :: u64)" by (simp add: mult.commute)
  then show ?thesis
    unfolding parameters_toBytes_def by (simp only: lay_out_eq) (simp add: abi_encoding_def abi_head_def [abs_def])
qed

text \<open>A value at an index: in its word, or where its word says.\<close>

definition placed :: "bytes \<Rightarrow> nat \<Rightarrow> bool \<Rightarrow> bytes \<Rightarrow> bool" where
  "placed bs i dynamic e \<longleftrightarrow> 32 * i + 32 \<le> length bs \<and>
     (if dynamic then \<exists>p. word_at bs (32 * i) (size_word p) \<and> p + length e \<le> length bs \<and> take (length e) (drop p bs) = e
      else word_at bs (32 * i) e)"

lemma concat_words:
  "\<forall>w \<in> set ws. length w = 32 \<Longrightarrow> length (concat ws) = 32 * length ws"
  by (induction ws) auto

lemma word_at_concat:
  assumes "\<forall>w \<in> set ws. length w = 32" "i < length ws"
  shows "word_at (concat ws @ zs) (32 * i) (ws ! i)"
proof -
  have ws: "concat ws = concat (take i ws) @ ws ! i @ concat (drop (Suc i) ws)"
    using id_take_nth_drop [OF assms(2)] by (metis concat.simps(2) concat_append)
  have "length (concat (take i ws)) = 32 * i" using concat_words [of "take i ws"] assms by (auto dest: in_set_takeD)
  with assms show ?thesis by (simp add: ws word_at_def)
qed

lemma abi_placed:
  assumes "\<forall>a \<in> set args. argDynamic a \<or> length (argValue a) = 32" "i < length args"
  shows "placed (abi_encoding args) i (argDynamic (args ! i)) (argValue (args ! i))"
proof -
  let ?ws = "map (abi_head args) [0..<length args]"
  have words: "\<forall>w \<in> set ?ws. length w = 32" using assms(1) by (auto simp: abi_head_def)
  have w: "word_at (abi_encoding args) (32 * i) (abi_head args i)"
    using word_at_concat [OF words, of i "dynamic_values args"] assms(2) by (simp add: abi_encoding_def)
  have "args = take i args @ args ! i # drop (Suc i) args" by (rule id_take_nth_drop [OF assms(2)])
  then have "dynamic_values args = dynamic_values (take i args @ args ! i # drop (Suc i) args)" by simp
  then have d: "argDynamic (args ! i) \<Longrightarrow>
      dynamic_values args = dynamic_values (take i args) @ argValue (args ! i) @ dynamic_values (drop (Suc i) args)"
    by (simp add: dynamic_values_def)
  have "length (concat ?ws) = 32 * length args" using concat_words [OF words] by simp
  with w d show ?thesis
    by (auto simp: placed_def abi_head_def abi_encoding_def word_at_def intro!: exI [of _ "32 * length args + length (dynamic_values (take i args))"])
qed

end
