(* ===== verification/ContractValues.thy ===== *)
theory ContractValues
  imports ContractCalls
begin

text \<open>
  What the arguments of a contract call become: every kind of value that the getters can read is read
  back from the place of its argument.
\<close>

section \<open>The contract of a kind of value\<close>

text \<open>\<open>encode\<close> and \<open>dynamic\<close> are what its \<open>add\<close> function appends, \<open>get\<close> is its getter.\<close>

locale abi_kind =
  fixes encode :: "'v \<Rightarrow> bytes"
    and dynamic :: bool
    and get :: "bytes \<Rightarrow> int \<Rightarrow> 'v res"
    and valid :: "'v \<Rightarrow> bool"
  assumes word_sized: "valid v \<Longrightarrow> \<not> dynamic \<Longrightarrow> length (encode v) = 32"
    and get_placed: "valid v \<Longrightarrow> length bs < 2 ^ 31 \<Longrightarrow> placed bs i dynamic (encode v) \<Longrightarrow> get bs (int i) = Inr v"
begin

lemma read_back:
  assumes "\<forall>a \<in> set args. argDynamic a \<or> length (argValue a) = 32" "i < length args"
    and "args ! i = \<lparr>argValue = encode v, argDynamic = dynamic\<rparr>" "valid v" "length (abi_encoding args) < 2 ^ 31"
  shows "get (abi_encoding args) (int i) = Inr v"
  using get_placed [OF assms(4,5), of i] abi_placed [OF assms(1,2)] assms(3) by simp

end

lemma placed_word: "placed bs i False e \<Longrightarrow> word_at bs (32 * i) e \<and> 32 * i + 32 \<le> length bs"
  by (simp add: placed_def)

lemma index_word:
  assumes "placed bs i False (pad @ e)" "length pad + length e = 32" "length bs < 2 ^ 31" "0 < length e"
  shows "memory_at (length e) bs (int (32 * i + length pad)) = Inr e"
  using memory_at_word [of bs "32 * i" "pad @ e" "length pad" "length e"] placed_word [OF assms(1)] assms by simp

lemma index_bounds:
  assumes "32 * i + 32 \<le> length bs" "length bs < 2 ^ 31"
  shows "i32 (int i * 32) = Inr (int (32 * i))" "i32 ((int i + 1) * 32) = Inr (int (32 * i + 32))"
    "k \<le> 32 \<Longrightarrow> i32 (int (32 * i) + int k) = Inr (int (32 * i + k))"
  using assms by (auto simp: i32_def)

lemma string_slice:
  assumes "word_at bs p w" "k + n \<le> 32"
  shows "getByteString bs (int (p + k)) (int (p + k + n)) = Inr (take n (drop k w))"
proof -
  have "nat (int (p + k + n) - int (p + k)) = n" by simp
  with word_at_part [OF assms] assms show ?thesis unfolding getByteString_def nat_int by (simp add: word_at_def)
qed

section \<open>Words\<close>

lemma getBytes_words: "getBytes (b :: byte) = [b]" "getBytes (v :: u32) \<noteq> []" "getBytes (w :: u64) \<noteq> []"
  by (simp_all add: getBytes_eq mem_bytes_def flip: length_greater_0_conv)

lemma padded_words:
  "leftPad (getBytes (b :: byte)) neg = replicate 31 (if neg then 0xFF else 0) @ [b]"
  "leftPad (getBytes (v :: u32)) neg = replicate 28 (if neg then 0xFF else 0) @ getBytes v"
  "leftPad (getBytes (w :: u64)) neg = replicate 24 (if neg then 0xFF else 0) @ getBytes w"
  by (simp_all add: leftPad_word getBytes_words)

lemma getInt8_placed:
  assumes "length bs < 2 ^ 31" and p: "placed bs i False (replicate 31 c @ [v])"
  shows "getInt8 bs (int i) = Inr v"
proof -
  have "byte_at bs (int i * 32 + 31) = Inr v"
    using index_word [OF p] placed_word [OF p] assms(1)
    by (auto simp: memory_at_def byte_at_def take_Suc hd_drop_conv_nth mult.commute split: if_splits)
  with index_bounds [of i bs] placed_word [OF p] assms(1) show ?thesis by (simp add: getInt8_def i32_def)
qed

lemma getInt32_placed:
  fixes v :: u32
  assumes "length bs < 2 ^ 31" and p: "placed bs i False (replicate 28 c @ getBytes v)"
  shows "getInt32 bs (int i) = Inr (sint v)"
  using getIntValueAt_word [of bs "32 * i" "replicate 28 c" v] index_bounds [of i bs] placed_word [OF p] assms(1)
  by (simp add: getInt32_def)

lemma getInt64_placed:
  assumes "length bs < 2 ^ 31" and p: "placed bs i False (replicate 24 c @ getBytes v)"
  shows "getInt64 bs (int i) = Inr v"
proof -
  have "memory_at 8 bs (int i * 32 + 24) = Inr (getBytes v)"
    using index_word [OF p] assms(1) by (simp add: getBytes_words mult.commute)
  with index_bounds [of i bs] placed_word [OF p] assms(1) show ?thesis
    by (simp add: getInt64_def i32_def toTypePtr_rev of_nat_be_getBytes)
qed

interpretation abi_int8: abi_kind "\<lambda>v :: byte. leftPad (getBytes v) (is_negative v)" False getInt8 "\<lambda>_. True"
  by unfold_locales (simp_all add: padded_words getInt8_placed)

interpretation abi_uint8: abi_kind "\<lambda>v :: byte. leftPad (getBytes v) False" False getUint8 "\<lambda>_. True"
  by unfold_locales (simp_all add: padded_words getUint8_def getInt8_placed)

interpretation abi_bool: abi_kind "\<lambda>v. leftPad [if v then 1 else 0] False" False getBool "\<lambda>_. True"
proof
  fix v :: bool and bs i
  assume "length bs < 2 ^ 31" "placed bs i False (leftPad [if v then 1 else 0] False)"
  with getInt8_placed [of bs i 0 "if v then 1 else 0"] show "getBool bs (int i) = Inr v"
    using padded_words(1) [of "if v then 1 else 0" False] by (simp add: getBool_def getBytes_words split: if_splits)
qed (simp add: leftPad_word)

interpretation abi_int32: abi_kind "\<lambda>v. leftPad (getBytes (of_int v :: u32)) (is_negative (of_int v :: u32))" False getInt32
    "\<lambda>v. - (2 ^ 31) \<le> v \<and> v < 2 ^ 31"
  by unfold_locales (simp_all add: padded_words getInt32_placed signed_of_int signed_take_bit_int_eq_self)

interpretation abi_uint32: abi_kind "\<lambda>v :: u32. leftPad (getBytes v) False" False getUint32 "\<lambda>_. True"
  by unfold_locales (simp_all add: padded_words getUint32_def getInt32_placed)

interpretation abi_int64: abi_kind "\<lambda>v :: u64. leftPad (getBytes v) (is_negative v)" False getInt64 "\<lambda>_. True"
  by unfold_locales (simp_all add: padded_words getInt64_placed)

interpretation abi_uint64: abi_kind "\<lambda>v :: u64. leftPad (getBytes v) False" False getUint64 "\<lambda>_. True"
  by unfold_locales (simp_all add: padded_words getUint64_def getInt64_placed)

interpretation abi_bytes32: abi_kind "\<lambda>v. rightPad v False" False getBytes32 "\<lambda>v. length v = 32"
proof
  fix v bs i
  assume v: "length v = 32" and b: "length bs < 2 ^ 31" and p: "placed bs i False (rightPad v False)"
  then have "word_at bs (32 * i) v" by (simp add: placed_def rightPad_word flip: length_greater_0_conv)
  from string_slice [OF this, of 0 32] v index_bounds [of i bs] placed_word [OF p] b
  show "getBytes32 bs (int i) = Inr v" by (simp add: getBytes32_def)
qed (simp add: rightPad_word flip: length_greater_0_conv)

lemma no_hex_prefix: "take 2 (hex_of bs) \<noteq> ''0x''"
proof
  assume "take 2 (hex_of bs) = ''0x''"
  then have "CHR ''x'' \<in> set (take 2 (hex_of bs))" unfolding \<open>take 2 (hex_of bs) = ''0x''\<close> by simp
  from hex_digit_chars [OF in_set_takeD [OF this]] show False by simp
qed

interpretation abi_address: abi_kind "\<lambda>v. leftPad v False" False "\<lambda>bs i. rbind (getAddress ssl bs i) (\<lambda>a. encodeAddress ssl a [])"
    "\<lambda>v. length v = 20 \<and> openssl_hex ssl" for ssl
proof
  fix v bs i
  assume v: "length v = 20 \<and> openssl_hex ssl" and b: "length bs < 2 ^ 31" and p: "placed bs i False (leftPad v False)"
  then have "word_at bs (32 * i) (replicate 12 0 @ v)" by (simp add: placed_def leftPad_word flip: length_greater_0_conv)
  from string_slice [OF this, of 12 20] v
  have "getByteString bs (int (32 * i + 12)) (int (32 * i + 32)) = Inr v" by (simp add: add.assoc)
  moreover from index_bounds [of i bs] placed_word [OF p] b
  have "i32 (int i * 32) = Inr (int (32 * i))" "i32 (int (32 * i) + 12) = Inr (int (32 * i + 12))"
    "i32 ((int i + 1) * 32) = Inr (int (32 * i + 32))" by (auto simp: i32_def)
  ultimately have "getAddress ssl bs (int i) = Inr (hex_of v)"
    unfolding getAddress_def using v by (simp only: rbind.simps openssl_hex_def)
  moreover have "encodeAddress ssl (hex_of v) [] = Inr v"
    using v no_hex_prefix [of v] by (simp add: encodeAddress_def SOLIDITY_ADDRESS_HEX_def hexToBytes_hex_of)
  ultimately show "rbind (getAddress ssl bs (int i)) (\<lambda>a. encodeAddress ssl a []) = Inr v" by simp
qed (simp add: leftPad_word flip: length_greater_0_conv)

section \<open>Dynamic values\<close>

text \<open>\<open>part_at bs p e\<close>: the bytes at position \<open>p\<close> begin with \<open>e\<close>.\<close>

definition part_at :: "bytes \<Rightarrow> nat \<Rightarrow> bytes \<Rightarrow> bool" where
  "part_at bs p e \<longleftrightarrow> p + length e \<le> length bs \<and> take (length e) (drop p bs) = e"

lemma part_at_iff: "part_at bs p e \<longleftrightarrow> (\<exists>xs ys. bs = xs @ e @ ys \<and> length xs = p)"
proof
  assume e: "part_at bs p e"
  have "bs = take p bs @ take (length e) (drop p bs) @ drop (length e) (drop p bs)" by (simp only: append_take_drop_id)
  moreover from e have "length (take p bs) = p" by (simp add: part_at_def)
  ultimately show "\<exists>xs ys. bs = xs @ e @ ys \<and> length xs = p" using e unfolding part_at_def by metis
qed (auto simp: part_at_def)

lemma part_at_part: "part_at bs p e \<Longrightarrow> part_at e k d \<Longrightarrow> part_at bs (p + k) d"
  unfolding part_at_iff by (metis append.assoc length_append)

lemma part_at_append: "part_at (xs @ e @ ys) (length xs) e"
  by (auto simp: part_at_iff)

lemma word_at_iff: "word_at bs p w \<longleftrightarrow> part_at bs p w \<and> length w = 32"
  by (auto simp: word_at_def part_at_def)

lemma placed_dynamic:
  assumes "placed bs i True e" "length bs < 2 ^ 31"
  obtains p where "part_at bs p e" "getInt32 bs (int i) = Inr (int p)"
proof -
  from assms(1) obtain p where p: "word_at bs (32 * i) (size_word p)" "part_at bs p e" and i: "32 * i + 32 \<le> length bs"
    by (auto simp: placed_def part_at_def)
  then have "p < 2 ^ 31" using assms(2) by (simp add: part_at_def)
  with getIntValueAt_size [OF p(1)] assms(2) index_bounds [OF i] have "getInt32 bs (int i) = Inr (int p)"
    by (simp add: getInt32_def)
  with p(2) that show ?thesis by blast
qed

lemma read_bytes:
  assumes "part_at bs p (encodeBytes b)" "length bs < 2 ^ 31"
  shows "getIntValueAt bs (int p) = Inr (int (length b))" "getByteString bs (int (p + 32)) (int (p + 32 + length b)) = Inr b"
    "p + 32 + length b < 2 ^ 31"
proof -
  obtain zs where e: "encodeBytes b = size_word (length b) @ b @ zs" using rightPad_append [of b False] by (auto simp: encodeBytes_def)
  from part_at_part [OF assms(1), of 0 "size_word (length b)"] part_at_append [of "[]" "size_word (length b)" "b @ zs"]
  have w: "word_at bs p (size_word (length b))" by (simp add: word_at_iff e)
  from part_at_part [OF assms(1), of 32 b] part_at_append [of "size_word (length b)" b zs] have part: "part_at bs (p + 32) b" by (simp add: e)
  then show "p + 32 + length b < 2 ^ 31" using assms(2) by (simp add: part_at_def)
  then show "getIntValueAt bs (int p) = Inr (int (length b))" using getIntValueAt_size [OF w] assms(2) by simp
  have "nat (int (p + 32 + length b) - int (p + 32)) = length b" by simp
  with part show "getByteString bs (int (p + 32)) (int (p + 32 + length b)) = Inr b"
    unfolding getByteString_def nat_int by (simp add: part_at_def)
qed

interpretation abi_bytes: abi_kind encodeBytes True getByteArray "\<lambda>_. True"
proof
  fix b bs i
  assume bs: "length bs < 2 ^ 31" and "placed bs i True (encodeBytes b)"
  then obtain p where p: "part_at bs p (encodeBytes b)" "getInt32 bs (int i) = Inr (int p)" by (blast elim: placed_dynamic)
  from read_bytes [OF p(1) bs] have "i32 (int p + 32) = Inr (int (p + 32))"
    "i32 (int (p + 32) + int (length b)) = Inr (int (p + 32 + length b))" by (auto simp: i32_def)
  with read_bytes [OF p(1) bs] p(2) show "getByteArray bs (int i) = Inr b"
    unfolding getByteArray_def getDynamicBytes_def by (simp only: rbind.simps)
qed simp

interpretation abi_string: abi_kind encodeString True getString "\<lambda>_. True"
  using abi_bytes.get_placed by unfold_locales (simp_all add: encodeString_def getString_def getByteArray_def)

text \<open>An array of dynamic values is their number and an encoding of its own.\<close>

abbreviation dynamic_args :: "('v \<Rightarrow> bytes) \<Rightarrow> 'v list \<Rightarrow> Argument list" where
  "dynamic_args f \<equiv> map (\<lambda>v. \<lparr>argValue = f v, argDynamic = True\<rparr>)"

lemma encode_dynamic_eq:
  assumes "\<And>v. 32 * getNumSolidityWords (f v) = length (f v)"
  shows "encode_dynamic f vals os vs (of_nat n) =
    os @ concat (map (\<lambda>i. size_word (n + length (dynamic_values (take i (dynamic_args f vals))))) [0..<length vals]) @
      vs @ dynamic_values (dynamic_args f vals)"
proof (induction vals arbitrary: os vs n)
  case (Cons v vals)
  have upt: "[0..<Suc (length vals)] = 0 # map Suc [0..<length vals]" by (simp add: map_Suc_upt upt_conv_Cons del: upt_Suc)
  have "(of_nat n :: u64) + 32 * of_nat (getNumSolidityWords (f v)) = of_nat (n + 32 * getNumSolidityWords (f v))" by simp
  then have off: "(of_nat n :: u64) + 32 * of_nat (getNumSolidityWords (f v)) = of_nat (n + length (f v))" by (simp only: assms)
  have "encode_dynamic f (v # vals) os vs (of_nat n) = encode_dynamic f vals (os @ size_word n) (vs @ f v) (of_nat (n + length (f v)))"
    by (simp only: encode_dynamic.simps off size_word_def concatenateVectors_eq) simp
  also note Cons [of "os @ size_word n" "vs @ f v" "n + length (f v)"]
  finally show ?case by (simp add: upt comp_def add.assoc del: upt_Suc of_nat_add)
qed simp

lemma encodeBytes_words: "32 * getNumSolidityWords (encodeBytes b) = length (encodeBytes b)"
proof -
  have "length (encodeBytes b) = 32 * (1 + getNumSolidityWords b)" by (simp add: encodeBytes_def length_rightPad)
  then show ?thesis by (simp add: getNumSolidityWords_def [of "encodeBytes b"])
qed

lemma encodeDynamicArray_eq:
  assumes "\<And>v. 32 * getNumSolidityWords (f v) = length (f v)"
  shows "encodeDynamicArray f vals = size_word (length vals) @ abi_encoding (dynamic_args f vals)"
proof -
  have "32 * of_nat (length vals) = (of_nat (32 * length vals) :: u64)" by simp
  then show ?thesis
    unfolding encodeDynamicArray_def by (simp only: encode_dynamic_eq [OF assms])
      (auto simp: abi_encoding_def abi_head_def intro!: arg_cong [of _ _ concat] map_cong)
qed

lemma string_element_placed:
  assumes bs: "length bs < 2 ^ 31" and sub: "part_at bs (p + 32) (abi_encoding args)"
    and args: "args = dynamic_args encodeString ss" "i < length ss"
  shows "string_element bs (int p) (int i) = Inr (ss ! i)"
proof -
  let ?b = "stringToByteVector (ss ! i)"
  have "placed (abi_encoding args) i True (encodeBytes ?b)"
    using abi_placed [of args i] args by (auto simp: encodeString_def)
  then obtain r where r: "word_at (abi_encoding args) (32 * i) (size_word r)" "part_at (abi_encoding args) r (encodeBytes ?b)"
    by (auto simp: placed_def part_at_def)
  from r(1) part_at_part [OF sub] have w: "word_at bs (p + 32 + 32 * i) (size_word r)" by (simp add: word_at_iff)
  from part_at_part [OF sub r(2)] have e: "part_at bs (p + 32 + r) (encodeBytes ?b)" .
  note b = read_bytes [OF e bs]
  from w bs have q: "p + 32 + 32 * i < 2 ^ 31" by (simp add: word_at_def)
  from b(3) have rr: "r < 2 ^ 31" by simp
  have "getIntValueAt bs (int (p + 32 + 32 * i)) = Inr (int r)" by (rule getIntValueAt_size [OF w rr bs])
  moreover have "i32 (int p + 32) = Inr (int (p + 32))" "i32 (int i * 32) = Inr (int (32 * i))"
    "i32 (int (p + 32) + int (32 * i)) = Inr (int (p + 32 + 32 * i))" "i32 (int p + int r) = Inr (int (p + r))"
    "i32 (int (p + r) + 64) = Inr (int (p + 32 + r + 32))" "i32 (int (p + r) + 32) = Inr (int (p + 32 + r))"
    "i32 (int (p + 32 + r + 32) + int (length ?b)) = Inr (int (p + 32 + r + 32 + length ?b))"
    using q b(3) by (auto simp: i32_def)
  ultimately show ?thesis
    unfolding string_element_def using b(1,2) by (simp only: rbind.simps stringToByteVector_inverse)
qed

interpretation abi_strings: abi_kind "encodeDynamicArray encodeString" True getStringArray "\<lambda>_. True"
proof
  fix ss bs i
  assume bs: "length bs < 2 ^ 31" and "placed bs i True (encodeDynamicArray encodeString ss)"
  then obtain p where p: "part_at bs p (encodeDynamicArray encodeString ss)" "getInt32 bs (int i) = Inr (int p)"
    by (blast elim: placed_dynamic)
  have e: "encodeDynamicArray encodeString ss = size_word (length ss) @ abi_encoding (dynamic_args encodeString ss)"
    by (rule encodeDynamicArray_eq) (simp add: encodeString_def encodeBytes_words)
  from part_at_part [OF p(1), of 0 "size_word (length ss)"] part_at_append [of "[]"]
  have w: "word_at bs p (size_word (length ss))" by (simp add: word_at_iff e)
  from part_at_part [OF p(1), of 32] part_at_append [of "size_word (length ss)" _ "[]"]
  have sub: "part_at bs (p + 32) (abi_encoding (dynamic_args encodeString ss))" by (simp add: e)
  have "length ss \<le> length (abi_encoding (dynamic_args encodeString ss))"
    using concat_words [of "map (abi_head (dynamic_args encodeString ss)) [0..<length ss]"]
    by (simp add: abi_encoding_def abi_head_def)
  then have "length ss < 2 ^ 31" using sub bs by (simp add: part_at_def)
  from getIntValueAt_size [OF w this bs] have "getIntValueAt bs (int p) = Inr (int (length ss))" .
  moreover have "rmap (\<lambda>i. string_element bs (int p) (int i)) [0..<length ss] = Inr ss"
    unfolding rmap_eq_Inr list_all2_conv_all_nth using string_element_placed [OF bs sub refl] by simp
  ultimately show "getStringArray bs (int i) = Inr ss" by (simp add: getStringArray_def p(2))
qed simp

section \<open>The properties\<close>

text \<open>The values that have a getter.\<close>

datatype abi_value =
    String_value string
  | Strings_value "string list"
  | Bytes_value bytes
  | Bytes32_value bytes
  | Bool_value bool
  | Int8_value byte
  | Int32_value int
  | Int64_value u64
  | Uint8_value byte
  | Uint32_value u32
  | Uint64_value u64
  | Address_value bytes

primrec value_ok :: "openssl \<Rightarrow> abi_value \<Rightarrow> bool" where
  "value_ok ssl (String_value s) = True"
| "value_ok ssl (Strings_value ss) = True"
| "value_ok ssl (Bytes_value b) = True"
| "value_ok ssl (Bytes32_value b) = (length b = 32)"
| "value_ok ssl (Bool_value b) = True"
| "value_ok ssl (Int8_value v) = True"
| "value_ok ssl (Int32_value v) = (- (2 ^ 31) \<le> v \<and> v < 2 ^ 31)"
| "value_ok ssl (Int64_value v) = True"
| "value_ok ssl (Uint8_value v) = True"
| "value_ok ssl (Uint32_value v) = True"
| "value_ok ssl (Uint64_value v) = True"
| "value_ok ssl (Address_value a) = (length a = 20 \<and> openssl_hex ssl)"

primrec add_value :: "openssl \<Rightarrow> abi_value \<Rightarrow> (ContractFunctionParameters, unit) act" where
  "add_value ssl (String_value s) = addString s"
| "add_value ssl (Strings_value ss) = addStringArray ss"
| "add_value ssl (Bytes_value b) = addBytes b"
| "add_value ssl (Bytes32_value b) = addBytes32 b"
| "add_value ssl (Bool_value b) = addBool b"
| "add_value ssl (Int8_value v) = addInt8 v"
| "add_value ssl (Int32_value v) = addInt32 (of_int v)"
| "add_value ssl (Int64_value v) = addInt64 v"
| "add_value ssl (Uint8_value v) = addUint8 v"
| "add_value ssl (Uint32_value v) = addUint32 v"
| "add_value ssl (Uint64_value v) = addUint64 v"
| "add_value ssl (Address_value a) = addAddress ssl (hex_of a) []"

text \<open>The getter for the kind of a value; an address is compared with its digits in hexadecimal.\<close>

primrec get_value :: "openssl \<Rightarrow> abi_value \<Rightarrow> bytes \<Rightarrow> int \<Rightarrow> abi_value res" where
  "get_value ssl (String_value s) bs i = rbind (getString bs i) (\<lambda>v. Inr (String_value v))"
| "get_value ssl (Strings_value ss) bs i = rbind (getStringArray bs i) (\<lambda>v. Inr (Strings_value v))"
| "get_value ssl (Bytes_value b) bs i = rbind (getByteArray bs i) (\<lambda>v. Inr (Bytes_value v))"
| "get_value ssl (Bytes32_value b) bs i = rbind (getBytes32 bs i) (\<lambda>v. Inr (Bytes32_value v))"
| "get_value ssl (Bool_value b) bs i = rbind (getBool bs i) (\<lambda>v. Inr (Bool_value v))"
| "get_value ssl (Int8_value b) bs i = rbind (getInt8 bs i) (\<lambda>v. Inr (Int8_value v))"
| "get_value ssl (Int32_value b) bs i = rbind (getInt32 bs i) (\<lambda>v. Inr (Int32_value v))"
| "get_value ssl (Int64_value b) bs i = rbind (getInt64 bs i) (\<lambda>v. Inr (Int64_value v))"
| "get_value ssl (Uint8_value b) bs i = rbind (getUint8 bs i) (\<lambda>v. Inr (Uint8_value v))"
| "get_value ssl (Uint32_value b) bs i = rbind (getUint32 bs i) (\<lambda>v. Inr (Uint32_value v))"
| "get_value ssl (Uint64_value b) bs i = rbind (getUint64 bs i) (\<lambda>v. Inr (Uint64_value v))"
| "get_value ssl (Address_value a) bs i = rbind (rbind (getAddress ssl bs i) (\<lambda>a. encodeAddress ssl a [])) (\<lambda>v. Inr (Address_value v))"

primrec value_argument :: "abi_value \<Rightarrow> Argument" where
  "value_argument (String_value s) = \<lparr>argValue = encodeString s, argDynamic = True\<rparr>"
| "value_argument (Strings_value ss) = \<lparr>argValue = encodeDynamicArray encodeString ss, argDynamic = True\<rparr>"
| "value_argument (Bytes_value b) = \<lparr>argValue = encodeBytes b, argDynamic = True\<rparr>"
| "value_argument (Bytes32_value b) = \<lparr>argValue = rightPad b False, argDynamic = False\<rparr>"
| "value_argument (Bool_value b) = \<lparr>argValue = leftPad [if b then 1 else 0] False, argDynamic = False\<rparr>"
| "value_argument (Int8_value v) = \<lparr>argValue = leftPad (getBytes v) (is_negative v), argDynamic = False\<rparr>"
| "value_argument (Int32_value v) = \<lparr>argValue = leftPad (getBytes (of_int v :: u32)) (is_negative (of_int v :: u32)), argDynamic = False\<rparr>"
| "value_argument (Int64_value v) = \<lparr>argValue = leftPad (getBytes v) (is_negative v), argDynamic = False\<rparr>"
| "value_argument (Uint8_value v) = \<lparr>argValue = leftPad (getBytes v) False, argDynamic = False\<rparr>"
| "value_argument (Uint32_value v) = \<lparr>argValue = leftPad (getBytes v) False, argDynamic = False\<rparr>"
| "value_argument (Uint64_value v) = \<lparr>argValue = leftPad (getBytes v) False, argDynamic = False\<rparr>"
| "value_argument (Address_value a) = \<lparr>argValue = leftPad a False, argDynamic = False\<rparr>"

primrec add_values :: "openssl \<Rightarrow> abi_value list \<Rightarrow> (ContractFunctionParameters, unit) act" where
  "add_values ssl [] = areturn ()"
| "add_values ssl (v # vs) = abind (add_value ssl v) (\<lambda>_. add_values ssl vs)"

lemma hex_address: "length a = 20 \<Longrightarrow> openssl_hex ssl \<Longrightarrow> encodeAddress ssl (hex_of a) [] = Inr a"
  using no_hex_prefix [of a] by (simp add: encodeAddress_def SOLIDITY_ADDRESS_HEX_def hexToBytes_hex_of)

lemma add_value_argument:
  assumes "add_value ssl v x = (Inr (), y)" "value_ok ssl v"
  shows "mArguments y = mArguments x @ [value_argument v]"
  using assms
  by (cases v) (auto simp: add_argument_def addString_def addStringArray_def addBytes_def addBytes32_def addBool_def addInt8_def
      addInt32_def addInt64_def addUint8_def addUint32_def addUint64_def addAddress_def encodeValue_def checkByteArraySize_def
      hex_address Let_def)

lemma add_values_arguments:
  "add_values ssl vs x = (Inr (), y) \<Longrightarrow> \<forall>v \<in> set vs. value_ok ssl v \<Longrightarrow> mArguments y = mArguments x @ map value_argument vs"
proof (induction vs arbitrary: x)
  case (Cons v vs)
  then obtain z where z: "add_value ssl v x = (Inr (), z)" "add_values ssl vs z = (Inr (), y)" by (auto simp: abind_eq)
  with Cons.IH [OF z(2)] Cons.prems(2) add_value_argument [OF z(1)] show ?case by simp
qed (simp add: act_defs)

lemma argument_sized: "value_ok ssl v \<Longrightarrow> argDynamic (value_argument v) \<or> length (argValue (value_argument v)) = 32"
  using abi_bytes32.word_sized abi_address.word_sized abi_int32.word_sized
  by (cases v) (auto simp: padded_words leftPad_word)

lemma address_read:
  "length a = 20 \<Longrightarrow> openssl_hex ssl \<Longrightarrow> length bs < 2 ^ 31 \<Longrightarrow> placed bs i False (leftPad a False) \<Longrightarrow>
     rbind (getAddress ssl bs (int i)) (\<lambda>a. encodeAddress ssl a []) = Inr a"
  by (rule abi_address.get_placed) simp_all

lemma value_read:
  assumes "value_ok ssl v" "length bs < 2 ^ 31" "placed bs i (argDynamic (value_argument v)) (argValue (value_argument v))"
  shows "get_value ssl v bs (int i) = Inr v"
proof (cases v)
  case (Address_value a)
  with assms address_read [of a ssl bs i] show ?thesis by simp
qed (use assms in \<open>simp_all add: abi_string.get_placed abi_strings.get_placed abi_bytes.get_placed abi_bytes32.get_placed
      abi_bool.get_placed abi_int8.get_placed abi_int32.get_placed abi_int64.get_placed abi_uint8.get_placed
      abi_uint32.get_placed abi_uint64.get_placed\<close>)

text \<open>
  C0. The arguments of a contract call are read back: values added to the parameters, of any kinds
  that have a getter and in any order, are encoded so that the getter of each kind, at the index of
  the argument, returns the value, as long as the encoding has less than \<open>2 ^ 31\<close> bytes.
\<close>

theorem contract_arguments_roundtrip:
  assumes "add_values ssl vs ContractFunctionParameters_default = (Inr (), x)" and "\<forall>v \<in> set vs. value_ok ssl v"
    and "length (parameters_toBytes ssl [] x) < 2 ^ 31" and "i < length vs"
  shows "get_value ssl (vs ! i) (parameters_toBytes ssl [] x) (int i) = Inr (vs ! i)"
proof -
  have args: "mArguments x = map value_argument vs"
    using add_values_arguments [OF assms(1,2)] by (simp add: ContractFunctionParameters_default_def)
  have "placed (abi_encoding (map value_argument vs)) i (argDynamic (value_argument (vs ! i))) (argValue (value_argument (vs ! i)))"
    using abi_placed [of "map value_argument vs" i] argument_sized assms(2,4) by auto
  then show ?thesis using value_read assms args by (simp add: parameters_layout)
qed

definition example_values :: "abi_value list" where
  "example_values = [Bool_value True, Strings_value [''a'', ''bc''], Int8_value (- 5)]"

definition example_parameters :: ContractFunctionParameters where
  "example_parameters = snd (add_values reference_openssl example_values ContractFunctionParameters_default)"

lemma example_parameters:
  "add_values reference_openssl example_values ContractFunctionParameters_default = (Inr (), example_parameters)"
  "length (parameters_toBytes reference_openssl [] example_parameters) = 320"
  by code_simp+

theorem contract_arguments_roundtrip_witness:
  "getStringArray (parameters_toBytes reference_openssl [] example_parameters) 1 = Inr [''a'', ''bc'']"
proof -
  have "get_value reference_openssl (example_values ! 1) (parameters_toBytes reference_openssl [] example_parameters) (int 1) =
      Inr (example_values ! 1)"
    by (rule contract_arguments_roundtrip) (simp_all add: example_parameters, simp_all add: example_values_def)
  then show ?thesis by (auto simp: example_values_def res_simps)
qed

text \<open>
  C7. The encoding of a call is the layout of the ABI: the selector of the named function, which is the
  beginning of the hash of its name and types, then a word for every argument, its value or the
  offset of its value from the first word, then the dynamic values in their order.
\<close>

theorem call_is_abi_encoding:
  "parameters_toBytes ssl name x =
    (if name = [] then []
     else take 4 (keccak256 ssl (stringToByteVector name @ stringToByteVector ''('' @ mFunctionCall (mFunction x) @ stringToByteVector '')''))) @
    concat (map (\<lambda>i. if argDynamic (mArguments x ! i)
       then size_word (32 * length (mArguments x) + length (dynamic_values (take i (mArguments x)))) else argValue (mArguments x ! i))
       [0..<length (mArguments x)]) @ dynamic_values (mArguments x)"
  by (simp add: parameters_layout finish_def abi_encoding_def abi_head_def [abs_def] stringToByteVector_def)

text \<open>
  C0. An empty byte array shifts the call: \<open>addBytes32\<close> and \<open>addUint256\<close> take an empty array, which
  is padded to no word at all, so that the arguments after it are read at other indexes. The number
  added second is read as the first.
\<close>

theorem empty_word_shifts_call:
  "(case abind (addUint256 []) (\<lambda>_. addUint32 n) ContractFunctionParameters_default of (r, x) \<Rightarrow>
     r = Inr () \<and> getUint32 (parameters_toBytes ssl [] x) 0 = Inr n \<and>
     getUint32 (parameters_toBytes ssl [] x) 1 = Inl OutOfRange)"
proof -
  let ?a = "\<lparr>argValue = leftPad (getBytes n) False, argDynamic = False\<rparr>"
  obtain y where y: "abind (addUint256 []) (\<lambda>_. addUint32 n) ContractFunctionParameters_default = (Inr (), y)"
    "mArguments y = [\<lparr>argValue = [], argDynamic = False\<rparr>, ?a]"
    by (simp add: addUint256_def addUint32_def add_argument_def encodeValue_def checkByteArraySize_def abind_def
        ContractFunctionParameters_default_def leftPad_def getPaddingAmount_def getNumSolidityWords_def Let_def)
  have e: "abi_encoding [\<lparr>argValue = [], argDynamic = False\<rparr>, ?a] = abi_encoding [?a]"
    by (simp add: abi_encoding_def abi_head_def upt_rec)
  have "length (abi_encoding [?a]) = 32" by (simp add: abi_encoding_def abi_head_def padded_words)
  moreover from abi_uint32.read_back [of "[?a]" 0 n] this have "getUint32 (abi_encoding [?a]) 0 = Inr n"
    by (simp add: padded_words)
  moreover from calculation(1) have "getUint32 (abi_encoding [?a]) 1 = Inl OutOfRange"
    by (simp add: getUint32_def getInt32_def getIntValueAt_def i32_def memory_at_def byte_at_def)
  ultimately show ?thesis by (simp add: y(1) parameters_layout y(2) e)
qed


text \<open>
  A call that threw leaves its type behind: an address that is refused is no argument, but the
  selector of the function keeps its type, so that the call of a function which is completed after
  the exception has another selector.
\<close>

theorem refused_address_keeps_type:
  "take 2 a \<noteq> ''0x'' \<Longrightarrow> length a \<noteq> 40 \<Longrightarrow> mFunctionCall (mFunction x) = [] \<Longrightarrow> \<not> addComma (mFunction x) \<Longrightarrow>
     (case addAddress ssl a after x of (r, y) \<Rightarrow> r = Inl InvalidArgument \<and> mArguments y = mArguments x \<and>
        mFunctionCall (mFunction (snd (addBool b y))) = stringToByteVector ''address,bool'')"
  by (simp add: addAddress_def add_argument_def encodeAddress_def SOLIDITY_ADDRESS_HEX_def Let_def addBool_def
      selector_addAddress_def selector_addBool_def addParameter_def stringToByteVector_def)

theorem refused_address_keeps_type_witness:
  "(case addAddress reference_openssl ''00'' [] ContractFunctionParameters_default of (r, y) \<Rightarrow> r = Inl InvalidArgument \<and>
     mArguments y = [] \<and> mFunctionCall (mFunction (snd (addBool True y))) = stringToByteVector ''address,bool'')"
  using refused_address_keeps_type [where a = "''00''" and x = ContractFunctionParameters_default and ssl = reference_openssl and after = "[]" and b = True]
  by (simp add: ContractFunctionParameters_default_def ContractFunctionSelector_default_def)

end
