(* ===== verification/CustomFees.thy ===== *)
theory CustomFees
  imports TransactionBytes
begin

text \<open>
  The fees of a token: \<open>CustomFee.cc\<close>, \<open>CustomFeeBase.cc\<close> and its three kinds, \<open>CustomFixedFee.cc\<close>,
  \<open>CustomFractionalFee.cc\<close> and \<open>CustomRoyaltyFee.cc\<close>.
\<close>

section \<open>The fees\<close>

record FeeFields =
  mFeeCollectorAccountId :: AccountId
  mAllCollectorsAreExempt :: bool

record CustomFixedFee = FeeFields +
  fixedAmount :: u64
  mDenominatingTokenId :: "TokenId option"

datatype FeeAssessmentMethod = INCLUSIVE | EXCLUSIVE

record CustomFractionalFee = FeeFields +
  fractionNumerator :: int
  fractionDenominator :: int
  mMinAmount :: u64
  mMaxAmount :: u64
  mAssessmentMethod :: FeeAssessmentMethod

record CustomRoyaltyFee = FeeFields +
  royaltyNumerator :: int
  royaltyDenominator :: int
  mFallbackFee :: "CustomFixedFee option"

datatype CustomFee =
    fixed_fee CustomFixedFee
  | fractional_fee CustomFractionalFee
  | royalty_fee CustomRoyaltyFee

definition FeeFields_default :: FeeFields where
  "FeeFields_default = \<lparr>mFeeCollectorAccountId = AccountId_default, mAllCollectorsAreExempt = False\<rparr>"

definition CustomFixedFee_default :: CustomFixedFee where
  "CustomFixedFee_default = FeeFields.extend FeeFields_default \<lparr>fixedAmount = 0, mDenominatingTokenId = None\<rparr>"

definition CustomFractionalFee_default :: CustomFractionalFee where
  "CustomFractionalFee_default = FeeFields.extend FeeFields_default
     \<lparr>fractionNumerator = 0, fractionDenominator = 1, mMinAmount = 0, mMaxAmount = 0, mAssessmentMethod = INCLUSIVE\<rparr>"

definition CustomRoyaltyFee_default :: CustomRoyaltyFee where
  "CustomRoyaltyFee_default = FeeFields.extend FeeFields_default
     \<lparr>royaltyNumerator = 0, royaltyDenominator = 1, mFallbackFee = None\<rparr>"

section \<open>Setters\<close>

definition setFeeCollectorAccountId :: "AccountId \<Rightarrow> 'z FeeFields_scheme \<Rightarrow> 'z FeeFields_scheme" where
  "setFeeCollectorAccountId accountId x = x\<lparr>mFeeCollectorAccountId := accountId\<rparr>"

definition setAllCollectorsAreExempt :: "bool \<Rightarrow> 'z FeeFields_scheme \<Rightarrow> 'z FeeFields_scheme" where
  "setAllCollectorsAreExempt exempt x = x\<lparr>mAllCollectorsAreExempt := exempt\<rparr>"

definition fixed_setAmount :: "u64 \<Rightarrow> CustomFixedFee \<Rightarrow> CustomFixedFee" where
  "fixed_setAmount amount x = x\<lparr>fixedAmount := amount\<rparr>"

definition setHbarAmount :: "Hbar \<Rightarrow> CustomFixedFee \<Rightarrow> CustomFixedFee" where
  "setHbarAmount amount x = x\<lparr>mDenominatingTokenId := None, fixedAmount := of_int (toTinybars amount)\<rparr>"

definition setDenominatingTokenId :: "TokenId \<Rightarrow> CustomFixedFee \<Rightarrow> CustomFixedFee" where
  "setDenominatingTokenId tokenId x = x\<lparr>mDenominatingTokenId := Some tokenId\<rparr>"

definition setDenominatingTokenToSameToken :: "CustomFixedFee \<Rightarrow> CustomFixedFee" where
  "setDenominatingTokenToSameToken x = x\<lparr>mDenominatingTokenId := Some (TokenId_of 0 0 0 [])\<rparr>"

definition fractional_setNumerator :: "int \<Rightarrow> CustomFractionalFee \<Rightarrow> CustomFractionalFee" where
  "fractional_setNumerator n x = x\<lparr>fractionNumerator := n\<rparr>"

definition fractional_setDenominator :: "int \<Rightarrow> (CustomFractionalFee, unit) act" where
  "fractional_setDenominator d x = (if d = 0 then (Inl InvalidArgument, x) else (Inr (), x\<lparr>fractionDenominator := d\<rparr>))"

definition setMinimumAmount :: "u64 \<Rightarrow> CustomFractionalFee \<Rightarrow> CustomFractionalFee" where
  "setMinimumAmount amount x = x\<lparr>mMinAmount := amount\<rparr>"

definition setMaximumAmount :: "u64 \<Rightarrow> CustomFractionalFee \<Rightarrow> CustomFractionalFee" where
  "setMaximumAmount amount x = x\<lparr>mMaxAmount := amount\<rparr>"

definition setAssessmentMethod :: "FeeAssessmentMethod \<Rightarrow> CustomFractionalFee \<Rightarrow> CustomFractionalFee" where
  "setAssessmentMethod m x = x\<lparr>mAssessmentMethod := m\<rparr>"

definition royalty_setNumerator :: "int \<Rightarrow> CustomRoyaltyFee \<Rightarrow> CustomRoyaltyFee" where
  "royalty_setNumerator n x = x\<lparr>royaltyNumerator := n\<rparr>"

definition royalty_setDenominator :: "int \<Rightarrow> (CustomRoyaltyFee, unit) act" where
  "royalty_setDenominator d x = (if d = 0 then (Inl InvalidArgument, x) else (Inr (), x\<lparr>royaltyDenominator := d\<rparr>))"

definition setFallbackFee :: "CustomFixedFee \<Rightarrow> CustomRoyaltyFee \<Rightarrow> CustomRoyaltyFee" where
  "setFallbackFee fee x = x\<lparr>mFallbackFee := Some fee\<rparr>"

section \<open>Messages\<close>

definition initProtobuf :: "'d library \<Rightarrow> 'z FeeFields_scheme \<Rightarrow> proto_fee_case \<Rightarrow> proto_CustomFee res" where
  "initProtobuf L x c =
     rbind (AccountId_toProtobuf (serializeKey L) (mFeeCollectorAccountId x)) (\<lambda>a.
       Inr \<lparr>cf_fee = c, cf_fee_collector_account_id = Some a, cf_all_collectors_are_exempt = mAllCollectorsAreExempt x\<rparr>)"

definition toFixedFeeProtobuf :: "CustomFixedFee \<Rightarrow> proto_FixedFee" where
  "toFixedFeeProtobuf x =
     \<lparr>ff_amount = sint (fixedAmount x), ff_denominating_token_id = map_option TokenId_toProtobuf (mDenominatingTokenId x)\<rparr>"

fun CustomFee_toProtobuf :: "'d library \<Rightarrow> CustomFee \<Rightarrow> proto_CustomFee res" where
  "CustomFee_toProtobuf L (fixed_fee x) = initProtobuf L x (fee_fixed (toFixedFeeProtobuf x))"
| "CustomFee_toProtobuf L (fractional_fee x) = initProtobuf L x (fee_fractional
     \<lparr>fr_fractional_amount = Some \<lparr>numerator = fractionNumerator x, denominator = fractionDenominator x\<rparr>,
      fr_minimum_amount = sint (mMinAmount x), fr_maximum_amount = sint (mMaxAmount x),
      fr_net_of_transfers = (mAssessmentMethod x = EXCLUSIVE)\<rparr>)"
| "CustomFee_toProtobuf L (royalty_fee x) = initProtobuf L x (fee_royalty
     \<lparr>ro_exchange_value_fraction = Some \<lparr>numerator = royaltyNumerator x, denominator = royaltyDenominator x\<rparr>,
      ro_fallback_fee = map_option toFixedFeeProtobuf (mFallbackFee x)\<rparr>)"

definition CustomFixedFee_fromProtobuf :: "proto_FixedFee \<Rightarrow> CustomFixedFee" where
  "CustomFixedFee_fromProtobuf p = CustomFixedFee_default
     \<lparr>fixedAmount := of_int (ff_amount p),
      mDenominatingTokenId := map_option TokenId_fromProtobuf (ff_denominating_token_id p)\<rparr>"

definition CustomFractionalFee_fromProtobuf :: "proto_FractionalFee \<Rightarrow> CustomFractionalFee" where
  "CustomFractionalFee_fromProtobuf p =
     (let x = (case fr_fractional_amount p of None \<Rightarrow> CustomFractionalFee_default
               | Some f \<Rightarrow> CustomFractionalFee_default\<lparr>fractionNumerator := numerator f, fractionDenominator := denominator f\<rparr>)
      in x\<lparr>mMinAmount := of_int (fr_minimum_amount p), mMaxAmount := of_int (fr_maximum_amount p),
           mAssessmentMethod := if fr_net_of_transfers p then EXCLUSIVE else INCLUSIVE\<rparr>)"

definition CustomRoyaltyFee_fromProtobuf :: "proto_RoyaltyFee \<Rightarrow> CustomRoyaltyFee" where
  "CustomRoyaltyFee_fromProtobuf p =
     (let x = (case ro_exchange_value_fraction p of None \<Rightarrow> CustomRoyaltyFee_default
               | Some f \<Rightarrow> CustomRoyaltyFee_default\<lparr>royaltyNumerator := numerator f, royaltyDenominator := denominator f\<rparr>)
      in x\<lparr>mFallbackFee := map_option CustomFixedFee_fromProtobuf (ro_fallback_fee p)\<rparr>)"

definition with_collector :: "'d library \<Rightarrow> proto_CustomFee \<Rightarrow> 'z FeeFields_scheme \<Rightarrow> 'z FeeFields_scheme res" where
  "with_collector L p x =
     rbind (AccountId_fromProtobuf (lib_ssl L) (parseKey L) (or_default AccountID_default (cf_fee_collector_account_id p))) (\<lambda>a.
       Inr (x\<lparr>mFeeCollectorAccountId := a, mAllCollectorsAreExempt := cf_all_collectors_are_exempt p\<rparr>))"

definition CustomFee_fromProtobuf :: "'d library \<Rightarrow> proto_CustomFee \<Rightarrow> CustomFee res" where
  "CustomFee_fromProtobuf L p =
     (case cf_fee p of
        fee_fixed f \<Rightarrow> rbind (with_collector L p (CustomFixedFee_fromProtobuf f)) (\<lambda>x. Inr (fixed_fee x))
      | fee_fractional f \<Rightarrow> rbind (with_collector L p (CustomFractionalFee_fromProtobuf f)) (\<lambda>x. Inr (fractional_fee x))
      | fee_royalty f \<Rightarrow> rbind (with_collector L p (CustomRoyaltyFee_fromProtobuf f)) (\<lambda>x. Inr (royalty_fee x))
      | fee_unset \<Rightarrow> Inl InvalidArgument)"

text \<open>Only the fixed fee overrides \<open>validateChecksums\<close>.\<close>

definition FeeFields_validateChecksums :: "client_ledger \<Rightarrow> 'z FeeFields_scheme \<Rightarrow> unit res" where
  "FeeFields_validateChecksums client x = AccountId_validateChecksum client (mFeeCollectorAccountId x)"

fun CustomFee_validateChecksums :: "client_ledger \<Rightarrow> CustomFee \<Rightarrow> unit res" where
  "CustomFee_validateChecksums client (fixed_fee x) =
     rbind (FeeFields_validateChecksums client x) (\<lambda>_.
       case mDenominatingTokenId x of None \<Rightarrow> Inr () | Some t \<Rightarrow> TokenId_validateChecksum client t)"
| "CustomFee_validateChecksums client (fractional_fee x) = FeeFields_validateChecksums client x"
| "CustomFee_validateChecksums client (royalty_fee x) = FeeFields_validateChecksums client x"

end
