(* ===== verification/SimpleTransactions.thy ===== *)
theory SimpleTransactions
  imports CustomFees
begin

text \<open>
  What the kinds of transactions without chunks have in common: their classes add members to
  \<open>Transaction\<close>, setters for them, \<open>build\<close>, which makes the message of the members,
  \<open>initFromSourceTransactionBody\<close>, which reads it, and \<open>validateChecksums\<close>. A kind is a record of
  these functions; the transaction is the record of \<open>Transaction\<close> with the members of the kind.
\<close>

section \<open>A kind of transactions\<close>

record 'm SimpleTransaction = "TransactionData Transaction" +
  members :: 'm

record 'm body_kind =
  build_body :: "TransactionData library \<Rightarrow> 'm \<Rightarrow> TransactionData res"
  init_body :: "TransactionData library \<Rightarrow> TransactionData \<Rightarrow> 'm \<Rightarrow> 'm res"
  check_body :: "client_ledger \<Rightarrow> 'm \<Rightarrow> unit res"
  new_members :: "time_point \<Rightarrow> 'm"
  default_fee :: "Hbar option"

text \<open>All constructors of a kind set its default fee; the time is that of the construction.\<close>

definition simple_default :: "'m body_kind \<Rightarrow> time_point \<Rightarrow> 'm SimpleTransaction" where
  "simple_default K t =
     Transaction.extend (case default_fee K of None \<Rightarrow> Transaction_fields | Some f \<Rightarrow> setDefaultMaxTransactionFee f Transaction_fields)
       \<lparr>members = new_members K t\<rparr>"

type_synonym 'm setter = "('m SimpleTransaction, unit) act"

definition set_members :: "('m \<Rightarrow> 'm) \<Rightarrow> 'm setter" where
  "set_members f = abind requireNotFrozen (\<lambda>_. amodify (\<lambda>x. x\<lparr>members := f (members x)\<rparr>))"

definition simple_addToBody ::
  "'m body_kind \<Rightarrow> TransactionData library \<Rightarrow> 'm SimpleTransaction \<Rightarrow> TransactionData proto_TransactionBody \<Rightarrow>
     TransactionData proto_TransactionBody res" where
  "simple_addToBody K L x body = rbind (build_body K L (members x)) (\<lambda>d. Inr (body\<lparr>tb_data := Some d\<rparr>))"

definition simple_validateChecksums :: "'m body_kind \<Rightarrow> client_ledger \<Rightarrow> 'm SimpleTransaction \<Rightarrow> unit res" where
  "simple_validateChecksums K client x = check_body K client (members x)"

definition simple_init :: "'m body_kind \<Rightarrow> TransactionData library \<Rightarrow> 'm SimpleTransaction \<Rightarrow> 'm SimpleTransaction res" where
  "simple_init K L x =
     (case tb_data (mSourceTransactionBody x) of None \<Rightarrow> Inl InvalidArgument
      | Some d \<Rightarrow> rbind (init_body K L d (members x)) (\<lambda>m. Inr (x\<lparr>members := m\<rparr>)))"

definition simple_of_body ::
  "'m body_kind \<Rightarrow> TransactionData library \<Rightarrow> time_point \<Rightarrow> TransactionData proto_TransactionBody \<Rightarrow> 'm SimpleTransaction res" where
  "simple_of_body K L t body = rbind (Transaction_of_body L body (simple_default K t)) (simple_init K L)"

definition simple_of_map ::
  "'m body_kind \<Rightarrow> TransactionData library \<Rightarrow> time_point \<Rightarrow> transaction_map \<Rightarrow> 'm SimpleTransaction res" where
  "simple_of_map K L t transactions = rbind (Transaction_of_map L transactions (simple_default K t)) (simple_init K L)"

interpretation simple: body_builder "simple_addToBody K L" "simple_validateChecksums K" for K L
  by unfold_locales (auto simp: simple_addToBody_def res_simps)

section \<open>Reading a field that may be absent\<close>

text \<open>\<open>if (body.has_x()) mX = f(body.x())\<close>, for a member that is a value and one that is optional.\<close>

definition read_if :: "('p \<Rightarrow> 'v res) \<Rightarrow> 'p option \<Rightarrow> 'v \<Rightarrow> 'v res" where
  "read_if f p old = (case p of None \<Rightarrow> Inr old | Some v \<Rightarrow> f v)"

definition read_opt_if :: "('p \<Rightarrow> 'v res) \<Rightarrow> 'p option \<Rightarrow> 'v option \<Rightarrow> 'v option res" where
  "read_opt_if f p old = (case p of None \<Rightarrow> Inr old | Some v \<Rightarrow> rbind (f v) (\<lambda>x. Inr (Some x)))"

definition set_if :: "('p \<Rightarrow> 'v) \<Rightarrow> 'p option \<Rightarrow> 'v \<Rightarrow> 'v" where
  "set_if f p old = (case p of None \<Rightarrow> old | Some v \<Rightarrow> f v)"

definition set_opt_if :: "('p \<Rightarrow> 'v) \<Rightarrow> 'p option \<Rightarrow> 'v option \<Rightarrow> 'v option" where
  "set_opt_if f p old = (case p of None \<Rightarrow> old | Some v \<Rightarrow> Some (f v))"

text \<open>\<open>if (!(mX == X())) body->set_x(f(mX))\<close>\<close>

definition unless_default :: "('v \<Rightarrow> 'v \<Rightarrow> bool) \<Rightarrow> 'v \<Rightarrow> ('v \<Rightarrow> 'p) \<Rightarrow> 'v \<Rightarrow> 'p option" where
  "unless_default eq d f v = (if eq v d then None else Some (f v))"

definition check_opt :: "(client_ledger \<Rightarrow> 'v \<Rightarrow> unit res) \<Rightarrow> client_ledger \<Rightarrow> 'v option \<Rightarrow> unit res" where
  "check_opt f client x = (case x of None \<Rightarrow> Inr () | Some v \<Rightarrow> f client v)"

section \<open>The values of the members\<close>

abbreviation account_out :: "'d library \<Rightarrow> AccountId \<Rightarrow> proto_AccountID res" where
  "account_out L \<equiv> AccountId_toProtobuf (serializeKey L)"
abbreviation account_in :: "'d library \<Rightarrow> proto_AccountID \<Rightarrow> AccountId res" where
  "account_in L \<equiv> AccountId_fromProtobuf (lib_ssl L) (parseKey L)"
abbreviation key_out :: "'d library \<Rightarrow> Key \<Rightarrow> proto_Key res" where
  "key_out L \<equiv> Key_toProtobufKey (lib_ssl L)"
abbreviation key_in :: "'d library \<Rightarrow> proto_Key \<Rightarrow> Key res" where
  "key_in L \<equiv> Key_fromProtobuf (lib_ssl L)"

definition account_unless_default :: "'d library \<Rightarrow> AccountId \<Rightarrow> proto_AccountID option res" where
  "account_unless_default L a =
     (if AccountId_eq (lib_ssl L) a AccountId_default then Inr None else rbind (account_out L a) (\<lambda>p. Inr (Some p)))"

text \<open>A \<open>KeyList\<close> as a member; its message has no place for the threshold.\<close>

record KeyList =
  listThreshold :: u32
  listKeys :: "Key list"

definition KeyList_default :: KeyList where "KeyList_default = \<lparr>listThreshold = 0, listKeys = []\<rparr>"
definition KeyList_of :: "Key list \<Rightarrow> KeyList" where "KeyList_of keys = KeyList_default\<lparr>listKeys := keys\<rparr>"

definition KeyList_out :: "'d library \<Rightarrow> KeyList \<Rightarrow> proto_Key list res" where
  "KeyList_out L x = KeyList_toProtobuf (lib_ssl L) (listKeys x)"
definition KeyList_in :: "'d library \<Rightarrow> proto_Key list \<Rightarrow> KeyList res" where
  "KeyList_in L ps = rbind (KeyList_fromProtobuf (lib_ssl L) ps) (\<lambda>ks. Inr (KeyList_of ks))"

definition Hbar_zero :: Hbar where "Hbar_zero = \<lparr>mValueInTinybar = 0\<rparr>"
definition DEFAULT_AUTO_RENEW_PERIOD :: duration where "DEFAULT_AUTO_RENEW_PERIOD = hours 2160"

text \<open>The alias of a new account; an empty field is none.\<close>

definition alias_out :: "EvmAddress option \<Rightarrow> string" where
  "alias_out a = (case a of None \<Rightarrow> [] | Some a \<Rightarrow> byteVectorToString (EvmAddress_toBytes a))"
definition alias_in :: "string \<Rightarrow> EvmAddress option \<Rightarrow> EvmAddress option res" where
  "alias_in s old = (if s = [] then Inr old else rbind (EvmAddress_fromBytes (stringToByteVector s)) (\<lambda>a. Inr (Some a)))"

text \<open>
  The fields of a \<open>oneof\<close>. Where two members are written into one, \<open>staked_out\<close> prefers the
  first, \<open>staked_last_out\<close> writes both in turn.
\<close>

definition staked_out :: "'d library \<Rightarrow> AccountId option \<Rightarrow> u64 option \<Rightarrow> proto_staked res" where
  "staked_out L a n =
     (case a of Some a \<Rightarrow> rbind (account_out L a) (\<lambda>p. Inr (staked_account p))
      | None \<Rightarrow> Inr (case n of Some n \<Rightarrow> staked_node (sint n) | None \<Rightarrow> staked_unset))"
definition staked_last_out :: "'d library \<Rightarrow> AccountId option \<Rightarrow> u64 option \<Rightarrow> proto_staked res" where
  "staked_last_out L a n =
     rbind (case a of Some a \<Rightarrow> rbind (account_out L a) (\<lambda>p. Inr (staked_account p)) | None \<Rightarrow> Inr staked_unset) (\<lambda>s.
       Inr (case n of Some n \<Rightarrow> staked_node (sint n) | None \<Rightarrow> s))"
definition staked_in :: "'d library \<Rightarrow> proto_staked \<Rightarrow> AccountId option \<Rightarrow> u64 option \<Rightarrow> (AccountId option \<times> u64 option) res" where
  "staked_in L s a n =
     (case s of staked_account p \<Rightarrow> rbind (account_in L p) (\<lambda>a. Inr (Some a, n))
      | staked_node k \<Rightarrow> Inr (a, Some (of_int k)) | staked_unset \<Rightarrow> Inr (a, n))"

definition code_out :: "FileId option \<Rightarrow> bytes option \<Rightarrow> proto_initcode" where
  "code_out f b =
     (case f of Some f \<Rightarrow> initcode_file (FileId_toProtobuf f)
      | None \<Rightarrow> (case b of Some b \<Rightarrow> initcode_bytes (byteVectorToString b) | None \<Rightarrow> initcode_unset))"
definition code_in :: "proto_initcode \<Rightarrow> FileId option \<Rightarrow> bytes option \<Rightarrow> FileId option \<times> bytes option" where
  "code_in c f b =
     (case c of initcode_file p \<Rightarrow> (Some (FileId_fromProtobuf p), b)
      | initcode_bytes s \<Rightarrow> (f, Some (stringToByteVector s)) | initcode_unset \<Rightarrow> (f, b))"

definition obtainer_out :: "'d library \<Rightarrow> AccountId option \<Rightarrow> ContractId option \<Rightarrow> proto_obtainer res" where
  "obtainer_out L a c =
     (case a of Some a \<Rightarrow> rbind (account_out L a) (\<lambda>p. Inr (obtainer_account p))
      | None \<Rightarrow> Inr (case c of Some c \<Rightarrow> obtainer_contract (ContractId_toProtobuf c) | None \<Rightarrow> obtainer_unset))"
definition obtainer_in ::
  "'d library \<Rightarrow> proto_obtainer \<Rightarrow> AccountId option \<Rightarrow> ContractId option \<Rightarrow> (AccountId option \<times> ContractId option) res" where
  "obtainer_in L p a c =
     (case p of obtainer_account p \<Rightarrow> rbind (account_in L p) (\<lambda>a. Inr (Some a, c))
      | obtainer_contract p \<Rightarrow> rbind (ContractId_fromProtobuf p) (\<lambda>c. Inr (a, Some c)) | obtainer_unset \<Rightarrow> Inr (a, c))"

definition target_out :: "FileId option \<Rightarrow> ContractId option \<Rightarrow> proto_target" where
  "target_out f c =
     (case f of Some f \<Rightarrow> target_file (FileId_toProtobuf f)
      | None \<Rightarrow> (case c of Some c \<Rightarrow> target_contract (ContractId_toProtobuf c) | None \<Rightarrow> target_unset))"
definition target_in :: "proto_target \<Rightarrow> FileId option \<Rightarrow> ContractId option \<Rightarrow> (FileId option \<times> ContractId option) res" where
  "target_in p f c =
     (case p of target_file p \<Rightarrow> Inr (Some (FileId_fromProtobuf p), c)
      | target_contract p \<Rightarrow> rbind (ContractId_fromProtobuf p) (\<lambda>c. Inr (f, Some c)) | target_unset \<Rightarrow> Inr (f, c))"

text \<open>
  Enumerations. A message holds any number; \<open>std::unordered_map::at\<close> throws for one without an
  enumerator.
\<close>

datatype FreezeType = UNKNOWN_FREEZE_TYPE | FREEZE_ONLY | PREPARE_UPGRADE | FREEZE_UPGRADE | FREEZE_ABORT | TELEMETRY_UPGRADE
datatype TokenType = FUNGIBLE_COMMON | NON_FUNGIBLE_UNIQUE
datatype TokenSupplyType = INFINITE | FINITE
datatype TokenKeyValidation = FULL_VALIDATION | NO_VALIDATION

definition enum_at :: "('p \<times> 'v) list \<Rightarrow> 'p \<Rightarrow> 'v res" where
  "enum_at es p = (case map_of es p of None \<Rightarrow> Inl OutOfRange | Some v \<Rightarrow> Inr v)"

definition gFreezeType :: "(int \<times> FreezeType) list" where
  "gFreezeType = [(0, UNKNOWN_FREEZE_TYPE), (1, FREEZE_ONLY), (2, PREPARE_UPGRADE), (3, FREEZE_UPGRADE), (4, FREEZE_ABORT),
     (5, TELEMETRY_UPGRADE)]"
definition gTokenType :: "(int \<times> TokenType) list" where
  "gTokenType = [(0, FUNGIBLE_COMMON), (1, NON_FUNGIBLE_UNIQUE)]"
definition gTokenSupplyType :: "(int \<times> TokenSupplyType) list" where
  "gTokenSupplyType = [(0, INFINITE), (1, FINITE)]"
definition gTokenKeyValidation :: "(int \<times> TokenKeyValidation) list" where
  "gTokenKeyValidation = [(0, FULL_VALIDATION), (1, NO_VALIDATION)]"

definition enum_out :: "(int \<times> 'v) list \<Rightarrow> 'v \<Rightarrow> int res" where
  "enum_out es v = enum_at (map (\<lambda>(p, v). (v, p)) es) v"

end
