(* ===== verification/SimpleKinds.thy ===== *)
theory SimpleKinds
  imports SimpleTransactions
begin

text \<open>
  Round trips of the values that the simple kinds of transactions put into their messages, and the
  contract of a kind: what \<open>build\<close> makes of its members is read back by \<open>initFromSourceTransactionBody\<close>.
\<close>

section \<open>Values that are read back\<close>

text \<open>The message of a value that has one.\<close>

definition msg :: "('v \<Rightarrow> 'p res) \<Rightarrow> 'v \<Rightarrow> 'p" where
  "msg out v = projr (out v)"

locale message_codec =
  fixes out :: "'v \<Rightarrow> 'p res"
    and inp :: "'p \<Rightarrow> 'v res"
    and plain :: "'v \<Rightarrow> bool"
  assumes read_written: "plain v \<Longrightarrow> \<exists>p. out v = Inr p \<and> inp p = Inr v"
begin

lemma written: "plain v \<Longrightarrow> out v = Inr (msg out v)"
  using read_written [of v] by (auto simp: msg_def)

lemma read: "plain v \<Longrightarrow> inp (msg out v) = Inr v"
  using read_written [of v] by (auto simp: msg_def)

lemma opt_written: "pred_option plain x \<Longrightarrow> ropt out x = Inr (map_option (msg out) x)"
  by (cases x) (simp_all add: written)

lemma opt_read: "pred_option plain x \<Longrightarrow> read_opt_if inp (map_option (msg out) x) None = Inr x"
  by (cases x) (simp_all add: read_opt_if_def read)

lemma list_written: "list_all plain xs \<Longrightarrow> rmap out xs = Inr (map (msg out) xs)"
  by (induction xs) (simp_all add: written)

lemma list_read: "list_all plain xs \<Longrightarrow> rmap inp (map (msg out) xs) = Inr xs"
  by (induction xs) (simp_all add: read)

lemmas all = written read opt_written opt_read list_written list_read

end

named_theorems message_simps

subsection \<open>Accounts and contracts\<close>

definition account_plain :: "AccountId \<Rightarrow> bool" where
  "account_plain a \<longleftrightarrow> numbered a \<or> (\<exists>s r b. a = AccountId_of_evm s r (EvmAddress b) \<and> length b = 20)"

definition account_ok :: "AccountId \<Rightarrow> bool" where
  "account_ok a \<longleftrightarrow> account_plain a \<or> a = AccountId_default"

definition contract_plain :: "ContractId \<Rightarrow> bool" where
  "contract_plain c \<longleftrightarrow> contractChecksum c = [] \<and>
     (case mEvmAddress c of None \<Rightarrow> True | Some a \<Rightarrow> mContractNum c = None \<and> length (EvmAddress_toBytes a) = 20)"

lemma EvmAddress_fromBytes_20: "length (EvmAddress_toBytes a) = 20 \<Longrightarrow> EvmAddress_fromBytes (EvmAddress_toBytes a) = Inr a"
  by (simp add: EvmAddress_fromBytes_def checkEvmAddress_def)

interpretation account_codec: message_codec "account_out L" "account_in L" account_plain for L
proof
  fix a
  assume "account_plain a"
  then consider "numbered a" | s r b where "a = AccountId_of_evm s r (EvmAddress b)" "length b = 20"
    by (auto simp: account_plain_def)
  then show "\<exists>p. account_out L a = Inr p \<and> account_in L p = Inr a"
  proof cases
    case 2
    then show ?thesis using EvmAddress_fromBytes_20 [of "EvmAddress b"]
      by (simp add: AccountId_toProtobuf_def AccountId_fromProtobuf_def AccountId_of_evm_def AccountId_default_def Let_def)
  qed (rule numbered_roundtrip)
qed

interpretation contract_codec: message_codec "\<lambda>c. Inr (ContractId_toProtobuf c)" ContractId_fromProtobuf contract_plain
proof
  fix c
  assume "contract_plain c"
  then show "\<exists>p. Inr (ContractId_toProtobuf c) = Inr p \<and> ContractId_fromProtobuf p = Inr c"
    by (cases c) (auto simp: contract_plain_def ContractId_toProtobuf_def ContractId_fromProtobuf_def ContractId_default_def
        EvmAddress_fromBytes_20 Let_def split: option.splits)
qed

lemma contract_read: "contract_plain c \<Longrightarrow> ContractId_fromProtobuf (ContractId_toProtobuf c) = Inr c"
  using contract_codec.read_written by auto

lemma not_default: "account_plain a \<Longrightarrow> \<not> AccountId_eq ssl a AccountId_default"
  by (auto simp: account_plain_def numbered_def AccountId_eq_def AccountId_of_def AccountId_of_evm_def AccountId_default_def)

lemma default_eq: "AccountId_eq ssl AccountId_default AccountId_default"
  by (simp add: AccountId_eq_def AccountId_default_def)

definition account_msg_if :: "'d library \<Rightarrow> AccountId \<Rightarrow> proto_AccountID option" where
  "account_msg_if L a = (if a = AccountId_default then None else Some (msg (account_out L) a))"

lemma account_unless_default_ok [message_simps]:
  "account_ok a \<Longrightarrow> account_unless_default L a = Inr (account_msg_if L a)"
  "account_ok a \<Longrightarrow> read_if (account_in L) (account_msg_if L a) AccountId_default = Inr a"
  using not_default [of a "lib_ssl L"] default_eq [of "lib_ssl L"]
  by (auto simp: account_ok_def account_unless_default_def account_msg_if_def account_codec.all read_if_def)

subsection \<open>Keys\<close>

fun key_plain :: "openssl \<Rightarrow> Key \<Rightarrow> bool" where
  "key_plain ssl (Key_public k) = PublicKey_valid ssl k"
| "key_plain ssl (Key_contract c) = contract_plain c"
| "key_plain ssl (Key_list t ks) = list_all (key_plain ssl) ks"
| "key_plain ssl _ = False"

lemma public_key_read:
  assumes "PublicKey_valid ssl k"
  shows "\<exists>p. PublicKey_toProtobufKey k = Inr p \<and> Key_fromProtobuf ssl p = Inr (Key_public k)"
proof (cases k)
  case (ED25519PublicKey key)
  with assms obtain raw where "key = ED25519_der raw" "length raw = 32" "d2i_PUBKEY ssl (ED25519_der raw) = Some key"
    using ED25519_valid_cases by blast
  then show ?thesis
    using ED25519_fromBytes_raw by (simp add: ED25519PublicKey del: PublicKey_toBytesRaw.simps add: ED25519_toBytesRaw_der)
next
  case (ECDSAsecp256k1PublicKey key)
  with assms obtain raw where "key = EC_der raw" "secp256k1_point ssl raw"
    using ECDSA_valid_cases by blast
  then show ?thesis using ECDSA_fromBytes_raw by (simp add: ECDSAsecp256k1PublicKey)
qed

lemma key_read:
  "key_plain ssl k \<Longrightarrow> \<exists>p. Key_toProtobufKey ssl k = Inr p \<and> Key_fromProtobuf ssl p = Inr k"
  "list_all (key_plain ssl) ks \<Longrightarrow> \<exists>ps. KeyList_toProtobuf ssl ks = Inr ps \<and> KeyList_fromProtobuf ssl ps = Inr ks"
proof (induction ssl k and ssl ks rule: Key_toProtobufKey_KeyList_toProtobuf.induct)
  case (1 ssl k)
  then show ?case using public_key_read by simp
next
  case (5 ssl t ks)
  then show ?case by (cases "t = 0") (auto simp: word_gt_0)
qed (auto simp: contract_read)

interpretation key_codec: message_codec "key_out L" "key_in L" "key_plain (lib_ssl L)" for L
  by unfold_locales (rule key_read)

definition keylist_plain :: "openssl \<Rightarrow> KeyList \<Rightarrow> bool" where
  "keylist_plain ssl x \<longleftrightarrow> listThreshold x = 0 \<and> list_all (key_plain ssl) (listKeys x)"

interpretation keylist_codec: message_codec "KeyList_out L" "KeyList_in L" "keylist_plain (lib_ssl L)" for L
proof
  fix x
  assume x: "keylist_plain (lib_ssl L) x"
  then have "x = KeyList_of (listKeys x)" by (cases x) (simp add: keylist_plain_def KeyList_of_def KeyList_default_def)
  with x key_read(2) [of "lib_ssl L" "listKeys x"] show "\<exists>p. KeyList_out L x = Inr p \<and> KeyList_in L p = Inr x"
    by (auto simp: keylist_plain_def KeyList_out_def KeyList_in_def)
qed

subsection \<open>Fees\<close>

definition fields_plain :: "'z FeeFields_scheme \<Rightarrow> bool" where
  "fields_plain x \<longleftrightarrow> account_ok (mFeeCollectorAccountId x)"

definition fixed_plain :: "CustomFixedFee \<Rightarrow> bool" where
  "fixed_plain x \<longleftrightarrow> pred_option (\<lambda>t. tokenChecksum t = []) (mDenominatingTokenId x)"

text \<open>The collector of a fallback fee is not written.\<close>

primrec fee_plain :: "CustomFee \<Rightarrow> bool" where
  "fee_plain (fixed_fee x) \<longleftrightarrow> fields_plain x \<and> fixed_plain x"
| "fee_plain (fractional_fee x) \<longleftrightarrow> fields_plain x"
| "fee_plain (royalty_fee x) \<longleftrightarrow> fields_plain x \<and>
     pred_option (\<lambda>f. fixed_plain f \<and> FeeFields.truncate f = FeeFields_default) (mFallbackFee x)"

lemma TokenId_read: "tokenChecksum t = [] \<Longrightarrow> TokenId_fromProtobuf (TokenId_toProtobuf t) = t"
  by (cases t) (simp add: TokenId_fromProtobuf_def TokenId_of_def TokenId_toProtobuf_def)

lemma FileId_read: "fileChecksum t = [] \<Longrightarrow> FileId_fromProtobuf (FileId_toProtobuf t) = t"
  by (cases t) (simp add: FileId_fromProtobuf_def FileId_of_def FileId_toProtobuf_def)

lemma TopicId_read: "topicChecksum t = [] \<Longrightarrow> TopicId_fromProtobuf (TopicId_toProtobuf t) = t"
  by (cases t) (simp add: TopicId_fromProtobuf_def TopicId_of_def TopicId_toProtobuf_def)

lemma ScheduleId_read: "scheduleChecksum t = [] \<Longrightarrow> ScheduleId_fromProtobuf (ScheduleId_toProtobuf t) = t"
  by (cases t) (simp add: ScheduleId_fromProtobuf_def ScheduleId_of_def ScheduleId_toProtobuf_def)

lemma fixed_read:
  "fixed_plain x \<Longrightarrow> CustomFixedFee_fromProtobuf (toFixedFeeProtobuf x) =
     x\<lparr>mFeeCollectorAccountId := AccountId_default, mAllCollectorsAreExempt := False\<rparr>"
  by (cases "mDenominatingTokenId x")
    (simp_all add: fixed_plain_def CustomFixedFee_fromProtobuf_def toFixedFeeProtobuf_def CustomFixedFee_default_def
      TokenId_read FeeFields_default_def FeeFields.defs)

lemma default_account_read:
  "account_out L AccountId_default = Inr AccountID_default" "account_in L AccountID_default = Inr AccountId_default"
  by (simp_all add: AccountId_toProtobuf_def AccountId_fromProtobuf_def AccountId_default_def AccountID_default_def)

lemma collector_read:
  assumes "fields_plain x"
  obtains a where "account_out L (mFeeCollectorAccountId x) = Inr a" "account_in L a = Inr (mFeeCollectorAccountId x)"
  using assms account_codec.read_written [of "mFeeCollectorAccountId x" L] default_account_read [of L]
  by (auto simp: fields_plain_def account_ok_def)

lemmas collector_simps = initProtobuf_def with_collector_def CustomFee_fromProtobuf_def

interpretation fee_codec: message_codec "CustomFee_toProtobuf L" "CustomFee_fromProtobuf L" fee_plain for L
proof
  fix f
  assume f: "fee_plain f"
  show "\<exists>p. CustomFee_toProtobuf L f = Inr p \<and> CustomFee_fromProtobuf L p = Inr f"
  proof (cases f)
    case (fixed_fee x)
    with f have "fields_plain x" "fixed_plain x" by simp_all
    with fixed_fee show ?thesis
      by (elim collector_read [of _ L]) (simp add: collector_simps fixed_read)
  next
    case (fractional_fee x)
    with f have "fields_plain x" by simp
    with fractional_fee show ?thesis
      by (elim collector_read [of _ L]) (cases "mAssessmentMethod x";
        simp add: collector_simps CustomFractionalFee_fromProtobuf_def CustomFractionalFee_default_def
          FeeFields.defs FeeFields_default_def)
  next
    case (royalty_fee x)
    with f have x: "fields_plain x" "pred_option (\<lambda>f. fixed_plain f \<and> FeeFields.truncate f = FeeFields_default) (mFallbackFee x)"
      by simp_all
    have "CustomFixedFee_fromProtobuf (toFixedFeeProtobuf g) = g" if "mFallbackFee x = Some g" for g
    proof -
      from x(2) that have "fixed_plain g" "FeeFields.truncate g = FeeFields_default" by simp_all
      then show ?thesis by (cases g) (simp add: fixed_read FeeFields.defs FeeFields_default_def)
    qed
    then have "map_option (CustomFixedFee_fromProtobuf \<circ> toFixedFeeProtobuf) (mFallbackFee x) = mFallbackFee x"
      by (cases "mFallbackFee x") simp_all
    with royalty_fee x(1) show ?thesis
      by (elim collector_read [of _ L]) (simp add: collector_simps CustomRoyaltyFee_fromProtobuf_def
          CustomRoyaltyFee_default_def FeeFields.defs FeeFields_default_def option.map_comp)
  qed
qed

subsection \<open>Numbers and times\<close>

definition time_ok :: "time_point \<Rightarrow> bool" where
  "time_ok t \<longleftrightarrow> - (2 ^ 63) \<le> t \<and> t < 2 ^ 63"

definition whole_seconds :: "int \<Rightarrow> bool" where
  "whole_seconds d \<longleftrightarrow> time_ok d \<and> d sdiv 1000000000 * 1000000000 = d"

lemma Duration_read: "whole_seconds d \<Longrightarrow> Duration_fromProtobuf (Duration_toProtobuf d) = Inr d"
  using Duration_roundtrip [of d] by (simp add: whole_seconds_def time_ok_def)

lemma Seconds_read: "whole_seconds d \<Longrightarrow> TimestampSeconds_fromProtobuf (toSecondsProtobuf d) = Inr d"
  using Duration_read [of d] by (simp add: Duration_fromProtobuf_def Duration_toProtobuf_def TimestampSeconds_fromProtobuf_def toSecondsProtobuf_def)

interpretation duration_codec: message_codec "\<lambda>d. Inr (Duration_toProtobuf d)" Duration_fromProtobuf whole_seconds
  by unfold_locales (simp add: Duration_read)

interpretation time_codec: message_codec "\<lambda>t. Inr (Timestamp_toProtobuf t)" Timestamp_fromProtobuf time_ok
  by unfold_locales (simp add: time_ok_def Timestamp_roundtrip)

lemma Hbar_read:
  "Hbar_valid h \<Longrightarrow> Hbar_of (toTinybars h) TINYBAR = Inr h"
  "Hbar_valid h \<Longrightarrow> Hbar_of (sint (of_int (toTinybars h) :: u64)) TINYBAR = Inr h"
  by (simp_all add: Hbar_of_tinybar toTinybars_def Hbar_valid_def i64_def signed_of_int signed_take_bit_int_eq_self)

lemma opt_ids:
  "pred_option (\<lambda>t. tokenChecksum t = []) a \<Longrightarrow> set_opt_if TokenId_fromProtobuf (map_option TokenId_toProtobuf a) None = a"
  "pred_option (\<lambda>t. fileChecksum t = []) b \<Longrightarrow> set_opt_if FileId_fromProtobuf (map_option FileId_toProtobuf b) None = b"
  "pred_option (\<lambda>t. topicChecksum t = []) c \<Longrightarrow> set_opt_if TopicId_fromProtobuf (map_option TopicId_toProtobuf c) None = c"
  "pred_option (\<lambda>t. scheduleChecksum t = []) d \<Longrightarrow> set_opt_if ScheduleId_fromProtobuf (map_option ScheduleId_toProtobuf d) None = d"
  by (cases a; cases b; cases c; cases d; simp add: set_opt_if_def TokenId_read FileId_read TopicId_read ScheduleId_read)+

lemma opt_values:
  "set_opt_if (\<lambda>v. v) x None = x"
  "pred_option whole_seconds e \<Longrightarrow> read_opt_if Duration_fromProtobuf (map_option Duration_toProtobuf e) None = Inr e"
  "pred_option time_ok f \<Longrightarrow> read_opt_if Timestamp_fromProtobuf (map_option Timestamp_toProtobuf f) None = Inr f"
  by (cases x; cases e; cases f; simp add: set_opt_if_def read_opt_if_def Duration_read time_ok_def Timestamp_roundtrip)+

lemma TokenId_read_unless:
  "tokenChecksum a = [] \<Longrightarrow> set_if TokenId_fromProtobuf (unless_default TokenId_eq (TokenId_of 0 0 0 []) TokenId_toProtobuf a) (TokenId_of 0 0 0 []) = a"
  by (cases a) (auto simp: set_if_def unless_default_def TokenId_eq_def TokenId_of_def TokenId_read)

lemma TopicId_read_unless:
  "topicChecksum a = [] \<Longrightarrow> set_if TopicId_fromProtobuf (unless_default TopicId_eq (TopicId_of 0 0 0 []) TopicId_toProtobuf a) (TopicId_of 0 0 0 []) = a"
  by (cases a) (auto simp: set_if_def unless_default_def TopicId_eq_def TopicId_of_def TopicId_read)

lemma list_conversions:
  "list_all (\<lambda>t. tokenChecksum t = []) ts \<Longrightarrow> map (TokenId_fromProtobuf \<circ> TokenId_toProtobuf) ts = ts"
  "map (of_int \<circ> sint) ns = (ns :: u64 list)"
  "map (stringToByteVector \<circ> byteVectorToString) bs = bs"
  by (induction ts) (simp_all add: TokenId_read map_idI)

lemma alias_read:
  assumes "pred_option (\<lambda>a. length (EvmAddress_toBytes a) = 20) a"
  shows "alias_in (alias_out a) None = Inr a"
proof (cases a)
  case (Some b)
  with assms have b: "length (EvmAddress_toBytes b) = 20" by simp
  then have "byteVectorToString (EvmAddress_toBytes b) \<noteq> []" by (auto simp: byteVectorToString_def)
  with Some EvmAddress_fromBytes_20 [OF b] show ?thesis by (simp add: alias_in_def alias_out_def)
qed (simp add: alias_in_def alias_out_def)

text \<open>An enumeration whose entries are distinct.\<close>

definition enum_ok :: "(int \<times> 'v) list \<Rightarrow> bool" where
  "enum_ok es \<longleftrightarrow> distinct (map fst es) \<and> distinct (map snd es)"

lemma enum_read:
  assumes "enum_ok es" and "v \<in> snd ` set es"
  shows "enum_out es v = Inr (msg (enum_out es) v)" and "enum_at es (msg (enum_out es) v) = Inr v"
proof -
  from assms(2) obtain p where p: "(p, v) \<in> set es" by auto
  have "map_of (map (\<lambda>(p, v). (v, p)) es) v = Some p"
    using assms(1) p by (intro map_of_is_SomeI) (force simp: enum_ok_def comp_def case_prod_unfold)+
  then have out: "enum_out es v = Inr p" by (simp add: enum_out_def enum_at_def)
  then show "enum_out es v = Inr (msg (enum_out es) v)" by (simp add: msg_def)
  have "map_of es p = Some v" using assms(1) p by (intro map_of_is_SomeI) (auto simp: enum_ok_def)
  with out show "enum_at es (msg (enum_out es) v) = Inr v" by (simp add: msg_def enum_at_def)
qed

lemma enums_ok:
  "enum_ok gFreezeType" "enum_ok gTokenType" "enum_ok gTokenSupplyType" "enum_ok gTokenKeyValidation"
  by (simp_all add: enum_ok_def gFreezeType_def gTokenType_def gTokenSupplyType_def gTokenKeyValidation_def)

lemma enums_total:
  "a \<in> snd ` set gFreezeType" "b \<in> snd ` set gTokenType" "c \<in> snd ` set gTokenSupplyType" "d \<in> snd ` set gTokenKeyValidation"
  by ((cases a; simp add: gFreezeType_def), (cases b; simp add: gTokenType_def), (cases c; simp add: gTokenSupplyType_def),
      (cases d; simp add: gTokenKeyValidation_def))

lemmas enums_read =
  enum_read [OF enums_ok(1) enums_total(1)] enum_read [OF enums_ok(2) enums_total(2)]
  enum_read [OF enums_ok(3) enums_total(3)] enum_read [OF enums_ok(4) enums_total(4)]

subsection \<open>Two members in one field\<close>

lemma staked_read:
  assumes "pred_option account_plain a \<and> (a = None \<or> n = None)"
  shows "staked_out L a n = Inr (projr (staked_out L a n))" "staked_in L (projr (staked_out L a n)) None None = Inr (a, n)"
    and "staked_last_out L a n = staked_out L a n"
  using assms
  by (cases a; cases n; auto simp: staked_out_def staked_last_out_def staked_in_def account_codec.written account_codec.read)+

lemma obtainer_read:
  assumes "pred_option account_plain a \<and> pred_option contract_plain c \<and> (a = None \<or> c = None)"
  shows "obtainer_out L a c = Inr (projr (obtainer_out L a c))" "obtainer_in L (projr (obtainer_out L a c)) None None = Inr (a, c)"
  using assms
  by (cases a; cases c; auto simp: obtainer_out_def obtainer_in_def account_codec.written account_codec.read contract_read)+

lemma target_read:
  "pred_option (\<lambda>i. fileChecksum i = []) f \<and> pred_option contract_plain c \<and> (f = None \<or> c = None) \<Longrightarrow>
     target_in (target_out f c) None None = Inr (f, c)"
  by (cases f; cases c; auto simp: target_out_def target_in_def FileId_read contract_read)

lemma code_read:
  "pred_option (\<lambda>i. fileChecksum i = []) f \<and> (f = None \<or> b = None) \<Longrightarrow> code_in (code_out f b) None None = (f, b)"
  by (cases f; cases b; auto simp: code_out_def code_in_def FileId_read)

definition pair_msg :: "('a \<Rightarrow> 'b \<Rightarrow> 'p res) \<Rightarrow> 'a \<Rightarrow> 'b \<Rightarrow> 'p" where
  "pair_msg out a b = projr (out a b)"

lemmas [message_simps] =
  account_codec.all key_codec.all keylist_codec.all fee_codec.all contract_read TokenId_read FileId_read TopicId_read
  ScheduleId_read Duration_read Seconds_read Hbar_read opt_ids opt_values TokenId_read_unless TopicId_read_unless
  list_conversions alias_read enums_read target_read code_read
  staked_read [folded pair_msg_def] obtainer_read [folded pair_msg_def]

lemma read_some [message_simps]: "read_if f (Some p) v = f p" "set_if g (Some p) u = g p" "or_default [] (Some s) = s"
  by (simp_all add: read_if_def set_if_def)

lemma present_read [message_simps]: "\<exists>y. x = Some y \<Longrightarrow> Some (or_default d x) = x"
  by auto

lemma Timestamp_read [message_simps]: "time_ok t \<Longrightarrow> Timestamp_fromProtobuf (Timestamp_toProtobuf t) = Inr t"
  by (simp add: time_ok_def Timestamp_roundtrip)

lemma empty_read [message_simps]: "stringToByteVector [] = []"
  by (simp add: stringToByteVector_def)

lemma metadata_read [message_simps]: "stringToByteVector (or_default [] (if b = [] then None else Some (byteVectorToString b))) = b"
  by (cases "b = []") (simp add: stringToByteVector_def, simp)

section \<open>The contract of a kind\<close>

text \<open>
  A transaction whose ID and duration are read back, and what it is for the transaction to be read back
  from the body of its message: a transaction made from the body has its members, ID, memo and duration.
\<close>

definition ordinary :: "('d, 'z) Transaction_scheme \<Rightarrow> bool" where
  "ordinary x \<longleftrightarrow> whole_seconds (mTransactionValidDuration x) \<and>
     (\<exists>i. mTransactionId x = Some i \<and> numbered (mAccountId i) \<and> time_ok (mValidTransactionTime i))"

definition read_back :: "'m body_kind \<Rightarrow> TransactionData library \<Rightarrow> 'm SimpleTransaction \<Rightarrow> bool" where
  "read_back K L x \<longleftrightarrow> (\<forall>client t. \<exists>y z.
     updateSourceTransactionBody L (simple_addToBody K L) client x = (Inr (), y) \<and>
     simple_of_body K L t (mSourceTransactionBody y) = Inr z \<and> members z = members x \<and>
     mTransactionId z = mTransactionId x \<and> mTransactionMemo z = mTransactionMemo x \<and>
     mTransactionValidDuration z = mTransactionValidDuration x)"

lemma fee_read: "\<exists>h. Hbar_of (sint (w :: u64)) TINYBAR = Inr h"
  using sint_ge [of w] sint_lt [of w] by (simp add: Hbar_of_tinybar i64_def)

lemma TransactionId_read:
  assumes "numbered (mAccountId i)" "time_ok (mValidTransactionTime i)"
  shows "\<exists>p. TransactionId_toProtobuf (serializeKey L) i = Inr p \<and> TransactionId_fromProtobuf (lib_ssl L) (parseKey L) p = Inr i"
  using numbered_roundtrip [OF assms(1), of "serializeKey L" "lib_ssl L" "parseKey L"] assms(2)
  by (auto simp: TransactionId_toProtobuf_def TransactionId_fromProtobuf_def Timestamp_read)

lemma simple_default_members: "members (simple_default K t) = new_members K t"
  by (simp add: simple_default_def Transaction.defs)

text \<open>The members of a plain transaction are read back from what is made of them.\<close>

locale simple_kind =
  fixes K :: "'m body_kind"
    and plain :: "TransactionData library \<Rightarrow> 'm \<Rightarrow> bool"
  assumes read_members: "plain L m \<Longrightarrow> \<exists>d. build_body K L m = Inr d \<and> init_body K L d (new_members K t) = Inr m"
begin

lemma transaction_read:
  assumes "plain L (members x)" and "ordinary x"
  shows "read_back K L x"
  unfolding read_back_def
proof (intro allI)
  fix client t
  from assms(2) obtain i where i: "mTransactionId x = Some i" "numbered (mAccountId i)" "time_ok (mValidTransactionTime i)"
    and d: "whole_seconds (mTransactionValidDuration x)" by (auto simp: ordinary_def)
  obtain p where p: "TransactionId_toProtobuf (serializeKey L) i = Inr p" "TransactionId_fromProtobuf (lib_ssl L) (parseKey L) p = Inr i"
    using TransactionId_read [OF i(2,3)] by blast
  obtain m where m: "build_body K L (members x) = Inr m" "init_body K L m (new_members K t) = Inr (members x)"
    using read_members [OF assms(1)] by blast
  define b where "b = (mSourceTransactionBody x)\<lparr>tb_transactionID := Some p, tb_transactionFee := body_fee client x,
      tb_transactionValidDuration := Some (Duration_toProtobuf (mTransactionValidDuration x)), tb_memo := mTransactionMemo x,
      tb_data := Some m\<rparr>"
  have "body_fee client (x\<lparr>mSourceTransactionBody := c\<rparr>) = body_fee client x" for c
    by (simp add: body_fee_def split: option.split)
  then have "updateSourceTransactionBody L (simple_addToBody K L) client x = (Inr (), x\<lparr>mSourceTransactionBody := b\<rparr>)"
    using i(1) p(1) m(1)
    by (simp add: updateSourceTransactionBody_def abind_def act_defs simple_addToBody_def b_def)
  moreover obtain h where h: "Hbar_of (sint (tb_transactionFee b)) TINYBAR = Inr h" using fee_read by blast
  have "\<exists>z. simple_of_body K L t b = Inr z \<and> members z = members x \<and> mTransactionId z = mTransactionId x \<and>
      mTransactionMemo z = mTransactionMemo x \<and> mTransactionValidDuration z = mTransactionValidDuration x"
    using i(1) p(2) m(2) h Duration_read [OF d]
    by (simp add: simple_of_body_def Transaction_of_body_def read_body_def simple_init_def b_def simple_default_members)
  ultimately show "\<exists>y z. updateSourceTransactionBody L (simple_addToBody K L) client x = (Inr (), y) \<and>
     simple_of_body K L t (mSourceTransactionBody y) = Inr z \<and> members z = members x \<and>
     mTransactionId z = mTransactionId x \<and> mTransactionMemo z = mTransactionMemo x \<and>
     mTransactionValidDuration z = mTransactionValidDuration x" by auto
qed

end

text \<open>A kind whose data has a case of its own.\<close>

lemma simple_kindI:
  assumes "\<And>L m. build_body K L m = rbind (build L m) (\<lambda>p. Inr (wrap p))"
    and "\<And>L p m. init_body K L (wrap p) m = init L p m"
    and "\<And>L m t. plain L m \<Longrightarrow> \<exists>p. build L m = Inr p \<and> init L p (new_members K t) = Inr m"
  shows "simple_kind K plain"
proof
  fix L m t
  assume "plain L m"
  with assms(3) obtain p where "build L m = Inr p" "init L p (new_members K t) = Inr m" by blast
  then show "\<exists>d. build_body K L m = Inr d \<and> init_body K L d (new_members K t) = Inr m" by (auto simp: assms(1,2))
qed

end
