(* ===== verification/AccountTransactions.thy ===== *)
theory AccountTransactions
  imports SimpleKinds
begin

text \<open>
  The transactions on accounts: \<open>AccountCreateTransaction\<close>, \<open>AccountUpdateTransaction\<close> and
  \<open>AccountDeleteTransaction\<close>, and what is read back of them.
\<close>

section \<open>\<open>AccountCreateTransaction\<close>\<close>

record AccountCreateTransaction =
  AccountCreate_mKey :: "Key option"
  AccountCreate_mInitialBalance :: Hbar
  AccountCreate_mReceiverSignatureRequired :: bool
  AccountCreate_mAutoRenewPeriod :: duration
  AccountCreate_mAccountMemo :: string
  AccountCreate_mMaxAutomaticTokenAssociations :: int
  AccountCreate_mStakedAccountId :: "AccountId option"
  AccountCreate_mStakedNodeId :: "u64 option"
  AccountCreate_mDeclineStakingReward :: bool
  AccountCreate_mAlias :: "EvmAddress option"

definition AccountCreate_default :: "time_point \<Rightarrow> AccountCreateTransaction" where
  "AccountCreate_default t =
     \<lparr>AccountCreate_mKey = None, AccountCreate_mInitialBalance = Hbar_zero,
      AccountCreate_mReceiverSignatureRequired = False, AccountCreate_mAutoRenewPeriod = DEFAULT_AUTO_RENEW_PERIOD,
      AccountCreate_mAccountMemo = [], AccountCreate_mMaxAutomaticTokenAssociations = 0,
      AccountCreate_mStakedAccountId = None, AccountCreate_mStakedNodeId = None,
      AccountCreate_mDeclineStakingReward = False, AccountCreate_mAlias = None\<rparr>"

definition AccountCreate_setKey :: "Key \<Rightarrow> AccountCreateTransaction setter" where
  "AccountCreate_setKey v = set_members (\<lambda>m. m\<lparr>AccountCreate_mKey := Some v\<rparr>)"

definition AccountCreate_setInitialBalance :: "Hbar \<Rightarrow> AccountCreateTransaction setter" where
  "AccountCreate_setInitialBalance v = set_members (\<lambda>m. m\<lparr>AccountCreate_mInitialBalance := v\<rparr>)"

definition AccountCreate_setReceiverSignatureRequired :: "bool \<Rightarrow> AccountCreateTransaction setter" where
  "AccountCreate_setReceiverSignatureRequired v = set_members (\<lambda>m. m\<lparr>AccountCreate_mReceiverSignatureRequired := v\<rparr>)"

definition AccountCreate_setAutoRenewPeriod :: "duration \<Rightarrow> AccountCreateTransaction setter" where
  "AccountCreate_setAutoRenewPeriod v = set_members (\<lambda>m. m\<lparr>AccountCreate_mAutoRenewPeriod := v\<rparr>)"

definition AccountCreate_setAccountMemo :: "string \<Rightarrow> AccountCreateTransaction setter" where
  "AccountCreate_setAccountMemo v = set_members (\<lambda>m. m\<lparr>AccountCreate_mAccountMemo := v\<rparr>)"

definition AccountCreate_setMaxAutomaticTokenAssociations :: "int \<Rightarrow> AccountCreateTransaction setter" where
  "AccountCreate_setMaxAutomaticTokenAssociations v = set_members (\<lambda>m. m\<lparr>AccountCreate_mMaxAutomaticTokenAssociations := v\<rparr>)"

definition AccountCreate_setStakedAccountId :: "AccountId \<Rightarrow> AccountCreateTransaction setter" where
  "AccountCreate_setStakedAccountId v = set_members (\<lambda>m. m\<lparr>AccountCreate_mStakedAccountId := Some v, AccountCreate_mStakedNodeId := None\<rparr>)"

definition AccountCreate_setStakedNodeId :: "u64 \<Rightarrow> AccountCreateTransaction setter" where
  "AccountCreate_setStakedNodeId v = set_members (\<lambda>m. m\<lparr>AccountCreate_mStakedNodeId := Some v, AccountCreate_mStakedAccountId := None\<rparr>)"

definition AccountCreate_setDeclineStakingReward :: "bool \<Rightarrow> AccountCreateTransaction setter" where
  "AccountCreate_setDeclineStakingReward v = set_members (\<lambda>m. m\<lparr>AccountCreate_mDeclineStakingReward := v\<rparr>)"

definition AccountCreate_setAlias :: "EvmAddress \<Rightarrow> AccountCreateTransaction setter" where
  "AccountCreate_setAlias v = set_members (\<lambda>m. m\<lparr>AccountCreate_mAlias := Some v\<rparr>)"

definition AccountCreate_validateChecksums :: "client_ledger \<Rightarrow> AccountCreateTransaction \<Rightarrow> unit res" where
  "AccountCreate_validateChecksums client m =
     check_opt AccountId_validateChecksum client (AccountCreate_mStakedAccountId m)"

definition AccountCreate_build :: "TransactionData library \<Rightarrow> AccountCreateTransaction \<Rightarrow> proto_AccountCreate res" where
  "AccountCreate_build L m =
     rbind (ropt (key_out L) (AccountCreate_mKey m)) (\<lambda>k.
     rbind (staked_out L (AccountCreate_mStakedAccountId m) (AccountCreate_mStakedNodeId m)) (\<lambda>staked_id.
       Inr \<lparr>AccountCreate_key = k, AccountCreate_initialbalance = of_int (toTinybars (AccountCreate_mInitialBalance m)),
        AccountCreate_receiversigrequired = AccountCreate_mReceiverSignatureRequired m,
        AccountCreate_autorenewperiod = Some (Duration_toProtobuf (AccountCreate_mAutoRenewPeriod m)),
        AccountCreate_memo = AccountCreate_mAccountMemo m,
        AccountCreate_max_automatic_token_associations = AccountCreate_mMaxAutomaticTokenAssociations m,
        AccountCreate_staked_id = staked_id, AccountCreate_decline_reward = AccountCreate_mDeclineStakingReward m,
        AccountCreate_alias = alias_out (AccountCreate_mAlias m)\<rparr>))"

definition AccountCreate_init :: "TransactionData library \<Rightarrow> proto_AccountCreate \<Rightarrow> AccountCreateTransaction \<Rightarrow> AccountCreateTransaction res" where
  "AccountCreate_init L p m =
     rbind (read_opt_if (key_in L) (AccountCreate_key p) (AccountCreate_mKey m)) (\<lambda>k.
     rbind (Hbar_of (sint (AccountCreate_initialbalance p)) TINYBAR) (\<lambda>initialbalance.
     rbind (read_if Duration_fromProtobuf (AccountCreate_autorenewperiod p) (AccountCreate_mAutoRenewPeriod m)) (\<lambda>autorenewperiod.
     rbind (staked_in L (AccountCreate_staked_id p) (AccountCreate_mStakedAccountId m) (AccountCreate_mStakedNodeId m)) (\<lambda>staked_id.
     rbind (alias_in (AccountCreate_alias p) (AccountCreate_mAlias m)) (\<lambda>alias.
       Inr \<lparr>AccountCreate_mKey = k, AccountCreate_mInitialBalance = initialbalance,
        AccountCreate_mReceiverSignatureRequired = AccountCreate_receiversigrequired p,
        AccountCreate_mAutoRenewPeriod = autorenewperiod, AccountCreate_mAccountMemo = AccountCreate_memo p,
        AccountCreate_mMaxAutomaticTokenAssociations = AccountCreate_max_automatic_token_associations p,
        AccountCreate_mStakedAccountId = fst staked_id, AccountCreate_mStakedNodeId = snd staked_id,
        AccountCreate_mDeclineStakingReward = AccountCreate_decline_reward p, AccountCreate_mAlias = alias\<rparr>)))))"

definition AccountCreate_kind :: "AccountCreateTransaction body_kind" where
  "AccountCreate_kind =
     \<lparr>build_body = (\<lambda>L m. rbind (AccountCreate_build L m) (\<lambda>p. Inr (data_account (data_cryptocreateaccount p)))),
      init_body = (\<lambda>L d m. case d of data_account (data_cryptocreateaccount p) \<Rightarrow> AccountCreate_init L p m | _ \<Rightarrow> Inl InvalidArgument),
      check_body = AccountCreate_validateChecksums, new_members = AccountCreate_default, default_fee = Some \<lparr>mValueInTinybar = 1000000000000\<rparr>\<rparr>"

definition AccountCreate_plain :: "TransactionData library \<Rightarrow> AccountCreateTransaction \<Rightarrow> bool" where
  "AccountCreate_plain L m \<longleftrightarrow>
     pred_option (key_plain (lib_ssl L)) (AccountCreate_mKey m) \<and>
     Hbar_valid (AccountCreate_mInitialBalance m) \<and>
     whole_seconds (AccountCreate_mAutoRenewPeriod m) \<and>
     pred_option account_plain (AccountCreate_mStakedAccountId m) \<and> (AccountCreate_mStakedAccountId m = None \<or> AccountCreate_mStakedNodeId m = None) \<and>
     pred_option (\<lambda>a. length (EvmAddress_toBytes a) = 20) (AccountCreate_mAlias m)"

lemma AccountCreate_read: "AccountCreate_plain L m \<Longrightarrow> \<exists>p. AccountCreate_build L m = Inr p \<and> AccountCreate_init L p (AccountCreate_default t) = Inr m"
  by (cases m) (simp add: AccountCreate_plain_def AccountCreate_build_def AccountCreate_init_def AccountCreate_default_def message_simps)

interpretation account_create: simple_kind AccountCreate_kind AccountCreate_plain
  by (rule simple_kindI [of _ AccountCreate_build "\<lambda>p. data_account (data_cryptocreateaccount p)" AccountCreate_init])
    (simp_all add: AccountCreate_kind_def AccountCreate_read)

section \<open>\<open>AccountUpdateTransaction\<close>\<close>

record AccountUpdateTransaction =
  AccountUpdate_mAccountId :: AccountId
  AccountUpdate_mKey :: "Key option"
  AccountUpdate_mReceiverSignatureRequired :: "bool option"
  AccountUpdate_mAutoRenewPeriod :: "duration option"
  AccountUpdate_mExpirationTime :: "time_point option"
  AccountUpdate_mAccountMemo :: "string option"
  AccountUpdate_mMaxAutomaticTokenAssociations :: "int option"
  AccountUpdate_mStakedAccountId :: "AccountId option"
  AccountUpdate_mStakedNodeId :: "u64 option"
  AccountUpdate_mDeclineStakingReward :: "bool option"

definition AccountUpdate_default :: "time_point \<Rightarrow> AccountUpdateTransaction" where
  "AccountUpdate_default t =
     \<lparr>AccountUpdate_mAccountId = AccountId_default, AccountUpdate_mKey = None,
      AccountUpdate_mReceiverSignatureRequired = None, AccountUpdate_mAutoRenewPeriod = None,
      AccountUpdate_mExpirationTime = None, AccountUpdate_mAccountMemo = None,
      AccountUpdate_mMaxAutomaticTokenAssociations = None, AccountUpdate_mStakedAccountId = None,
      AccountUpdate_mStakedNodeId = None, AccountUpdate_mDeclineStakingReward = None\<rparr>"

definition AccountUpdate_setAccountId :: "AccountId \<Rightarrow> AccountUpdateTransaction setter" where
  "AccountUpdate_setAccountId v = set_members (\<lambda>m. m\<lparr>AccountUpdate_mAccountId := v\<rparr>)"

definition AccountUpdate_setKey :: "Key \<Rightarrow> AccountUpdateTransaction setter" where
  "AccountUpdate_setKey v = set_members (\<lambda>m. m\<lparr>AccountUpdate_mKey := Some v\<rparr>)"

definition AccountUpdate_setReceiverSignatureRequired :: "bool \<Rightarrow> AccountUpdateTransaction setter" where
  "AccountUpdate_setReceiverSignatureRequired v = set_members (\<lambda>m. m\<lparr>AccountUpdate_mReceiverSignatureRequired := Some v\<rparr>)"

definition AccountUpdate_setAutoRenewPeriod :: "duration \<Rightarrow> AccountUpdateTransaction setter" where
  "AccountUpdate_setAutoRenewPeriod v = set_members (\<lambda>m. m\<lparr>AccountUpdate_mAutoRenewPeriod := Some v\<rparr>)"

definition AccountUpdate_setExpirationTime :: "time_point \<Rightarrow> AccountUpdateTransaction setter" where
  "AccountUpdate_setExpirationTime v = set_members (\<lambda>m. m\<lparr>AccountUpdate_mExpirationTime := Some v\<rparr>)"

definition AccountUpdate_setAccountMemo :: "string \<Rightarrow> AccountUpdateTransaction setter" where
  "AccountUpdate_setAccountMemo v = set_members (\<lambda>m. m\<lparr>AccountUpdate_mAccountMemo := Some v\<rparr>)"

definition AccountUpdate_setMaxAutomaticTokenAssociations :: "int \<Rightarrow> AccountUpdateTransaction setter" where
  "AccountUpdate_setMaxAutomaticTokenAssociations v = set_members (\<lambda>m. m\<lparr>AccountUpdate_mMaxAutomaticTokenAssociations := Some v\<rparr>)"

definition AccountUpdate_setStakedAccountId :: "AccountId \<Rightarrow> AccountUpdateTransaction setter" where
  "AccountUpdate_setStakedAccountId v = set_members (\<lambda>m. m\<lparr>AccountUpdate_mStakedAccountId := Some v, AccountUpdate_mStakedNodeId := None\<rparr>)"

definition AccountUpdate_setStakedNodeId :: "u64 \<Rightarrow> AccountUpdateTransaction setter" where
  "AccountUpdate_setStakedNodeId v = set_members (\<lambda>m. m\<lparr>AccountUpdate_mStakedNodeId := Some v, AccountUpdate_mStakedAccountId := None\<rparr>)"

definition AccountUpdate_setDeclineStakingReward :: "bool \<Rightarrow> AccountUpdateTransaction setter" where
  "AccountUpdate_setDeclineStakingReward v = set_members (\<lambda>m. m\<lparr>AccountUpdate_mDeclineStakingReward := Some v\<rparr>)"

definition AccountUpdate_clearAccountMemo :: "AccountUpdateTransaction setter" where
  "AccountUpdate_clearAccountMemo = set_members (\<lambda>m. m\<lparr>AccountUpdate_mAccountMemo := Some []\<rparr>)"

definition AccountUpdate_clearStakedAccountId :: "AccountUpdateTransaction setter" where
  "AccountUpdate_clearStakedAccountId = set_members (\<lambda>m. m\<lparr>AccountUpdate_mStakedAccountId := Some (AccountId_of 0 0 0 []), AccountUpdate_mStakedNodeId := None\<rparr>)"

definition AccountUpdate_clearStakedNodeId :: "AccountUpdateTransaction setter" where
  "AccountUpdate_clearStakedNodeId = set_members (\<lambda>m. m\<lparr>AccountUpdate_mStakedNodeId := Some (- 1), AccountUpdate_mStakedAccountId := None\<rparr>)"

definition AccountUpdate_validateChecksums :: "client_ledger \<Rightarrow> AccountUpdateTransaction \<Rightarrow> unit res" where
  "AccountUpdate_validateChecksums client m =
     rbind (AccountId_validateChecksum client (AccountUpdate_mAccountId m)) (\<lambda>_.
     check_opt AccountId_validateChecksum client (AccountUpdate_mStakedAccountId m))"

definition AccountUpdate_build :: "TransactionData library \<Rightarrow> AccountUpdateTransaction \<Rightarrow> proto_AccountUpdate res" where
  "AccountUpdate_build L m =
     rbind (account_unless_default L (AccountUpdate_mAccountId m)) (\<lambda>accountidtoupdate.
     rbind (ropt (key_out L) (AccountUpdate_mKey m)) (\<lambda>k.
     rbind (staked_last_out L (AccountUpdate_mStakedAccountId m) (AccountUpdate_mStakedNodeId m)) (\<lambda>staked_id.
       Inr \<lparr>AccountUpdate_accountidtoupdate = accountidtoupdate, AccountUpdate_key = k,
        AccountUpdate_receiversigrequiredwrapper = AccountUpdate_mReceiverSignatureRequired m,
        AccountUpdate_autorenewperiod = map_option Duration_toProtobuf (AccountUpdate_mAutoRenewPeriod m),
        AccountUpdate_expirationtime = map_option Timestamp_toProtobuf (AccountUpdate_mExpirationTime m),
        AccountUpdate_memo = AccountUpdate_mAccountMemo m,
        AccountUpdate_max_automatic_token_associations = AccountUpdate_mMaxAutomaticTokenAssociations m,
        AccountUpdate_staked_id = staked_id, AccountUpdate_decline_reward = AccountUpdate_mDeclineStakingReward m\<rparr>)))"

definition AccountUpdate_init :: "TransactionData library \<Rightarrow> proto_AccountUpdate \<Rightarrow> AccountUpdateTransaction \<Rightarrow> AccountUpdateTransaction res" where
  "AccountUpdate_init L p m =
     rbind (read_if (account_in L) (AccountUpdate_accountidtoupdate p) (AccountUpdate_mAccountId m)) (\<lambda>accountidtoupdate.
     rbind (read_opt_if (key_in L) (AccountUpdate_key p) (AccountUpdate_mKey m)) (\<lambda>k.
     rbind (read_opt_if Duration_fromProtobuf (AccountUpdate_autorenewperiod p) (AccountUpdate_mAutoRenewPeriod m)) (\<lambda>autorenewperiod.
     rbind (read_opt_if Timestamp_fromProtobuf (AccountUpdate_expirationtime p) (AccountUpdate_mExpirationTime m)) (\<lambda>expirationtime.
     rbind (staked_in L (AccountUpdate_staked_id p) (AccountUpdate_mStakedAccountId m) (AccountUpdate_mStakedNodeId m)) (\<lambda>staked_id.
       Inr \<lparr>AccountUpdate_mAccountId = accountidtoupdate, AccountUpdate_mKey = k,
        AccountUpdate_mReceiverSignatureRequired = set_opt_if (\<lambda>v. v) (AccountUpdate_receiversigrequiredwrapper p) (AccountUpdate_mReceiverSignatureRequired m),
        AccountUpdate_mAutoRenewPeriod = autorenewperiod, AccountUpdate_mExpirationTime = expirationtime,
        AccountUpdate_mAccountMemo = set_opt_if (\<lambda>v. v) (AccountUpdate_memo p) (AccountUpdate_mAccountMemo m),
        AccountUpdate_mMaxAutomaticTokenAssociations = set_opt_if (\<lambda>v. v) (AccountUpdate_max_automatic_token_associations p) (AccountUpdate_mMaxAutomaticTokenAssociations m),
        AccountUpdate_mStakedAccountId = fst staked_id, AccountUpdate_mStakedNodeId = snd staked_id,
        AccountUpdate_mDeclineStakingReward = set_opt_if (\<lambda>v. v) (AccountUpdate_decline_reward p) (AccountUpdate_mDeclineStakingReward m)\<rparr>)))))"

definition AccountUpdate_kind :: "AccountUpdateTransaction body_kind" where
  "AccountUpdate_kind =
     \<lparr>build_body = (\<lambda>L m. rbind (AccountUpdate_build L m) (\<lambda>p. Inr (data_account (data_cryptoupdateaccount p)))),
      init_body = (\<lambda>L d m. case d of data_account (data_cryptoupdateaccount p) \<Rightarrow> AccountUpdate_init L p m | _ \<Rightarrow> Inl InvalidArgument),
      check_body = AccountUpdate_validateChecksums, new_members = AccountUpdate_default, default_fee = None\<rparr>"

definition AccountUpdate_plain :: "TransactionData library \<Rightarrow> AccountUpdateTransaction \<Rightarrow> bool" where
  "AccountUpdate_plain L m \<longleftrightarrow>
     account_ok (AccountUpdate_mAccountId m) \<and>
     pred_option (key_plain (lib_ssl L)) (AccountUpdate_mKey m) \<and>
     pred_option whole_seconds (AccountUpdate_mAutoRenewPeriod m) \<and>
     pred_option time_ok (AccountUpdate_mExpirationTime m) \<and>
     pred_option account_plain (AccountUpdate_mStakedAccountId m) \<and> (AccountUpdate_mStakedAccountId m = None \<or> AccountUpdate_mStakedNodeId m = None)"

lemma AccountUpdate_read: "AccountUpdate_plain L m \<Longrightarrow> \<exists>p. AccountUpdate_build L m = Inr p \<and> AccountUpdate_init L p (AccountUpdate_default t) = Inr m"
  by (cases m) (simp add: AccountUpdate_plain_def AccountUpdate_build_def AccountUpdate_init_def AccountUpdate_default_def message_simps)

interpretation account_update: simple_kind AccountUpdate_kind AccountUpdate_plain
  by (rule simple_kindI [of _ AccountUpdate_build "\<lambda>p. data_account (data_cryptoupdateaccount p)" AccountUpdate_init])
    (simp_all add: AccountUpdate_kind_def AccountUpdate_read)

section \<open>\<open>AccountDeleteTransaction\<close>\<close>

record AccountDeleteTransaction =
  AccountDelete_mDeleteAccountId :: "AccountId option"
  AccountDelete_mTransferAccountId :: "AccountId option"

definition AccountDelete_default :: "time_point \<Rightarrow> AccountDeleteTransaction" where
  "AccountDelete_default t =
     \<lparr>AccountDelete_mDeleteAccountId = None, AccountDelete_mTransferAccountId = None\<rparr>"

definition AccountDelete_setDeleteAccountId :: "AccountId \<Rightarrow> AccountDeleteTransaction setter" where
  "AccountDelete_setDeleteAccountId v = set_members (\<lambda>m. m\<lparr>AccountDelete_mDeleteAccountId := Some v\<rparr>)"

definition AccountDelete_setTransferAccountId :: "AccountId \<Rightarrow> AccountDeleteTransaction setter" where
  "AccountDelete_setTransferAccountId v = set_members (\<lambda>m. m\<lparr>AccountDelete_mTransferAccountId := Some v\<rparr>)"

definition AccountDelete_validateChecksums :: "client_ledger \<Rightarrow> AccountDeleteTransaction \<Rightarrow> unit res" where
  "AccountDelete_validateChecksums client m =
     rbind (check_opt AccountId_validateChecksum client (AccountDelete_mDeleteAccountId m)) (\<lambda>_.
     check_opt AccountId_validateChecksum client (AccountDelete_mTransferAccountId m))"

definition AccountDelete_build :: "TransactionData library \<Rightarrow> AccountDeleteTransaction \<Rightarrow> proto_AccountDelete res" where
  "AccountDelete_build L m =
     rbind (ropt (account_out L) (AccountDelete_mDeleteAccountId m)) (\<lambda>deleteaccountid.
     rbind (ropt (account_out L) (AccountDelete_mTransferAccountId m)) (\<lambda>transferaccountid.
       Inr \<lparr>AccountDelete_deleteaccountid = deleteaccountid, AccountDelete_transferaccountid = transferaccountid\<rparr>))"

definition AccountDelete_init :: "TransactionData library \<Rightarrow> proto_AccountDelete \<Rightarrow> AccountDeleteTransaction \<Rightarrow> AccountDeleteTransaction res" where
  "AccountDelete_init L p m =
     rbind (read_opt_if (account_in L) (AccountDelete_deleteaccountid p) (AccountDelete_mDeleteAccountId m)) (\<lambda>deleteaccountid.
     rbind (read_opt_if (account_in L) (AccountDelete_transferaccountid p) (AccountDelete_mTransferAccountId m)) (\<lambda>transferaccountid.
       Inr \<lparr>AccountDelete_mDeleteAccountId = deleteaccountid, AccountDelete_mTransferAccountId = transferaccountid\<rparr>))"

definition AccountDelete_kind :: "AccountDeleteTransaction body_kind" where
  "AccountDelete_kind =
     \<lparr>build_body = (\<lambda>L m. rbind (AccountDelete_build L m) (\<lambda>p. Inr (data_account (data_cryptodelete p)))),
      init_body = (\<lambda>L d m. case d of data_account (data_cryptodelete p) \<Rightarrow> AccountDelete_init L p m | _ \<Rightarrow> Inl InvalidArgument),
      check_body = AccountDelete_validateChecksums, new_members = AccountDelete_default, default_fee = None\<rparr>"

definition AccountDelete_plain :: "TransactionData library \<Rightarrow> AccountDeleteTransaction \<Rightarrow> bool" where
  "AccountDelete_plain L m \<longleftrightarrow>
     pred_option account_plain (AccountDelete_mDeleteAccountId m) \<and>
     pred_option account_plain (AccountDelete_mTransferAccountId m)"

lemma AccountDelete_read: "AccountDelete_plain L m \<Longrightarrow> \<exists>p. AccountDelete_build L m = Inr p \<and> AccountDelete_init L p (AccountDelete_default t) = Inr m"
  by (cases m) (simp add: AccountDelete_plain_def AccountDelete_build_def AccountDelete_init_def AccountDelete_default_def message_simps)

interpretation account_delete: simple_kind AccountDelete_kind AccountDelete_plain
  by (rule simple_kindI [of _ AccountDelete_build "\<lambda>p. data_account (data_cryptodelete p)" AccountDelete_init])
    (simp_all add: AccountDelete_kind_def AccountDelete_read)

end
