(* ===== verification/FileTransactions.thy ===== *)
theory FileTransactions
  imports SimpleKinds
begin

text \<open>
  The transactions on files and topics: create, update and delete.
\<close>

section \<open>\<open>FileCreateTransaction\<close>\<close>

record FileCreateTransaction =
  FileCreate_mExpirationTime :: time_point
  FileCreate_mKeys :: KeyList
  FileCreate_mContents :: bytes
  FileCreate_mFileMemo :: string

definition FileCreate_default :: "time_point \<Rightarrow> FileCreateTransaction" where
  "FileCreate_default t =
     \<lparr>FileCreate_mExpirationTime = t + DEFAULT_AUTO_RENEW_PERIOD, FileCreate_mKeys = KeyList_default,
      FileCreate_mContents = [], FileCreate_mFileMemo = []\<rparr>"

definition FileCreate_setExpirationTime :: "time_point \<Rightarrow> FileCreateTransaction setter" where
  "FileCreate_setExpirationTime v = set_members (\<lambda>m. m\<lparr>FileCreate_mExpirationTime := v\<rparr>)"

definition FileCreate_setKeys :: "KeyList \<Rightarrow> FileCreateTransaction setter" where
  "FileCreate_setKeys v = set_members (\<lambda>m. m\<lparr>FileCreate_mKeys := v\<rparr>)"

definition FileCreate_setContents :: "bytes \<Rightarrow> FileCreateTransaction setter" where
  "FileCreate_setContents v = set_members (\<lambda>m. m\<lparr>FileCreate_mContents := v\<rparr>)"

definition FileCreate_setFileMemo :: "string \<Rightarrow> FileCreateTransaction setter" where
  "FileCreate_setFileMemo v = set_members (\<lambda>m. m\<lparr>FileCreate_mFileMemo := v\<rparr>)"

definition FileCreate_setKeyVector :: "Key list \<Rightarrow> FileCreateTransaction setter" where
  "FileCreate_setKeyVector keys = set_members (\<lambda>m. m\<lparr>FileCreate_mKeys := KeyList_of keys\<rparr>)"

definition FileCreate_setContentsString :: "string \<Rightarrow> FileCreateTransaction setter" where
  "FileCreate_setContentsString contents = abind requireNotFrozen (\<lambda>_. FileCreate_setContents (stringToByteVector contents))"

definition FileCreate_validateChecksums :: "client_ledger \<Rightarrow> FileCreateTransaction \<Rightarrow> unit res" where
  "FileCreate_validateChecksums client m =
     Inr ()"

definition FileCreate_build :: "TransactionData library \<Rightarrow> FileCreateTransaction \<Rightarrow> proto_FileCreate res" where
  "FileCreate_build L m =
     rbind (rbind (KeyList_out L (FileCreate_mKeys m)) (\<lambda>k. Inr (Some k))) (\<lambda>keys.
       Inr \<lparr>FileCreate_expirationtime = Some (Timestamp_toProtobuf (FileCreate_mExpirationTime m)),
        FileCreate_keys = keys, FileCreate_contents = byteVectorToString (FileCreate_mContents m),
        FileCreate_memo = FileCreate_mFileMemo m\<rparr>)"

definition FileCreate_init :: "TransactionData library \<Rightarrow> proto_FileCreate \<Rightarrow> FileCreateTransaction \<Rightarrow> FileCreateTransaction res" where
  "FileCreate_init L p m =
     rbind (read_if Timestamp_fromProtobuf (FileCreate_expirationtime p) (FileCreate_mExpirationTime m)) (\<lambda>expirationtime.
     rbind (read_if (KeyList_in L) (FileCreate_keys p) (FileCreate_mKeys m)) (\<lambda>keys.
       Inr \<lparr>FileCreate_mExpirationTime = expirationtime, FileCreate_mKeys = keys,
        FileCreate_mContents = stringToByteVector (FileCreate_contents p), FileCreate_mFileMemo = FileCreate_memo p\<rparr>))"

definition FileCreate_kind :: "FileCreateTransaction body_kind" where
  "FileCreate_kind =
     \<lparr>build_body = (\<lambda>L m. rbind (FileCreate_build L m) (\<lambda>p. Inr (data_file (data_filecreate p)))),
      init_body = (\<lambda>L d m. case d of data_file (data_filecreate p) \<Rightarrow> FileCreate_init L p m | _ \<Rightarrow> Inl InvalidArgument),
      check_body = FileCreate_validateChecksums, new_members = FileCreate_default, default_fee = Some \<lparr>mValueInTinybar = 500000000\<rparr>\<rparr>"

definition FileCreate_plain :: "TransactionData library \<Rightarrow> FileCreateTransaction \<Rightarrow> bool" where
  "FileCreate_plain L m \<longleftrightarrow>
     time_ok (FileCreate_mExpirationTime m) \<and>
     keylist_plain (lib_ssl L) (FileCreate_mKeys m)"

lemma FileCreate_read: "FileCreate_plain L m \<Longrightarrow> \<exists>p. FileCreate_build L m = Inr p \<and> FileCreate_init L p (FileCreate_default t) = Inr m"
  by (cases m) (simp add: FileCreate_plain_def FileCreate_build_def FileCreate_init_def FileCreate_default_def message_simps)

interpretation file_create: simple_kind FileCreate_kind FileCreate_plain
  by (rule simple_kindI [of _ FileCreate_build "\<lambda>p. data_file (data_filecreate p)" FileCreate_init])
    (simp_all add: FileCreate_kind_def FileCreate_read)

section \<open>\<open>FileUpdateTransaction\<close>\<close>

record FileUpdateTransaction =
  FileUpdate_mFileId :: FileId
  FileUpdate_mExpirationTime :: "time_point option"
  FileUpdate_mKeys :: "KeyList option"
  FileUpdate_mContents :: "bytes option"
  FileUpdate_mFileMemo :: "string option"

definition FileUpdate_default :: "time_point \<Rightarrow> FileUpdateTransaction" where
  "FileUpdate_default t =
     \<lparr>FileUpdate_mFileId = FileId_of 0 0 0 [], FileUpdate_mExpirationTime = None, FileUpdate_mKeys = None,
      FileUpdate_mContents = None, FileUpdate_mFileMemo = None\<rparr>"

definition FileUpdate_setFileId :: "FileId \<Rightarrow> FileUpdateTransaction setter" where
  "FileUpdate_setFileId v = set_members (\<lambda>m. m\<lparr>FileUpdate_mFileId := v\<rparr>)"

definition FileUpdate_setExpirationTime :: "time_point \<Rightarrow> FileUpdateTransaction setter" where
  "FileUpdate_setExpirationTime v = set_members (\<lambda>m. m\<lparr>FileUpdate_mExpirationTime := Some v\<rparr>)"

definition FileUpdate_setKeys :: "KeyList \<Rightarrow> FileUpdateTransaction setter" where
  "FileUpdate_setKeys v = set_members (\<lambda>m. m\<lparr>FileUpdate_mKeys := Some v\<rparr>)"

definition FileUpdate_setContents :: "bytes \<Rightarrow> FileUpdateTransaction setter" where
  "FileUpdate_setContents v = set_members (\<lambda>m. m\<lparr>FileUpdate_mContents := Some v\<rparr>)"

definition FileUpdate_setFileMemo :: "string \<Rightarrow> FileUpdateTransaction setter" where
  "FileUpdate_setFileMemo v = set_members (\<lambda>m. m\<lparr>FileUpdate_mFileMemo := Some v\<rparr>)"

definition FileUpdate_setKeyVector :: "Key list \<Rightarrow> FileUpdateTransaction setter" where
  "FileUpdate_setKeyVector keys = set_members (\<lambda>m. m\<lparr>FileUpdate_mKeys := Some (KeyList_of keys)\<rparr>)"

definition FileUpdate_setContentsString :: "string \<Rightarrow> FileUpdateTransaction setter" where
  "FileUpdate_setContentsString contents = set_members (\<lambda>m. m\<lparr>FileUpdate_mContents := Some (stringToByteVector contents)\<rparr>)"

definition FileUpdate_validateChecksums :: "client_ledger \<Rightarrow> FileUpdateTransaction \<Rightarrow> unit res" where
  "FileUpdate_validateChecksums client m =
     FileId_validateChecksum client (FileUpdate_mFileId m)"

definition FileUpdate_build :: "TransactionData library \<Rightarrow> FileUpdateTransaction \<Rightarrow> proto_FileUpdate res" where
  "FileUpdate_build L m =
     rbind (ropt (KeyList_out L) (FileUpdate_mKeys m)) (\<lambda>keys.
       Inr \<lparr>FileUpdate_fileid = Some (FileId_toProtobuf (FileUpdate_mFileId m)),
        FileUpdate_expirationtime = map_option Timestamp_toProtobuf (FileUpdate_mExpirationTime m),
        FileUpdate_keys = keys, FileUpdate_contents = byteVectorToString (or_default [] (FileUpdate_mContents m)),
        FileUpdate_memo = FileUpdate_mFileMemo m\<rparr>)"

definition FileUpdate_init :: "TransactionData library \<Rightarrow> proto_FileUpdate \<Rightarrow> FileUpdateTransaction \<Rightarrow> FileUpdateTransaction res" where
  "FileUpdate_init L p m =
     rbind (read_opt_if Timestamp_fromProtobuf (FileUpdate_expirationtime p) (FileUpdate_mExpirationTime m)) (\<lambda>expirationtime.
     rbind (read_opt_if (KeyList_in L) (FileUpdate_keys p) (FileUpdate_mKeys m)) (\<lambda>keys.
       Inr \<lparr>FileUpdate_mFileId = set_if FileId_fromProtobuf (FileUpdate_fileid p) (FileUpdate_mFileId m),
        FileUpdate_mExpirationTime = expirationtime, FileUpdate_mKeys = keys,
        FileUpdate_mContents = Some (stringToByteVector (FileUpdate_contents p)),
        FileUpdate_mFileMemo = set_opt_if (\<lambda>v. v) (FileUpdate_memo p) (FileUpdate_mFileMemo m)\<rparr>))"

definition FileUpdate_kind :: "FileUpdateTransaction body_kind" where
  "FileUpdate_kind =
     \<lparr>build_body = (\<lambda>L m. rbind (FileUpdate_build L m) (\<lambda>p. Inr (data_file (data_fileupdate p)))),
      init_body = (\<lambda>L d m. case d of data_file (data_fileupdate p) \<Rightarrow> FileUpdate_init L p m | _ \<Rightarrow> Inl InvalidArgument),
      check_body = FileUpdate_validateChecksums, new_members = FileUpdate_default, default_fee = None\<rparr>"

definition FileUpdate_plain :: "TransactionData library \<Rightarrow> FileUpdateTransaction \<Rightarrow> bool" where
  "FileUpdate_plain L m \<longleftrightarrow>
     fileChecksum (FileUpdate_mFileId m) = [] \<and>
     pred_option time_ok (FileUpdate_mExpirationTime m) \<and>
     pred_option (keylist_plain (lib_ssl L)) (FileUpdate_mKeys m) \<and>
     FileUpdate_mContents m \<noteq> None"

lemma FileUpdate_read: "FileUpdate_plain L m \<Longrightarrow> \<exists>p. FileUpdate_build L m = Inr p \<and> FileUpdate_init L p (FileUpdate_default t) = Inr m"
  by (cases m) (simp add: FileUpdate_plain_def FileUpdate_build_def FileUpdate_init_def FileUpdate_default_def message_simps)

interpretation file_update: simple_kind FileUpdate_kind FileUpdate_plain
  by (rule simple_kindI [of _ FileUpdate_build "\<lambda>p. data_file (data_fileupdate p)" FileUpdate_init])
    (simp_all add: FileUpdate_kind_def FileUpdate_read)

section \<open>\<open>FileDeleteTransaction\<close>\<close>

record FileDeleteTransaction =
  FileDelete_mFileId :: FileId

definition FileDelete_default :: "time_point \<Rightarrow> FileDeleteTransaction" where
  "FileDelete_default t =
     \<lparr>FileDelete_mFileId = FileId_of 0 0 0 []\<rparr>"

definition FileDelete_setFileId :: "FileId \<Rightarrow> FileDeleteTransaction setter" where
  "FileDelete_setFileId v = set_members (\<lambda>m. m\<lparr>FileDelete_mFileId := v\<rparr>)"

definition FileDelete_validateChecksums :: "client_ledger \<Rightarrow> FileDeleteTransaction \<Rightarrow> unit res" where
  "FileDelete_validateChecksums client m =
     FileId_validateChecksum client (FileDelete_mFileId m)"

definition FileDelete_build :: "TransactionData library \<Rightarrow> FileDeleteTransaction \<Rightarrow> proto_FileDelete res" where
  "FileDelete_build L m =
       Inr \<lparr>FileDelete_fileid = Some (FileId_toProtobuf (FileDelete_mFileId m))\<rparr>"

definition FileDelete_init :: "TransactionData library \<Rightarrow> proto_FileDelete \<Rightarrow> FileDeleteTransaction \<Rightarrow> FileDeleteTransaction res" where
  "FileDelete_init L p m =
       Inr \<lparr>FileDelete_mFileId = set_if FileId_fromProtobuf (FileDelete_fileid p) (FileDelete_mFileId m)\<rparr>"

definition FileDelete_kind :: "FileDeleteTransaction body_kind" where
  "FileDelete_kind =
     \<lparr>build_body = (\<lambda>L m. rbind (FileDelete_build L m) (\<lambda>p. Inr (data_file (data_filedelete p)))),
      init_body = (\<lambda>L d m. case d of data_file (data_filedelete p) \<Rightarrow> FileDelete_init L p m | _ \<Rightarrow> Inl InvalidArgument),
      check_body = FileDelete_validateChecksums, new_members = FileDelete_default, default_fee = None\<rparr>"

definition FileDelete_plain :: "TransactionData library \<Rightarrow> FileDeleteTransaction \<Rightarrow> bool" where
  "FileDelete_plain L m \<longleftrightarrow>
     fileChecksum (FileDelete_mFileId m) = []"

lemma FileDelete_read: "FileDelete_plain L m \<Longrightarrow> \<exists>p. FileDelete_build L m = Inr p \<and> FileDelete_init L p (FileDelete_default t) = Inr m"
  by (cases m) (simp add: FileDelete_plain_def FileDelete_build_def FileDelete_init_def FileDelete_default_def message_simps)

interpretation file_delete: simple_kind FileDelete_kind FileDelete_plain
  by (rule simple_kindI [of _ FileDelete_build "\<lambda>p. data_file (data_filedelete p)" FileDelete_init])
    (simp_all add: FileDelete_kind_def FileDelete_read)

section \<open>\<open>TopicCreateTransaction\<close>\<close>

record TopicCreateTransaction =
  TopicCreate_mMemo :: string
  TopicCreate_mAdminKey :: "Key option"
  TopicCreate_mSubmitKey :: "Key option"
  TopicCreate_mAutoRenewPeriod :: duration
  TopicCreate_mAutoRenewAccountId :: "AccountId option"

definition TopicCreate_default :: "time_point \<Rightarrow> TopicCreateTransaction" where
  "TopicCreate_default t =
     \<lparr>TopicCreate_mMemo = [], TopicCreate_mAdminKey = None, TopicCreate_mSubmitKey = None,
      TopicCreate_mAutoRenewPeriod = DEFAULT_AUTO_RENEW_PERIOD, TopicCreate_mAutoRenewAccountId = None\<rparr>"

definition TopicCreate_setMemo :: "string \<Rightarrow> TopicCreateTransaction setter" where
  "TopicCreate_setMemo v = set_members (\<lambda>m. m\<lparr>TopicCreate_mMemo := v\<rparr>)"

definition TopicCreate_setAdminKey :: "Key \<Rightarrow> TopicCreateTransaction setter" where
  "TopicCreate_setAdminKey v = set_members (\<lambda>m. m\<lparr>TopicCreate_mAdminKey := Some v\<rparr>)"

definition TopicCreate_setSubmitKey :: "Key \<Rightarrow> TopicCreateTransaction setter" where
  "TopicCreate_setSubmitKey v = set_members (\<lambda>m. m\<lparr>TopicCreate_mSubmitKey := Some v\<rparr>)"

definition TopicCreate_setAutoRenewPeriod :: "duration \<Rightarrow> TopicCreateTransaction setter" where
  "TopicCreate_setAutoRenewPeriod v = set_members (\<lambda>m. m\<lparr>TopicCreate_mAutoRenewPeriod := v\<rparr>)"

definition TopicCreate_setAutoRenewAccountId :: "AccountId \<Rightarrow> TopicCreateTransaction setter" where
  "TopicCreate_setAutoRenewAccountId v = set_members (\<lambda>m. m\<lparr>TopicCreate_mAutoRenewAccountId := Some v\<rparr>)"

definition TopicCreate_validateChecksums :: "client_ledger \<Rightarrow> TopicCreateTransaction \<Rightarrow> unit res" where
  "TopicCreate_validateChecksums client m =
     check_opt AccountId_validateChecksum client (TopicCreate_mAutoRenewAccountId m)"

definition TopicCreate_build :: "TransactionData library \<Rightarrow> TopicCreateTransaction \<Rightarrow> proto_TopicCreate res" where
  "TopicCreate_build L m =
     rbind (ropt (key_out L) (TopicCreate_mAdminKey m)) (\<lambda>adminkey.
     rbind (ropt (key_out L) (TopicCreate_mSubmitKey m)) (\<lambda>submitkey.
     rbind (ropt (account_out L) (TopicCreate_mAutoRenewAccountId m)) (\<lambda>autorenewaccount.
       Inr \<lparr>TopicCreate_memo = TopicCreate_mMemo m, TopicCreate_adminkey = adminkey, TopicCreate_submitkey = submitkey,
        TopicCreate_autorenewperiod = Some (Duration_toProtobuf (TopicCreate_mAutoRenewPeriod m)),
        TopicCreate_autorenewaccount = autorenewaccount\<rparr>)))"

definition TopicCreate_init :: "TransactionData library \<Rightarrow> proto_TopicCreate \<Rightarrow> TopicCreateTransaction \<Rightarrow> TopicCreateTransaction res" where
  "TopicCreate_init L p m =
     rbind (read_opt_if (key_in L) (TopicCreate_adminkey p) (TopicCreate_mAdminKey m)) (\<lambda>adminkey.
     rbind (read_opt_if (key_in L) (TopicCreate_submitkey p) (TopicCreate_mSubmitKey m)) (\<lambda>submitkey.
     rbind (read_if Duration_fromProtobuf (TopicCreate_autorenewperiod p) (TopicCreate_mAutoRenewPeriod m)) (\<lambda>autorenewperiod.
     rbind (read_opt_if (account_in L) (TopicCreate_autorenewaccount p) (TopicCreate_mAutoRenewAccountId m)) (\<lambda>autorenewaccount.
       Inr \<lparr>TopicCreate_mMemo = TopicCreate_memo p, TopicCreate_mAdminKey = adminkey, TopicCreate_mSubmitKey = submitkey,
        TopicCreate_mAutoRenewPeriod = autorenewperiod, TopicCreate_mAutoRenewAccountId = autorenewaccount\<rparr>))))"

definition TopicCreate_kind :: "TopicCreateTransaction body_kind" where
  "TopicCreate_kind =
     \<lparr>build_body = (\<lambda>L m. rbind (TopicCreate_build L m) (\<lambda>p. Inr (data_topic (data_consensuscreatetopic p)))),
      init_body = (\<lambda>L d m. case d of data_topic (data_consensuscreatetopic p) \<Rightarrow> TopicCreate_init L p m | _ \<Rightarrow> Inl InvalidArgument),
      check_body = TopicCreate_validateChecksums, new_members = TopicCreate_default, default_fee = None\<rparr>"

definition TopicCreate_plain :: "TransactionData library \<Rightarrow> TopicCreateTransaction \<Rightarrow> bool" where
  "TopicCreate_plain L m \<longleftrightarrow>
     pred_option (key_plain (lib_ssl L)) (TopicCreate_mAdminKey m) \<and>
     pred_option (key_plain (lib_ssl L)) (TopicCreate_mSubmitKey m) \<and>
     whole_seconds (TopicCreate_mAutoRenewPeriod m) \<and>
     pred_option account_plain (TopicCreate_mAutoRenewAccountId m)"

lemma TopicCreate_read: "TopicCreate_plain L m \<Longrightarrow> \<exists>p. TopicCreate_build L m = Inr p \<and> TopicCreate_init L p (TopicCreate_default t) = Inr m"
  by (cases m) (simp add: TopicCreate_plain_def TopicCreate_build_def TopicCreate_init_def TopicCreate_default_def message_simps)

interpretation topic_create: simple_kind TopicCreate_kind TopicCreate_plain
  by (rule simple_kindI [of _ TopicCreate_build "\<lambda>p. data_topic (data_consensuscreatetopic p)" TopicCreate_init])
    (simp_all add: TopicCreate_kind_def TopicCreate_read)

section \<open>\<open>TopicUpdateTransaction\<close>\<close>

record TopicUpdateTransaction =
  TopicUpdate_mTopicId :: TopicId
  TopicUpdate_mMemo :: "string option"
  TopicUpdate_mExpirationTime :: "time_point option"
  TopicUpdate_mAdminKey :: "Key option"
  TopicUpdate_mSubmitKey :: "Key option"
  TopicUpdate_mAutoRenewPeriod :: "duration option"
  TopicUpdate_mAutoRenewAccountId :: "AccountId option"

definition TopicUpdate_default :: "time_point \<Rightarrow> TopicUpdateTransaction" where
  "TopicUpdate_default t =
     \<lparr>TopicUpdate_mTopicId = TopicId_of 0 0 0 [], TopicUpdate_mMemo = None, TopicUpdate_mExpirationTime = None,
      TopicUpdate_mAdminKey = None, TopicUpdate_mSubmitKey = None, TopicUpdate_mAutoRenewPeriod = None,
      TopicUpdate_mAutoRenewAccountId = None\<rparr>"

definition TopicUpdate_setTopicId :: "TopicId \<Rightarrow> TopicUpdateTransaction setter" where
  "TopicUpdate_setTopicId v = set_members (\<lambda>m. m\<lparr>TopicUpdate_mTopicId := v\<rparr>)"

definition TopicUpdate_setMemo :: "string \<Rightarrow> TopicUpdateTransaction setter" where
  "TopicUpdate_setMemo v = set_members (\<lambda>m. m\<lparr>TopicUpdate_mMemo := Some v\<rparr>)"

definition TopicUpdate_setExpirationTime :: "time_point \<Rightarrow> TopicUpdateTransaction setter" where
  "TopicUpdate_setExpirationTime v = set_members (\<lambda>m. m\<lparr>TopicUpdate_mExpirationTime := Some v\<rparr>)"

definition TopicUpdate_setAdminKey :: "Key \<Rightarrow> TopicUpdateTransaction setter" where
  "TopicUpdate_setAdminKey v = set_members (\<lambda>m. m\<lparr>TopicUpdate_mAdminKey := Some v\<rparr>)"

definition TopicUpdate_setSubmitKey :: "Key \<Rightarrow> TopicUpdateTransaction setter" where
  "TopicUpdate_setSubmitKey v = set_members (\<lambda>m. m\<lparr>TopicUpdate_mSubmitKey := Some v\<rparr>)"

definition TopicUpdate_setAutoRenewPeriod :: "duration \<Rightarrow> TopicUpdateTransaction setter" where
  "TopicUpdate_setAutoRenewPeriod v = set_members (\<lambda>m. m\<lparr>TopicUpdate_mAutoRenewPeriod := Some v\<rparr>)"

definition TopicUpdate_setAutoRenewAccountId :: "AccountId \<Rightarrow> TopicUpdateTransaction setter" where
  "TopicUpdate_setAutoRenewAccountId v = set_members (\<lambda>m. m\<lparr>TopicUpdate_mAutoRenewAccountId := Some v\<rparr>)"

definition TopicUpdate_clearTopicMemo :: "TopicUpdateTransaction setter" where
  "TopicUpdate_clearTopicMemo = set_members (\<lambda>m. m\<lparr>TopicUpdate_mMemo := Some []\<rparr>)"

definition TopicUpdate_clearAdminKey :: "TopicUpdateTransaction setter" where
  "TopicUpdate_clearAdminKey = set_members (\<lambda>m. m\<lparr>TopicUpdate_mAdminKey := Some (Key_list 0 [])\<rparr>)"

definition TopicUpdate_clearSubmitKey :: "TopicUpdateTransaction setter" where
  "TopicUpdate_clearSubmitKey = set_members (\<lambda>m. m\<lparr>TopicUpdate_mSubmitKey := Some (Key_list 0 [])\<rparr>)"

definition TopicUpdate_clearAutoRenewAccountId :: "TopicUpdateTransaction setter" where
  "TopicUpdate_clearAutoRenewAccountId = set_members (\<lambda>m. m\<lparr>TopicUpdate_mAutoRenewAccountId := Some AccountId_default\<rparr>)"

definition TopicUpdate_validateChecksums :: "client_ledger \<Rightarrow> TopicUpdateTransaction \<Rightarrow> unit res" where
  "TopicUpdate_validateChecksums client m =
     rbind (TopicId_validateChecksum client (TopicUpdate_mTopicId m)) (\<lambda>_.
     check_opt AccountId_validateChecksum client (TopicUpdate_mAutoRenewAccountId m))"

definition TopicUpdate_build :: "TransactionData library \<Rightarrow> TopicUpdateTransaction \<Rightarrow> proto_TopicUpdate res" where
  "TopicUpdate_build L m =
     rbind (ropt (key_out L) (TopicUpdate_mAdminKey m)) (\<lambda>adminkey.
     rbind (ropt (key_out L) (TopicUpdate_mSubmitKey m)) (\<lambda>submitkey.
     rbind (ropt (account_out L) (TopicUpdate_mAutoRenewAccountId m)) (\<lambda>autorenewaccount.
       Inr \<lparr>TopicUpdate_topicid = unless_default TopicId_eq (TopicId_of 0 0 0 []) TopicId_toProtobuf (TopicUpdate_mTopicId m),
        TopicUpdate_memo = TopicUpdate_mMemo m,
        TopicUpdate_expirationtime = map_option Timestamp_toProtobuf (TopicUpdate_mExpirationTime m),
        TopicUpdate_adminkey = adminkey, TopicUpdate_submitkey = submitkey,
        TopicUpdate_autorenewperiod = map_option Duration_toProtobuf (TopicUpdate_mAutoRenewPeriod m),
        TopicUpdate_autorenewaccount = autorenewaccount\<rparr>)))"

definition TopicUpdate_init :: "TransactionData library \<Rightarrow> proto_TopicUpdate \<Rightarrow> TopicUpdateTransaction \<Rightarrow> TopicUpdateTransaction res" where
  "TopicUpdate_init L p m =
     rbind (read_opt_if Timestamp_fromProtobuf (TopicUpdate_expirationtime p) (TopicUpdate_mExpirationTime m)) (\<lambda>expirationtime.
     rbind (read_opt_if (key_in L) (TopicUpdate_adminkey p) (TopicUpdate_mAdminKey m)) (\<lambda>adminkey.
     rbind (read_opt_if (key_in L) (TopicUpdate_submitkey p) (TopicUpdate_mSubmitKey m)) (\<lambda>submitkey.
     rbind (read_opt_if Duration_fromProtobuf (TopicUpdate_autorenewperiod p) (TopicUpdate_mAutoRenewPeriod m)) (\<lambda>autorenewperiod.
     rbind (read_opt_if (account_in L) (TopicUpdate_autorenewaccount p) (TopicUpdate_mAutoRenewAccountId m)) (\<lambda>autorenewaccount.
       Inr \<lparr>TopicUpdate_mTopicId = set_if TopicId_fromProtobuf (TopicUpdate_topicid p) (TopicUpdate_mTopicId m),
        TopicUpdate_mMemo = set_opt_if (\<lambda>v. v) (TopicUpdate_memo p) (TopicUpdate_mMemo m),
        TopicUpdate_mExpirationTime = expirationtime, TopicUpdate_mAdminKey = adminkey,
        TopicUpdate_mSubmitKey = submitkey, TopicUpdate_mAutoRenewPeriod = autorenewperiod,
        TopicUpdate_mAutoRenewAccountId = autorenewaccount\<rparr>)))))"

definition TopicUpdate_kind :: "TopicUpdateTransaction body_kind" where
  "TopicUpdate_kind =
     \<lparr>build_body = (\<lambda>L m. rbind (TopicUpdate_build L m) (\<lambda>p. Inr (data_topic (data_consensusupdatetopic p)))),
      init_body = (\<lambda>L d m. case d of data_topic (data_consensusupdatetopic p) \<Rightarrow> TopicUpdate_init L p m | _ \<Rightarrow> Inl InvalidArgument),
      check_body = TopicUpdate_validateChecksums, new_members = TopicUpdate_default, default_fee = None\<rparr>"

definition TopicUpdate_plain :: "TransactionData library \<Rightarrow> TopicUpdateTransaction \<Rightarrow> bool" where
  "TopicUpdate_plain L m \<longleftrightarrow>
     topicChecksum (TopicUpdate_mTopicId m) = [] \<and>
     pred_option time_ok (TopicUpdate_mExpirationTime m) \<and>
     pred_option (key_plain (lib_ssl L)) (TopicUpdate_mAdminKey m) \<and>
     pred_option (key_plain (lib_ssl L)) (TopicUpdate_mSubmitKey m) \<and>
     pred_option whole_seconds (TopicUpdate_mAutoRenewPeriod m) \<and>
     pred_option account_plain (TopicUpdate_mAutoRenewAccountId m)"

lemma TopicUpdate_read: "TopicUpdate_plain L m \<Longrightarrow> \<exists>p. TopicUpdate_build L m = Inr p \<and> TopicUpdate_init L p (TopicUpdate_default t) = Inr m"
  by (cases m) (simp add: TopicUpdate_plain_def TopicUpdate_build_def TopicUpdate_init_def TopicUpdate_default_def message_simps)

interpretation topic_update: simple_kind TopicUpdate_kind TopicUpdate_plain
  by (rule simple_kindI [of _ TopicUpdate_build "\<lambda>p. data_topic (data_consensusupdatetopic p)" TopicUpdate_init])
    (simp_all add: TopicUpdate_kind_def TopicUpdate_read)

section \<open>\<open>TopicDeleteTransaction\<close>\<close>

record TopicDeleteTransaction =
  TopicDelete_mTopicId :: "TopicId option"

definition TopicDelete_default :: "time_point \<Rightarrow> TopicDeleteTransaction" where
  "TopicDelete_default t =
     \<lparr>TopicDelete_mTopicId = None\<rparr>"

definition TopicDelete_setTopicId :: "TopicId \<Rightarrow> TopicDeleteTransaction setter" where
  "TopicDelete_setTopicId v = set_members (\<lambda>m. m\<lparr>TopicDelete_mTopicId := Some v\<rparr>)"

definition TopicDelete_validateChecksums :: "client_ledger \<Rightarrow> TopicDeleteTransaction \<Rightarrow> unit res" where
  "TopicDelete_validateChecksums client m =
     check_opt TopicId_validateChecksum client (TopicDelete_mTopicId m)"

definition TopicDelete_build :: "TransactionData library \<Rightarrow> TopicDeleteTransaction \<Rightarrow> proto_TopicDelete res" where
  "TopicDelete_build L m =
       Inr \<lparr>TopicDelete_topicid = map_option TopicId_toProtobuf (TopicDelete_mTopicId m)\<rparr>"

definition TopicDelete_init :: "TransactionData library \<Rightarrow> proto_TopicDelete \<Rightarrow> TopicDeleteTransaction \<Rightarrow> TopicDeleteTransaction res" where
  "TopicDelete_init L p m =
       Inr \<lparr>TopicDelete_mTopicId = set_opt_if TopicId_fromProtobuf (TopicDelete_topicid p) (TopicDelete_mTopicId m)\<rparr>"

definition TopicDelete_kind :: "TopicDeleteTransaction body_kind" where
  "TopicDelete_kind =
     \<lparr>build_body = (\<lambda>L m. rbind (TopicDelete_build L m) (\<lambda>p. Inr (data_topic (data_consensusdeletetopic p)))),
      init_body = (\<lambda>L d m. case d of data_topic (data_consensusdeletetopic p) \<Rightarrow> TopicDelete_init L p m | _ \<Rightarrow> Inl InvalidArgument),
      check_body = TopicDelete_validateChecksums, new_members = TopicDelete_default, default_fee = None\<rparr>"

definition TopicDelete_plain :: "TransactionData library \<Rightarrow> TopicDeleteTransaction \<Rightarrow> bool" where
  "TopicDelete_plain L m \<longleftrightarrow>
     pred_option (\<lambda>i. topicChecksum i = []) (TopicDelete_mTopicId m)"

lemma TopicDelete_read: "TopicDelete_plain L m \<Longrightarrow> \<exists>p. TopicDelete_build L m = Inr p \<and> TopicDelete_init L p (TopicDelete_default t) = Inr m"
  by (cases m) (simp add: TopicDelete_plain_def TopicDelete_build_def TopicDelete_init_def TopicDelete_default_def message_simps)

interpretation topic_delete: simple_kind TopicDelete_kind TopicDelete_plain
  by (rule simple_kindI [of _ TopicDelete_build "\<lambda>p. data_topic (data_consensusdeletetopic p)" TopicDelete_init])
    (simp_all add: TopicDelete_kind_def TopicDelete_read)

end
