(* ===== verification/ContractTransactions.thy ===== *)
theory ContractTransactions
  imports SimpleKinds ContractCalls
begin

text \<open>
  The transactions on contracts: create, update, delete and execute, and \<open>EthereumTransaction\<close>.
\<close>

section \<open>\<open>ContractCreateTransaction\<close>\<close>

record ContractCreateTransaction =
  ContractCreate_mBytecodeFileId :: "FileId option"
  ContractCreate_mBytecode :: "bytes option"
  ContractCreate_mAdminKey :: "Key option"
  ContractCreate_mGas :: u64
  ContractCreate_mInitialBalance :: Hbar
  ContractCreate_mAutoRenewPeriod :: duration
  ContractCreate_mConstructorParameters :: bytes
  ContractCreate_mMemo :: string
  ContractCreate_mMaxAutomaticTokenAssociations :: int
  ContractCreate_mAutoRenewAccountId :: "AccountId option"
  ContractCreate_mStakedAccountId :: "AccountId option"
  ContractCreate_mStakedNodeId :: "u64 option"
  ContractCreate_mDeclineStakingReward :: bool

definition ContractCreate_default :: "time_point \<Rightarrow> ContractCreateTransaction" where
  "ContractCreate_default t =
     \<lparr>ContractCreate_mBytecodeFileId = None, ContractCreate_mBytecode = None, ContractCreate_mAdminKey = None,
      ContractCreate_mGas = 0, ContractCreate_mInitialBalance = Hbar_zero,
      ContractCreate_mAutoRenewPeriod = DEFAULT_AUTO_RENEW_PERIOD, ContractCreate_mConstructorParameters = [],
      ContractCreate_mMemo = [], ContractCreate_mMaxAutomaticTokenAssociations = 0,
      ContractCreate_mAutoRenewAccountId = None, ContractCreate_mStakedAccountId = None,
      ContractCreate_mStakedNodeId = None, ContractCreate_mDeclineStakingReward = False\<rparr>"

definition ContractCreate_setBytecodeFileId :: "FileId \<Rightarrow> ContractCreateTransaction setter" where
  "ContractCreate_setBytecodeFileId v = set_members (\<lambda>m. m\<lparr>ContractCreate_mBytecodeFileId := Some v, ContractCreate_mBytecode := None\<rparr>)"

definition ContractCreate_setBytecode :: "bytes \<Rightarrow> ContractCreateTransaction setter" where
  "ContractCreate_setBytecode v = set_members (\<lambda>m. m\<lparr>ContractCreate_mBytecode := Some v, ContractCreate_mBytecodeFileId := None\<rparr>)"

definition ContractCreate_setAdminKey :: "Key \<Rightarrow> ContractCreateTransaction setter" where
  "ContractCreate_setAdminKey v = set_members (\<lambda>m. m\<lparr>ContractCreate_mAdminKey := Some v\<rparr>)"

definition ContractCreate_setGas :: "u64 \<Rightarrow> ContractCreateTransaction setter" where
  "ContractCreate_setGas v = set_members (\<lambda>m. m\<lparr>ContractCreate_mGas := v\<rparr>)"

definition ContractCreate_setInitialBalance :: "Hbar \<Rightarrow> ContractCreateTransaction setter" where
  "ContractCreate_setInitialBalance v = set_members (\<lambda>m. m\<lparr>ContractCreate_mInitialBalance := v\<rparr>)"

definition ContractCreate_setAutoRenewPeriod :: "duration \<Rightarrow> ContractCreateTransaction setter" where
  "ContractCreate_setAutoRenewPeriod v = set_members (\<lambda>m. m\<lparr>ContractCreate_mAutoRenewPeriod := v\<rparr>)"

definition ContractCreate_setConstructorParameters :: "bytes \<Rightarrow> ContractCreateTransaction setter" where
  "ContractCreate_setConstructorParameters v = set_members (\<lambda>m. m\<lparr>ContractCreate_mConstructorParameters := v\<rparr>)"

definition ContractCreate_setMemo :: "string \<Rightarrow> ContractCreateTransaction setter" where
  "ContractCreate_setMemo v = set_members (\<lambda>m. m\<lparr>ContractCreate_mMemo := v\<rparr>)"

definition ContractCreate_setMaxAutomaticTokenAssociations :: "int \<Rightarrow> ContractCreateTransaction setter" where
  "ContractCreate_setMaxAutomaticTokenAssociations v = set_members (\<lambda>m. m\<lparr>ContractCreate_mMaxAutomaticTokenAssociations := v\<rparr>)"

definition ContractCreate_setAutoRenewAccountId :: "AccountId \<Rightarrow> ContractCreateTransaction setter" where
  "ContractCreate_setAutoRenewAccountId v = set_members (\<lambda>m. m\<lparr>ContractCreate_mAutoRenewAccountId := Some v\<rparr>)"

definition ContractCreate_setStakedAccountId :: "AccountId \<Rightarrow> ContractCreateTransaction setter" where
  "ContractCreate_setStakedAccountId v = set_members (\<lambda>m. m\<lparr>ContractCreate_mStakedAccountId := Some v, ContractCreate_mStakedNodeId := None\<rparr>)"

definition ContractCreate_setStakedNodeId :: "u64 \<Rightarrow> ContractCreateTransaction setter" where
  "ContractCreate_setStakedNodeId v = set_members (\<lambda>m. m\<lparr>ContractCreate_mStakedNodeId := Some v, ContractCreate_mStakedAccountId := None\<rparr>)"

definition ContractCreate_setDeclineStakingReward :: "bool \<Rightarrow> ContractCreateTransaction setter" where
  "ContractCreate_setDeclineStakingReward v = set_members (\<lambda>m. m\<lparr>ContractCreate_mDeclineStakingReward := v\<rparr>)"

definition ContractCreate_validateChecksums :: "client_ledger \<Rightarrow> ContractCreateTransaction \<Rightarrow> unit res" where
  "ContractCreate_validateChecksums client m =
     rbind (check_opt FileId_validateChecksum client (ContractCreate_mBytecodeFileId m)) (\<lambda>_.
     rbind (check_opt AccountId_validateChecksum client (ContractCreate_mAutoRenewAccountId m)) (\<lambda>_.
     check_opt AccountId_validateChecksum client (ContractCreate_mStakedAccountId m)))"

definition ContractCreate_build :: "TransactionData library \<Rightarrow> ContractCreateTransaction \<Rightarrow> proto_ContractCreate res" where
  "ContractCreate_build L m =
     rbind (ropt (key_out L) (ContractCreate_mAdminKey m)) (\<lambda>adminkey.
     rbind (ropt (account_out L) (ContractCreate_mAutoRenewAccountId m)) (\<lambda>auto_renew_account_id.
     rbind (staked_out L (ContractCreate_mStakedAccountId m) (ContractCreate_mStakedNodeId m)) (\<lambda>staked_id.
       Inr \<lparr>ContractCreate_initcode_source = code_out (ContractCreate_mBytecodeFileId m) (ContractCreate_mBytecode m),
        ContractCreate_adminkey = adminkey, ContractCreate_gas = sint (ContractCreate_mGas m),
        ContractCreate_initialbalance = toTinybars (ContractCreate_mInitialBalance m),
        ContractCreate_autorenewperiod = Some (Duration_toProtobuf (ContractCreate_mAutoRenewPeriod m)),
        ContractCreate_constructorparameters = byteVectorToString (ContractCreate_mConstructorParameters m),
        ContractCreate_memo = ContractCreate_mMemo m,
        ContractCreate_max_automatic_token_associations = ContractCreate_mMaxAutomaticTokenAssociations m,
        ContractCreate_auto_renew_account_id = auto_renew_account_id, ContractCreate_staked_id = staked_id,
        ContractCreate_decline_reward = ContractCreate_mDeclineStakingReward m\<rparr>)))"

definition ContractCreate_init :: "TransactionData library \<Rightarrow> proto_ContractCreate \<Rightarrow> ContractCreateTransaction \<Rightarrow> ContractCreateTransaction res" where
  "ContractCreate_init L p m =
     rbind (read_opt_if (key_in L) (ContractCreate_adminkey p) (ContractCreate_mAdminKey m)) (\<lambda>adminkey.
     rbind (Hbar_of (ContractCreate_initialbalance p) TINYBAR) (\<lambda>initialbalance.
     rbind (read_if Duration_fromProtobuf (ContractCreate_autorenewperiod p) (ContractCreate_mAutoRenewPeriod m)) (\<lambda>autorenewperiod.
     rbind (read_opt_if (account_in L) (ContractCreate_auto_renew_account_id p) (ContractCreate_mAutoRenewAccountId m)) (\<lambda>auto_renew_account_id.
     rbind (staked_in L (ContractCreate_staked_id p) (ContractCreate_mStakedAccountId m) (ContractCreate_mStakedNodeId m)) (\<lambda>staked_id.
       Inr \<lparr>ContractCreate_mBytecodeFileId = fst (code_in (ContractCreate_initcode_source p) (ContractCreate_mBytecodeFileId m) (ContractCreate_mBytecode m)),
        ContractCreate_mBytecode = snd (code_in (ContractCreate_initcode_source p) (ContractCreate_mBytecodeFileId m) (ContractCreate_mBytecode m)),
        ContractCreate_mAdminKey = adminkey, ContractCreate_mGas = of_int (ContractCreate_gas p),
        ContractCreate_mInitialBalance = initialbalance, ContractCreate_mAutoRenewPeriod = autorenewperiod,
        ContractCreate_mConstructorParameters = stringToByteVector (ContractCreate_constructorparameters p),
        ContractCreate_mMemo = ContractCreate_memo p,
        ContractCreate_mMaxAutomaticTokenAssociations = ContractCreate_max_automatic_token_associations p,
        ContractCreate_mAutoRenewAccountId = auto_renew_account_id, ContractCreate_mStakedAccountId = fst staked_id,
        ContractCreate_mStakedNodeId = snd staked_id,
        ContractCreate_mDeclineStakingReward = ContractCreate_decline_reward p\<rparr>)))))"

definition ContractCreate_kind :: "ContractCreateTransaction body_kind" where
  "ContractCreate_kind =
     \<lparr>build_body = (\<lambda>L m. rbind (ContractCreate_build L m) (\<lambda>p. Inr (data_contract (data_contractcreateinstance p)))),
      init_body = (\<lambda>L d m. case d of data_contract (data_contractcreateinstance p) \<Rightarrow> ContractCreate_init L p m | _ \<Rightarrow> Inl InvalidArgument),
      check_body = ContractCreate_validateChecksums, new_members = ContractCreate_default, default_fee = Some \<lparr>mValueInTinybar = 2000000000\<rparr>\<rparr>"

definition ContractCreate_plain :: "TransactionData library \<Rightarrow> ContractCreateTransaction \<Rightarrow> bool" where
  "ContractCreate_plain L m \<longleftrightarrow>
     pred_option (\<lambda>i. fileChecksum i = []) (ContractCreate_mBytecodeFileId m) \<and> (ContractCreate_mBytecodeFileId m = None \<or> ContractCreate_mBytecode m = None) \<and>
     pred_option (key_plain (lib_ssl L)) (ContractCreate_mAdminKey m) \<and>
     Hbar_valid (ContractCreate_mInitialBalance m) \<and>
     whole_seconds (ContractCreate_mAutoRenewPeriod m) \<and>
     pred_option account_plain (ContractCreate_mAutoRenewAccountId m) \<and>
     pred_option account_plain (ContractCreate_mStakedAccountId m) \<and> (ContractCreate_mStakedAccountId m = None \<or> ContractCreate_mStakedNodeId m = None)"

lemma ContractCreate_read: "ContractCreate_plain L m \<Longrightarrow> \<exists>p. ContractCreate_build L m = Inr p \<and> ContractCreate_init L p (ContractCreate_default t) = Inr m"
  by (cases m) (simp add: ContractCreate_plain_def ContractCreate_build_def ContractCreate_init_def ContractCreate_default_def message_simps)

interpretation contract_create: simple_kind ContractCreate_kind ContractCreate_plain
  by (rule simple_kindI [of _ ContractCreate_build "\<lambda>p. data_contract (data_contractcreateinstance p)" ContractCreate_init])
    (simp_all add: ContractCreate_kind_def ContractCreate_read)

section \<open>\<open>ContractUpdateTransaction\<close>\<close>

record ContractUpdateTransaction =
  ContractUpdate_mContractId :: ContractId
  ContractUpdate_mExpirationTime :: "time_point option"
  ContractUpdate_mAdminKey :: "Key option"
  ContractUpdate_mAutoRenewPeriod :: "duration option"
  ContractUpdate_mContractMemo :: "string option"
  ContractUpdate_mMaxAutomaticTokenAssociations :: "int option"
  ContractUpdate_mAutoRenewAccountId :: "AccountId option"
  ContractUpdate_mStakedAccountId :: "AccountId option"
  ContractUpdate_mStakedNodeId :: "u64 option"
  ContractUpdate_mDeclineStakingReward :: "bool option"

definition ContractUpdate_default :: "time_point \<Rightarrow> ContractUpdateTransaction" where
  "ContractUpdate_default t =
     \<lparr>ContractUpdate_mContractId = ContractId_default, ContractUpdate_mExpirationTime = None,
      ContractUpdate_mAdminKey = None, ContractUpdate_mAutoRenewPeriod = None, ContractUpdate_mContractMemo = None,
      ContractUpdate_mMaxAutomaticTokenAssociations = None, ContractUpdate_mAutoRenewAccountId = None,
      ContractUpdate_mStakedAccountId = None, ContractUpdate_mStakedNodeId = None,
      ContractUpdate_mDeclineStakingReward = None\<rparr>"

definition ContractUpdate_setContractId :: "ContractId \<Rightarrow> ContractUpdateTransaction setter" where
  "ContractUpdate_setContractId v = set_members (\<lambda>m. m\<lparr>ContractUpdate_mContractId := v\<rparr>)"

definition ContractUpdate_setExpirationTime :: "time_point \<Rightarrow> ContractUpdateTransaction setter" where
  "ContractUpdate_setExpirationTime v = set_members (\<lambda>m. m\<lparr>ContractUpdate_mExpirationTime := Some v\<rparr>)"

definition ContractUpdate_setAdminKey :: "Key \<Rightarrow> ContractUpdateTransaction setter" where
  "ContractUpdate_setAdminKey v = set_members (\<lambda>m. m\<lparr>ContractUpdate_mAdminKey := Some v\<rparr>)"

definition ContractUpdate_setAutoRenewPeriod :: "duration \<Rightarrow> ContractUpdateTransaction setter" where
  "ContractUpdate_setAutoRenewPeriod v = set_members (\<lambda>m. m\<lparr>ContractUpdate_mAutoRenewPeriod := Some v\<rparr>)"

definition ContractUpdate_setMaxAutomaticTokenAssociations :: "int \<Rightarrow> ContractUpdateTransaction setter" where
  "ContractUpdate_setMaxAutomaticTokenAssociations v = set_members (\<lambda>m. m\<lparr>ContractUpdate_mMaxAutomaticTokenAssociations := Some v\<rparr>)"

definition ContractUpdate_setAutoRenewAccountId :: "AccountId \<Rightarrow> ContractUpdateTransaction setter" where
  "ContractUpdate_setAutoRenewAccountId v = set_members (\<lambda>m. m\<lparr>ContractUpdate_mAutoRenewAccountId := Some v\<rparr>)"

definition ContractUpdate_setStakedAccountId :: "AccountId \<Rightarrow> ContractUpdateTransaction setter" where
  "ContractUpdate_setStakedAccountId v = set_members (\<lambda>m. m\<lparr>ContractUpdate_mStakedAccountId := Some v, ContractUpdate_mStakedNodeId := None\<rparr>)"

definition ContractUpdate_setStakedNodeId :: "u64 \<Rightarrow> ContractUpdateTransaction setter" where
  "ContractUpdate_setStakedNodeId v = set_members (\<lambda>m. m\<lparr>ContractUpdate_mStakedNodeId := Some v, ContractUpdate_mStakedAccountId := None\<rparr>)"

definition ContractUpdate_setDeclineStakingReward :: "bool \<Rightarrow> ContractUpdateTransaction setter" where
  "ContractUpdate_setDeclineStakingReward v = set_members (\<lambda>m. m\<lparr>ContractUpdate_mDeclineStakingReward := Some v\<rparr>)"

definition ContractUpdate_setContractMemo :: "string \<Rightarrow> ContractUpdateTransaction setter" where
  "ContractUpdate_setContractMemo memo =
     abind requireNotFrozen (\<lambda>_.
     abind (alift (require (length memo \<le> 100) LengthError)) (\<lambda>_.
       amodify (\<lambda>x. x\<lparr>members := (members x)\<lparr>ContractUpdate_mContractMemo := Some memo\<rparr>\<rparr>)))"

definition ContractUpdate_validateChecksums :: "client_ledger \<Rightarrow> ContractUpdateTransaction \<Rightarrow> unit res" where
  "ContractUpdate_validateChecksums client m =
     rbind (ContractId_validateChecksum client (ContractUpdate_mContractId m)) (\<lambda>_.
     rbind (check_opt AccountId_validateChecksum client (ContractUpdate_mAutoRenewAccountId m)) (\<lambda>_.
     check_opt AccountId_validateChecksum client (ContractUpdate_mStakedAccountId m)))"

definition ContractUpdate_build :: "TransactionData library \<Rightarrow> ContractUpdateTransaction \<Rightarrow> proto_ContractUpdate res" where
  "ContractUpdate_build L m =
     rbind (ropt (key_out L) (ContractUpdate_mAdminKey m)) (\<lambda>adminkey.
     rbind (ropt (account_out L) (ContractUpdate_mAutoRenewAccountId m)) (\<lambda>auto_renew_account_id.
     rbind (staked_out L (ContractUpdate_mStakedAccountId m) (ContractUpdate_mStakedNodeId m)) (\<lambda>staked_id.
       Inr \<lparr>ContractUpdate_contractid = Some (ContractId_toProtobuf (ContractUpdate_mContractId m)),
        ContractUpdate_expirationtime = map_option Timestamp_toProtobuf (ContractUpdate_mExpirationTime m),
        ContractUpdate_adminkey = adminkey,
        ContractUpdate_autorenewperiod = map_option Duration_toProtobuf (ContractUpdate_mAutoRenewPeriod m),
        ContractUpdate_memowrapper = ContractUpdate_mContractMemo m,
        ContractUpdate_max_automatic_token_associations = ContractUpdate_mMaxAutomaticTokenAssociations m,
        ContractUpdate_auto_renew_account_id = auto_renew_account_id, ContractUpdate_staked_id = staked_id,
        ContractUpdate_decline_reward = ContractUpdate_mDeclineStakingReward m\<rparr>)))"

definition ContractUpdate_init :: "TransactionData library \<Rightarrow> proto_ContractUpdate \<Rightarrow> ContractUpdateTransaction \<Rightarrow> ContractUpdateTransaction res" where
  "ContractUpdate_init L p m =
     rbind (read_if ContractId_fromProtobuf (ContractUpdate_contractid p) (ContractUpdate_mContractId m)) (\<lambda>contractid.
     rbind (read_opt_if Timestamp_fromProtobuf (ContractUpdate_expirationtime p) (ContractUpdate_mExpirationTime m)) (\<lambda>expirationtime.
     rbind (read_opt_if (key_in L) (ContractUpdate_adminkey p) (ContractUpdate_mAdminKey m)) (\<lambda>adminkey.
     rbind (read_opt_if Duration_fromProtobuf (ContractUpdate_autorenewperiod p) (ContractUpdate_mAutoRenewPeriod m)) (\<lambda>autorenewperiod.
     rbind (read_opt_if (account_in L) (ContractUpdate_auto_renew_account_id p) (ContractUpdate_mAutoRenewAccountId m)) (\<lambda>auto_renew_account_id.
     rbind (staked_in L (ContractUpdate_staked_id p) (ContractUpdate_mStakedAccountId m) (ContractUpdate_mStakedNodeId m)) (\<lambda>staked_id.
       Inr \<lparr>ContractUpdate_mContractId = contractid, ContractUpdate_mExpirationTime = expirationtime,
        ContractUpdate_mAdminKey = adminkey, ContractUpdate_mAutoRenewPeriod = autorenewperiod,
        ContractUpdate_mContractMemo = set_opt_if (\<lambda>v. v) (ContractUpdate_memowrapper p) (ContractUpdate_mContractMemo m),
        ContractUpdate_mMaxAutomaticTokenAssociations = set_opt_if (\<lambda>v. v) (ContractUpdate_max_automatic_token_associations p) (ContractUpdate_mMaxAutomaticTokenAssociations m),
        ContractUpdate_mAutoRenewAccountId = auto_renew_account_id, ContractUpdate_mStakedAccountId = fst staked_id,
        ContractUpdate_mStakedNodeId = snd staked_id,
        ContractUpdate_mDeclineStakingReward = set_opt_if (\<lambda>v. v) (ContractUpdate_decline_reward p) (ContractUpdate_mDeclineStakingReward m)\<rparr>))))))"

definition ContractUpdate_kind :: "ContractUpdateTransaction body_kind" where
  "ContractUpdate_kind =
     \<lparr>build_body = (\<lambda>L m. rbind (ContractUpdate_build L m) (\<lambda>p. Inr (data_contract (data_contractupdateinstance p)))),
      init_body = (\<lambda>L d m. case d of data_contract (data_contractupdateinstance p) \<Rightarrow> ContractUpdate_init L p m | _ \<Rightarrow> Inl InvalidArgument),
      check_body = ContractUpdate_validateChecksums, new_members = ContractUpdate_default, default_fee = None\<rparr>"

definition ContractUpdate_plain :: "TransactionData library \<Rightarrow> ContractUpdateTransaction \<Rightarrow> bool" where
  "ContractUpdate_plain L m \<longleftrightarrow>
     contract_plain (ContractUpdate_mContractId m) \<and>
     pred_option time_ok (ContractUpdate_mExpirationTime m) \<and>
     pred_option (key_plain (lib_ssl L)) (ContractUpdate_mAdminKey m) \<and>
     pred_option whole_seconds (ContractUpdate_mAutoRenewPeriod m) \<and>
     pred_option account_plain (ContractUpdate_mAutoRenewAccountId m) \<and>
     pred_option account_plain (ContractUpdate_mStakedAccountId m) \<and> (ContractUpdate_mStakedAccountId m = None \<or> ContractUpdate_mStakedNodeId m = None)"

lemma ContractUpdate_read: "ContractUpdate_plain L m \<Longrightarrow> \<exists>p. ContractUpdate_build L m = Inr p \<and> ContractUpdate_init L p (ContractUpdate_default t) = Inr m"
  by (cases m) (simp add: ContractUpdate_plain_def ContractUpdate_build_def ContractUpdate_init_def ContractUpdate_default_def message_simps)

interpretation contract_update: simple_kind ContractUpdate_kind ContractUpdate_plain
  by (rule simple_kindI [of _ ContractUpdate_build "\<lambda>p. data_contract (data_contractupdateinstance p)" ContractUpdate_init])
    (simp_all add: ContractUpdate_kind_def ContractUpdate_read)

section \<open>\<open>ContractDeleteTransaction\<close>\<close>

record ContractDeleteTransaction =
  ContractDelete_mContractId :: ContractId
  ContractDelete_mTransferAccountId :: "AccountId option"
  ContractDelete_mTransferContractId :: "ContractId option"

definition ContractDelete_default :: "time_point \<Rightarrow> ContractDeleteTransaction" where
  "ContractDelete_default t =
     \<lparr>ContractDelete_mContractId = ContractId_default, ContractDelete_mTransferAccountId = None,
      ContractDelete_mTransferContractId = None\<rparr>"

definition ContractDelete_setContractId :: "ContractId \<Rightarrow> ContractDeleteTransaction setter" where
  "ContractDelete_setContractId v = set_members (\<lambda>m. m\<lparr>ContractDelete_mContractId := v\<rparr>)"

definition ContractDelete_setTransferAccountId :: "AccountId \<Rightarrow> ContractDeleteTransaction setter" where
  "ContractDelete_setTransferAccountId v = set_members (\<lambda>m. m\<lparr>ContractDelete_mTransferAccountId := Some v, ContractDelete_mTransferContractId := None\<rparr>)"

definition ContractDelete_setTransferContractId :: "ContractId \<Rightarrow> ContractDeleteTransaction setter" where
  "ContractDelete_setTransferContractId v = set_members (\<lambda>m. m\<lparr>ContractDelete_mTransferContractId := Some v, ContractDelete_mTransferAccountId := None\<rparr>)"

definition ContractDelete_validateChecksums :: "client_ledger \<Rightarrow> ContractDeleteTransaction \<Rightarrow> unit res" where
  "ContractDelete_validateChecksums client m =
     rbind (ContractId_validateChecksum client (ContractDelete_mContractId m)) (\<lambda>_.
     rbind (check_opt ContractId_validateChecksum client (ContractDelete_mTransferContractId m)) (\<lambda>_.
     check_opt AccountId_validateChecksum client (ContractDelete_mTransferAccountId m)))"

definition ContractDelete_build :: "TransactionData library \<Rightarrow> ContractDeleteTransaction \<Rightarrow> proto_ContractDelete res" where
  "ContractDelete_build L m =
     rbind (obtainer_out L (ContractDelete_mTransferAccountId m) (ContractDelete_mTransferContractId m)) (\<lambda>obtainers.
       Inr \<lparr>ContractDelete_contractid = Some (ContractId_toProtobuf (ContractDelete_mContractId m)),
        ContractDelete_obtainers = obtainers\<rparr>)"

definition ContractDelete_init :: "TransactionData library \<Rightarrow> proto_ContractDelete \<Rightarrow> ContractDeleteTransaction \<Rightarrow> ContractDeleteTransaction res" where
  "ContractDelete_init L p m =
     rbind (read_if ContractId_fromProtobuf (ContractDelete_contractid p) (ContractDelete_mContractId m)) (\<lambda>contractid.
     rbind (obtainer_in L (ContractDelete_obtainers p) (ContractDelete_mTransferAccountId m) (ContractDelete_mTransferContractId m)) (\<lambda>obtainers.
       Inr \<lparr>ContractDelete_mContractId = contractid, ContractDelete_mTransferAccountId = fst obtainers,
        ContractDelete_mTransferContractId = snd obtainers\<rparr>))"

definition ContractDelete_kind :: "ContractDeleteTransaction body_kind" where
  "ContractDelete_kind =
     \<lparr>build_body = (\<lambda>L m. rbind (ContractDelete_build L m) (\<lambda>p. Inr (data_contract (data_contractdeleteinstance p)))),
      init_body = (\<lambda>L d m. case d of data_contract (data_contractdeleteinstance p) \<Rightarrow> ContractDelete_init L p m | _ \<Rightarrow> Inl InvalidArgument),
      check_body = ContractDelete_validateChecksums, new_members = ContractDelete_default, default_fee = None\<rparr>"

definition ContractDelete_plain :: "TransactionData library \<Rightarrow> ContractDeleteTransaction \<Rightarrow> bool" where
  "ContractDelete_plain L m \<longleftrightarrow>
     contract_plain (ContractDelete_mContractId m) \<and>
     pred_option account_plain (ContractDelete_mTransferAccountId m) \<and> pred_option contract_plain (ContractDelete_mTransferContractId m) \<and> (ContractDelete_mTransferAccountId m = None \<or> ContractDelete_mTransferContractId m = None)"

lemma ContractDelete_read: "ContractDelete_plain L m \<Longrightarrow> \<exists>p. ContractDelete_build L m = Inr p \<and> ContractDelete_init L p (ContractDelete_default t) = Inr m"
  by (cases m) (simp add: ContractDelete_plain_def ContractDelete_build_def ContractDelete_init_def ContractDelete_default_def message_simps)

interpretation contract_delete: simple_kind ContractDelete_kind ContractDelete_plain
  by (rule simple_kindI [of _ ContractDelete_build "\<lambda>p. data_contract (data_contractdeleteinstance p)" ContractDelete_init])
    (simp_all add: ContractDelete_kind_def ContractDelete_read)

section \<open>\<open>ContractExecuteTransaction\<close>\<close>

record ContractExecuteTransaction =
  ContractExecute_mContractId :: ContractId
  ContractExecute_mGas :: u64
  ContractExecute_mPayableAmount :: Hbar
  ContractExecute_mFunctionParameters :: bytes

definition ContractExecute_default :: "time_point \<Rightarrow> ContractExecuteTransaction" where
  "ContractExecute_default t =
     \<lparr>ContractExecute_mContractId = ContractId_default, ContractExecute_mGas = 0,
      ContractExecute_mPayableAmount = Hbar_zero, ContractExecute_mFunctionParameters = []\<rparr>"

definition ContractExecute_setContractId :: "ContractId \<Rightarrow> ContractExecuteTransaction setter" where
  "ContractExecute_setContractId v = set_members (\<lambda>m. m\<lparr>ContractExecute_mContractId := v\<rparr>)"

definition ContractExecute_setGas :: "u64 \<Rightarrow> ContractExecuteTransaction setter" where
  "ContractExecute_setGas v = set_members (\<lambda>m. m\<lparr>ContractExecute_mGas := v\<rparr>)"

definition ContractExecute_setPayableAmount :: "Hbar \<Rightarrow> ContractExecuteTransaction setter" where
  "ContractExecute_setPayableAmount v = set_members (\<lambda>m. m\<lparr>ContractExecute_mPayableAmount := v\<rparr>)"

definition ContractExecute_setFunctionParameters :: "bytes \<Rightarrow> ContractExecuteTransaction setter" where
  "ContractExecute_setFunctionParameters v = set_members (\<lambda>m. m\<lparr>ContractExecute_mFunctionParameters := v\<rparr>)"

definition ContractExecute_setFunction ::
  "openssl \<Rightarrow> string \<Rightarrow> ContractFunctionParameters \<Rightarrow> ContractExecuteTransaction setter" where
  "ContractExecute_setFunction ssl name parameters =
     set_members (\<lambda>m. m\<lparr>ContractExecute_mFunctionParameters := parameters_toBytes ssl name parameters\<rparr>)"

definition ContractExecute_validateChecksums :: "client_ledger \<Rightarrow> ContractExecuteTransaction \<Rightarrow> unit res" where
  "ContractExecute_validateChecksums client m =
     ContractId_validateChecksum client (ContractExecute_mContractId m)"

definition ContractExecute_build :: "TransactionData library \<Rightarrow> ContractExecuteTransaction \<Rightarrow> proto_ContractExecute res" where
  "ContractExecute_build L m =
       Inr \<lparr>ContractExecute_contractid = Some (ContractId_toProtobuf (ContractExecute_mContractId m)),
        ContractExecute_gas = sint (ContractExecute_mGas m),
        ContractExecute_amount = toTinybars (ContractExecute_mPayableAmount m),
        ContractExecute_functionparameters = byteVectorToString (ContractExecute_mFunctionParameters m)\<rparr>"

definition ContractExecute_init :: "TransactionData library \<Rightarrow> proto_ContractExecute \<Rightarrow> ContractExecuteTransaction \<Rightarrow> ContractExecuteTransaction res" where
  "ContractExecute_init L p m =
     rbind (read_if ContractId_fromProtobuf (ContractExecute_contractid p) (ContractExecute_mContractId m)) (\<lambda>contractid.
     rbind (Hbar_of (ContractExecute_amount p) TINYBAR) (\<lambda>amount.
       Inr \<lparr>ContractExecute_mContractId = contractid, ContractExecute_mGas = of_int (ContractExecute_gas p),
        ContractExecute_mPayableAmount = amount,
        ContractExecute_mFunctionParameters = stringToByteVector (ContractExecute_functionparameters p)\<rparr>))"

definition ContractExecute_kind :: "ContractExecuteTransaction body_kind" where
  "ContractExecute_kind =
     \<lparr>build_body = (\<lambda>L m. rbind (ContractExecute_build L m) (\<lambda>p. Inr (data_contract (data_contractcall p)))),
      init_body = (\<lambda>L d m. case d of data_contract (data_contractcall p) \<Rightarrow> ContractExecute_init L p m | _ \<Rightarrow> Inl InvalidArgument),
      check_body = ContractExecute_validateChecksums, new_members = ContractExecute_default, default_fee = None\<rparr>"

definition ContractExecute_plain :: "TransactionData library \<Rightarrow> ContractExecuteTransaction \<Rightarrow> bool" where
  "ContractExecute_plain L m \<longleftrightarrow>
     contract_plain (ContractExecute_mContractId m) \<and>
     Hbar_valid (ContractExecute_mPayableAmount m)"

lemma ContractExecute_read: "ContractExecute_plain L m \<Longrightarrow> \<exists>p. ContractExecute_build L m = Inr p \<and> ContractExecute_init L p (ContractExecute_default t) = Inr m"
  by (cases m) (simp add: ContractExecute_plain_def ContractExecute_build_def ContractExecute_init_def ContractExecute_default_def message_simps)

interpretation contract_execute: simple_kind ContractExecute_kind ContractExecute_plain
  by (rule simple_kindI [of _ ContractExecute_build "\<lambda>p. data_contract (data_contractcall p)" ContractExecute_init])
    (simp_all add: ContractExecute_kind_def ContractExecute_read)

section \<open>\<open>EthereumTransaction\<close>\<close>

record EthereumTransaction =
  Ethereum_mEthereumData :: bytes
  Ethereum_mCallDataFileId :: "FileId option"
  Ethereum_mMaxGasAllowance :: Hbar

definition Ethereum_default :: "time_point \<Rightarrow> EthereumTransaction" where
  "Ethereum_default t =
     \<lparr>Ethereum_mEthereumData = [], Ethereum_mCallDataFileId = None, Ethereum_mMaxGasAllowance = Hbar_zero\<rparr>"

definition Ethereum_setEthereumData :: "bytes \<Rightarrow> EthereumTransaction setter" where
  "Ethereum_setEthereumData v = set_members (\<lambda>m. m\<lparr>Ethereum_mEthereumData := v\<rparr>)"

definition Ethereum_setCallDataFileId :: "FileId \<Rightarrow> EthereumTransaction setter" where
  "Ethereum_setCallDataFileId v = set_members (\<lambda>m. m\<lparr>Ethereum_mCallDataFileId := Some v\<rparr>)"

definition Ethereum_setMaxGasAllowance :: "Hbar \<Rightarrow> EthereumTransaction setter" where
  "Ethereum_setMaxGasAllowance v = set_members (\<lambda>m. m\<lparr>Ethereum_mMaxGasAllowance := v\<rparr>)"

definition Ethereum_validateChecksums :: "client_ledger \<Rightarrow> EthereumTransaction \<Rightarrow> unit res" where
  "Ethereum_validateChecksums client m =
     check_opt FileId_validateChecksum client (Ethereum_mCallDataFileId m)"

definition Ethereum_build :: "TransactionData library \<Rightarrow> EthereumTransaction \<Rightarrow> proto_Ethereum res" where
  "Ethereum_build L m =
       Inr \<lparr>Ethereum_ethereum_data = byteVectorToString (Ethereum_mEthereumData m),
        Ethereum_call_data = map_option FileId_toProtobuf (Ethereum_mCallDataFileId m),
        Ethereum_max_gas_allowance = toTinybars (Ethereum_mMaxGasAllowance m)\<rparr>"

definition Ethereum_init :: "TransactionData library \<Rightarrow> proto_Ethereum \<Rightarrow> EthereumTransaction \<Rightarrow> EthereumTransaction res" where
  "Ethereum_init L p m =
     rbind (Hbar_of (Ethereum_max_gas_allowance p) TINYBAR) (\<lambda>max_gas_allowance.
       Inr \<lparr>Ethereum_mEthereumData = stringToByteVector (Ethereum_ethereum_data p),
        Ethereum_mCallDataFileId = set_opt_if FileId_fromProtobuf (Ethereum_call_data p) (Ethereum_mCallDataFileId m),
        Ethereum_mMaxGasAllowance = max_gas_allowance\<rparr>)"

definition Ethereum_kind :: "EthereumTransaction body_kind" where
  "Ethereum_kind =
     \<lparr>build_body = (\<lambda>L m. rbind (Ethereum_build L m) (\<lambda>p. Inr (data_contract (data_ethereumtransaction p)))),
      init_body = (\<lambda>L d m. case d of data_contract (data_ethereumtransaction p) \<Rightarrow> Ethereum_init L p m | _ \<Rightarrow> Inl InvalidArgument),
      check_body = Ethereum_validateChecksums, new_members = Ethereum_default, default_fee = None\<rparr>"

definition Ethereum_plain :: "TransactionData library \<Rightarrow> EthereumTransaction \<Rightarrow> bool" where
  "Ethereum_plain L m \<longleftrightarrow>
     pred_option (\<lambda>i. fileChecksum i = []) (Ethereum_mCallDataFileId m) \<and>
     Hbar_valid (Ethereum_mMaxGasAllowance m)"

lemma Ethereum_read: "Ethereum_plain L m \<Longrightarrow> \<exists>p. Ethereum_build L m = Inr p \<and> Ethereum_init L p (Ethereum_default t) = Inr m"
  by (cases m) (simp add: Ethereum_plain_def Ethereum_build_def Ethereum_init_def Ethereum_default_def message_simps)

interpretation ethereum: simple_kind Ethereum_kind Ethereum_plain
  by (rule simple_kindI [of _ Ethereum_build "\<lambda>p. data_contract (data_ethereumtransaction p)" Ethereum_init])
    (simp_all add: Ethereum_kind_def Ethereum_read)

end
