(* ===== verification/NetworkTransactions.thy ===== *)
theory NetworkTransactions
  imports SimpleKinds
begin

text \<open>
  The transactions of the network itself, \<open>FreezeTransaction\<close>, \<open>PrngTransaction\<close>, \<open>SystemDeleteTransaction\<close>
  and \<open>SystemUndeleteTransaction\<close>, and those on schedules.
\<close>

section \<open>\<open>FreezeTransaction\<close>\<close>

record FreezeTransaction =
  Freeze_mFileId :: "FileId option"
  Freeze_mFileHash :: bytes
  Freeze_mStartTime :: "time_point option"
  Freeze_mFreezeType :: FreezeType

definition Freeze_default :: "time_point \<Rightarrow> FreezeTransaction" where
  "Freeze_default t =
     \<lparr>Freeze_mFileId = None, Freeze_mFileHash = [], Freeze_mStartTime = None, Freeze_mFreezeType = UNKNOWN_FREEZE_TYPE\<rparr>"

definition Freeze_setFileId :: "FileId \<Rightarrow> FreezeTransaction setter" where
  "Freeze_setFileId v = set_members (\<lambda>m. m\<lparr>Freeze_mFileId := Some v\<rparr>)"

definition Freeze_setFileHash :: "bytes \<Rightarrow> FreezeTransaction setter" where
  "Freeze_setFileHash v = set_members (\<lambda>m. m\<lparr>Freeze_mFileHash := v\<rparr>)"

definition Freeze_setStartTime :: "time_point \<Rightarrow> FreezeTransaction setter" where
  "Freeze_setStartTime v = set_members (\<lambda>m. m\<lparr>Freeze_mStartTime := Some v\<rparr>)"

definition Freeze_setFreezeType :: "FreezeType \<Rightarrow> FreezeTransaction setter" where
  "Freeze_setFreezeType v = set_members (\<lambda>m. m\<lparr>Freeze_mFreezeType := v\<rparr>)"

definition Freeze_validateChecksums :: "client_ledger \<Rightarrow> FreezeTransaction \<Rightarrow> unit res" where
  "Freeze_validateChecksums client m =
     check_opt FileId_validateChecksum client (Freeze_mFileId m)"

definition Freeze_build :: "TransactionData library \<Rightarrow> FreezeTransaction \<Rightarrow> proto_Freeze res" where
  "Freeze_build L m =
     rbind (enum_out gFreezeType (Freeze_mFreezeType m)) (\<lambda>freeze_type.
       Inr \<lparr>Freeze_update_file = map_option FileId_toProtobuf (Freeze_mFileId m),
        Freeze_file_hash = byteVectorToString (Freeze_mFileHash m),
        Freeze_start_time = map_option Timestamp_toProtobuf (Freeze_mStartTime m), Freeze_freeze_type = freeze_type\<rparr>)"

definition Freeze_init :: "TransactionData library \<Rightarrow> proto_Freeze \<Rightarrow> FreezeTransaction \<Rightarrow> FreezeTransaction res" where
  "Freeze_init L p m =
     rbind (read_opt_if Timestamp_fromProtobuf (Freeze_start_time p) (Freeze_mStartTime m)) (\<lambda>start_time.
     rbind (enum_at gFreezeType (Freeze_freeze_type p)) (\<lambda>freeze_type.
       Inr \<lparr>Freeze_mFileId = set_opt_if FileId_fromProtobuf (Freeze_update_file p) (Freeze_mFileId m),
        Freeze_mFileHash = stringToByteVector (Freeze_file_hash p), Freeze_mStartTime = start_time,
        Freeze_mFreezeType = freeze_type\<rparr>))"

definition Freeze_kind :: "FreezeTransaction body_kind" where
  "Freeze_kind =
     \<lparr>build_body = (\<lambda>L m. rbind (Freeze_build L m) (\<lambda>p. Inr (data_network (data_freeze p)))),
      init_body = (\<lambda>L d m. case d of data_network (data_freeze p) \<Rightarrow> Freeze_init L p m | _ \<Rightarrow> Inl InvalidArgument),
      check_body = Freeze_validateChecksums, new_members = Freeze_default, default_fee = None\<rparr>"

definition Freeze_plain :: "TransactionData library \<Rightarrow> FreezeTransaction \<Rightarrow> bool" where
  "Freeze_plain L m \<longleftrightarrow>
     pred_option (\<lambda>i. fileChecksum i = []) (Freeze_mFileId m) \<and>
     pred_option time_ok (Freeze_mStartTime m)"

lemma Freeze_read: "Freeze_plain L m \<Longrightarrow> \<exists>p. Freeze_build L m = Inr p \<and> Freeze_init L p (Freeze_default t) = Inr m"
  by (cases m) (simp add: Freeze_plain_def Freeze_build_def Freeze_init_def Freeze_default_def message_simps)

interpretation freeze: simple_kind Freeze_kind Freeze_plain
  by (rule simple_kindI [of _ Freeze_build "\<lambda>p. data_network (data_freeze p)" Freeze_init])
    (simp_all add: Freeze_kind_def Freeze_read)

section \<open>\<open>PrngTransaction\<close>\<close>

record PrngTransaction =
  Prng_mRange :: int

definition Prng_default :: "time_point \<Rightarrow> PrngTransaction" where
  "Prng_default t =
     \<lparr>Prng_mRange = 0\<rparr>"

definition Prng_setRange :: "int \<Rightarrow> PrngTransaction setter" where
  "Prng_setRange v = set_members (\<lambda>m. m\<lparr>Prng_mRange := v\<rparr>)"

definition Prng_validateChecksums :: "client_ledger \<Rightarrow> PrngTransaction \<Rightarrow> unit res" where
  "Prng_validateChecksums client m =
     Inr ()"

definition Prng_build :: "TransactionData library \<Rightarrow> PrngTransaction \<Rightarrow> proto_Prng res" where
  "Prng_build L m =
       Inr \<lparr>Prng_range = Prng_mRange m\<rparr>"

definition Prng_init :: "TransactionData library \<Rightarrow> proto_Prng \<Rightarrow> PrngTransaction \<Rightarrow> PrngTransaction res" where
  "Prng_init L p m =
       Inr \<lparr>Prng_mRange = Prng_range p\<rparr>"

definition Prng_kind :: "PrngTransaction body_kind" where
  "Prng_kind =
     \<lparr>build_body = (\<lambda>L m. rbind (Prng_build L m) (\<lambda>p. Inr (data_network (data_util_prng p)))),
      init_body = (\<lambda>L d m. case d of data_network (data_util_prng p) \<Rightarrow> Prng_init L p m | _ \<Rightarrow> Inl InvalidArgument),
      check_body = Prng_validateChecksums, new_members = Prng_default, default_fee = None\<rparr>"

definition Prng_plain :: "TransactionData library \<Rightarrow> PrngTransaction \<Rightarrow> bool" where
  "Prng_plain L m \<longleftrightarrow>
     True"

lemma Prng_read: "Prng_plain L m \<Longrightarrow> \<exists>p. Prng_build L m = Inr p \<and> Prng_init L p (Prng_default t) = Inr m"
  by (cases m) (simp add: Prng_plain_def Prng_build_def Prng_init_def Prng_default_def message_simps)

interpretation prng: simple_kind Prng_kind Prng_plain
  by (rule simple_kindI [of _ Prng_build "\<lambda>p. data_network (data_util_prng p)" Prng_init])
    (simp_all add: Prng_kind_def Prng_read)

section \<open>\<open>SystemDeleteTransaction\<close>\<close>

record SystemDeleteTransaction =
  SystemDelete_mFileId :: "FileId option"
  SystemDelete_mContractId :: "ContractId option"
  SystemDelete_mExpirationTime :: time_point

definition SystemDelete_default :: "time_point \<Rightarrow> SystemDeleteTransaction" where
  "SystemDelete_default t =
     \<lparr>SystemDelete_mFileId = None, SystemDelete_mContractId = None, SystemDelete_mExpirationTime = 0\<rparr>"

definition SystemDelete_setFileId :: "FileId \<Rightarrow> SystemDeleteTransaction setter" where
  "SystemDelete_setFileId v = set_members (\<lambda>m. m\<lparr>SystemDelete_mFileId := Some v, SystemDelete_mContractId := None\<rparr>)"

definition SystemDelete_setContractId :: "ContractId \<Rightarrow> SystemDeleteTransaction setter" where
  "SystemDelete_setContractId v = set_members (\<lambda>m. m\<lparr>SystemDelete_mContractId := Some v, SystemDelete_mFileId := None\<rparr>)"

definition SystemDelete_setExpirationTime :: "time_point \<Rightarrow> SystemDeleteTransaction setter" where
  "SystemDelete_setExpirationTime v = set_members (\<lambda>m. m\<lparr>SystemDelete_mExpirationTime := v\<rparr>)"

definition SystemDelete_validateChecksums :: "client_ledger \<Rightarrow> SystemDeleteTransaction \<Rightarrow> unit res" where
  "SystemDelete_validateChecksums client m =
     rbind (check_opt FileId_validateChecksum client (SystemDelete_mFileId m)) (\<lambda>_.
     check_opt ContractId_validateChecksum client (SystemDelete_mContractId m))"

definition SystemDelete_build :: "TransactionData library \<Rightarrow> SystemDeleteTransaction \<Rightarrow> proto_SystemDelete res" where
  "SystemDelete_build L m =
       Inr \<lparr>SystemDelete_id = target_out (SystemDelete_mFileId m) (SystemDelete_mContractId m),
        SystemDelete_expirationtime = Some (toSecondsProtobuf (SystemDelete_mExpirationTime m))\<rparr>"

definition SystemDelete_init :: "TransactionData library \<Rightarrow> proto_SystemDelete \<Rightarrow> SystemDeleteTransaction \<Rightarrow> SystemDeleteTransaction res" where
  "SystemDelete_init L p m =
     rbind (target_in (SystemDelete_id p) (SystemDelete_mFileId m) (SystemDelete_mContractId m)) (\<lambda>x_id.
     rbind (read_if TimestampSeconds_fromProtobuf (SystemDelete_expirationtime p) (SystemDelete_mExpirationTime m)) (\<lambda>expirationtime.
       Inr \<lparr>SystemDelete_mFileId = fst x_id, SystemDelete_mContractId = snd x_id,
        SystemDelete_mExpirationTime = expirationtime\<rparr>))"

definition SystemDelete_kind :: "SystemDeleteTransaction body_kind" where
  "SystemDelete_kind =
     \<lparr>build_body = (\<lambda>L m. rbind (SystemDelete_build L m) (\<lambda>p. Inr (data_network (data_systemdelete p)))),
      init_body = (\<lambda>L d m. case d of data_network (data_systemdelete p) \<Rightarrow> SystemDelete_init L p m | _ \<Rightarrow> Inl InvalidArgument),
      check_body = SystemDelete_validateChecksums, new_members = SystemDelete_default, default_fee = None\<rparr>"

definition SystemDelete_plain :: "TransactionData library \<Rightarrow> SystemDeleteTransaction \<Rightarrow> bool" where
  "SystemDelete_plain L m \<longleftrightarrow>
     pred_option (\<lambda>i. fileChecksum i = []) (SystemDelete_mFileId m) \<and> pred_option contract_plain (SystemDelete_mContractId m) \<and> (SystemDelete_mFileId m = None \<or> SystemDelete_mContractId m = None) \<and>
     whole_seconds (SystemDelete_mExpirationTime m)"

lemma SystemDelete_read: "SystemDelete_plain L m \<Longrightarrow> \<exists>p. SystemDelete_build L m = Inr p \<and> SystemDelete_init L p (SystemDelete_default t) = Inr m"
  by (cases m) (simp add: SystemDelete_plain_def SystemDelete_build_def SystemDelete_init_def SystemDelete_default_def message_simps)

interpretation system_delete: simple_kind SystemDelete_kind SystemDelete_plain
  by (rule simple_kindI [of _ SystemDelete_build "\<lambda>p. data_network (data_systemdelete p)" SystemDelete_init])
    (simp_all add: SystemDelete_kind_def SystemDelete_read)

section \<open>\<open>SystemUndeleteTransaction\<close>\<close>

record SystemUndeleteTransaction =
  SystemUndelete_mFileId :: "FileId option"
  SystemUndelete_mContractId :: "ContractId option"

definition SystemUndelete_default :: "time_point \<Rightarrow> SystemUndeleteTransaction" where
  "SystemUndelete_default t =
     \<lparr>SystemUndelete_mFileId = None, SystemUndelete_mContractId = None\<rparr>"

definition SystemUndelete_setFileId :: "FileId \<Rightarrow> SystemUndeleteTransaction setter" where
  "SystemUndelete_setFileId v = set_members (\<lambda>m. m\<lparr>SystemUndelete_mFileId := Some v, SystemUndelete_mContractId := None\<rparr>)"

definition SystemUndelete_setContractId :: "ContractId \<Rightarrow> SystemUndeleteTransaction setter" where
  "SystemUndelete_setContractId v = set_members (\<lambda>m. m\<lparr>SystemUndelete_mContractId := Some v, SystemUndelete_mFileId := None\<rparr>)"

definition SystemUndelete_validateChecksums :: "client_ledger \<Rightarrow> SystemUndeleteTransaction \<Rightarrow> unit res" where
  "SystemUndelete_validateChecksums client m =
     rbind (check_opt FileId_validateChecksum client (SystemUndelete_mFileId m)) (\<lambda>_.
     check_opt ContractId_validateChecksum client (SystemUndelete_mContractId m))"

definition SystemUndelete_build :: "TransactionData library \<Rightarrow> SystemUndeleteTransaction \<Rightarrow> proto_SystemUndelete res" where
  "SystemUndelete_build L m =
       Inr \<lparr>SystemUndelete_id = target_out (SystemUndelete_mFileId m) (SystemUndelete_mContractId m)\<rparr>"

definition SystemUndelete_init :: "TransactionData library \<Rightarrow> proto_SystemUndelete \<Rightarrow> SystemUndeleteTransaction \<Rightarrow> SystemUndeleteTransaction res" where
  "SystemUndelete_init L p m =
     rbind (target_in (SystemUndelete_id p) (SystemUndelete_mFileId m) (SystemUndelete_mContractId m)) (\<lambda>x_id.
       Inr \<lparr>SystemUndelete_mFileId = fst x_id, SystemUndelete_mContractId = snd x_id\<rparr>)"

definition SystemUndelete_kind :: "SystemUndeleteTransaction body_kind" where
  "SystemUndelete_kind =
     \<lparr>build_body = (\<lambda>L m. rbind (SystemUndelete_build L m) (\<lambda>p. Inr (data_network (data_systemundelete p)))),
      init_body = (\<lambda>L d m. case d of data_network (data_systemundelete p) \<Rightarrow> SystemUndelete_init L p m | _ \<Rightarrow> Inl InvalidArgument),
      check_body = SystemUndelete_validateChecksums, new_members = SystemUndelete_default, default_fee = None\<rparr>"

definition SystemUndelete_plain :: "TransactionData library \<Rightarrow> SystemUndeleteTransaction \<Rightarrow> bool" where
  "SystemUndelete_plain L m \<longleftrightarrow>
     pred_option (\<lambda>i. fileChecksum i = []) (SystemUndelete_mFileId m) \<and> pred_option contract_plain (SystemUndelete_mContractId m) \<and> (SystemUndelete_mFileId m = None \<or> SystemUndelete_mContractId m = None)"

lemma SystemUndelete_read: "SystemUndelete_plain L m \<Longrightarrow> \<exists>p. SystemUndelete_build L m = Inr p \<and> SystemUndelete_init L p (SystemUndelete_default t) = Inr m"
  by (cases m) (simp add: SystemUndelete_plain_def SystemUndelete_build_def SystemUndelete_init_def SystemUndelete_default_def message_simps)

interpretation system_undelete: simple_kind SystemUndelete_kind SystemUndelete_plain
  by (rule simple_kindI [of _ SystemUndelete_build "\<lambda>p. data_network (data_systemundelete p)" SystemUndelete_init])
    (simp_all add: SystemUndelete_kind_def SystemUndelete_read)

section \<open>\<open>ScheduleDeleteTransaction\<close>\<close>

record ScheduleDeleteTransaction =
  ScheduleDelete_mScheduleId :: "ScheduleId option"

definition ScheduleDelete_default :: "time_point \<Rightarrow> ScheduleDeleteTransaction" where
  "ScheduleDelete_default t =
     \<lparr>ScheduleDelete_mScheduleId = None\<rparr>"

definition ScheduleDelete_setScheduleId :: "ScheduleId \<Rightarrow> ScheduleDeleteTransaction setter" where
  "ScheduleDelete_setScheduleId v = set_members (\<lambda>m. m\<lparr>ScheduleDelete_mScheduleId := Some v\<rparr>)"

definition ScheduleDelete_validateChecksums :: "client_ledger \<Rightarrow> ScheduleDeleteTransaction \<Rightarrow> unit res" where
  "ScheduleDelete_validateChecksums client m =
     check_opt ScheduleId_validateChecksum client (ScheduleDelete_mScheduleId m)"

definition ScheduleDelete_build :: "TransactionData library \<Rightarrow> ScheduleDeleteTransaction \<Rightarrow> proto_ScheduleDelete res" where
  "ScheduleDelete_build L m =
       Inr \<lparr>ScheduleDelete_scheduleid = map_option ScheduleId_toProtobuf (ScheduleDelete_mScheduleId m)\<rparr>"

definition ScheduleDelete_init :: "TransactionData library \<Rightarrow> proto_ScheduleDelete \<Rightarrow> ScheduleDeleteTransaction \<Rightarrow> ScheduleDeleteTransaction res" where
  "ScheduleDelete_init L p m =
       Inr \<lparr>ScheduleDelete_mScheduleId = set_opt_if ScheduleId_fromProtobuf (ScheduleDelete_scheduleid p) (ScheduleDelete_mScheduleId m)\<rparr>"

definition ScheduleDelete_kind :: "ScheduleDeleteTransaction body_kind" where
  "ScheduleDelete_kind =
     \<lparr>build_body = (\<lambda>L m. rbind (ScheduleDelete_build L m) (\<lambda>p. Inr (data_schedule (data_scheduledelete p)))),
      init_body = (\<lambda>L d m. case d of data_schedule (data_scheduledelete p) \<Rightarrow> ScheduleDelete_init L p m | _ \<Rightarrow> Inl InvalidArgument),
      check_body = ScheduleDelete_validateChecksums, new_members = ScheduleDelete_default, default_fee = None\<rparr>"

definition ScheduleDelete_plain :: "TransactionData library \<Rightarrow> ScheduleDeleteTransaction \<Rightarrow> bool" where
  "ScheduleDelete_plain L m \<longleftrightarrow>
     pred_option (\<lambda>i. scheduleChecksum i = []) (ScheduleDelete_mScheduleId m)"

lemma ScheduleDelete_read: "ScheduleDelete_plain L m \<Longrightarrow> \<exists>p. ScheduleDelete_build L m = Inr p \<and> ScheduleDelete_init L p (ScheduleDelete_default t) = Inr m"
  by (cases m) (simp add: ScheduleDelete_plain_def ScheduleDelete_build_def ScheduleDelete_init_def ScheduleDelete_default_def message_simps)

interpretation schedule_delete: simple_kind ScheduleDelete_kind ScheduleDelete_plain
  by (rule simple_kindI [of _ ScheduleDelete_build "\<lambda>p. data_schedule (data_scheduledelete p)" ScheduleDelete_init])
    (simp_all add: ScheduleDelete_kind_def ScheduleDelete_read)

section \<open>\<open>ScheduleSignTransaction\<close>\<close>

record ScheduleSignTransaction =
  ScheduleSign_mScheduleId :: "ScheduleId option"

definition ScheduleSign_default :: "time_point \<Rightarrow> ScheduleSignTransaction" where
  "ScheduleSign_default t =
     \<lparr>ScheduleSign_mScheduleId = None\<rparr>"

definition ScheduleSign_setScheduleId :: "ScheduleId \<Rightarrow> ScheduleSignTransaction setter" where
  "ScheduleSign_setScheduleId v = set_members (\<lambda>m. m\<lparr>ScheduleSign_mScheduleId := Some v\<rparr>)"

definition ScheduleSign_clearScheduleId :: "ScheduleSignTransaction setter" where
  "ScheduleSign_clearScheduleId = set_members (\<lambda>m. m\<lparr>ScheduleSign_mScheduleId := None\<rparr>)"

definition ScheduleSign_validateChecksums :: "client_ledger \<Rightarrow> ScheduleSignTransaction \<Rightarrow> unit res" where
  "ScheduleSign_validateChecksums client m =
     check_opt ScheduleId_validateChecksum client (ScheduleSign_mScheduleId m)"

definition ScheduleSign_build :: "TransactionData library \<Rightarrow> ScheduleSignTransaction \<Rightarrow> proto_ScheduleSign res" where
  "ScheduleSign_build L m =
       Inr \<lparr>ScheduleSign_scheduleid = map_option ScheduleId_toProtobuf (ScheduleSign_mScheduleId m)\<rparr>"

definition ScheduleSign_init :: "TransactionData library \<Rightarrow> proto_ScheduleSign \<Rightarrow> ScheduleSignTransaction \<Rightarrow> ScheduleSignTransaction res" where
  "ScheduleSign_init L p m =
       Inr \<lparr>ScheduleSign_mScheduleId = set_opt_if ScheduleId_fromProtobuf (ScheduleSign_scheduleid p) (ScheduleSign_mScheduleId m)\<rparr>"

definition ScheduleSign_kind :: "ScheduleSignTransaction body_kind" where
  "ScheduleSign_kind =
     \<lparr>build_body = (\<lambda>L m. rbind (ScheduleSign_build L m) (\<lambda>p. Inr (data_schedule (data_schedulesign p)))),
      init_body = (\<lambda>L d m. case d of data_schedule (data_schedulesign p) \<Rightarrow> ScheduleSign_init L p m | _ \<Rightarrow> Inl InvalidArgument),
      check_body = ScheduleSign_validateChecksums, new_members = ScheduleSign_default, default_fee = None\<rparr>"

definition ScheduleSign_plain :: "TransactionData library \<Rightarrow> ScheduleSignTransaction \<Rightarrow> bool" where
  "ScheduleSign_plain L m \<longleftrightarrow>
     pred_option (\<lambda>i. scheduleChecksum i = []) (ScheduleSign_mScheduleId m)"

lemma ScheduleSign_read: "ScheduleSign_plain L m \<Longrightarrow> \<exists>p. ScheduleSign_build L m = Inr p \<and> ScheduleSign_init L p (ScheduleSign_default t) = Inr m"
  by (cases m) (simp add: ScheduleSign_plain_def ScheduleSign_build_def ScheduleSign_init_def ScheduleSign_default_def message_simps)

interpretation schedule_sign: simple_kind ScheduleSign_kind ScheduleSign_plain
  by (rule simple_kindI [of _ ScheduleSign_build "\<lambda>p. data_schedule (data_schedulesign p)" ScheduleSign_init])
    (simp_all add: ScheduleSign_kind_def ScheduleSign_read)

end
