(* ===== verification/TokenTransactions.thy ===== *)
theory TokenTransactions
  imports SimpleKinds
begin

text \<open>
  The transactions on existing tokens and their relation to accounts.
\<close>

section \<open>\<open>TokenAssociateTransaction\<close>\<close>

record TokenAssociateTransaction =
  TokenAssociate_mAccountId :: "AccountId option"
  TokenAssociate_mTokenIds :: "TokenId list"

definition TokenAssociate_default :: "time_point \<Rightarrow> TokenAssociateTransaction" where
  "TokenAssociate_default t =
     \<lparr>TokenAssociate_mAccountId = None, TokenAssociate_mTokenIds = []\<rparr>"

definition TokenAssociate_setAccountId :: "AccountId \<Rightarrow> TokenAssociateTransaction setter" where
  "TokenAssociate_setAccountId v = set_members (\<lambda>m. m\<lparr>TokenAssociate_mAccountId := Some v\<rparr>)"

definition TokenAssociate_setTokenIds :: "TokenId list \<Rightarrow> TokenAssociateTransaction setter" where
  "TokenAssociate_setTokenIds v = set_members (\<lambda>m. m\<lparr>TokenAssociate_mTokenIds := v\<rparr>)"

definition TokenAssociate_validateChecksums :: "client_ledger \<Rightarrow> TokenAssociateTransaction \<Rightarrow> unit res" where
  "TokenAssociate_validateChecksums client m =
     rbind (check_opt AccountId_validateChecksum client (TokenAssociate_mAccountId m)) (\<lambda>_.
     reach (TokenId_validateChecksum client) (TokenAssociate_mTokenIds m))"

definition TokenAssociate_build :: "TransactionData library \<Rightarrow> TokenAssociateTransaction \<Rightarrow> proto_TokenAssociate res" where
  "TokenAssociate_build L m =
     rbind (ropt (account_out L) (TokenAssociate_mAccountId m)) (\<lambda>account.
       Inr \<lparr>TokenAssociate_account = account, TokenAssociate_tokens = map TokenId_toProtobuf (TokenAssociate_mTokenIds m)\<rparr>)"

definition TokenAssociate_init :: "TransactionData library \<Rightarrow> proto_TokenAssociate \<Rightarrow> TokenAssociateTransaction \<Rightarrow> TokenAssociateTransaction res" where
  "TokenAssociate_init L p m =
     rbind (read_opt_if (account_in L) (TokenAssociate_account p) (TokenAssociate_mAccountId m)) (\<lambda>account.
       Inr \<lparr>TokenAssociate_mAccountId = account,
        TokenAssociate_mTokenIds = TokenAssociate_mTokenIds m @ map TokenId_fromProtobuf (TokenAssociate_tokens p)\<rparr>)"

definition TokenAssociate_kind :: "TokenAssociateTransaction body_kind" where
  "TokenAssociate_kind =
     \<lparr>build_body = (\<lambda>L m. rbind (TokenAssociate_build L m) (\<lambda>p. Inr (data_token (data_tokenassociate p)))),
      init_body = (\<lambda>L d m. case d of data_token (data_tokenassociate p) \<Rightarrow> TokenAssociate_init L p m | _ \<Rightarrow> Inl InvalidArgument),
      check_body = TokenAssociate_validateChecksums, new_members = TokenAssociate_default, default_fee = None\<rparr>"

definition TokenAssociate_plain :: "TransactionData library \<Rightarrow> TokenAssociateTransaction \<Rightarrow> bool" where
  "TokenAssociate_plain L m \<longleftrightarrow>
     pred_option account_plain (TokenAssociate_mAccountId m) \<and>
     list_all (\<lambda>t. tokenChecksum t = []) (TokenAssociate_mTokenIds m)"

lemma TokenAssociate_read: "TokenAssociate_plain L m \<Longrightarrow> \<exists>p. TokenAssociate_build L m = Inr p \<and> TokenAssociate_init L p (TokenAssociate_default t) = Inr m"
  by (cases m) (simp add: TokenAssociate_plain_def TokenAssociate_build_def TokenAssociate_init_def TokenAssociate_default_def message_simps)

interpretation token_associate: simple_kind TokenAssociate_kind TokenAssociate_plain
  by (rule simple_kindI [of _ TokenAssociate_build "\<lambda>p. data_token (data_tokenassociate p)" TokenAssociate_init])
    (simp_all add: TokenAssociate_kind_def TokenAssociate_read)

section \<open>\<open>TokenDissociateTransaction\<close>\<close>

record TokenDissociateTransaction =
  TokenDissociate_mAccountId :: "AccountId option"
  TokenDissociate_mTokenIds :: "TokenId list"

definition TokenDissociate_default :: "time_point \<Rightarrow> TokenDissociateTransaction" where
  "TokenDissociate_default t =
     \<lparr>TokenDissociate_mAccountId = None, TokenDissociate_mTokenIds = []\<rparr>"

definition TokenDissociate_setAccountId :: "AccountId \<Rightarrow> TokenDissociateTransaction setter" where
  "TokenDissociate_setAccountId v = set_members (\<lambda>m. m\<lparr>TokenDissociate_mAccountId := Some v\<rparr>)"

definition TokenDissociate_setTokenIds :: "TokenId list \<Rightarrow> TokenDissociateTransaction setter" where
  "TokenDissociate_setTokenIds v = set_members (\<lambda>m. m\<lparr>TokenDissociate_mTokenIds := v\<rparr>)"

definition TokenDissociate_validateChecksums :: "client_ledger \<Rightarrow> TokenDissociateTransaction \<Rightarrow> unit res" where
  "TokenDissociate_validateChecksums client m =
     rbind (check_opt AccountId_validateChecksum client (TokenDissociate_mAccountId m)) (\<lambda>_.
     reach (TokenId_validateChecksum client) (TokenDissociate_mTokenIds m))"

definition TokenDissociate_build :: "TransactionData library \<Rightarrow> TokenDissociateTransaction \<Rightarrow> proto_TokenDissociate res" where
  "TokenDissociate_build L m =
     rbind (ropt (account_out L) (TokenDissociate_mAccountId m)) (\<lambda>account.
       Inr \<lparr>TokenDissociate_account = account,
        TokenDissociate_tokens = map TokenId_toProtobuf (TokenDissociate_mTokenIds m)\<rparr>)"

definition TokenDissociate_init :: "TransactionData library \<Rightarrow> proto_TokenDissociate \<Rightarrow> TokenDissociateTransaction \<Rightarrow> TokenDissociateTransaction res" where
  "TokenDissociate_init L p m =
     rbind (read_opt_if (account_in L) (TokenDissociate_account p) (TokenDissociate_mAccountId m)) (\<lambda>account.
       Inr \<lparr>TokenDissociate_mAccountId = account,
        TokenDissociate_mTokenIds = TokenDissociate_mTokenIds m @ map TokenId_fromProtobuf (TokenDissociate_tokens p)\<rparr>)"

definition TokenDissociate_kind :: "TokenDissociateTransaction body_kind" where
  "TokenDissociate_kind =
     \<lparr>build_body = (\<lambda>L m. rbind (TokenDissociate_build L m) (\<lambda>p. Inr (data_token (data_tokendissociate p)))),
      init_body = (\<lambda>L d m. case d of data_token (data_tokendissociate p) \<Rightarrow> TokenDissociate_init L p m | _ \<Rightarrow> Inl InvalidArgument),
      check_body = TokenDissociate_validateChecksums, new_members = TokenDissociate_default, default_fee = None\<rparr>"

definition TokenDissociate_plain :: "TransactionData library \<Rightarrow> TokenDissociateTransaction \<Rightarrow> bool" where
  "TokenDissociate_plain L m \<longleftrightarrow>
     pred_option account_plain (TokenDissociate_mAccountId m) \<and>
     list_all (\<lambda>t. tokenChecksum t = []) (TokenDissociate_mTokenIds m)"

lemma TokenDissociate_read: "TokenDissociate_plain L m \<Longrightarrow> \<exists>p. TokenDissociate_build L m = Inr p \<and> TokenDissociate_init L p (TokenDissociate_default t) = Inr m"
  by (cases m) (simp add: TokenDissociate_plain_def TokenDissociate_build_def TokenDissociate_init_def TokenDissociate_default_def message_simps)

interpretation token_dissociate: simple_kind TokenDissociate_kind TokenDissociate_plain
  by (rule simple_kindI [of _ TokenDissociate_build "\<lambda>p. data_token (data_tokendissociate p)" TokenDissociate_init])
    (simp_all add: TokenDissociate_kind_def TokenDissociate_read)

section \<open>\<open>TokenBurnTransaction\<close>\<close>

record TokenBurnTransaction =
  TokenBurn_mTokenId :: TokenId
  TokenBurn_mAmount :: u64
  TokenBurn_mSerialNumbers :: "u64 list"

definition TokenBurn_default :: "time_point \<Rightarrow> TokenBurnTransaction" where
  "TokenBurn_default t =
     \<lparr>TokenBurn_mTokenId = TokenId_of 0 0 0 [], TokenBurn_mAmount = 0, TokenBurn_mSerialNumbers = []\<rparr>"

definition TokenBurn_setTokenId :: "TokenId \<Rightarrow> TokenBurnTransaction setter" where
  "TokenBurn_setTokenId v = set_members (\<lambda>m. m\<lparr>TokenBurn_mTokenId := v\<rparr>)"

definition TokenBurn_setAmount :: "u64 \<Rightarrow> TokenBurnTransaction setter" where
  "TokenBurn_setAmount v = set_members (\<lambda>m. m\<lparr>TokenBurn_mAmount := v\<rparr>)"

definition TokenBurn_setSerialNumbers :: "u64 list \<Rightarrow> TokenBurnTransaction setter" where
  "TokenBurn_setSerialNumbers v = set_members (\<lambda>m. m\<lparr>TokenBurn_mSerialNumbers := v\<rparr>)"

definition TokenBurn_validateChecksums :: "client_ledger \<Rightarrow> TokenBurnTransaction \<Rightarrow> unit res" where
  "TokenBurn_validateChecksums client m =
     TokenId_validateChecksum client (TokenBurn_mTokenId m)"

definition TokenBurn_build :: "TransactionData library \<Rightarrow> TokenBurnTransaction \<Rightarrow> proto_TokenBurn res" where
  "TokenBurn_build L m =
       Inr \<lparr>TokenBurn_token = unless_default TokenId_eq (TokenId_of 0 0 0 []) TokenId_toProtobuf (TokenBurn_mTokenId m),
        TokenBurn_amount = TokenBurn_mAmount m, TokenBurn_serialnumbers = map sint (TokenBurn_mSerialNumbers m)\<rparr>"

definition TokenBurn_init :: "TransactionData library \<Rightarrow> proto_TokenBurn \<Rightarrow> TokenBurnTransaction \<Rightarrow> TokenBurnTransaction res" where
  "TokenBurn_init L p m =
       Inr \<lparr>TokenBurn_mTokenId = set_if TokenId_fromProtobuf (TokenBurn_token p) (TokenBurn_mTokenId m),
        TokenBurn_mAmount = TokenBurn_amount p,
        TokenBurn_mSerialNumbers = TokenBurn_mSerialNumbers m @ map of_int (TokenBurn_serialnumbers p)\<rparr>"

definition TokenBurn_kind :: "TokenBurnTransaction body_kind" where
  "TokenBurn_kind =
     \<lparr>build_body = (\<lambda>L m. rbind (TokenBurn_build L m) (\<lambda>p. Inr (data_token (data_tokenburn p)))),
      init_body = (\<lambda>L d m. case d of data_token (data_tokenburn p) \<Rightarrow> TokenBurn_init L p m | _ \<Rightarrow> Inl InvalidArgument),
      check_body = TokenBurn_validateChecksums, new_members = TokenBurn_default, default_fee = None\<rparr>"

definition TokenBurn_plain :: "TransactionData library \<Rightarrow> TokenBurnTransaction \<Rightarrow> bool" where
  "TokenBurn_plain L m \<longleftrightarrow>
     tokenChecksum (TokenBurn_mTokenId m) = []"

lemma TokenBurn_read: "TokenBurn_plain L m \<Longrightarrow> \<exists>p. TokenBurn_build L m = Inr p \<and> TokenBurn_init L p (TokenBurn_default t) = Inr m"
  by (cases m) (simp add: TokenBurn_plain_def TokenBurn_build_def TokenBurn_init_def TokenBurn_default_def message_simps)

interpretation token_burn: simple_kind TokenBurn_kind TokenBurn_plain
  by (rule simple_kindI [of _ TokenBurn_build "\<lambda>p. data_token (data_tokenburn p)" TokenBurn_init])
    (simp_all add: TokenBurn_kind_def TokenBurn_read)

section \<open>\<open>TokenMintTransaction\<close>\<close>

record TokenMintTransaction =
  TokenMint_mTokenId :: TokenId
  TokenMint_mAmount :: u64
  TokenMint_mMetadataList :: "bytes list"

definition TokenMint_default :: "time_point \<Rightarrow> TokenMintTransaction" where
  "TokenMint_default t =
     \<lparr>TokenMint_mTokenId = TokenId_of 0 0 0 [], TokenMint_mAmount = 0, TokenMint_mMetadataList = []\<rparr>"

definition TokenMint_setTokenId :: "TokenId \<Rightarrow> TokenMintTransaction setter" where
  "TokenMint_setTokenId v = set_members (\<lambda>m. m\<lparr>TokenMint_mTokenId := v\<rparr>)"

definition TokenMint_setAmount :: "u64 \<Rightarrow> TokenMintTransaction setter" where
  "TokenMint_setAmount v = set_members (\<lambda>m. m\<lparr>TokenMint_mAmount := v\<rparr>)"

definition TokenMint_setMetadata :: "bytes list \<Rightarrow> TokenMintTransaction setter" where
  "TokenMint_setMetadata v = set_members (\<lambda>m. m\<lparr>TokenMint_mMetadataList := v\<rparr>)"

definition TokenMint_addMetadata :: "bytes \<Rightarrow> TokenMintTransaction setter" where
  "TokenMint_addMetadata metadata = set_members (\<lambda>m. m\<lparr>TokenMint_mMetadataList := TokenMint_mMetadataList m @ [metadata]\<rparr>)"

definition TokenMint_validateChecksums :: "client_ledger \<Rightarrow> TokenMintTransaction \<Rightarrow> unit res" where
  "TokenMint_validateChecksums client m =
     TokenId_validateChecksum client (TokenMint_mTokenId m)"

definition TokenMint_build :: "TransactionData library \<Rightarrow> TokenMintTransaction \<Rightarrow> proto_TokenMint res" where
  "TokenMint_build L m =
       Inr \<lparr>TokenMint_token = unless_default TokenId_eq (TokenId_of 0 0 0 []) TokenId_toProtobuf (TokenMint_mTokenId m),
        TokenMint_amount = TokenMint_mAmount m,
        TokenMint_metadata = map byteVectorToString (TokenMint_mMetadataList m)\<rparr>"

definition TokenMint_init :: "TransactionData library \<Rightarrow> proto_TokenMint \<Rightarrow> TokenMintTransaction \<Rightarrow> TokenMintTransaction res" where
  "TokenMint_init L p m =
       Inr \<lparr>TokenMint_mTokenId = set_if TokenId_fromProtobuf (TokenMint_token p) (TokenMint_mTokenId m),
        TokenMint_mAmount = TokenMint_amount p,
        TokenMint_mMetadataList = TokenMint_mMetadataList m @ map stringToByteVector (TokenMint_metadata p)\<rparr>"

definition TokenMint_kind :: "TokenMintTransaction body_kind" where
  "TokenMint_kind =
     \<lparr>build_body = (\<lambda>L m. rbind (TokenMint_build L m) (\<lambda>p. Inr (data_token (data_tokenmint p)))),
      init_body = (\<lambda>L d m. case d of data_token (data_tokenmint p) \<Rightarrow> TokenMint_init L p m | _ \<Rightarrow> Inl InvalidArgument),
      check_body = TokenMint_validateChecksums, new_members = TokenMint_default, default_fee = None\<rparr>"

definition TokenMint_plain :: "TransactionData library \<Rightarrow> TokenMintTransaction \<Rightarrow> bool" where
  "TokenMint_plain L m \<longleftrightarrow>
     tokenChecksum (TokenMint_mTokenId m) = []"

lemma TokenMint_read: "TokenMint_plain L m \<Longrightarrow> \<exists>p. TokenMint_build L m = Inr p \<and> TokenMint_init L p (TokenMint_default t) = Inr m"
  by (cases m) (simp add: TokenMint_plain_def TokenMint_build_def TokenMint_init_def TokenMint_default_def message_simps)

interpretation token_mint: simple_kind TokenMint_kind TokenMint_plain
  by (rule simple_kindI [of _ TokenMint_build "\<lambda>p. data_token (data_tokenmint p)" TokenMint_init])
    (simp_all add: TokenMint_kind_def TokenMint_read)

section \<open>\<open>TokenWipeTransaction\<close>\<close>

record TokenWipeTransaction =
  TokenWipe_mTokenId :: TokenId
  TokenWipe_mAccountId :: AccountId
  TokenWipe_mAmount :: u64
  TokenWipe_mSerialNumbers :: "u64 list"

definition TokenWipe_default :: "time_point \<Rightarrow> TokenWipeTransaction" where
  "TokenWipe_default t =
     \<lparr>TokenWipe_mTokenId = TokenId_of 0 0 0 [], TokenWipe_mAccountId = AccountId_default, TokenWipe_mAmount = 0,
      TokenWipe_mSerialNumbers = []\<rparr>"

definition TokenWipe_setTokenId :: "TokenId \<Rightarrow> TokenWipeTransaction setter" where
  "TokenWipe_setTokenId v = set_members (\<lambda>m. m\<lparr>TokenWipe_mTokenId := v\<rparr>)"

definition TokenWipe_setAccountId :: "AccountId \<Rightarrow> TokenWipeTransaction setter" where
  "TokenWipe_setAccountId v = set_members (\<lambda>m. m\<lparr>TokenWipe_mAccountId := v\<rparr>)"

definition TokenWipe_setAmount :: "u64 \<Rightarrow> TokenWipeTransaction setter" where
  "TokenWipe_setAmount v = set_members (\<lambda>m. m\<lparr>TokenWipe_mAmount := v\<rparr>)"

definition TokenWipe_setSerialNumbers :: "u64 list \<Rightarrow> TokenWipeTransaction setter" where
  "TokenWipe_setSerialNumbers v = set_members (\<lambda>m. m\<lparr>TokenWipe_mSerialNumbers := v\<rparr>)"

definition TokenWipe_validateChecksums :: "client_ledger \<Rightarrow> TokenWipeTransaction \<Rightarrow> unit res" where
  "TokenWipe_validateChecksums client m =
     rbind (TokenId_validateChecksum client (TokenWipe_mTokenId m)) (\<lambda>_.
     AccountId_validateChecksum client (TokenWipe_mAccountId m))"

definition TokenWipe_build :: "TransactionData library \<Rightarrow> TokenWipeTransaction \<Rightarrow> proto_TokenWipe res" where
  "TokenWipe_build L m =
     rbind (account_unless_default L (TokenWipe_mAccountId m)) (\<lambda>account.
       Inr \<lparr>TokenWipe_token = unless_default TokenId_eq (TokenId_of 0 0 0 []) TokenId_toProtobuf (TokenWipe_mTokenId m),
        TokenWipe_account = account, TokenWipe_amount = TokenWipe_mAmount m,
        TokenWipe_serialnumbers = map sint (TokenWipe_mSerialNumbers m)\<rparr>)"

definition TokenWipe_init :: "TransactionData library \<Rightarrow> proto_TokenWipe \<Rightarrow> TokenWipeTransaction \<Rightarrow> TokenWipeTransaction res" where
  "TokenWipe_init L p m =
     rbind (read_if (account_in L) (TokenWipe_account p) (TokenWipe_mAccountId m)) (\<lambda>account.
       Inr \<lparr>TokenWipe_mTokenId = set_if TokenId_fromProtobuf (TokenWipe_token p) (TokenWipe_mTokenId m),
        TokenWipe_mAccountId = account, TokenWipe_mAmount = TokenWipe_amount p,
        TokenWipe_mSerialNumbers = TokenWipe_mSerialNumbers m @ map of_int (TokenWipe_serialnumbers p)\<rparr>)"

definition TokenWipe_kind :: "TokenWipeTransaction body_kind" where
  "TokenWipe_kind =
     \<lparr>build_body = (\<lambda>L m. rbind (TokenWipe_build L m) (\<lambda>p. Inr (data_token (data_tokenwipe p)))),
      init_body = (\<lambda>L d m. case d of data_token (data_tokenwipe p) \<Rightarrow> TokenWipe_init L p m | _ \<Rightarrow> Inl InvalidArgument),
      check_body = TokenWipe_validateChecksums, new_members = TokenWipe_default, default_fee = None\<rparr>"

definition TokenWipe_plain :: "TransactionData library \<Rightarrow> TokenWipeTransaction \<Rightarrow> bool" where
  "TokenWipe_plain L m \<longleftrightarrow>
     tokenChecksum (TokenWipe_mTokenId m) = [] \<and>
     account_ok (TokenWipe_mAccountId m)"

lemma TokenWipe_read: "TokenWipe_plain L m \<Longrightarrow> \<exists>p. TokenWipe_build L m = Inr p \<and> TokenWipe_init L p (TokenWipe_default t) = Inr m"
  by (cases m) (simp add: TokenWipe_plain_def TokenWipe_build_def TokenWipe_init_def TokenWipe_default_def message_simps)

interpretation token_wipe: simple_kind TokenWipe_kind TokenWipe_plain
  by (rule simple_kindI [of _ TokenWipe_build "\<lambda>p. data_token (data_tokenwipe p)" TokenWipe_init])
    (simp_all add: TokenWipe_kind_def TokenWipe_read)

section \<open>\<open>TokenDeleteTransaction\<close>\<close>

record TokenDeleteTransaction =
  TokenDelete_mTokenId :: "TokenId option"

definition TokenDelete_default :: "time_point \<Rightarrow> TokenDeleteTransaction" where
  "TokenDelete_default t =
     \<lparr>TokenDelete_mTokenId = None\<rparr>"

definition TokenDelete_setTokenId :: "TokenId \<Rightarrow> TokenDeleteTransaction setter" where
  "TokenDelete_setTokenId v = set_members (\<lambda>m. m\<lparr>TokenDelete_mTokenId := Some v\<rparr>)"

definition TokenDelete_validateChecksums :: "client_ledger \<Rightarrow> TokenDeleteTransaction \<Rightarrow> unit res" where
  "TokenDelete_validateChecksums client m =
     check_opt TokenId_validateChecksum client (TokenDelete_mTokenId m)"

definition TokenDelete_build :: "TransactionData library \<Rightarrow> TokenDeleteTransaction \<Rightarrow> proto_TokenDelete res" where
  "TokenDelete_build L m =
       Inr \<lparr>TokenDelete_token = map_option TokenId_toProtobuf (TokenDelete_mTokenId m)\<rparr>"

definition TokenDelete_init :: "TransactionData library \<Rightarrow> proto_TokenDelete \<Rightarrow> TokenDeleteTransaction \<Rightarrow> TokenDeleteTransaction res" where
  "TokenDelete_init L p m =
       Inr \<lparr>TokenDelete_mTokenId = set_opt_if TokenId_fromProtobuf (TokenDelete_token p) (TokenDelete_mTokenId m)\<rparr>"

definition TokenDelete_kind :: "TokenDeleteTransaction body_kind" where
  "TokenDelete_kind =
     \<lparr>build_body = (\<lambda>L m. rbind (TokenDelete_build L m) (\<lambda>p. Inr (data_token (data_tokendeletion p)))),
      init_body = (\<lambda>L d m. case d of data_token (data_tokendeletion p) \<Rightarrow> TokenDelete_init L p m | _ \<Rightarrow> Inl InvalidArgument),
      check_body = TokenDelete_validateChecksums, new_members = TokenDelete_default, default_fee = None\<rparr>"

definition TokenDelete_plain :: "TransactionData library \<Rightarrow> TokenDeleteTransaction \<Rightarrow> bool" where
  "TokenDelete_plain L m \<longleftrightarrow>
     pred_option (\<lambda>i. tokenChecksum i = []) (TokenDelete_mTokenId m)"

lemma TokenDelete_read: "TokenDelete_plain L m \<Longrightarrow> \<exists>p. TokenDelete_build L m = Inr p \<and> TokenDelete_init L p (TokenDelete_default t) = Inr m"
  by (cases m) (simp add: TokenDelete_plain_def TokenDelete_build_def TokenDelete_init_def TokenDelete_default_def message_simps)

interpretation token_delete: simple_kind TokenDelete_kind TokenDelete_plain
  by (rule simple_kindI [of _ TokenDelete_build "\<lambda>p. data_token (data_tokendeletion p)" TokenDelete_init])
    (simp_all add: TokenDelete_kind_def TokenDelete_read)

section \<open>\<open>TokenFreezeTransaction\<close>\<close>

record TokenFreezeTransaction =
  TokenFreeze_mAccountId :: AccountId
  TokenFreeze_mTokenId :: TokenId

definition TokenFreeze_default :: "time_point \<Rightarrow> TokenFreezeTransaction" where
  "TokenFreeze_default t =
     \<lparr>TokenFreeze_mAccountId = AccountId_default, TokenFreeze_mTokenId = TokenId_of 0 0 0 []\<rparr>"

definition TokenFreeze_setAccountId :: "AccountId \<Rightarrow> TokenFreezeTransaction setter" where
  "TokenFreeze_setAccountId v = set_members (\<lambda>m. m\<lparr>TokenFreeze_mAccountId := v\<rparr>)"

definition TokenFreeze_setTokenId :: "TokenId \<Rightarrow> TokenFreezeTransaction setter" where
  "TokenFreeze_setTokenId v = set_members (\<lambda>m. m\<lparr>TokenFreeze_mTokenId := v\<rparr>)"

definition TokenFreeze_validateChecksums :: "client_ledger \<Rightarrow> TokenFreezeTransaction \<Rightarrow> unit res" where
  "TokenFreeze_validateChecksums client m =
     rbind (TokenId_validateChecksum client (TokenFreeze_mTokenId m)) (\<lambda>_.
     AccountId_validateChecksum client (TokenFreeze_mAccountId m))"

definition TokenFreeze_build :: "TransactionData library \<Rightarrow> TokenFreezeTransaction \<Rightarrow> proto_TokenFreeze res" where
  "TokenFreeze_build L m =
     rbind (account_unless_default L (TokenFreeze_mAccountId m)) (\<lambda>account.
       Inr \<lparr>TokenFreeze_account = account,
        TokenFreeze_token = unless_default TokenId_eq (TokenId_of 0 0 0 []) TokenId_toProtobuf (TokenFreeze_mTokenId m)\<rparr>)"

definition TokenFreeze_init :: "TransactionData library \<Rightarrow> proto_TokenFreeze \<Rightarrow> TokenFreezeTransaction \<Rightarrow> TokenFreezeTransaction res" where
  "TokenFreeze_init L p m =
     rbind (read_if (account_in L) (TokenFreeze_account p) (TokenFreeze_mAccountId m)) (\<lambda>account.
       Inr \<lparr>TokenFreeze_mAccountId = account,
        TokenFreeze_mTokenId = set_if TokenId_fromProtobuf (TokenFreeze_token p) (TokenFreeze_mTokenId m)\<rparr>)"

definition TokenFreeze_kind :: "TokenFreezeTransaction body_kind" where
  "TokenFreeze_kind =
     \<lparr>build_body = (\<lambda>L m. rbind (TokenFreeze_build L m) (\<lambda>p. Inr (data_token (data_tokenfreeze p)))),
      init_body = (\<lambda>L d m. case d of data_token (data_tokenfreeze p) \<Rightarrow> TokenFreeze_init L p m | _ \<Rightarrow> Inl InvalidArgument),
      check_body = TokenFreeze_validateChecksums, new_members = TokenFreeze_default, default_fee = None\<rparr>"

definition TokenFreeze_plain :: "TransactionData library \<Rightarrow> TokenFreezeTransaction \<Rightarrow> bool" where
  "TokenFreeze_plain L m \<longleftrightarrow>
     account_ok (TokenFreeze_mAccountId m) \<and>
     tokenChecksum (TokenFreeze_mTokenId m) = []"

lemma TokenFreeze_read: "TokenFreeze_plain L m \<Longrightarrow> \<exists>p. TokenFreeze_build L m = Inr p \<and> TokenFreeze_init L p (TokenFreeze_default t) = Inr m"
  by (cases m) (simp add: TokenFreeze_plain_def TokenFreeze_build_def TokenFreeze_init_def TokenFreeze_default_def message_simps)

interpretation token_freeze: simple_kind TokenFreeze_kind TokenFreeze_plain
  by (rule simple_kindI [of _ TokenFreeze_build "\<lambda>p. data_token (data_tokenfreeze p)" TokenFreeze_init])
    (simp_all add: TokenFreeze_kind_def TokenFreeze_read)

section \<open>\<open>TokenUnfreezeTransaction\<close>\<close>

record TokenUnfreezeTransaction =
  TokenUnfreeze_mAccountId :: AccountId
  TokenUnfreeze_mTokenId :: TokenId

definition TokenUnfreeze_default :: "time_point \<Rightarrow> TokenUnfreezeTransaction" where
  "TokenUnfreeze_default t =
     \<lparr>TokenUnfreeze_mAccountId = AccountId_default, TokenUnfreeze_mTokenId = TokenId_of 0 0 0 []\<rparr>"

definition TokenUnfreeze_setAccountId :: "AccountId \<Rightarrow> TokenUnfreezeTransaction setter" where
  "TokenUnfreeze_setAccountId v = set_members (\<lambda>m. m\<lparr>TokenUnfreeze_mAccountId := v\<rparr>)"

definition TokenUnfreeze_setTokenId :: "TokenId \<Rightarrow> TokenUnfreezeTransaction setter" where
  "TokenUnfreeze_setTokenId v = set_members (\<lambda>m. m\<lparr>TokenUnfreeze_mTokenId := v\<rparr>)"

definition TokenUnfreeze_validateChecksums :: "client_ledger \<Rightarrow> TokenUnfreezeTransaction \<Rightarrow> unit res" where
  "TokenUnfreeze_validateChecksums client m =
     rbind (TokenId_validateChecksum client (TokenUnfreeze_mTokenId m)) (\<lambda>_.
     AccountId_validateChecksum client (TokenUnfreeze_mAccountId m))"

definition TokenUnfreeze_build :: "TransactionData library \<Rightarrow> TokenUnfreezeTransaction \<Rightarrow> proto_TokenUnfreeze res" where
  "TokenUnfreeze_build L m =
     rbind (account_unless_default L (TokenUnfreeze_mAccountId m)) (\<lambda>account.
       Inr \<lparr>TokenUnfreeze_account = account,
        TokenUnfreeze_token = unless_default TokenId_eq (TokenId_of 0 0 0 []) TokenId_toProtobuf (TokenUnfreeze_mTokenId m)\<rparr>)"

definition TokenUnfreeze_init :: "TransactionData library \<Rightarrow> proto_TokenUnfreeze \<Rightarrow> TokenUnfreezeTransaction \<Rightarrow> TokenUnfreezeTransaction res" where
  "TokenUnfreeze_init L p m =
     rbind (read_if (account_in L) (TokenUnfreeze_account p) (TokenUnfreeze_mAccountId m)) (\<lambda>account.
       Inr \<lparr>TokenUnfreeze_mAccountId = account,
        TokenUnfreeze_mTokenId = set_if TokenId_fromProtobuf (TokenUnfreeze_token p) (TokenUnfreeze_mTokenId m)\<rparr>)"

definition TokenUnfreeze_kind :: "TokenUnfreezeTransaction body_kind" where
  "TokenUnfreeze_kind =
     \<lparr>build_body = (\<lambda>L m. rbind (TokenUnfreeze_build L m) (\<lambda>p. Inr (data_token (data_tokenunfreeze p)))),
      init_body = (\<lambda>L d m. case d of data_token (data_tokenunfreeze p) \<Rightarrow> TokenUnfreeze_init L p m | _ \<Rightarrow> Inl InvalidArgument),
      check_body = TokenUnfreeze_validateChecksums, new_members = TokenUnfreeze_default, default_fee = None\<rparr>"

definition TokenUnfreeze_plain :: "TransactionData library \<Rightarrow> TokenUnfreezeTransaction \<Rightarrow> bool" where
  "TokenUnfreeze_plain L m \<longleftrightarrow>
     account_ok (TokenUnfreeze_mAccountId m) \<and>
     tokenChecksum (TokenUnfreeze_mTokenId m) = []"

lemma TokenUnfreeze_read: "TokenUnfreeze_plain L m \<Longrightarrow> \<exists>p. TokenUnfreeze_build L m = Inr p \<and> TokenUnfreeze_init L p (TokenUnfreeze_default t) = Inr m"
  by (cases m) (simp add: TokenUnfreeze_plain_def TokenUnfreeze_build_def TokenUnfreeze_init_def TokenUnfreeze_default_def message_simps)

interpretation token_unfreeze: simple_kind TokenUnfreeze_kind TokenUnfreeze_plain
  by (rule simple_kindI [of _ TokenUnfreeze_build "\<lambda>p. data_token (data_tokenunfreeze p)" TokenUnfreeze_init])
    (simp_all add: TokenUnfreeze_kind_def TokenUnfreeze_read)

section \<open>\<open>TokenGrantKycTransaction\<close>\<close>

record TokenGrantKycTransaction =
  TokenGrantKyc_mAccountId :: AccountId
  TokenGrantKyc_mTokenId :: TokenId

definition TokenGrantKyc_default :: "time_point \<Rightarrow> TokenGrantKycTransaction" where
  "TokenGrantKyc_default t =
     \<lparr>TokenGrantKyc_mAccountId = AccountId_default, TokenGrantKyc_mTokenId = TokenId_of 0 0 0 []\<rparr>"

definition TokenGrantKyc_setAccountId :: "AccountId \<Rightarrow> TokenGrantKycTransaction setter" where
  "TokenGrantKyc_setAccountId v = set_members (\<lambda>m. m\<lparr>TokenGrantKyc_mAccountId := v\<rparr>)"

definition TokenGrantKyc_setTokenId :: "TokenId \<Rightarrow> TokenGrantKycTransaction setter" where
  "TokenGrantKyc_setTokenId v = set_members (\<lambda>m. m\<lparr>TokenGrantKyc_mTokenId := v\<rparr>)"

definition TokenGrantKyc_validateChecksums :: "client_ledger \<Rightarrow> TokenGrantKycTransaction \<Rightarrow> unit res" where
  "TokenGrantKyc_validateChecksums client m =
     rbind (TokenId_validateChecksum client (TokenGrantKyc_mTokenId m)) (\<lambda>_.
     AccountId_validateChecksum client (TokenGrantKyc_mAccountId m))"

definition TokenGrantKyc_build :: "TransactionData library \<Rightarrow> TokenGrantKycTransaction \<Rightarrow> proto_TokenGrantKyc res" where
  "TokenGrantKyc_build L m =
     rbind (account_unless_default L (TokenGrantKyc_mAccountId m)) (\<lambda>account.
       Inr \<lparr>TokenGrantKyc_account = account,
        TokenGrantKyc_token = unless_default TokenId_eq (TokenId_of 0 0 0 []) TokenId_toProtobuf (TokenGrantKyc_mTokenId m)\<rparr>)"

definition TokenGrantKyc_init :: "TransactionData library \<Rightarrow> proto_TokenGrantKyc \<Rightarrow> TokenGrantKycTransaction \<Rightarrow> TokenGrantKycTransaction res" where
  "TokenGrantKyc_init L p m =
     rbind (read_if (account_in L) (TokenGrantKyc_account p) (TokenGrantKyc_mAccountId m)) (\<lambda>account.
       Inr \<lparr>TokenGrantKyc_mAccountId = account,
        TokenGrantKyc_mTokenId = set_if TokenId_fromProtobuf (TokenGrantKyc_token p) (TokenGrantKyc_mTokenId m)\<rparr>)"

definition TokenGrantKyc_kind :: "TokenGrantKycTransaction body_kind" where
  "TokenGrantKyc_kind =
     \<lparr>build_body = (\<lambda>L m. rbind (TokenGrantKyc_build L m) (\<lambda>p. Inr (data_token (data_tokengrantkyc p)))),
      init_body = (\<lambda>L d m. case d of data_token (data_tokengrantkyc p) \<Rightarrow> TokenGrantKyc_init L p m | _ \<Rightarrow> Inl InvalidArgument),
      check_body = TokenGrantKyc_validateChecksums, new_members = TokenGrantKyc_default, default_fee = None\<rparr>"

definition TokenGrantKyc_plain :: "TransactionData library \<Rightarrow> TokenGrantKycTransaction \<Rightarrow> bool" where
  "TokenGrantKyc_plain L m \<longleftrightarrow>
     account_ok (TokenGrantKyc_mAccountId m) \<and>
     tokenChecksum (TokenGrantKyc_mTokenId m) = []"

lemma TokenGrantKyc_read: "TokenGrantKyc_plain L m \<Longrightarrow> \<exists>p. TokenGrantKyc_build L m = Inr p \<and> TokenGrantKyc_init L p (TokenGrantKyc_default t) = Inr m"
  by (cases m) (simp add: TokenGrantKyc_plain_def TokenGrantKyc_build_def TokenGrantKyc_init_def TokenGrantKyc_default_def message_simps)

interpretation token_grant_kyc: simple_kind TokenGrantKyc_kind TokenGrantKyc_plain
  by (rule simple_kindI [of _ TokenGrantKyc_build "\<lambda>p. data_token (data_tokengrantkyc p)" TokenGrantKyc_init])
    (simp_all add: TokenGrantKyc_kind_def TokenGrantKyc_read)

section \<open>\<open>TokenRevokeKycTransaction\<close>\<close>

record TokenRevokeKycTransaction =
  TokenRevokeKyc_mAccountId :: AccountId
  TokenRevokeKyc_mTokenId :: TokenId

definition TokenRevokeKyc_default :: "time_point \<Rightarrow> TokenRevokeKycTransaction" where
  "TokenRevokeKyc_default t =
     \<lparr>TokenRevokeKyc_mAccountId = AccountId_default, TokenRevokeKyc_mTokenId = TokenId_of 0 0 0 []\<rparr>"

definition TokenRevokeKyc_setAccountId :: "AccountId \<Rightarrow> TokenRevokeKycTransaction setter" where
  "TokenRevokeKyc_setAccountId v = set_members (\<lambda>m. m\<lparr>TokenRevokeKyc_mAccountId := v\<rparr>)"

definition TokenRevokeKyc_setTokenId :: "TokenId \<Rightarrow> TokenRevokeKycTransaction setter" where
  "TokenRevokeKyc_setTokenId v = set_members (\<lambda>m. m\<lparr>TokenRevokeKyc_mTokenId := v\<rparr>)"

definition TokenRevokeKyc_validateChecksums :: "client_ledger \<Rightarrow> TokenRevokeKycTransaction \<Rightarrow> unit res" where
  "TokenRevokeKyc_validateChecksums client m =
     rbind (TokenId_validateChecksum client (TokenRevokeKyc_mTokenId m)) (\<lambda>_.
     AccountId_validateChecksum client (TokenRevokeKyc_mAccountId m))"

definition TokenRevokeKyc_build :: "TransactionData library \<Rightarrow> TokenRevokeKycTransaction \<Rightarrow> proto_TokenRevokeKyc res" where
  "TokenRevokeKyc_build L m =
     rbind (account_unless_default L (TokenRevokeKyc_mAccountId m)) (\<lambda>account.
       Inr \<lparr>TokenRevokeKyc_account = account,
        TokenRevokeKyc_token = unless_default TokenId_eq (TokenId_of 0 0 0 []) TokenId_toProtobuf (TokenRevokeKyc_mTokenId m)\<rparr>)"

definition TokenRevokeKyc_init :: "TransactionData library \<Rightarrow> proto_TokenRevokeKyc \<Rightarrow> TokenRevokeKycTransaction \<Rightarrow> TokenRevokeKycTransaction res" where
  "TokenRevokeKyc_init L p m =
     rbind (read_if (account_in L) (TokenRevokeKyc_account p) (TokenRevokeKyc_mAccountId m)) (\<lambda>account.
       Inr \<lparr>TokenRevokeKyc_mAccountId = account,
        TokenRevokeKyc_mTokenId = set_if TokenId_fromProtobuf (TokenRevokeKyc_token p) (TokenRevokeKyc_mTokenId m)\<rparr>)"

definition TokenRevokeKyc_kind :: "TokenRevokeKycTransaction body_kind" where
  "TokenRevokeKyc_kind =
     \<lparr>build_body = (\<lambda>L m. rbind (TokenRevokeKyc_build L m) (\<lambda>p. Inr (data_token (data_tokenrevokekyc p)))),
      init_body = (\<lambda>L d m. case d of data_token (data_tokenrevokekyc p) \<Rightarrow> TokenRevokeKyc_init L p m | _ \<Rightarrow> Inl InvalidArgument),
      check_body = TokenRevokeKyc_validateChecksums, new_members = TokenRevokeKyc_default, default_fee = None\<rparr>"

definition TokenRevokeKyc_plain :: "TransactionData library \<Rightarrow> TokenRevokeKycTransaction \<Rightarrow> bool" where
  "TokenRevokeKyc_plain L m \<longleftrightarrow>
     account_ok (TokenRevokeKyc_mAccountId m) \<and>
     tokenChecksum (TokenRevokeKyc_mTokenId m) = []"

lemma TokenRevokeKyc_read: "TokenRevokeKyc_plain L m \<Longrightarrow> \<exists>p. TokenRevokeKyc_build L m = Inr p \<and> TokenRevokeKyc_init L p (TokenRevokeKyc_default t) = Inr m"
  by (cases m) (simp add: TokenRevokeKyc_plain_def TokenRevokeKyc_build_def TokenRevokeKyc_init_def TokenRevokeKyc_default_def message_simps)

interpretation token_revoke_kyc: simple_kind TokenRevokeKyc_kind TokenRevokeKyc_plain
  by (rule simple_kindI [of _ TokenRevokeKyc_build "\<lambda>p. data_token (data_tokenrevokekyc p)" TokenRevokeKyc_init])
    (simp_all add: TokenRevokeKyc_kind_def TokenRevokeKyc_read)

section \<open>\<open>TokenPauseTransaction\<close>\<close>

record TokenPauseTransaction =
  TokenPause_mTokenId :: TokenId

definition TokenPause_default :: "time_point \<Rightarrow> TokenPauseTransaction" where
  "TokenPause_default t =
     \<lparr>TokenPause_mTokenId = TokenId_of 0 0 0 []\<rparr>"

definition TokenPause_setTokenId :: "TokenId \<Rightarrow> TokenPauseTransaction setter" where
  "TokenPause_setTokenId v = set_members (\<lambda>m. m\<lparr>TokenPause_mTokenId := v\<rparr>)"

definition TokenPause_validateChecksums :: "client_ledger \<Rightarrow> TokenPauseTransaction \<Rightarrow> unit res" where
  "TokenPause_validateChecksums client m =
     TokenId_validateChecksum client (TokenPause_mTokenId m)"

definition TokenPause_build :: "TransactionData library \<Rightarrow> TokenPauseTransaction \<Rightarrow> proto_TokenPause res" where
  "TokenPause_build L m =
       Inr \<lparr>TokenPause_token = unless_default TokenId_eq (TokenId_of 0 0 0 []) TokenId_toProtobuf (TokenPause_mTokenId m)\<rparr>"

definition TokenPause_init :: "TransactionData library \<Rightarrow> proto_TokenPause \<Rightarrow> TokenPauseTransaction \<Rightarrow> TokenPauseTransaction res" where
  "TokenPause_init L p m =
       Inr \<lparr>TokenPause_mTokenId = set_if TokenId_fromProtobuf (TokenPause_token p) (TokenPause_mTokenId m)\<rparr>"

definition TokenPause_kind :: "TokenPauseTransaction body_kind" where
  "TokenPause_kind =
     \<lparr>build_body = (\<lambda>L m. rbind (TokenPause_build L m) (\<lambda>p. Inr (data_token (data_token_pause p)))),
      init_body = (\<lambda>L d m. case d of data_token (data_token_pause p) \<Rightarrow> TokenPause_init L p m | _ \<Rightarrow> Inl InvalidArgument),
      check_body = TokenPause_validateChecksums, new_members = TokenPause_default, default_fee = None\<rparr>"

definition TokenPause_plain :: "TransactionData library \<Rightarrow> TokenPauseTransaction \<Rightarrow> bool" where
  "TokenPause_plain L m \<longleftrightarrow>
     tokenChecksum (TokenPause_mTokenId m) = []"

lemma TokenPause_read: "TokenPause_plain L m \<Longrightarrow> \<exists>p. TokenPause_build L m = Inr p \<and> TokenPause_init L p (TokenPause_default t) = Inr m"
  by (cases m) (simp add: TokenPause_plain_def TokenPause_build_def TokenPause_init_def TokenPause_default_def message_simps)

interpretation token_pause: simple_kind TokenPause_kind TokenPause_plain
  by (rule simple_kindI [of _ TokenPause_build "\<lambda>p. data_token (data_token_pause p)" TokenPause_init])
    (simp_all add: TokenPause_kind_def TokenPause_read)

section \<open>\<open>TokenUnpauseTransaction\<close>\<close>

record TokenUnpauseTransaction =
  TokenUnpause_mTokenId :: TokenId

definition TokenUnpause_default :: "time_point \<Rightarrow> TokenUnpauseTransaction" where
  "TokenUnpause_default t =
     \<lparr>TokenUnpause_mTokenId = TokenId_of 0 0 0 []\<rparr>"

definition TokenUnpause_setTokenId :: "TokenId \<Rightarrow> TokenUnpauseTransaction setter" where
  "TokenUnpause_setTokenId v = set_members (\<lambda>m. m\<lparr>TokenUnpause_mTokenId := v\<rparr>)"

definition TokenUnpause_validateChecksums :: "client_ledger \<Rightarrow> TokenUnpauseTransaction \<Rightarrow> unit res" where
  "TokenUnpause_validateChecksums client m =
     TokenId_validateChecksum client (TokenUnpause_mTokenId m)"

definition TokenUnpause_build :: "TransactionData library \<Rightarrow> TokenUnpauseTransaction \<Rightarrow> proto_TokenUnpause res" where
  "TokenUnpause_build L m =
       Inr \<lparr>TokenUnpause_token = unless_default TokenId_eq (TokenId_of 0 0 0 []) TokenId_toProtobuf (TokenUnpause_mTokenId m)\<rparr>"

definition TokenUnpause_init :: "TransactionData library \<Rightarrow> proto_TokenUnpause \<Rightarrow> TokenUnpauseTransaction \<Rightarrow> TokenUnpauseTransaction res" where
  "TokenUnpause_init L p m =
       Inr \<lparr>TokenUnpause_mTokenId = set_if TokenId_fromProtobuf (TokenUnpause_token p) (TokenUnpause_mTokenId m)\<rparr>"

definition TokenUnpause_kind :: "TokenUnpauseTransaction body_kind" where
  "TokenUnpause_kind =
     \<lparr>build_body = (\<lambda>L m. rbind (TokenUnpause_build L m) (\<lambda>p. Inr (data_token (data_token_unpause p)))),
      init_body = (\<lambda>L d m. case d of data_token (data_token_unpause p) \<Rightarrow> TokenUnpause_init L p m | _ \<Rightarrow> Inl InvalidArgument),
      check_body = TokenUnpause_validateChecksums, new_members = TokenUnpause_default, default_fee = None\<rparr>"

definition TokenUnpause_plain :: "TransactionData library \<Rightarrow> TokenUnpauseTransaction \<Rightarrow> bool" where
  "TokenUnpause_plain L m \<longleftrightarrow>
     tokenChecksum (TokenUnpause_mTokenId m) = []"

lemma TokenUnpause_read: "TokenUnpause_plain L m \<Longrightarrow> \<exists>p. TokenUnpause_build L m = Inr p \<and> TokenUnpause_init L p (TokenUnpause_default t) = Inr m"
  by (cases m) (simp add: TokenUnpause_plain_def TokenUnpause_build_def TokenUnpause_init_def TokenUnpause_default_def message_simps)

interpretation token_unpause: simple_kind TokenUnpause_kind TokenUnpause_plain
  by (rule simple_kindI [of _ TokenUnpause_build "\<lambda>p. data_token (data_token_unpause p)" TokenUnpause_init])
    (simp_all add: TokenUnpause_kind_def TokenUnpause_read)

section \<open>\<open>TokenFeeScheduleUpdateTransaction\<close>\<close>

record TokenFeeScheduleUpdateTransaction =
  TokenFeeScheduleUpdate_mTokenId :: TokenId
  TokenFeeScheduleUpdate_mCustomFees :: "CustomFee list"

definition TokenFeeScheduleUpdate_default :: "time_point \<Rightarrow> TokenFeeScheduleUpdateTransaction" where
  "TokenFeeScheduleUpdate_default t =
     \<lparr>TokenFeeScheduleUpdate_mTokenId = TokenId_of 0 0 0 [], TokenFeeScheduleUpdate_mCustomFees = []\<rparr>"

definition TokenFeeScheduleUpdate_setTokenId :: "TokenId \<Rightarrow> TokenFeeScheduleUpdateTransaction setter" where
  "TokenFeeScheduleUpdate_setTokenId v = set_members (\<lambda>m. m\<lparr>TokenFeeScheduleUpdate_mTokenId := v\<rparr>)"

definition TokenFeeScheduleUpdate_setCustomFees :: "CustomFee list \<Rightarrow> TokenFeeScheduleUpdateTransaction setter" where
  "TokenFeeScheduleUpdate_setCustomFees v = set_members (\<lambda>m. m\<lparr>TokenFeeScheduleUpdate_mCustomFees := v\<rparr>)"

definition TokenFeeScheduleUpdate_validateChecksums :: "client_ledger \<Rightarrow> TokenFeeScheduleUpdateTransaction \<Rightarrow> unit res" where
  "TokenFeeScheduleUpdate_validateChecksums client m =
     rbind (TokenId_validateChecksum client (TokenFeeScheduleUpdate_mTokenId m)) (\<lambda>_.
     reach (CustomFee_validateChecksums client) (TokenFeeScheduleUpdate_mCustomFees m))"

definition TokenFeeScheduleUpdate_build :: "TransactionData library \<Rightarrow> TokenFeeScheduleUpdateTransaction \<Rightarrow> proto_TokenFeeScheduleUpdate res" where
  "TokenFeeScheduleUpdate_build L m =
     rbind (rmap (CustomFee_toProtobuf L) (TokenFeeScheduleUpdate_mCustomFees m)) (\<lambda>custom_fees.
       Inr \<lparr>TokenFeeScheduleUpdate_token_id = unless_default TokenId_eq (TokenId_of 0 0 0 []) TokenId_toProtobuf (TokenFeeScheduleUpdate_mTokenId m),
        TokenFeeScheduleUpdate_custom_fees = custom_fees\<rparr>)"

definition TokenFeeScheduleUpdate_init :: "TransactionData library \<Rightarrow> proto_TokenFeeScheduleUpdate \<Rightarrow> TokenFeeScheduleUpdateTransaction \<Rightarrow> TokenFeeScheduleUpdateTransaction res" where
  "TokenFeeScheduleUpdate_init L p m =
     rbind (rbind (rmap (CustomFee_fromProtobuf L) (TokenFeeScheduleUpdate_custom_fees p)) (\<lambda>fs. Inr (TokenFeeScheduleUpdate_mCustomFees m @ fs))) (\<lambda>custom_fees.
       Inr \<lparr>TokenFeeScheduleUpdate_mTokenId = set_if TokenId_fromProtobuf (TokenFeeScheduleUpdate_token_id p) (TokenFeeScheduleUpdate_mTokenId m),
        TokenFeeScheduleUpdate_mCustomFees = custom_fees\<rparr>)"

definition TokenFeeScheduleUpdate_kind :: "TokenFeeScheduleUpdateTransaction body_kind" where
  "TokenFeeScheduleUpdate_kind =
     \<lparr>build_body = (\<lambda>L m. rbind (TokenFeeScheduleUpdate_build L m) (\<lambda>p. Inr (data_token (data_token_fee_schedule_update p)))),
      init_body = (\<lambda>L d m. case d of data_token (data_token_fee_schedule_update p) \<Rightarrow> TokenFeeScheduleUpdate_init L p m | _ \<Rightarrow> Inl InvalidArgument),
      check_body = TokenFeeScheduleUpdate_validateChecksums, new_members = TokenFeeScheduleUpdate_default, default_fee = None\<rparr>"

definition TokenFeeScheduleUpdate_plain :: "TransactionData library \<Rightarrow> TokenFeeScheduleUpdateTransaction \<Rightarrow> bool" where
  "TokenFeeScheduleUpdate_plain L m \<longleftrightarrow>
     tokenChecksum (TokenFeeScheduleUpdate_mTokenId m) = [] \<and>
     list_all fee_plain (TokenFeeScheduleUpdate_mCustomFees m)"

lemma TokenFeeScheduleUpdate_read: "TokenFeeScheduleUpdate_plain L m \<Longrightarrow> \<exists>p. TokenFeeScheduleUpdate_build L m = Inr p \<and> TokenFeeScheduleUpdate_init L p (TokenFeeScheduleUpdate_default t) = Inr m"
  by (cases m) (simp add: TokenFeeScheduleUpdate_plain_def TokenFeeScheduleUpdate_build_def TokenFeeScheduleUpdate_init_def TokenFeeScheduleUpdate_default_def message_simps)

interpretation token_fee_schedule_update: simple_kind TokenFeeScheduleUpdate_kind TokenFeeScheduleUpdate_plain
  by (rule simple_kindI [of _ TokenFeeScheduleUpdate_build "\<lambda>p. data_token (data_token_fee_schedule_update p)" TokenFeeScheduleUpdate_init])
    (simp_all add: TokenFeeScheduleUpdate_kind_def TokenFeeScheduleUpdate_read)

section \<open>\<open>TokenUpdateNftsTransaction\<close>\<close>

record TokenUpdateNftsTransaction =
  TokenUpdateNfts_mTokenId :: TokenId
  TokenUpdateNfts_mSerials :: "u64 list"
  TokenUpdateNfts_mMetadata :: bytes

definition TokenUpdateNfts_default :: "time_point \<Rightarrow> TokenUpdateNftsTransaction" where
  "TokenUpdateNfts_default t =
     \<lparr>TokenUpdateNfts_mTokenId = TokenId_of 0 0 0 [], TokenUpdateNfts_mSerials = [], TokenUpdateNfts_mMetadata = []\<rparr>"

definition TokenUpdateNfts_setTokenId :: "TokenId \<Rightarrow> TokenUpdateNftsTransaction setter" where
  "TokenUpdateNfts_setTokenId v = set_members (\<lambda>m. m\<lparr>TokenUpdateNfts_mTokenId := v\<rparr>)"

definition TokenUpdateNfts_setSerials :: "u64 list \<Rightarrow> TokenUpdateNftsTransaction setter" where
  "TokenUpdateNfts_setSerials v = set_members (\<lambda>m. m\<lparr>TokenUpdateNfts_mSerials := v\<rparr>)"

definition TokenUpdateNfts_setMetadata :: "bytes \<Rightarrow> TokenUpdateNftsTransaction setter" where
  "TokenUpdateNfts_setMetadata v = set_members (\<lambda>m. m\<lparr>TokenUpdateNfts_mMetadata := v\<rparr>)"

definition TokenUpdateNfts_validateChecksums :: "client_ledger \<Rightarrow> TokenUpdateNftsTransaction \<Rightarrow> unit res" where
  "TokenUpdateNfts_validateChecksums client m =
     TokenId_validateChecksum client (TokenUpdateNfts_mTokenId m)"

definition TokenUpdateNfts_build :: "TransactionData library \<Rightarrow> TokenUpdateNftsTransaction \<Rightarrow> proto_TokenUpdateNfts res" where
  "TokenUpdateNfts_build L m =
       Inr \<lparr>TokenUpdateNfts_token = Some (TokenId_toProtobuf (TokenUpdateNfts_mTokenId m)),
        TokenUpdateNfts_serial_numbers = map sint (TokenUpdateNfts_mSerials m),
        TokenUpdateNfts_metadata = Some (byteVectorToString (TokenUpdateNfts_mMetadata m))\<rparr>"

definition TokenUpdateNfts_init :: "TransactionData library \<Rightarrow> proto_TokenUpdateNfts \<Rightarrow> TokenUpdateNftsTransaction \<Rightarrow> TokenUpdateNftsTransaction res" where
  "TokenUpdateNfts_init L p m =
       Inr \<lparr>TokenUpdateNfts_mTokenId = set_if TokenId_fromProtobuf (TokenUpdateNfts_token p) (TokenUpdateNfts_mTokenId m),
        TokenUpdateNfts_mSerials = TokenUpdateNfts_mSerials m @ map of_int (TokenUpdateNfts_serial_numbers p),
        TokenUpdateNfts_mMetadata = stringToByteVector (or_default [] (TokenUpdateNfts_metadata p))\<rparr>"

definition TokenUpdateNfts_kind :: "TokenUpdateNftsTransaction body_kind" where
  "TokenUpdateNfts_kind =
     \<lparr>build_body = (\<lambda>L m. rbind (TokenUpdateNfts_build L m) (\<lambda>p. Inr (data_token (data_token_update_nfts p)))),
      init_body = (\<lambda>L d m. case d of data_token (data_token_update_nfts p) \<Rightarrow> TokenUpdateNfts_init L p m | _ \<Rightarrow> Inl InvalidArgument),
      check_body = TokenUpdateNfts_validateChecksums, new_members = TokenUpdateNfts_default, default_fee = None\<rparr>"

definition TokenUpdateNfts_plain :: "TransactionData library \<Rightarrow> TokenUpdateNftsTransaction \<Rightarrow> bool" where
  "TokenUpdateNfts_plain L m \<longleftrightarrow>
     tokenChecksum (TokenUpdateNfts_mTokenId m) = []"

lemma TokenUpdateNfts_read: "TokenUpdateNfts_plain L m \<Longrightarrow> \<exists>p. TokenUpdateNfts_build L m = Inr p \<and> TokenUpdateNfts_init L p (TokenUpdateNfts_default t) = Inr m"
  by (cases m) (simp add: TokenUpdateNfts_plain_def TokenUpdateNfts_build_def TokenUpdateNfts_init_def TokenUpdateNfts_default_def message_simps)

interpretation token_update_nfts: simple_kind TokenUpdateNfts_kind TokenUpdateNfts_plain
  by (rule simple_kindI [of _ TokenUpdateNfts_build "\<lambda>p. data_token (data_token_update_nfts p)" TokenUpdateNfts_init])
    (simp_all add: TokenUpdateNfts_kind_def TokenUpdateNfts_read)

end
