(* ===== verification/TokenDefinitions.thy ===== *)
theory TokenDefinitions
  imports SimpleKinds
begin

text \<open>
  \<open>TokenCreateTransaction\<close> and \<open>TokenUpdateTransaction\<close>.
\<close>

section \<open>\<open>TokenCreateTransaction\<close>\<close>

record TokenCreateTransaction =
  TokenCreate_mTokenName :: string
  TokenCreate_mTokenSymbol :: string
  TokenCreate_mDecimals :: u32
  TokenCreate_mInitialSupply :: u64
  TokenCreate_mTreasuryAccountId :: "AccountId option"
  TokenCreate_mAdminKey :: "Key option"
  TokenCreate_mKycKey :: "Key option"
  TokenCreate_mFreezeKey :: "Key option"
  TokenCreate_mWipeKey :: "Key option"
  TokenCreate_mSupplyKey :: "Key option"
  TokenCreate_mFreezeDefault :: bool
  TokenCreate_mExpirationTime :: time_point
  TokenCreate_mAutoRenewAccountId :: "AccountId option"
  TokenCreate_mAutoRenewPeriod :: duration
  TokenCreate_mTokenMemo :: string
  TokenCreate_mTokenType :: TokenType
  TokenCreate_mSupplyType :: TokenSupplyType
  TokenCreate_mMaxSupply :: u64
  TokenCreate_mFeeScheduleKey :: "Key option"
  TokenCreate_mCustomFees :: "CustomFee list"
  TokenCreate_mPauseKey :: "Key option"
  TokenCreate_mMetadata :: bytes
  TokenCreate_mMetadataKey :: "Key option"

definition TokenCreate_default :: "time_point \<Rightarrow> TokenCreateTransaction" where
  "TokenCreate_default t =
     \<lparr>TokenCreate_mTokenName = [], TokenCreate_mTokenSymbol = [], TokenCreate_mDecimals = 0,
      TokenCreate_mInitialSupply = 0, TokenCreate_mTreasuryAccountId = None, TokenCreate_mAdminKey = None,
      TokenCreate_mKycKey = None, TokenCreate_mFreezeKey = None, TokenCreate_mWipeKey = None,
      TokenCreate_mSupplyKey = None, TokenCreate_mFreezeDefault = False,
      TokenCreate_mExpirationTime = t + DEFAULT_AUTO_RENEW_PERIOD, TokenCreate_mAutoRenewAccountId = None,
      TokenCreate_mAutoRenewPeriod = DEFAULT_AUTO_RENEW_PERIOD, TokenCreate_mTokenMemo = [],
      TokenCreate_mTokenType = FUNGIBLE_COMMON, TokenCreate_mSupplyType = INFINITE, TokenCreate_mMaxSupply = 0,
      TokenCreate_mFeeScheduleKey = None, TokenCreate_mCustomFees = [], TokenCreate_mPauseKey = None,
      TokenCreate_mMetadata = [], TokenCreate_mMetadataKey = None\<rparr>"

definition TokenCreate_setTokenName :: "string \<Rightarrow> TokenCreateTransaction setter" where
  "TokenCreate_setTokenName v = set_members (\<lambda>m. m\<lparr>TokenCreate_mTokenName := v\<rparr>)"

definition TokenCreate_setTokenSymbol :: "string \<Rightarrow> TokenCreateTransaction setter" where
  "TokenCreate_setTokenSymbol v = set_members (\<lambda>m. m\<lparr>TokenCreate_mTokenSymbol := v\<rparr>)"

definition TokenCreate_setDecimals :: "u32 \<Rightarrow> TokenCreateTransaction setter" where
  "TokenCreate_setDecimals v = set_members (\<lambda>m. m\<lparr>TokenCreate_mDecimals := v\<rparr>)"

definition TokenCreate_setInitialSupply :: "u64 \<Rightarrow> TokenCreateTransaction setter" where
  "TokenCreate_setInitialSupply v = set_members (\<lambda>m. m\<lparr>TokenCreate_mInitialSupply := v\<rparr>)"

definition TokenCreate_setTreasuryAccountId :: "AccountId \<Rightarrow> TokenCreateTransaction setter" where
  "TokenCreate_setTreasuryAccountId v = set_members (\<lambda>m. m\<lparr>TokenCreate_mTreasuryAccountId := Some v\<rparr>)"

definition TokenCreate_setAdminKey :: "Key \<Rightarrow> TokenCreateTransaction setter" where
  "TokenCreate_setAdminKey v = set_members (\<lambda>m. m\<lparr>TokenCreate_mAdminKey := Some v\<rparr>)"

definition TokenCreate_setKycKey :: "Key \<Rightarrow> TokenCreateTransaction setter" where
  "TokenCreate_setKycKey v = set_members (\<lambda>m. m\<lparr>TokenCreate_mKycKey := Some v\<rparr>)"

definition TokenCreate_setFreezeKey :: "Key \<Rightarrow> TokenCreateTransaction setter" where
  "TokenCreate_setFreezeKey v = set_members (\<lambda>m. m\<lparr>TokenCreate_mFreezeKey := Some v\<rparr>)"

definition TokenCreate_setWipeKey :: "Key \<Rightarrow> TokenCreateTransaction setter" where
  "TokenCreate_setWipeKey v = set_members (\<lambda>m. m\<lparr>TokenCreate_mWipeKey := Some v\<rparr>)"

definition TokenCreate_setSupplyKey :: "Key \<Rightarrow> TokenCreateTransaction setter" where
  "TokenCreate_setSupplyKey v = set_members (\<lambda>m. m\<lparr>TokenCreate_mSupplyKey := Some v\<rparr>)"

definition TokenCreate_setFreezeDefault :: "bool \<Rightarrow> TokenCreateTransaction setter" where
  "TokenCreate_setFreezeDefault v = set_members (\<lambda>m. m\<lparr>TokenCreate_mFreezeDefault := v\<rparr>)"

definition TokenCreate_setExpirationTime :: "time_point \<Rightarrow> TokenCreateTransaction setter" where
  "TokenCreate_setExpirationTime v = set_members (\<lambda>m. m\<lparr>TokenCreate_mExpirationTime := v\<rparr>)"

definition TokenCreate_setAutoRenewAccountId :: "AccountId \<Rightarrow> TokenCreateTransaction setter" where
  "TokenCreate_setAutoRenewAccountId v = set_members (\<lambda>m. m\<lparr>TokenCreate_mAutoRenewAccountId := Some v\<rparr>)"

definition TokenCreate_setAutoRenewPeriod :: "duration \<Rightarrow> TokenCreateTransaction setter" where
  "TokenCreate_setAutoRenewPeriod v = set_members (\<lambda>m. m\<lparr>TokenCreate_mAutoRenewPeriod := v\<rparr>)"

definition TokenCreate_setTokenMemo :: "string \<Rightarrow> TokenCreateTransaction setter" where
  "TokenCreate_setTokenMemo v = set_members (\<lambda>m. m\<lparr>TokenCreate_mTokenMemo := v\<rparr>)"

definition TokenCreate_setTokenType :: "TokenType \<Rightarrow> TokenCreateTransaction setter" where
  "TokenCreate_setTokenType v = set_members (\<lambda>m. m\<lparr>TokenCreate_mTokenType := v\<rparr>)"

definition TokenCreate_setSupplyType :: "TokenSupplyType \<Rightarrow> TokenCreateTransaction setter" where
  "TokenCreate_setSupplyType v = set_members (\<lambda>m. m\<lparr>TokenCreate_mSupplyType := v\<rparr>)"

definition TokenCreate_setMaxSupply :: "u64 \<Rightarrow> TokenCreateTransaction setter" where
  "TokenCreate_setMaxSupply v = set_members (\<lambda>m. m\<lparr>TokenCreate_mMaxSupply := v\<rparr>)"

definition TokenCreate_setFeeScheduleKey :: "Key \<Rightarrow> TokenCreateTransaction setter" where
  "TokenCreate_setFeeScheduleKey v = set_members (\<lambda>m. m\<lparr>TokenCreate_mFeeScheduleKey := Some v\<rparr>)"

definition TokenCreate_setCustomFees :: "CustomFee list \<Rightarrow> TokenCreateTransaction setter" where
  "TokenCreate_setCustomFees v = set_members (\<lambda>m. m\<lparr>TokenCreate_mCustomFees := v\<rparr>)"

definition TokenCreate_setPauseKey :: "Key \<Rightarrow> TokenCreateTransaction setter" where
  "TokenCreate_setPauseKey v = set_members (\<lambda>m. m\<lparr>TokenCreate_mPauseKey := Some v\<rparr>)"

definition TokenCreate_setMetadata :: "bytes \<Rightarrow> TokenCreateTransaction setter" where
  "TokenCreate_setMetadata v = set_members (\<lambda>m. m\<lparr>TokenCreate_mMetadata := v\<rparr>)"

definition TokenCreate_setMetadataKey :: "Key \<Rightarrow> TokenCreateTransaction setter" where
  "TokenCreate_setMetadataKey v = set_members (\<lambda>m. m\<lparr>TokenCreate_mMetadataKey := Some v\<rparr>)"

definition TokenCreate_validateChecksums :: "client_ledger \<Rightarrow> TokenCreateTransaction \<Rightarrow> unit res" where
  "TokenCreate_validateChecksums client m =
     rbind (check_opt AccountId_validateChecksum client (TokenCreate_mTreasuryAccountId m)) (\<lambda>_.
     rbind (check_opt AccountId_validateChecksum client (TokenCreate_mAutoRenewAccountId m)) (\<lambda>_.
     reach (CustomFee_validateChecksums client) (TokenCreate_mCustomFees m)))"

definition TokenCreate_build :: "TransactionData library \<Rightarrow> TokenCreateTransaction \<Rightarrow> proto_TokenCreate res" where
  "TokenCreate_build L m =
     rbind (ropt (account_out L) (TokenCreate_mTreasuryAccountId m)) (\<lambda>treasury.
     rbind (ropt (key_out L) (TokenCreate_mAdminKey m)) (\<lambda>adminkey.
     rbind (ropt (key_out L) (TokenCreate_mKycKey m)) (\<lambda>kyckey.
     rbind (ropt (key_out L) (TokenCreate_mFreezeKey m)) (\<lambda>freezekey.
     rbind (ropt (key_out L) (TokenCreate_mWipeKey m)) (\<lambda>wipekey.
     rbind (ropt (key_out L) (TokenCreate_mSupplyKey m)) (\<lambda>supplykey.
     rbind (ropt (account_out L) (TokenCreate_mAutoRenewAccountId m)) (\<lambda>autorenewaccount.
     rbind (enum_out gTokenType (TokenCreate_mTokenType m)) (\<lambda>tokentype.
     rbind (enum_out gTokenSupplyType (TokenCreate_mSupplyType m)) (\<lambda>supplytype.
     rbind (ropt (key_out L) (TokenCreate_mFeeScheduleKey m)) (\<lambda>fee_schedule_key.
     rbind (rmap (CustomFee_toProtobuf L) (TokenCreate_mCustomFees m)) (\<lambda>custom_fees.
     rbind (ropt (key_out L) (TokenCreate_mPauseKey m)) (\<lambda>pause_key.
     rbind (ropt (key_out L) (TokenCreate_mMetadataKey m)) (\<lambda>metadata_key.
       Inr \<lparr>TokenCreate_name = TokenCreate_mTokenName m, TokenCreate_symbol = TokenCreate_mTokenSymbol m,
        TokenCreate_decimals = TokenCreate_mDecimals m, TokenCreate_initialsupply = TokenCreate_mInitialSupply m,
        TokenCreate_treasury = treasury, TokenCreate_adminkey = adminkey, TokenCreate_kyckey = kyckey,
        TokenCreate_freezekey = freezekey, TokenCreate_wipekey = wipekey, TokenCreate_supplykey = supplykey,
        TokenCreate_freezedefault = TokenCreate_mFreezeDefault m,
        TokenCreate_expiry = Some (Timestamp_toProtobuf (TokenCreate_mExpirationTime m)),
        TokenCreate_autorenewaccount = autorenewaccount,
        TokenCreate_autorenewperiod = Some (Duration_toProtobuf (TokenCreate_mAutoRenewPeriod m)),
        TokenCreate_memo = TokenCreate_mTokenMemo m, TokenCreate_tokentype = tokentype,
        TokenCreate_supplytype = supplytype, TokenCreate_maxsupply = sint (TokenCreate_mMaxSupply m),
        TokenCreate_fee_schedule_key = fee_schedule_key, TokenCreate_custom_fees = custom_fees,
        TokenCreate_pause_key = pause_key, TokenCreate_metadata = byteVectorToString (TokenCreate_mMetadata m),
        TokenCreate_metadata_key = metadata_key\<rparr>)))))))))))))"

definition TokenCreate_init :: "TransactionData library \<Rightarrow> proto_TokenCreate \<Rightarrow> TokenCreateTransaction \<Rightarrow> TokenCreateTransaction res" where
  "TokenCreate_init L p m =
     rbind (read_opt_if (account_in L) (TokenCreate_treasury p) (TokenCreate_mTreasuryAccountId m)) (\<lambda>treasury.
     rbind (read_opt_if (key_in L) (TokenCreate_adminkey p) (TokenCreate_mAdminKey m)) (\<lambda>adminkey.
     rbind (read_opt_if (key_in L) (TokenCreate_kyckey p) (TokenCreate_mKycKey m)) (\<lambda>kyckey.
     rbind (read_opt_if (key_in L) (TokenCreate_freezekey p) (TokenCreate_mFreezeKey m)) (\<lambda>freezekey.
     rbind (read_opt_if (key_in L) (TokenCreate_wipekey p) (TokenCreate_mWipeKey m)) (\<lambda>wipekey.
     rbind (read_opt_if (key_in L) (TokenCreate_supplykey p) (TokenCreate_mSupplyKey m)) (\<lambda>supplykey.
     rbind (read_if Timestamp_fromProtobuf (TokenCreate_expiry p) (TokenCreate_mExpirationTime m)) (\<lambda>expiry.
     rbind (read_opt_if (account_in L) (TokenCreate_autorenewaccount p) (TokenCreate_mAutoRenewAccountId m)) (\<lambda>autorenewaccount.
     rbind (read_if Duration_fromProtobuf (TokenCreate_autorenewperiod p) (TokenCreate_mAutoRenewPeriod m)) (\<lambda>autorenewperiod.
     rbind (enum_at gTokenType (TokenCreate_tokentype p)) (\<lambda>tokentype.
     rbind (enum_at gTokenSupplyType (TokenCreate_supplytype p)) (\<lambda>supplytype.
     rbind (read_opt_if (key_in L) (TokenCreate_fee_schedule_key p) (TokenCreate_mFeeScheduleKey m)) (\<lambda>fee_schedule_key.
     rbind (rbind (rmap (CustomFee_fromProtobuf L) (TokenCreate_custom_fees p)) (\<lambda>fs. Inr (TokenCreate_mCustomFees m @ fs))) (\<lambda>custom_fees.
     rbind (read_opt_if (key_in L) (TokenCreate_pause_key p) (TokenCreate_mPauseKey m)) (\<lambda>pause_key.
     rbind (read_opt_if (key_in L) (TokenCreate_metadata_key p) (TokenCreate_mMetadataKey m)) (\<lambda>metadata_key.
       Inr \<lparr>TokenCreate_mTokenName = TokenCreate_name p, TokenCreate_mTokenSymbol = TokenCreate_symbol p,
        TokenCreate_mDecimals = TokenCreate_decimals p, TokenCreate_mInitialSupply = TokenCreate_initialsupply p,
        TokenCreate_mTreasuryAccountId = treasury, TokenCreate_mAdminKey = adminkey, TokenCreate_mKycKey = kyckey,
        TokenCreate_mFreezeKey = freezekey, TokenCreate_mWipeKey = wipekey, TokenCreate_mSupplyKey = supplykey,
        TokenCreate_mFreezeDefault = TokenCreate_freezedefault p, TokenCreate_mExpirationTime = expiry,
        TokenCreate_mAutoRenewAccountId = autorenewaccount, TokenCreate_mAutoRenewPeriod = autorenewperiod,
        TokenCreate_mTokenMemo = TokenCreate_memo p, TokenCreate_mTokenType = tokentype,
        TokenCreate_mSupplyType = supplytype, TokenCreate_mMaxSupply = of_int (TokenCreate_maxsupply p),
        TokenCreate_mFeeScheduleKey = fee_schedule_key, TokenCreate_mCustomFees = custom_fees,
        TokenCreate_mPauseKey = pause_key, TokenCreate_mMetadata = stringToByteVector (TokenCreate_metadata p),
        TokenCreate_mMetadataKey = metadata_key\<rparr>)))))))))))))))"

definition TokenCreate_kind :: "TokenCreateTransaction body_kind" where
  "TokenCreate_kind =
     \<lparr>build_body = (\<lambda>L m. rbind (TokenCreate_build L m) (\<lambda>p. Inr (data_token (data_tokencreation p)))),
      init_body = (\<lambda>L d m. case d of data_token (data_tokencreation p) \<Rightarrow> TokenCreate_init L p m | _ \<Rightarrow> Inl InvalidArgument),
      check_body = TokenCreate_validateChecksums, new_members = TokenCreate_default, default_fee = Some \<lparr>mValueInTinybar = 4000000000\<rparr>\<rparr>"

definition TokenCreate_plain :: "TransactionData library \<Rightarrow> TokenCreateTransaction \<Rightarrow> bool" where
  "TokenCreate_plain L m \<longleftrightarrow>
     pred_option account_plain (TokenCreate_mTreasuryAccountId m) \<and>
     pred_option (key_plain (lib_ssl L)) (TokenCreate_mAdminKey m) \<and>
     pred_option (key_plain (lib_ssl L)) (TokenCreate_mKycKey m) \<and>
     pred_option (key_plain (lib_ssl L)) (TokenCreate_mFreezeKey m) \<and>
     pred_option (key_plain (lib_ssl L)) (TokenCreate_mWipeKey m) \<and>
     pred_option (key_plain (lib_ssl L)) (TokenCreate_mSupplyKey m) \<and>
     time_ok (TokenCreate_mExpirationTime m) \<and>
     pred_option account_plain (TokenCreate_mAutoRenewAccountId m) \<and>
     whole_seconds (TokenCreate_mAutoRenewPeriod m) \<and>
     pred_option (key_plain (lib_ssl L)) (TokenCreate_mFeeScheduleKey m) \<and>
     list_all fee_plain (TokenCreate_mCustomFees m) \<and>
     pred_option (key_plain (lib_ssl L)) (TokenCreate_mPauseKey m) \<and>
     pred_option (key_plain (lib_ssl L)) (TokenCreate_mMetadataKey m)"

lemma TokenCreate_read: "TokenCreate_plain L m \<Longrightarrow> \<exists>p. TokenCreate_build L m = Inr p \<and> TokenCreate_init L p (TokenCreate_default t) = Inr m"
  by (cases m) (simp add: TokenCreate_plain_def TokenCreate_build_def TokenCreate_init_def TokenCreate_default_def message_simps)

interpretation token_create: simple_kind TokenCreate_kind TokenCreate_plain
  by (rule simple_kindI [of _ TokenCreate_build "\<lambda>p. data_token (data_tokencreation p)" TokenCreate_init])
    (simp_all add: TokenCreate_kind_def TokenCreate_read)

section \<open>\<open>TokenUpdateTransaction\<close>\<close>

record TokenUpdateTransaction =
  TokenUpdate_mTokenId :: TokenId
  TokenUpdate_mTokenName :: "string option"
  TokenUpdate_mTokenSymbol :: "string option"
  TokenUpdate_mTreasuryAccountId :: "AccountId option"
  TokenUpdate_mAdminKey :: "Key option"
  TokenUpdate_mKycKey :: "Key option"
  TokenUpdate_mFreezeKey :: "Key option"
  TokenUpdate_mWipeKey :: "Key option"
  TokenUpdate_mSupplyKey :: "Key option"
  TokenUpdate_mAutoRenewAccountId :: "AccountId option"
  TokenUpdate_mAutoRenewPeriod :: "duration option"
  TokenUpdate_mExpirationTime :: "time_point option"
  TokenUpdate_mTokenMemo :: "string option"
  TokenUpdate_mFeeScheduleKey :: "Key option"
  TokenUpdate_mPauseKey :: "Key option"
  TokenUpdate_mMetadata :: bytes
  TokenUpdate_mMetadataKey :: "Key option"
  TokenUpdate_mKeyVerificationMode :: TokenKeyValidation

definition TokenUpdate_default :: "time_point \<Rightarrow> TokenUpdateTransaction" where
  "TokenUpdate_default t =
     \<lparr>TokenUpdate_mTokenId = TokenId_of 0 0 0 [], TokenUpdate_mTokenName = None, TokenUpdate_mTokenSymbol = None,
      TokenUpdate_mTreasuryAccountId = None, TokenUpdate_mAdminKey = None, TokenUpdate_mKycKey = None,
      TokenUpdate_mFreezeKey = None, TokenUpdate_mWipeKey = None, TokenUpdate_mSupplyKey = None,
      TokenUpdate_mAutoRenewAccountId = None, TokenUpdate_mAutoRenewPeriod = None,
      TokenUpdate_mExpirationTime = None, TokenUpdate_mTokenMemo = None, TokenUpdate_mFeeScheduleKey = None,
      TokenUpdate_mPauseKey = None, TokenUpdate_mMetadata = [], TokenUpdate_mMetadataKey = None,
      TokenUpdate_mKeyVerificationMode = FULL_VALIDATION\<rparr>"

definition TokenUpdate_setTokenId :: "TokenId \<Rightarrow> TokenUpdateTransaction setter" where
  "TokenUpdate_setTokenId v = set_members (\<lambda>m. m\<lparr>TokenUpdate_mTokenId := v\<rparr>)"

definition TokenUpdate_setTokenName :: "string \<Rightarrow> TokenUpdateTransaction setter" where
  "TokenUpdate_setTokenName v = set_members (\<lambda>m. m\<lparr>TokenUpdate_mTokenName := Some v\<rparr>)"

definition TokenUpdate_setTokenSymbol :: "string \<Rightarrow> TokenUpdateTransaction setter" where
  "TokenUpdate_setTokenSymbol v = set_members (\<lambda>m. m\<lparr>TokenUpdate_mTokenSymbol := Some v\<rparr>)"

definition TokenUpdate_setTreasuryAccountId :: "AccountId \<Rightarrow> TokenUpdateTransaction setter" where
  "TokenUpdate_setTreasuryAccountId v = set_members (\<lambda>m. m\<lparr>TokenUpdate_mTreasuryAccountId := Some v\<rparr>)"

definition TokenUpdate_setAdminKey :: "Key \<Rightarrow> TokenUpdateTransaction setter" where
  "TokenUpdate_setAdminKey v = set_members (\<lambda>m. m\<lparr>TokenUpdate_mAdminKey := Some v\<rparr>)"

definition TokenUpdate_setKycKey :: "Key \<Rightarrow> TokenUpdateTransaction setter" where
  "TokenUpdate_setKycKey v = set_members (\<lambda>m. m\<lparr>TokenUpdate_mKycKey := Some v\<rparr>)"

definition TokenUpdate_setFreezeKey :: "Key \<Rightarrow> TokenUpdateTransaction setter" where
  "TokenUpdate_setFreezeKey v = set_members (\<lambda>m. m\<lparr>TokenUpdate_mFreezeKey := Some v\<rparr>)"

definition TokenUpdate_setWipeKey :: "Key \<Rightarrow> TokenUpdateTransaction setter" where
  "TokenUpdate_setWipeKey v = set_members (\<lambda>m. m\<lparr>TokenUpdate_mWipeKey := Some v\<rparr>)"

definition TokenUpdate_setSupplyKey :: "Key \<Rightarrow> TokenUpdateTransaction setter" where
  "TokenUpdate_setSupplyKey v = set_members (\<lambda>m. m\<lparr>TokenUpdate_mSupplyKey := Some v\<rparr>)"

definition TokenUpdate_setAutoRenewAccountId :: "AccountId \<Rightarrow> TokenUpdateTransaction setter" where
  "TokenUpdate_setAutoRenewAccountId v = set_members (\<lambda>m. m\<lparr>TokenUpdate_mAutoRenewAccountId := Some v\<rparr>)"

definition TokenUpdate_setAutoRenewPeriod :: "duration \<Rightarrow> TokenUpdateTransaction setter" where
  "TokenUpdate_setAutoRenewPeriod v = set_members (\<lambda>m. m\<lparr>TokenUpdate_mAutoRenewPeriod := Some v\<rparr>)"

definition TokenUpdate_setExpirationTime :: "time_point \<Rightarrow> TokenUpdateTransaction setter" where
  "TokenUpdate_setExpirationTime v = set_members (\<lambda>m. m\<lparr>TokenUpdate_mExpirationTime := Some v\<rparr>)"

definition TokenUpdate_setTokenMemo :: "string \<Rightarrow> TokenUpdateTransaction setter" where
  "TokenUpdate_setTokenMemo v = set_members (\<lambda>m. m\<lparr>TokenUpdate_mTokenMemo := Some v\<rparr>)"

definition TokenUpdate_setFeeScheduleKey :: "Key \<Rightarrow> TokenUpdateTransaction setter" where
  "TokenUpdate_setFeeScheduleKey v = set_members (\<lambda>m. m\<lparr>TokenUpdate_mFeeScheduleKey := Some v\<rparr>)"

definition TokenUpdate_setPauseKey :: "Key \<Rightarrow> TokenUpdateTransaction setter" where
  "TokenUpdate_setPauseKey v = set_members (\<lambda>m. m\<lparr>TokenUpdate_mPauseKey := Some v\<rparr>)"

definition TokenUpdate_setMetadata :: "bytes \<Rightarrow> TokenUpdateTransaction setter" where
  "TokenUpdate_setMetadata v = set_members (\<lambda>m. m\<lparr>TokenUpdate_mMetadata := v\<rparr>)"

definition TokenUpdate_setMetadataKey :: "Key \<Rightarrow> TokenUpdateTransaction setter" where
  "TokenUpdate_setMetadataKey v = set_members (\<lambda>m. m\<lparr>TokenUpdate_mMetadataKey := Some v\<rparr>)"

definition TokenUpdate_setTokenVerificationMode :: "TokenKeyValidation \<Rightarrow> TokenUpdateTransaction setter" where
  "TokenUpdate_setTokenVerificationMode v = set_members (\<lambda>m. m\<lparr>TokenUpdate_mKeyVerificationMode := v\<rparr>)"

definition TokenUpdate_validateChecksums :: "client_ledger \<Rightarrow> TokenUpdateTransaction \<Rightarrow> unit res" where
  "TokenUpdate_validateChecksums client m =
     rbind (TokenId_validateChecksum client (TokenUpdate_mTokenId m)) (\<lambda>_.
     rbind (check_opt AccountId_validateChecksum client (TokenUpdate_mTreasuryAccountId m)) (\<lambda>_.
     check_opt AccountId_validateChecksum client (TokenUpdate_mAutoRenewAccountId m)))"

definition TokenUpdate_build :: "TransactionData library \<Rightarrow> TokenUpdateTransaction \<Rightarrow> proto_TokenUpdate res" where
  "TokenUpdate_build L m =
     rbind (ropt (account_out L) (TokenUpdate_mTreasuryAccountId m)) (\<lambda>treasury.
     rbind (ropt (key_out L) (TokenUpdate_mAdminKey m)) (\<lambda>adminkey.
     rbind (ropt (key_out L) (TokenUpdate_mKycKey m)) (\<lambda>kyckey.
     rbind (ropt (key_out L) (TokenUpdate_mFreezeKey m)) (\<lambda>freezekey.
     rbind (ropt (key_out L) (TokenUpdate_mWipeKey m)) (\<lambda>wipekey.
     rbind (ropt (key_out L) (TokenUpdate_mSupplyKey m)) (\<lambda>supplykey.
     rbind (ropt (account_out L) (TokenUpdate_mAutoRenewAccountId m)) (\<lambda>autorenewaccount.
     rbind (ropt (key_out L) (TokenUpdate_mFeeScheduleKey m)) (\<lambda>fee_schedule_key.
     rbind (ropt (key_out L) (TokenUpdate_mPauseKey m)) (\<lambda>pause_key.
     rbind (ropt (key_out L) (TokenUpdate_mMetadataKey m)) (\<lambda>metadata_key.
     rbind (enum_out gTokenKeyValidation (TokenUpdate_mKeyVerificationMode m)) (\<lambda>key_verification_mode.
       Inr \<lparr>TokenUpdate_token = Some (TokenId_toProtobuf (TokenUpdate_mTokenId m)),
        TokenUpdate_name = or_default [] (TokenUpdate_mTokenName m),
        TokenUpdate_symbol = or_default [] (TokenUpdate_mTokenSymbol m), TokenUpdate_treasury = treasury,
        TokenUpdate_adminkey = adminkey, TokenUpdate_kyckey = kyckey, TokenUpdate_freezekey = freezekey,
        TokenUpdate_wipekey = wipekey, TokenUpdate_supplykey = supplykey,
        TokenUpdate_autorenewaccount = autorenewaccount,
        TokenUpdate_autorenewperiod = map_option Duration_toProtobuf (TokenUpdate_mAutoRenewPeriod m),
        TokenUpdate_expiry = map_option Timestamp_toProtobuf (TokenUpdate_mExpirationTime m),
        TokenUpdate_memo = TokenUpdate_mTokenMemo m, TokenUpdate_fee_schedule_key = fee_schedule_key,
        TokenUpdate_pause_key = pause_key,
        TokenUpdate_metadata = if TokenUpdate_mMetadata m = [] then None else Some (byteVectorToString (TokenUpdate_mMetadata m)),
        TokenUpdate_metadata_key = metadata_key, TokenUpdate_key_verification_mode = key_verification_mode\<rparr>)))))))))))"

definition TokenUpdate_init :: "TransactionData library \<Rightarrow> proto_TokenUpdate \<Rightarrow> TokenUpdateTransaction \<Rightarrow> TokenUpdateTransaction res" where
  "TokenUpdate_init L p m =
     rbind (read_opt_if (account_in L) (TokenUpdate_treasury p) (TokenUpdate_mTreasuryAccountId m)) (\<lambda>treasury.
     rbind (read_opt_if (key_in L) (TokenUpdate_adminkey p) (TokenUpdate_mAdminKey m)) (\<lambda>adminkey.
     rbind (read_opt_if (key_in L) (TokenUpdate_kyckey p) (TokenUpdate_mKycKey m)) (\<lambda>kyckey.
     rbind (read_opt_if (key_in L) (TokenUpdate_freezekey p) (TokenUpdate_mFreezeKey m)) (\<lambda>freezekey.
     rbind (read_opt_if (key_in L) (TokenUpdate_wipekey p) (TokenUpdate_mWipeKey m)) (\<lambda>wipekey.
     rbind (read_opt_if (key_in L) (TokenUpdate_supplykey p) (TokenUpdate_mSupplyKey m)) (\<lambda>supplykey.
     rbind (read_opt_if (account_in L) (TokenUpdate_autorenewaccount p) (TokenUpdate_mAutoRenewAccountId m)) (\<lambda>autorenewaccount.
     rbind (read_opt_if Duration_fromProtobuf (TokenUpdate_autorenewperiod p) (TokenUpdate_mAutoRenewPeriod m)) (\<lambda>autorenewperiod.
     rbind (read_opt_if Timestamp_fromProtobuf (TokenUpdate_expiry p) (TokenUpdate_mExpirationTime m)) (\<lambda>expiry.
     rbind (read_opt_if (key_in L) (TokenUpdate_fee_schedule_key p) (TokenUpdate_mFeeScheduleKey m)) (\<lambda>fee_schedule_key.
     rbind (read_opt_if (key_in L) (TokenUpdate_pause_key p) (TokenUpdate_mPauseKey m)) (\<lambda>pause_key.
     rbind (read_opt_if (key_in L) (TokenUpdate_metadata_key p) (TokenUpdate_mMetadataKey m)) (\<lambda>metadata_key.
     rbind (enum_at gTokenKeyValidation (TokenUpdate_key_verification_mode p)) (\<lambda>key_verification_mode.
       Inr \<lparr>TokenUpdate_mTokenId = set_if TokenId_fromProtobuf (TokenUpdate_token p) (TokenUpdate_mTokenId m),
        TokenUpdate_mTokenName = Some (TokenUpdate_name p), TokenUpdate_mTokenSymbol = Some (TokenUpdate_symbol p),
        TokenUpdate_mTreasuryAccountId = treasury, TokenUpdate_mAdminKey = adminkey, TokenUpdate_mKycKey = kyckey,
        TokenUpdate_mFreezeKey = freezekey, TokenUpdate_mWipeKey = wipekey, TokenUpdate_mSupplyKey = supplykey,
        TokenUpdate_mAutoRenewAccountId = autorenewaccount, TokenUpdate_mAutoRenewPeriod = autorenewperiod,
        TokenUpdate_mExpirationTime = expiry,
        TokenUpdate_mTokenMemo = set_opt_if (\<lambda>v. v) (TokenUpdate_memo p) (TokenUpdate_mTokenMemo m),
        TokenUpdate_mFeeScheduleKey = fee_schedule_key, TokenUpdate_mPauseKey = pause_key,
        TokenUpdate_mMetadata = stringToByteVector (or_default [] (TokenUpdate_metadata p)),
        TokenUpdate_mMetadataKey = metadata_key, TokenUpdate_mKeyVerificationMode = key_verification_mode\<rparr>)))))))))))))"

definition TokenUpdate_kind :: "TokenUpdateTransaction body_kind" where
  "TokenUpdate_kind =
     \<lparr>build_body = (\<lambda>L m. rbind (TokenUpdate_build L m) (\<lambda>p. Inr (data_token (data_tokenupdate p)))),
      init_body = (\<lambda>L d m. case d of data_token (data_tokenupdate p) \<Rightarrow> TokenUpdate_init L p m | _ \<Rightarrow> Inl InvalidArgument),
      check_body = TokenUpdate_validateChecksums, new_members = TokenUpdate_default, default_fee = None\<rparr>"

definition TokenUpdate_plain :: "TransactionData library \<Rightarrow> TokenUpdateTransaction \<Rightarrow> bool" where
  "TokenUpdate_plain L m \<longleftrightarrow>
     tokenChecksum (TokenUpdate_mTokenId m) = [] \<and>
     TokenUpdate_mTokenName m \<noteq> None \<and>
     TokenUpdate_mTokenSymbol m \<noteq> None \<and>
     pred_option account_plain (TokenUpdate_mTreasuryAccountId m) \<and>
     pred_option (key_plain (lib_ssl L)) (TokenUpdate_mAdminKey m) \<and>
     pred_option (key_plain (lib_ssl L)) (TokenUpdate_mKycKey m) \<and>
     pred_option (key_plain (lib_ssl L)) (TokenUpdate_mFreezeKey m) \<and>
     pred_option (key_plain (lib_ssl L)) (TokenUpdate_mWipeKey m) \<and>
     pred_option (key_plain (lib_ssl L)) (TokenUpdate_mSupplyKey m) \<and>
     pred_option account_plain (TokenUpdate_mAutoRenewAccountId m) \<and>
     pred_option whole_seconds (TokenUpdate_mAutoRenewPeriod m) \<and>
     pred_option time_ok (TokenUpdate_mExpirationTime m) \<and>
     pred_option (key_plain (lib_ssl L)) (TokenUpdate_mFeeScheduleKey m) \<and>
     pred_option (key_plain (lib_ssl L)) (TokenUpdate_mPauseKey m) \<and>
     pred_option (key_plain (lib_ssl L)) (TokenUpdate_mMetadataKey m)"

lemma TokenUpdate_read: "TokenUpdate_plain L m \<Longrightarrow> \<exists>p. TokenUpdate_build L m = Inr p \<and> TokenUpdate_init L p (TokenUpdate_default t) = Inr m"
  by (cases m) (simp add: TokenUpdate_plain_def TokenUpdate_build_def TokenUpdate_init_def TokenUpdate_default_def message_simps)

interpretation token_update: simple_kind TokenUpdate_kind TokenUpdate_plain
  by (rule simple_kindI [of _ TokenUpdate_build "\<lambda>p. data_token (data_tokenupdate p)" TokenUpdate_init])
    (simp_all add: TokenUpdate_kind_def TokenUpdate_read)

end
