(* ===== verification/KindResults.thy ===== *)
theory KindResults
  imports AccountTransactions FileTransactions ContractTransactions NetworkTransactions TokenTransactions TokenDefinitions Transfers
begin

text \<open>
  What holds of the simple kinds of transactions: which are read back from the body of their message,
  and what is lost.
\<close>

section \<open>Reading back\<close>


text \<open>A new transaction of a kind with an ID.\<close>

definition example_simple :: "'m body_kind \<Rightarrow> 'm SimpleTransaction" where
  "example_simple K = (simple_default K 0)\<lparr>mTransactionId := Some (withValidStart (account 2) 5)\<rparr>"

lemma example_simple_simps [simp]:
  "members (example_simple K) = new_members K 0" "ordinary (example_simple K)"
  "mTransactionMemo (example_simple K) = []"
  by (auto simp: example_simple_def simple_default_def ordinary_def Transaction_fields_def Executable_default_def
      Executable.defs Transaction.defs withValidStart_def TransactionId_default_def time_ok_def whole_seconds_def
      setDefaultMaxTransactionFee_def DEFAULT_TRANSACTION_VALID_DURATION_def minutes_def seconds_def
      milliseconds_def signed_divide_int_def split: option.split)


lemma ordinary_members [simp]: "ordinary (x\<lparr>members := m\<rparr>) = ordinary x"
  by (simp add: ordinary_def)







section \<open>The choice of what an account is staked to\<close>

abbreviation one_staked :: "AccountUpdateTransaction SimpleTransaction \<Rightarrow> bool" where
  "one_staked x \<equiv> AccountUpdate_mStakedAccountId (members x) = None \<or> AccountUpdate_mStakedNodeId (members x) = None"

lemma keeps_set_members [keeps_intros]: "(\<And>x. I x \<Longrightarrow> I (x\<lparr>members := f (members x)\<rparr>)) \<Longrightarrow> keeps I (set_members f)"
  unfolding set_members_def by (intro keeps_intros) (auto simp: keeps_def requireNotFrozen_def)

text \<open>
  C34. An account update is never staked both to an account and to a node: every setter keeps at most
  one of the two, and the message holds the one that was set or cleared last.
\<close>

theorem staked_exclusive:
  "keeps one_staked (AccountUpdate_setAccountId a) \<and> keeps one_staked (AccountUpdate_setKey k) \<and>
   keeps one_staked (AccountUpdate_setReceiverSignatureRequired r) \<and> keeps one_staked (AccountUpdate_setAutoRenewPeriod d) \<and>
   keeps one_staked (AccountUpdate_setExpirationTime t) \<and> keeps one_staked (AccountUpdate_setAccountMemo memo) \<and>
   keeps one_staked AccountUpdate_clearAccountMemo \<and> keeps one_staked (AccountUpdate_setMaxAutomaticTokenAssociations n) \<and>
   keeps one_staked (AccountUpdate_setStakedAccountId s) \<and> keeps one_staked AccountUpdate_clearStakedAccountId \<and>
   keeps one_staked (AccountUpdate_setStakedNodeId i) \<and> keeps one_staked AccountUpdate_clearStakedNodeId \<and>
   keeps one_staked (AccountUpdate_setDeclineStakingReward b) \<and>
   (case AccountUpdate_setStakedNodeId i x of (r, y) \<Rightarrow> \<not> mIsFrozen x \<longrightarrow>
      staked_last_out L (AccountUpdate_mStakedAccountId (members y)) (AccountUpdate_mStakedNodeId (members y)) = Inr (staked_node (sint i))) \<and>
   (case AccountUpdate_clearStakedAccountId x of (r, y) \<Rightarrow> \<not> mIsFrozen x \<longrightarrow>
      staked_last_out L (AccountUpdate_mStakedAccountId (members y)) (AccountUpdate_mStakedNodeId (members y)) =
        Inr (staked_account \<lparr>account_shardnum = 0, account_realmnum = 0, account_case = account_num 0\<rparr>))"
  unfolding AccountUpdate_setAccountId_def AccountUpdate_setKey_def AccountUpdate_setReceiverSignatureRequired_def
    AccountUpdate_setAutoRenewPeriod_def AccountUpdate_setExpirationTime_def AccountUpdate_setAccountMemo_def
    AccountUpdate_clearAccountMemo_def AccountUpdate_setMaxAutomaticTokenAssociations_def AccountUpdate_setStakedAccountId_def
    AccountUpdate_clearStakedAccountId_def AccountUpdate_setStakedNodeId_def AccountUpdate_clearStakedNodeId_def
    AccountUpdate_setDeclineStakingReward_def
  by (intro conjI keeps_set_members; (cases "mIsFrozen x")?;
    simp add: set_members_def requireNotFrozen_def isFrozen_def require_def abind_def act_defs staked_last_out_def
      AccountId_toProtobuf_def AccountId_of_def AccountId_default_def)

theorem staked_exclusive_witness:
  "keeps one_staked (AccountUpdate_setStakedNodeId 3) \<and>
   staked_last_out example_library (AccountUpdate_mStakedAccountId (members (snd (AccountUpdate_setStakedNodeId 3 (example_simple AccountUpdate_kind)))))
     (AccountUpdate_mStakedNodeId (members (snd (AccountUpdate_setStakedNodeId 3 (example_simple AccountUpdate_kind))))) = Inr (staked_node 3)"
proof -
  have "\<not> mIsFrozen (example_simple AccountUpdate_kind)"
    by (simp add: example_simple_def simple_default_def AccountUpdate_kind_def Transaction_fields_def Executable_default_def
        Executable.defs Transaction.defs)
  with staked_exclusive [of "account 0" "Key_list 0 []" True 0 0 "[]" 0 "account 0" 3 True "example_simple AccountUpdate_kind" example_library]
  show ?thesis by (simp add: case_prod_unfold)
qed

section \<open>What is lost\<close>

text \<open>
  C0. A delegatable contract as the key of a new account cannot be read back: the message is made, and
  reading it throws, because \<open>Key::fromProtobuf\<close> has no case for such a key.
\<close>

theorem delegate_key_unreadable:
  assumes "AccountCreate_mKey m = Some (Key_delegate c)" and "AccountCreate_mStakedAccountId m = None"
  shows "\<exists>p. AccountCreate_build L m = Inr p \<and> AccountCreate_init L p (AccountCreate_default t) = Inl InvalidArgument"
  using assms by (simp add: AccountCreate_build_def AccountCreate_init_def staked_out_def read_opt_if_def)

theorem delegate_key_unreadable_witness:
  "\<exists>p. AccountCreate_build example_library ((AccountCreate_default 0)\<lparr>AccountCreate_mKey := Some (Key_delegate (ContractId_of 0 0 5 []))\<rparr>) = Inr p \<and>
     AccountCreate_init example_library p (AccountCreate_default 9) = Inl InvalidArgument"
  by (rule delegate_key_unreadable) (simp_all add: AccountCreate_default_def)

text \<open>
  C40. The threshold of the keys of a file is lost: the message of a new file has a list of keys without
  a threshold, and the transaction that is read back, like the network, asks for all of them.
\<close>

theorem file_threshold_lost:
  assumes "FileCreate_mKeys m = \<lparr>listThreshold = n, listKeys = ks\<rparr>" and "list_all (key_plain (lib_ssl L)) ks"
    and "time_ok (FileCreate_mExpirationTime m)"
  shows "\<exists>p. FileCreate_build L m = Inr p \<and> FileCreate_init L p (FileCreate_default t) = Inr (m\<lparr>FileCreate_mKeys := KeyList_of ks\<rparr>)"
proof -
  obtain ps where "KeyList_toProtobuf (lib_ssl L) ks = Inr ps" "KeyList_fromProtobuf (lib_ssl L) ps = Inr ks"
    using key_read(2) [OF assms(2)] by blast
  with assms(1,3) show ?thesis
    by (cases m) (simp add: FileCreate_build_def FileCreate_init_def FileCreate_default_def KeyList_out_def KeyList_in_def message_simps)
qed

theorem file_threshold_lost_witness:
  "\<exists>p. FileCreate_build example_library ((FileCreate_default 0)\<lparr>FileCreate_mKeys := \<lparr>listThreshold = 2,
       listKeys = [Key_contract (ContractId_of 0 0 5 []), Key_contract (ContractId_of 0 0 6 []), Key_contract (ContractId_of 0 0 7 [])]\<rparr>\<rparr>) = Inr p \<and>
     FileCreate_init example_library p (FileCreate_default 0) = Inr ((FileCreate_default 0)\<lparr>FileCreate_mKeys :=
       KeyList_of [Key_contract (ContractId_of 0 0 5 []), Key_contract (ContractId_of 0 0 6 []), Key_contract (ContractId_of 0 0 7 [])]\<rparr>)"
proof -
  let ?ks = "[Key_contract (ContractId_of 0 0 5 []), Key_contract (ContractId_of 0 0 6 []), Key_contract (ContractId_of 0 0 7 [])]"
  let ?m = "(FileCreate_default 0)\<lparr>FileCreate_mKeys := \<lparr>listThreshold = 2, listKeys = ?ks\<rparr>\<rparr>"
  have "\<exists>p. FileCreate_build example_library ?m = Inr p \<and>
      FileCreate_init example_library p (FileCreate_default 0) = Inr (?m\<lparr>FileCreate_mKeys := KeyList_of ?ks\<rparr>)"
    by (rule file_threshold_lost [where n = 2])
      (simp_all add: contract_plain_def ContractId_of_def FileCreate_default_def time_ok_def DEFAULT_AUTO_RENEW_PERIOD_def
        hours_def minutes_def seconds_def milliseconds_def)
  then show ?thesis by simp
qed

end
