(* ===== verification/Spec2Isabelle.thy ===== *)
theory Spec2Isabelle
  imports EthereumData Networks Checksum EntityIds PrivateKeys AccountIds ChunkedResults QueryResults ContractValues KindResults
begin

text \<open>
  This library models the core of the Hedera C++ SDK (\<open>src/src/sdk/main\<close>): the values that a program
  hands to the network, the transactions and queries that carry them, and the machinery that sends
  them. Every definition is a translation of the C++ code; its comment or its name says of which.

  \<^bold>\<open>The program.\<close> A program makes a \<open>Client\<close> for a network of nodes and builds requests: transactions
  and queries. A request extends \<open>Executable\<close>, whose \<open>execute\<close> picks nodes of the client's network,
  makes a protobuf message for each attempt, submits it over gRPC, and decides from the answer whether
  to return, throw or try again. A transaction is frozen, which makes one signed transaction for every
  node, signed by keys and executed; large ones are split in chunks. A query first asks for its cost and
  then pays it with a transfer transaction. Identifiers, keys and amounts are plain values with text,
  byte and protobuf forms.

  \<^bold>\<open>Conventions.\<close> A function that may throw returns \<open>exn + 'a\<close> (theory \<open>SdkPrelude\<close>); a member function
  that changes its object is an \<open>act\<close>, which returns the new state also when it throws. Behaviour that
  C++ leaves undefined is the result \<open>UndefinedBehavior\<close>, which no \<open>catch\<close> of the model handles.
  Integers of the code are words of their width, or integers with an explicit check where signed
  overflow is undefined. Classes are records that extend the record of their base class, members
  keep their names, and virtual functions are a record of functions. A class that other classes derive
  from has the type variable \<open>'z\<close> for what they add.

  \<^bold>\<open>Parameters.\<close> OpenSSL (\<open>openssl\<close>: hashes, keys, signatures, hex), the serialisation of protobuf
  messages (\<open>library\<close>), the clock, the random numbers, and the answers of the nodes (\<open>env\<close>) are not
  under \<open>src/\<close> and are arguments of the definitions. What a property needs of them is a hypothesis on
  these arguments, and its witness instantiates them.

  \<^bold>\<open>Theories, in the order of their imports.\<close>
  \<^item> \<open>SdkPrelude\<close>, \<open>Statuses\<close>: results, stateful computations, machine types; \<open>Status.h\<close>.
  \<^item> \<open>Utilities\<close>: \<open>impl/Utilities\<close>, byte and string helpers.
  \<^item> \<open>Rlp\<close>, \<open>EthereumData\<close>: \<open>impl/RLPItem\<close> and \<open>EthereumTransactionData\<close> with its two formats. Reading
    inverts writing on well-formed items and on transaction data; one header format and access lists
    are lost.
  \<^item> \<open>EntityId\<close>, \<open>Checksum\<close>, \<open>EntityIds\<close>: \<open>impl/EntityIdHelper\<close>, \<open>LedgerId\<close>, the numbered identifiers.
    The checksum detects every single substitution and every transposition of neighbours.
  \<^item> \<open>PublicKeys\<close>, \<open>PrivateKeys\<close>, \<open>AccountIds\<close>: keys in raw, DER and PEM form, the ASN.1 reader, EVM
    addresses, derivation, key lists, \<open>AccountId\<close> and \<open>ContractId\<close> with aliases. Round trips of all forms.
  \<^item> \<open>Backoff\<close>, \<open>NodeAddresses\<close>, \<open>NodeMethods\<close>, \<open>Nodes\<close>, \<open>Networks\<close>: \<open>impl/BaseNodeAddress\<close>,
    \<open>impl/BaseNode\<close>, \<open>impl/Node\<close>, \<open>impl/BaseNetwork\<close>, \<open>impl/Network\<close>. The delay of a node doubles within
    its bounds; the network's indexes stay consistent; what a choice of nodes can return.
  \<^item> \<open>Hbars\<close>, \<open>Clients\<close>: amounts; the operator, limits and settings of \<open>Client\<close>.
  \<^item> \<open>Execution\<close>, \<open>Retries\<close>: \<open>Executable.cc\<close>. The detailed attempt refines an abstract retry protocol
    (\<open>retry_protocol\<close>), for every request whose virtual functions are quiet (locale \<open>quiet_request\<close>).
  \<^item> \<open>TransactionIds\<close>, \<open>Transactions\<close>, \<open>TransactionLife\<close>: \<open>TransactionId\<close>, \<open>Transaction\<close>; the invariant
    of a transaction over its life, with a step relation of all its operations (\<open>tx_step\<close>).
  \<^item> \<open>TransactionBodies\<close>, \<open>TransactionBytes\<close>: the messages of the bodies; reading from bytes.
  \<^item> \<open>Transfers\<close>, \<open>Requests\<close>: \<open>TransferTransaction\<close> and its lists; the requests and signatures that any
    life of a transaction leads to.
  \<^item> \<open>ChunkedTransactions\<close>, \<open>ChunkedKinds\<close>, \<open>ChunkedResults\<close>: \<open>ChunkedTransaction\<close>, \<open>FileAppendTransaction\<close>,
    \<open>TopicMessageSubmitTransaction\<close>; what each chunk's request holds, and what is read back.
  \<^item> \<open>Preservation\<close>, \<open>Queries\<close>: \<open>Query.cc\<close>, the nested request for the cost and the payment; a request
    whose answers keep a view of the state keeps it over an execution (locale \<open>preserving_request\<close>).
  \<^item> \<open>QueryMessages\<close>, \<open>Receipts\<close>, \<open>InfoQueries\<close>, \<open>QueryResults\<close>: \<open>TransactionReceipt\<close>, \<open>TransactionReceiptQuery\<close>,
    \<open>TransactionResponse\<close>, the balances, file contents and contract code, the requests for information;
    what queries pay and when a receipt is returned.
  \<^item> \<open>ContractCalls\<close>, \<open>ContractValues\<close>: \<open>ContractFunctionSelector\<close>, \<open>ContractFunctionParameters\<close> and the getters of
    \<open>ContractFunctionResult\<close>. A call is the layout of the ABI, and what is added is read back.
  \<^item> \<open>BodyMessages\<close>, \<open>CustomFees\<close>, \<open>SimpleTransactions\<close>, \<open>SimpleKinds\<close>: the messages of the kinds without chunks,
    \<open>CustomFee.cc\<close> and its kinds, what the classes of the kinds have in common, and the contract by which a kind is
    read back (locale \<open>simple_kind\<close>).
  \<^item> \<open>AccountTransactions\<close>, \<open>FileTransactions\<close> (files and topics), \<open>ContractTransactions\<close>, \<open>NetworkTransactions\<close> (with
    schedules), \<open>TokenTransactions\<close>, \<open>TokenDefinitions\<close>, \<open>KindResults\<close>: 36 kinds of transactions, their members, setters,
    messages and reading; which are read back from their messages and what is lost.
  \<^bold>\<open>Interfaces.\<close> The locales are the contracts between the components, each interpreted on the model's own
  definitions: writers and readers of a format (\<open>codec\<close>, \<open>framed_codec\<close>), the numbered identifiers
  (\<open>entity_id\<close>), the kinds of values of a contract call (\<open>abi_kind\<close>), a delay that doubles up to a cap (\<open>capped_backoff\<close>, for nodes and for requests),
  requests whose virtual functions leave the retry state alone (\<open>quiet_request\<close>) or keep a view of their
  object (\<open>preserving_request\<close>), and the kinds of
  transactions (\<open>transaction_kind\<close>, \<open>body_builder\<close>, \<open>chunk_builder\<close>), values that are read back from their messages
  (\<open>message_codec\<close>) and kinds of transactions that are (\<open>simple_kind\<close>).

  \<^bold>\<open>Bounds and fuel.\<close> The number of attempts bounds the loop of \<open>execute\<close>. The choice of nodes draws random
  numbers until enough nodes are found: its number of rounds is a parameter, with the rounds that are
  enough proved (\<open>nodes_for_execute_ends\<close>). The loop that puts a message together has one round more than
  there are transactions, when there are nodes (\<open>message_loop_terminates\<close>).

  \<^bold>\<open>Not modelled.\<close> The gRPC channels, TLS certificates, HTTP client and logger (input and output only); the
  wrappers of OpenSSL objects; the asynchronous variants, which run the synchronous ones on another
  thread; destructors, copies and moves; the generated protobuf classes beyond the fields that are
  read and written; printing as JSON; the mirror node and its subscriptions; examples, tests and the TCK
  server. The kinds of transactions and queries without a theory of their own are listed in the manifest.
\<close>

end
